(* ===== verification/Prelude.thy ===== *)
theory Prelude
  imports Complex_Main
begin

text \<open>
  The vocabulary every component shares: the JavaScript values the source computes with (nullable
  columns, truthiness, numbers, JSON values), results that may throw, and the stable sort of
  \<^verbatim>\<open>Array.prototype.sort\<close>.

  Conventions.
  \<^item> \<^verbatim>\<open>T | null\<close> and \<^verbatim>\<open>T | undefined\<close> are \<open>'a option\<close>. The source tests such a
    value either by identity (\<^verbatim>\<open>=== null\<close>) or by truthiness (\<^verbatim>\<open>!x\<close>); the two differ on the
    empty string and on zero, so truthiness is the explicit function \<open>truthy_str\<close> or \<open>truthy_num\<close>.
  \<^item> A throw is \<open>Inl\<close> of a \<open>js_error\<close>.
  \<^item> A text column that holds JSON is represented by what \<^verbatim>\<open>JSON.parse\<close> makes of it: the value, or
    the text itself when it throws. No function of the source reads such a column in another way
    than by parsing it, testing it for emptiness or copying it.
  \<^item> A JSON object is the list of its own properties in insertion order, keys distinct, as
    \<^verbatim>\<open>JSON.parse\<close> leaves it.
\<close>

named_theorems js_simps \<open>rewrite rules for the JavaScript primitives\<close>
named_theorems row_defs \<open>definitions a component's proofs unfold together\<close>

section \<open>Values\<close>

text \<open>A number that came out of \<^verbatim>\<open>JSON.parse\<close>: an integer, a finite non-integer (numerator and
  denominator), or an infinity (a literal such as 1e999 parses to one).\<close>

datatype js_number = NInt int | NFrac int nat | NInf

datatype json =
    JNull
  | JBool bool
  | JNum js_number
  | JStr string
  | JArr "json list"
  | JObj "(string \<times> json) list"

datatype raw_json = Unparsable string | Parsed json

datatype js_error =
    GitOpsJsonError string
  | GitOpsTransitionError string "string option"
  | PlainError string
  | TypeError

type_synonym 'a res = "js_error + 'a"

text \<open>The value of a finite number, which a numeric comparator orders by.\<close>

definition num_value :: "js_number \<Rightarrow> rat" where
  "num_value n = (case n of NInt i \<Rightarrow> of_int i | NFrac a b \<Rightarrow> of_int a / of_nat b | NInf \<Rightarrow> 0)"

definition truthy_str :: "string option \<Rightarrow> bool" where
  "truthy_str x = (case x of None \<Rightarrow> False | Some s \<Rightarrow> s \<noteq> [])"

definition truthy_num :: "int option \<Rightarrow> bool" where
  "truthy_num x = (case x of None \<Rightarrow> False | Some n \<Rightarrow> n \<noteq> 0)"

definition truthy_raw :: "raw_json option \<Rightarrow> bool" where
  "truthy_raw x = (case x of None \<Rightarrow> False | Some r \<Rightarrow> r \<noteq> Unparsable [])"

text \<open>The operator \<^verbatim>\<open>??\<close> on a nullable left side with a plain and with a nullable right side.\<close>

definition nullish :: "'a option \<Rightarrow> 'a \<Rightarrow> 'a" where
  "nullish x d = (case x of None \<Rightarrow> d | Some v \<Rightarrow> v)"

definition nullish_opt :: "'a option \<Rightarrow> 'a option \<Rightarrow> 'a option" where
  "nullish_opt x y = (case x of None \<Rightarrow> y | Some v \<Rightarrow> Some v)"

lemma truthy_str_simps [simp]:
  "truthy_str None = False" "truthy_str (Some s) = (s \<noteq> [])"
  by (simp_all add: truthy_str_def)

lemma truthy_num_simps [simp]:
  "truthy_num None = False" "truthy_num (Some n) = (n \<noteq> 0)"
  by (simp_all add: truthy_num_def)

lemma truthy_raw_simps [simp]:
  "truthy_raw None = False" "truthy_raw (Some r) = (r \<noteq> Unparsable [])"
  by (simp_all add: truthy_raw_def)

lemma nullish_simps [simp]:
  "nullish None d = d" "nullish (Some v) d = v"
  "nullish_opt None y = y" "nullish_opt (Some v) y = Some v"
  by (simp_all add: nullish_def nullish_opt_def)

lemma truthy_strE:
  assumes "truthy_str x"
  obtains s where "x = Some s" and "s \<noteq> []"
  using assms by (cases x) auto

lemma truthy_numE:
  assumes "truthy_num x"
  obtains n where "x = Some n" and "n \<noteq> 0"
  using assms by (cases x) auto

lemma truthy_str_not_None: "truthy_str x \<Longrightarrow> x \<noteq> None"
  by (cases x) auto

section \<open>Throwing computations\<close>

definition bind_res :: "'a res \<Rightarrow> ('a \<Rightarrow> 'b res) \<Rightarrow> 'b res" where
  "bind_res r k = (case r of Inl e \<Rightarrow> Inl e | Inr x \<Rightarrow> k x)"

text \<open>A guard that throws: \<^verbatim>\<open>if (!b) throw e\<close>.\<close>

definition require_res :: "bool \<Rightarrow> 'e \<Rightarrow> ('e + 'b) \<Rightarrow> ('e + 'b)" where
  "require_res b e k = (if b then k else Inl e)"

text \<open>\<^verbatim>\<open>xs.map(f)\<close> with a callback that may throw: the first throw wins.\<close>

fun map_res :: "('a \<Rightarrow> 'b res) \<Rightarrow> 'a list \<Rightarrow> 'b list res" where
  "map_res f [] = Inr []"
| "map_res f (x # xs) =
     bind_res (f x) (\<lambda>y. bind_res (map_res f xs) (\<lambda>ys. Inr (y # ys)))"

lemma bind_res_simps [simp]:
  "bind_res (Inl e) k = Inl e" "bind_res (Inr x) k = k x"
  by (simp_all add: bind_res_def)

lemma bind_res_Inr [simp]:
  "bind_res r k = Inr y \<longleftrightarrow> (\<exists>x. r = Inr x \<and> k x = Inr y)"
  by (cases r) auto

lemma require_res_Inr [simp]:
  "require_res b e k = Inr y \<longleftrightarrow> b \<and> k = Inr y"
  by (simp add: require_res_def)

lemma require_res_True [simp]: "require_res True e k = k"
  by (simp add: require_res_def)

lemma require_res_False [simp]: "require_res False e k = Inl e"
  by (simp add: require_res_def)

lemma map_res_Inr: "map_res f xs = Inr ys \<longleftrightarrow> list_all2 (\<lambda>x y. f x = Inr y) xs ys"
proof (induction xs arbitrary: ys)
  case Nil
  then show ?case by auto
next
  case (Cons x xs)
  then show ?case by (cases ys) (auto simp: list_all2_Cons1)
qed

lemma map_res_map:
  assumes "\<And>x. x \<in> set xs \<Longrightarrow> f (g x) = Inr (h x)"
  shows "map_res f (map g xs) = Inr (map h xs)"
  using assms by (induction xs) auto

lemma map_res_length: "map_res f xs = Inr ys \<Longrightarrow> length ys = length xs"
  by (simp add: map_res_Inr list_all2_lengthD)

section \<open>JSON objects\<close>

text \<open>\<^verbatim>\<open>isRecord\<close> of json.ts: a JSON value that is an object and neither null nor an array.\<close>

definition as_record :: "json \<Rightarrow> (string \<times> json) list option" where
  "as_record v = (case v of JObj o1 \<Rightarrow> Some o1 | _ \<Rightarrow> None)"

definition as_array :: "json \<Rightarrow> json list option" where
  "as_array v = (case v of JArr xs \<Rightarrow> Some xs | _ \<Rightarrow> None)"

definition as_string :: "json \<Rightarrow> string option" where
  "as_string v = (case v of JStr s \<Rightarrow> Some s | _ \<Rightarrow> None)"

definition as_bool :: "json \<Rightarrow> bool option" where
  "as_bool v = (case v of JBool b \<Rightarrow> Some b | _ \<Rightarrow> None)"

text \<open>Property access: \<^verbatim>\<open>obj.key\<close>, \<open>None\<close> for \<^verbatim>\<open>undefined\<close>.\<close>

definition prop_of :: "(string \<times> json) list \<Rightarrow> string \<Rightarrow> json option" where
  "prop_of obj k = map_of obj k"

definition keys_of :: "(string \<times> json) list \<Rightarrow> string list" where
  "keys_of obj = map fst obj"

definition has_key :: "(string \<times> json) list \<Rightarrow> string \<Rightarrow> bool" where
  "has_key obj k = (k \<in> set (keys_of obj))"

text \<open>\<^verbatim>\<open>isFiniteInteger\<close>, \<^verbatim>\<open>isPositiveInteger\<close> and the test for a finite number.\<close>

definition as_integer :: "json \<Rightarrow> int option" where
  "as_integer v = (case v of JNum (NInt n) \<Rightarrow> Some n | _ \<Rightarrow> None)"

definition as_finite :: "json \<Rightarrow> js_number option" where
  "as_finite v = (case v of JNum n \<Rightarrow> (if n = NInf then None else Some n) | _ \<Rightarrow> None)"

definition nullable_json :: "('a \<Rightarrow> json) \<Rightarrow> 'a option \<Rightarrow> json" where
  "nullable_json f x = (case x of None \<Rightarrow> JNull | Some v \<Rightarrow> f v)"

lemmas json_view_defs = as_record_def as_array_def as_string_def as_bool_def as_integer_def
  as_finite_def

lemma json_views [simp]:
  "as_record (JObj obj) = Some obj" "as_array (JArr xs) = Some xs"
  "as_string (JStr s) = Some s" "as_bool (JBool b) = Some b"
  "as_integer (JNum (NInt n)) = Some n"
  "as_finite (JNum (NInt n)) = Some (NInt n)"
  by (simp_all add: json_view_defs)

lemma json_view_nones [simp]:
  "as_record JNull = None" "as_array JNull = None" "as_string JNull = None"
  "as_record (JArr xs) = None" "as_array (JObj obj) = None" "as_string (JNum n) = None"
  "as_bool JNull = None" "as_integer JNull = None"
  by (simp_all add: json_view_defs)

lemma as_finite_number [simp]: "n \<noteq> NInf \<Longrightarrow> as_finite (JNum n) = Some n"
  by (simp add: as_finite_def)

lemma as_integer_Some: "as_integer v = Some n \<longleftrightarrow> v = JNum (NInt n)"
  by (cases v) (auto simp: as_integer_def split: js_number.splits)

lemma as_record_Some: "as_record v = Some obj \<longleftrightarrow> v = JObj obj"
  by (cases v) (auto simp: as_record_def)

lemma as_array_Some: "as_array v = Some xs \<longleftrightarrow> v = JArr xs"
  by (cases v) (auto simp: as_array_def)

lemma as_string_Some: "as_string v = Some s \<longleftrightarrow> v = JStr s"
  by (cases v) (auto simp: as_string_def)

section \<open>Sorting\<close>

text \<open>
  \<^verbatim>\<open>xs.sort(compare)\<close>: the stable sort by a comparator that returns a negative, zero or positive
  number. An element is inserted before the first one that compares strictly greater, which keeps
  equal elements in their order.
\<close>

fun js_insert :: "('a \<Rightarrow> 'a \<Rightarrow> int) \<Rightarrow> 'a \<Rightarrow> 'a list \<Rightarrow> 'a list" where
  "js_insert cmp x [] = [x]"
| "js_insert cmp x (y # ys) = (if cmp x y \<le> 0 then x # y # ys else y # js_insert cmp x ys)"

fun js_sort :: "('a \<Rightarrow> 'a \<Rightarrow> int) \<Rightarrow> 'a list \<Rightarrow> 'a list" where
  "js_sort cmp [] = []"
| "js_sort cmp (x # xs) = js_insert cmp x (js_sort cmp xs)"

lemma set_js_insert [simp]: "set (js_insert cmp x ys) = insert x (set ys)"
  by (induction ys) auto

lemma set_js_sort [simp]: "set (js_sort cmp xs) = set xs"
  by (induction xs) auto

lemma length_js_insert [simp]: "length (js_insert cmp x ys) = Suc (length ys)"
  by (induction ys) auto

lemma length_js_sort [simp]: "length (js_sort cmp xs) = length xs"
  by (induction xs) auto

text \<open>
  The contract a comparator has to keep for the sorted order to mean anything: a total preorder.
  The client's lemmas are proved once from it.
\<close>

locale js_comparator =
  fixes cmp :: "'a \<Rightarrow> 'a \<Rightarrow> int"
  assumes cmp_refl: "cmp x x = 0"
    and cmp_flip: "cmp x y \<le> 0 \<or> cmp y x \<le> 0"
    and cmp_trans: "cmp x y \<le> 0 \<Longrightarrow> cmp y z \<le> 0 \<Longrightarrow> cmp x z \<le> 0"
begin

lemma insert_sorted:
  "sorted_wrt (\<lambda>a b. cmp a b \<le> 0) ys \<Longrightarrow> sorted_wrt (\<lambda>a b. cmp a b \<le> 0) (js_insert cmp x ys)"
proof (induction ys)
  case Nil
  then show ?case by simp
next
  case (Cons y ys)
  show ?case
  proof (cases "cmp x y \<le> 0")
    case True
    then show ?thesis using Cons.prems cmp_trans by auto
  next
    case False
    then have "cmp y x \<le> 0" using cmp_flip [of x y] by simp
    then show ?thesis using Cons False by simp
  qed
qed

lemma sort_sorted: "sorted_wrt (\<lambda>a b. cmp a b \<le> 0) (js_sort cmp xs)"
  by (induction xs) (auto intro: insert_sorted)

lemma insert_head:
  "\<forall>y \<in> set ys. cmp x y \<le> 0 \<Longrightarrow> js_insert cmp x ys = x # ys"
  by (cases ys) auto

lemma sort_of_sorted: "sorted_wrt (\<lambda>a b. cmp a b \<le> 0) xs \<Longrightarrow> js_sort cmp xs = xs"
  by (induction xs) (auto simp: insert_head)

lemma sort_idem: "js_sort cmp (js_sort cmp xs) = js_sort cmp xs"
  by (rule sort_of_sorted [OF sort_sorted])

end

text \<open>The numeric comparator \<^verbatim>\<open>(a, b) => a - b\<close>, on a key of the elements.\<close>

definition num_cmp :: "('a \<Rightarrow> int) \<Rightarrow> 'a \<Rightarrow> 'a \<Rightarrow> int" where
  "num_cmp key a b = key a - key b"

interpretation num: js_comparator "num_cmp key"
  by unfold_locales (auto simp: num_cmp_def)

lemma js_sort_num_sorted: "sorted (map key (js_sort (num_cmp key) xs))"
proof -
  have "sorted_wrt (\<lambda>a b. key a \<le> key b) (js_sort (num_cmp key) xs)"
    using num.sort_sorted [of key xs] by (simp add: num_cmp_def)
  then show ?thesis by (simp add: sorted_wrt_map)
qed

text \<open>A comparator for strings that \<^verbatim>\<open>localeCompare\<close> can be instantiated with: code unit order.\<close>

fun code_unit_cmp :: "string \<Rightarrow> string \<Rightarrow> int" where
  "code_unit_cmp [] [] = 0"
| "code_unit_cmp [] (y # ys) = - 1"
| "code_unit_cmp (x # xs) [] = 1"
| "code_unit_cmp (x # xs) (y # ys) =
     (if (of_char x :: nat) < of_char y then - 1
      else if (of_char y :: nat) < of_char x then 1
      else code_unit_cmp xs ys)"

lemma code_unit_cmp_refl: "code_unit_cmp x x = 0"
  by (induction x) auto

lemma code_unit_cmp_flip: "code_unit_cmp x y \<le> 0 \<or> code_unit_cmp y x \<le> 0"
  by (induction x y rule: code_unit_cmp.induct) auto

lemma code_unit_cmp_trans:
  "code_unit_cmp x y \<le> 0 \<Longrightarrow> code_unit_cmp y z \<le> 0 \<Longrightarrow> code_unit_cmp x z \<le> 0"
proof (induction x y arbitrary: z rule: code_unit_cmp.induct)
  case 1
  then show ?case by simp
next
  case (2 y ys)
  then show ?case by (cases z) auto
next
  case (3 x xs)
  then show ?case by simp
next
  case (4 x xs y ys)
  show ?case
  proof (cases z)
    case Nil
    with 4 show ?thesis by simp
  next
    case (Cons c cs)
    let ?n = "of_char :: char \<Rightarrow> nat"
    consider "?n x < ?n y" "?n y \<le> ?n c" | "?n x = ?n y" "?n y < ?n c"
      | "?n x = ?n y" "?n y = ?n c" "code_unit_cmp xs ys \<le> 0" "code_unit_cmp ys cs \<le> 0"
      using 4(2,3) Cons by (auto split: if_splits)
    then show ?thesis
      using Cons by cases (simp_all add: 4(1))
  qed
qed

interpretation cu: js_comparator code_unit_cmp
proof unfold_locales
  show "code_unit_cmp x x = 0" for x by (rule code_unit_cmp_refl)
  show "code_unit_cmp x y \<le> 0 \<or> code_unit_cmp y x \<le> 0" for x y by (rule code_unit_cmp_flip)
  show "code_unit_cmp x y \<le> 0 \<Longrightarrow> code_unit_cmp y z \<le> 0 \<Longrightarrow> code_unit_cmp x z \<le> 0" for x y z
    by (rule code_unit_cmp_trans)
qed

section \<open>Lists\<close>

text \<open>\<^verbatim>\<open>Array.from(new Set(xs))\<close>: the first occurrence of every element, in order.\<close>

fun dedup :: "'a list \<Rightarrow> 'a list" where
  "dedup [] = []"
| "dedup (x # xs) = x # dedup (filter (\<lambda>y. y \<noteq> x) xs)"

lemma dedup_distinct_aux: "set (dedup xs) = set xs \<and> distinct (dedup xs)"
  by (induction xs rule: dedup.induct) auto

lemma set_dedup [simp]: "set (dedup xs) = set xs"
  by (simp add: dedup_distinct_aux)

lemma distinct_dedup [simp]: "distinct (dedup xs)"
  by (simp add: dedup_distinct_aux)

lemma dedup_of_distinct: "distinct xs \<Longrightarrow> dedup xs = xs"
proof (induction xs rule: dedup.induct)
  case 1
  then show ?case by simp
next
  case (2 x xs)
  then have "filter (\<lambda>y. y \<noteq> x) xs = xs" by (auto simp: filter_id_conv)
  with 2 show ?case by simp
qed

lemma find_Some_set: "find P xs = Some x \<Longrightarrow> x \<in> set xs \<and> P x"
  by (induction xs) (auto split: if_splits)

lemma find_None_all: "find P xs = None \<longleftrightarrow> (\<forall>x \<in> set xs. \<not> P x)"
  by (induction xs) auto

section \<open>Strings\<close>

text \<open>
  The string methods the source uses. A \<open>char\<close> is a byte; \<^verbatim>\<open>trim\<close> and \<^verbatim>\<open>toLowerCase\<close> are given
  on ASCII, which is where the names they are applied to live (platform labels, digests, project
  names and the blank test of a text column).
\<close>

fun split_on :: "char \<Rightarrow> string \<Rightarrow> string list" where
  "split_on c [] = [[]]"
| "split_on c (x # xs) =
     (if x = c then [] # split_on c xs
      else (case split_on c xs of [] \<Rightarrow> [[x]] | y # ys \<Rightarrow> (x # y) # ys))"

fun join_with :: "string \<Rightarrow> string list \<Rightarrow> string" where
  "join_with sep [] = []"
| "join_with sep [x] = x"
| "join_with sep (x # y # ys) = x @ sep @ join_with sep (y # ys)"

definition is_space :: "char \<Rightarrow> bool" where
  "is_space c = ((of_char c :: nat) \<in> {9, 10, 11, 12, 13, 32})"

definition js_trim :: "string \<Rightarrow> string" where
  "js_trim s = rev (dropWhile is_space (rev (dropWhile is_space s)))"

definition lower_char :: "char \<Rightarrow> char" where
  "lower_char c =
     (if 65 \<le> (of_char c :: nat) \<and> (of_char c :: nat) \<le> 90
      then char_of ((of_char c :: nat) + 32) else c)"

definition lower :: "string \<Rightarrow> string" where
  "lower s = map lower_char s"

lemma lower_char_idem [simp]: "lower_char (lower_char c) = lower_char c"
proof (cases "65 \<le> (of_char c :: nat) \<and> (of_char c :: nat) \<le> 90")
  case True
  then have "of_char (lower_char c) = (of_char c :: nat) + 32"
    by (simp add: lower_char_def of_char_of)
  then show ?thesis using True by (simp add: lower_char_def)
next
  case False
  then have "lower_char c = c" by (auto simp: lower_char_def)
  then show ?thesis by simp
qed

lemma lower_idem [simp]: "lower (lower s) = lower s"
  by (simp add: lower_def)

lemma split_on_nonempty [simp]: "split_on c s \<noteq> []"
  by (induction s) (auto split: list.splits)

lemma join_split: "join_with [c] (split_on c s) = s"
proof (induction s)
  case Nil
  then show ?case by simp
next
  case (Cons x s)
  obtain y ys where ys: "split_on c s = y # ys"
    by (cases "split_on c s") auto
  with Cons show ?case by (cases ys) auto
qed

lemma split_on_no_sep: "c \<notin> set s \<Longrightarrow> split_on c s = [s]"
  by (induction s) auto

lemma split_on_append:
  "c \<notin> set s \<Longrightarrow> split_on c (s @ c # t) = s # split_on c t"
  by (induction s) auto

lemma split_join:
  assumes "xs \<noteq> []" and "\<And>x. x \<in> set xs \<Longrightarrow> c \<notin> set x"
  shows "split_on c (join_with [c] xs) = xs"
  using assms
proof (induction "[c]" xs rule: join_with.induct)
  case 1
  then show ?case by simp
next
  case (2 x)
  then show ?case by (simp add: split_on_no_sep)
next
  case (3 x y ys)
  then show ?case by (simp add: split_on_append)
qed

lemma split_on_pieces: "x \<in> set (split_on c s) \<Longrightarrow> c \<notin> set x"
  by (induction s arbitrary: x) (auto split: if_splits list.splits)

section \<open>Decimal text\<close>

fun show_nat :: "nat \<Rightarrow> string" where
  "show_nat n = (if n < 10 then [char_of (48 + n)] else show_nat (n div 10) @ [char_of (48 + n mod 10)])"

declare show_nat.simps [simp del]

definition show_int :: "int \<Rightarrow> string" where
  "show_int i = (if i < 0 then CHR ''-'' # show_nat (nat (- i)) else show_nat (nat i))"

text \<open>Object spread \<^verbatim>\<open>{...a, ...b}\<close>: a key of both keeps its place and takes the later value.\<close>

definition obj_spread :: "(string \<times> json) list \<Rightarrow> (string \<times> json) list \<Rightarrow> (string \<times> json) list" where
  "obj_spread a b =
     map (\<lambda>(k, v). (k, nullish (map_of b k) v)) a @ filter (\<lambda>(k, _). k \<notin> fst ` set a) b"

end
