(* ===== verification/Platform_Names.thy ===== *)
theory Platform_Names
  imports Prelude
begin

text \<open>
  Platform labels (\<^verbatim>\<open>gitops/platformNames.ts\<close>): the translation of the architecture spellings
  Docker reports into the names registry descriptors use. Labels are compared by exact string on
  both sides of every artifact comparison, so what matters is that the translation is stable under
  repetition: evidence that was already translated when it was stored must not move again.
\<close>

definition DOCKER_TO_OCI_ARCHITECTURE :: "string \<Rightarrow> string option" where
  "DOCKER_TO_OCI_ARCHITECTURE a = map_of
     [(''x86_64'', ''amd64''), (''aarch64'', ''arm64''), (''i386'', ''386''), (''i486'', ''386''),
      (''i586'', ''386''), (''i686'', ''386''), (''loongarch64'', ''loong64'')] a"

definition toOciArchitecture :: "string \<Rightarrow> string" where
  "toOciArchitecture architecture =
     (let normalized = lower (js_trim architecture)
      in nullish (DOCKER_TO_OCI_ARCHITECTURE normalized) normalized)"

definition canonicalPlatformLabel :: "string \<Rightarrow> string" where
  "canonicalPlatformLabel label =
     (case split_on (CHR ''/'') label of
        os # architecture # rest \<Rightarrow>
          (if os = [] \<or> architecture = [] then label
           else join_with [CHR ''/''] (lower (js_trim os) # toOciArchitecture architecture # rest))
      | _ \<Rightarrow> label)"

record node_platform =
  np_os :: string
  np_architecture :: string
  np_variant :: "string option"

definition canonicalNodePlatform :: "node_platform \<Rightarrow> node_platform" where
  "canonicalNodePlatform platform =
     (let variant = lower (js_trim (nullish (np_variant platform) []))
      in \<lparr> np_os = lower (js_trim (np_os platform)),
           np_architecture = toOciArchitecture (np_architecture platform),
           np_variant = (if variant = [] then None else Some variant) \<rparr>)"

definition DEFAULT_ARCHITECTURE_VARIANT :: "string \<Rightarrow> string option" where
  "DEFAULT_ARCHITECTURE_VARIANT a =
     map_of [(''arm'', ''v7''), (''arm64'', ''v8''), (''amd64'', ''v1'')] a"

definition platformCacheKey :: "string \<Rightarrow> string option" where
  "platformCacheKey label =
     (case split_on (CHR ''/'') label of
        os # architecture # rest \<Rightarrow>
          (if os = [] \<or> architecture = [] then None
           else
             (let platform = canonicalNodePlatform
                    \<lparr> np_os = os, np_architecture = architecture,
                      np_variant = Some (case rest of [] \<Rightarrow> [] | v # _ \<Rightarrow> v) \<rparr>
              in if np_os platform = [] \<or> np_architecture platform = [] then None
                 else
                   (let variant =
                          (if truthy_str (np_variant platform)
                              \<and> np_variant platform
                                  \<noteq> DEFAULT_ARCHITECTURE_VARIANT (np_architecture platform)
                           then nullish (np_variant platform) [] else [])
                    in Some (np_os platform @ ''/'' @ np_architecture platform
                         @ (if variant = [] then [] else ''/'' @ variant)))))
      | _ \<Rightarrow> None)"

section \<open>Translating twice changes nothing\<close>

lemma dropWhile_suffix_free:
  "xs \<noteq> [] \<Longrightarrow> \<not> P (hd xs) \<Longrightarrow> dropWhile P xs = xs"
  by (cases xs) auto

lemma hd_dropWhile_not: "dropWhile P xs \<noteq> [] \<Longrightarrow> \<not> P (hd (dropWhile P xs))"
  by (simp add: hd_dropWhile)

lemma js_trim_idem [simp]: "js_trim (js_trim s) = js_trim s"
proof -
  let ?d = "dropWhile is_space"
  define u where "u = ?d s"
  define w where "w = ?d (rev u)"
  have t: "js_trim s = rev w" by (simp add: js_trim_def u_def w_def)
  have w_idem: "?d w = w" by (simp add: w_def dropWhile_idem)
  have "?d (rev w) = rev w"
  proof (cases "w = []")
    case False
    have "u \<noteq> []" using False by (auto simp: w_def)
    then have hd_u: "\<not> is_space (hd u)" using hd_dropWhile_not [of is_space s] by (simp add: u_def)
    obtain v where v: "rev u = v @ w" using dropWhile_eq_drop [of is_space "rev u"]
      by (metis append_take_drop_id w_def)
    have "last w = last (rev u)" using v False by simp
    also have "\<dots> = hd u" using \<open>u \<noteq> []\<close> by (simp add: last_rev)
    finally have "hd (rev w) = hd u" by (simp add: hd_rev)
    then show ?thesis using False hd_u by (simp add: dropWhile_suffix_free)
  qed simp
  then have "js_trim (rev w) = rev w" using w_idem by (simp add: js_trim_def)
  then show ?thesis by (simp add: t)
qed

lemma is_space_lower [simp]: "is_space (lower_char c) = is_space c"
  by (auto simp: is_space_def lower_char_def of_char_of)

lemma dropWhile_lower: "dropWhile is_space (lower s) = lower (dropWhile is_space s)"
  by (induction s) (auto simp: lower_def)

lemma rev_lower: "rev (lower s) = lower (rev s)"
  by (simp add: lower_def rev_map)

lemma js_trim_lower: "js_trim (lower s) = lower (js_trim s)"
  by (simp add: js_trim_def dropWhile_lower rev_lower)

lemma oci_images:
  "\<forall>b \<in> set [''amd64'', ''arm64'', ''386'', ''loong64''].
     js_trim b = b \<and> lower b = b \<and> DOCKER_TO_OCI_ARCHITECTURE b = None \<and> CHR ''/'' \<notin> set b"
  by code_simp

lemma oci_image_is_not_key:
  assumes "DOCKER_TO_OCI_ARCHITECTURE a = Some b"
  shows "js_trim b = b \<and> lower b = b \<and> DOCKER_TO_OCI_ARCHITECTURE b = None \<and> CHR ''/'' \<notin> set b"
proof -
  have "b \<in> set [''amd64'', ''arm64'', ''386'', ''loong64'']"
    using assms [unfolded DOCKER_TO_OCI_ARCHITECTURE_def, THEN map_of_SomeD] by auto
  then show ?thesis using oci_images by blast
qed

lemma toOciArchitecture_idem [simp]: "toOciArchitecture (toOciArchitecture a) = toOciArchitecture a"
proof -
  define n where "n = lower (js_trim a)"
  have n: "lower (js_trim n) = n" by (simp add: n_def js_trim_lower)
  show ?thesis
  proof (cases "DOCKER_TO_OCI_ARCHITECTURE n")
    case None
    then have "toOciArchitecture a = n" by (simp add: toOciArchitecture_def n_def)
    then show ?thesis using None n by (simp add: toOciArchitecture_def)
  next
    case (Some b)
    then have "toOciArchitecture a = b" by (simp add: toOciArchitecture_def n_def)
    then show ?thesis using oci_image_is_not_key [OF Some] by (simp add: toOciArchitecture_def)
  qed
qed

lemma slash_in_trim: "CHR ''/'' \<in> set (js_trim s) \<Longrightarrow> CHR ''/'' \<in> set s"
  by (auto simp: js_trim_def dest!: set_dropWhileD)

lemma lower_char_slash: "lower_char c = CHR ''/'' \<Longrightarrow> c = CHR ''/''"
proof -
  assume eq: "lower_char c = CHR ''/''"
  then have "(of_char (lower_char c) :: nat) = 47" by simp
  then have "\<not> (65 \<le> (of_char c :: nat) \<and> (of_char c :: nat) \<le> 90)"
    by (auto simp: lower_char_def of_char_of split: if_splits)
  then show ?thesis using eq by (auto simp: lower_char_def split: if_splits)
qed

lemma slash_in_lower: "CHR ''/'' \<in> set (lower s) \<Longrightarrow> CHR ''/'' \<in> set s"
proof -
  assume "CHR ''/'' \<in> set (lower s)"
  then obtain c where "c \<in> set s" and "lower_char c = CHR ''/''" by (auto simp: lower_def)
  then show ?thesis using lower_char_slash by blast
qed

lemma slash_in_oci: "CHR ''/'' \<in> set (toOciArchitecture a) \<Longrightarrow> CHR ''/'' \<in> set a"
  by (cases "DOCKER_TO_OCI_ARCHITECTURE (lower (js_trim a))")
    (auto simp: toOciArchitecture_def dest: oci_image_is_not_key slash_in_lower slash_in_trim)

lemma canonicalPlatformLabel_fixpoint: "canonicalPlatformLabel (canonicalPlatformLabel l) = canonicalPlatformLabel l"
proof (cases "\<exists>os arch rest. split_on (CHR ''/'') l = os # arch # rest \<and> os \<noteq> [] \<and> arch \<noteq> []")
  case True
  then obtain os arch rest where
    l: "split_on (CHR ''/'') l = os # arch # rest" and ne: "os \<noteq> []" "arch \<noteq> []" by blast
  have piece: "CHR ''/'' \<notin> set x" if "x \<in> set (os # arch # rest)" for x
    using that split_on_pieces [of x "CHR ''/''" l] l by simp
  let ?c = "lower (js_trim os) # toOciArchitecture arch # rest"
  define j where "j = join_with [CHR ''/''] ?c"
  have cl: "canonicalPlatformLabel l = j"
    using l ne by (simp add: canonicalPlatformLabel_def j_def)
  have "CHR ''/'' \<notin> set x" if "x \<in> set ?c" for x
    using that piece [of os] piece [of arch] piece [of x]
    by (auto dest: slash_in_lower slash_in_trim slash_in_oci)
  then have split: "split_on (CHR ''/'') j = ?c"
    unfolding j_def by (intro split_join) auto
  have "canonicalPlatformLabel j = j"
    by (simp del: join_with.simps add: canonicalPlatformLabel_def split js_trim_lower j_def [symmetric])
  then show ?thesis by (simp add: cl)
next
  case False
  then have "canonicalPlatformLabel l = l"
    by (auto simp: canonicalPlatformLabel_def split: list.splits)
  then show ?thesis by simp
qed

end
