(* ===== verification/Json_Codec.thy ===== *)
theory Json_Codec
  imports Platform_Names
begin

text \<open>
  The codecs of \<^verbatim>\<open>gitops/json.ts\<close>: strict decoders that throw on every shape they do not know and
  encoders that throw rather than store what the decoder would refuse. A decoder takes the column's
  representation as \<open>raw_json\<close>; an encoder returns the value that \<^verbatim>\<open>JSON.stringify\<close> would print.
  \<open>lc\<close> is \<^verbatim>\<open>String.prototype.localeCompare\<close>, whose order is the host's collation.
\<close>

section \<open>Envelope\<close>

definition decodeGitOpsJson :: "raw_json \<Rightarrow> json res" where
  "decodeGitOpsJson raw =
     (case raw of
        Parsed v \<Rightarrow> Inr v
      | Unparsable _ \<Rightarrow> Inl (GitOpsJsonError ''gitops json decode failed''))"

text \<open>The value the printed text parses back to: a number that is not finite prints as \<^verbatim>\<open>null\<close>. A value
  of \<open>json\<close> always prints, so the encoder's own failures do not arise.\<close>

fun printed :: "json \<Rightarrow> json" where
  "printed (JNum n) = (if n = NInf then JNull else JNum n)"
| "printed (JArr xs) = JArr (map printed xs)"
| "printed (JObj kvs) = JObj (map (\<lambda>(k, v). (k, printed v)) kvs)"
| "printed v = v"

definition encodeGitOpsJson :: "json \<Rightarrow> raw_json" where
  "encodeGitOpsJson v = Parsed (printed v)"

definition raw_is_blank :: "raw_json \<Rightarrow> bool" where
  "raw_is_blank raw = (case raw of Unparsable s \<Rightarrow> js_trim s = [] | Parsed _ \<Rightarrow> False)"

definition is_hex_lower :: "char \<Rightarrow> bool" where
  "is_hex_lower c = (c \<in> set ''0123456789abcdef'')"

definition isPreflightFingerprint :: "string \<Rightarrow> bool" where
  "isPreflightFingerprint s = (length s = 64 \<and> list_all is_hex_lower s)"

lemma decode_encode [simp]: "decodeGitOpsJson (encodeGitOpsJson v) = Inr (printed v)"
  by (simp add: decodeGitOpsJson_def encodeGitOpsJson_def)

lemma printed_nullable [simp]:
  "printed (nullable_json JStr s) = nullable_json JStr s"
  "printed (nullable_json JBool b) = nullable_json JBool b"
  "printed (nullable_json (\<lambda>x. JStr (f x)) y) = nullable_json (\<lambda>x. JStr (f x)) y"
  by (simp_all add: nullable_json_def split: option.split)

lemma printed_nullable_num [simp]:
  "n \<noteq> Some NInf \<Longrightarrow> printed (nullable_json JNum n) = nullable_json JNum n"
  by (simp add: nullable_json_def split: option.split)

lemma map_printed_JStr [simp]: "map (printed \<circ> JStr) xs = map JStr xs" "map (\<lambda>x. printed (JStr x)) xs = map JStr xs"
  by simp_all

lemma decodeGitOpsJson_simps [simp]:
  "decodeGitOpsJson (Parsed v) = Inr v"
  "decodeGitOpsJson (Unparsable t) = Inl (GitOpsJsonError ''gitops json decode failed'')"
  by (simp_all add: decodeGitOpsJson_def)

lemma decodeGitOpsJson_Inr: "decodeGitOpsJson raw = Inr v \<longleftrightarrow> raw = Parsed v"
  by (cases raw) auto

text \<open>A contract every column codec of the model keeps: what an encoder accepts, the decoder reads
  back. Encoders of valid values are then injective, so a stored column names one value.\<close>

locale column_codec =
  fixes encode :: "'a \<Rightarrow> raw_json res"
    and decode :: "raw_json \<Rightarrow> 'a res"
  assumes decode_of_encode: "encode x = Inr raw \<Longrightarrow> decode raw = Inr x"
begin

lemma encode_injective: "encode x = Inr raw \<Longrightarrow> encode y = Inr raw \<Longrightarrow> x = y"
  using decode_of_encode [of x raw] decode_of_encode [of y raw] by simp

lemma stored_value_unique: "encode x = Inr raw \<Longrightarrow> decode raw = Inr y \<Longrightarrow> y = x"
  using decode_of_encode [of x raw] by simp

end

section \<open>Required targets\<close>

definition canonicalizeNodeIds :: "int list \<Rightarrow> int list" where
  "canonicalizeNodeIds ids = js_sort (num_cmp (\<lambda>x. x)) (dedup ids)"

definition decode_node_id :: "json \<Rightarrow> int res" where
  "decode_node_id v =
     (case as_integer v of
        Some n \<Rightarrow> Inr n
      | None \<Rightarrow> Inl (GitOpsJsonError ''required_targets_json.nodeIds must be integers''))"

definition check_canonical_ids :: "int list \<Rightarrow> int list res" where
  "check_canonical_ids ids =
     (let canonical = canonicalizeNodeIds ids
      in require_res (length canonical = length ids)
           (GitOpsJsonError ''required_targets_json.nodeIds must be unique'')
           (require_res (ids = canonical)
             (GitOpsJsonError ''required_targets_json.nodeIds must be sorted unique'')
             (Inr ids)))"

definition decodeGitOpsRequiredTargetsJson :: "raw_json \<Rightarrow> int list res" where
  "decodeGitOpsRequiredTargetsJson raw =
     bind_res (decodeGitOpsJson raw) (\<lambda>decoded.
       case as_record decoded of
         None \<Rightarrow> Inl (GitOpsJsonError ''required_targets_json must be an object'')
       | Some obj \<Rightarrow>
           require_res (keys_of obj = [''nodeIds''])
             (GitOpsJsonError ''required_targets_json must have only nodeIds'')
             (case Option.bind (prop_of obj ''nodeIds'') as_array of
                None \<Rightarrow> Inl (GitOpsJsonError ''required_targets_json.nodeIds must be an array'')
              | Some items \<Rightarrow> bind_res (map_res decode_node_id items) check_canonical_ids))"

definition encodeGitOpsRequiredTargetsJson :: "int list \<Rightarrow> raw_json res" where
  "encodeGitOpsRequiredTargetsJson ids =
     bind_res (check_canonical_ids ids) (\<lambda>canonical.
       Inr (encodeGitOpsJson (JObj [(''nodeIds'', JArr (map (\<lambda>n. JNum (NInt n)) canonical))])))"

lemma set_canonicalizeNodeIds [simp]: "set (canonicalizeNodeIds ids) = set ids"
  by (simp add: canonicalizeNodeIds_def)

lemma strictly_sorted_canonical:
  assumes "sorted_wrt (<) (ids :: int list)"
  shows "canonicalizeNodeIds ids = ids"
proof -
  have d: "distinct ids" using assms by (simp add: strict_sorted_iff)
  have "sorted_wrt (\<lambda>a b. num_cmp (\<lambda>x. x) a b \<le> 0) ids"
    by (rule sorted_wrt_mono_rel [OF _ assms]) (simp add: num_cmp_def)
  then show ?thesis by (simp add: canonicalizeNodeIds_def dedup_of_distinct [OF d] num.sort_of_sorted)
qed

lemma distinct_js_insert: "distinct (js_insert cmp x ys) \<longleftrightarrow> x \<notin> set ys \<and> distinct ys"
  by (induction ys) auto

lemma distinct_js_sort [simp]: "distinct (js_sort cmp xs) = distinct xs"
  by (induction xs) (auto simp: distinct_js_insert)

lemma canonicalizeNodeIds_strict: "sorted_wrt (<) (canonicalizeNodeIds ids)"
  using js_sort_num_sorted [of "\<lambda>x. x" "dedup ids"]
  by (simp add: strict_sorted_iff canonicalizeNodeIds_def)

lemma check_canonical_ids_Inr: "check_canonical_ids ids = Inr ys \<longleftrightarrow> ys = ids \<and> sorted_wrt (<) ids"
proof
  assume h: "check_canonical_ids ids = Inr ys"
  then have "ids = canonicalizeNodeIds ids" and "ys = ids"
    by (auto simp: check_canonical_ids_def Let_def)
  then show "ys = ids \<and> sorted_wrt (<) ids" using canonicalizeNodeIds_strict [of ids] by simp
next
  assume "ys = ids \<and> sorted_wrt (<) ids"
  then show "check_canonical_ids ids = Inr ys"
    by (simp add: check_canonical_ids_def strictly_sorted_canonical)
qed

lemma map_res_decode_node_id:
  "map_res decode_node_id items = Inr ids \<longleftrightarrow> items = map (\<lambda>n. JNum (NInt n)) ids"
proof (induction items arbitrary: ids)
  case Nil
  then show ?case by auto
next
  case (Cons v items)
  then show ?case
    by (cases ids) (auto simp: decode_node_id_def as_integer_Some split: option.splits)
qed

lemma decodeRequired_Inr:
  "decodeGitOpsRequiredTargetsJson raw = Inr ids \<longleftrightarrow>
     raw = Parsed (JObj [(''nodeIds'', JArr (map (\<lambda>n. JNum (NInt n)) ids))]) \<and> sorted_wrt (<) ids"
proof
  assume h: "decodeGitOpsRequiredTargetsJson raw = Inr ids"
  then obtain obj items where obj: "raw = Parsed (JObj obj)" "keys_of obj = [''nodeIds'']"
    and items: "Option.bind (prop_of obj ''nodeIds'') as_array = Some items"
    and ids: "bind_res (map_res decode_node_id items) check_canonical_ids = Inr ids"
    by (auto simp: decodeGitOpsRequiredTargetsJson_def decodeGitOpsJson_Inr as_record_Some
        split: option.splits)
  obtain v where v: "obj = [(''nodeIds'', v)]" using obj(2) by (auto simp: keys_of_def)
  then have "v = JArr items" using items by (simp add: prop_of_def as_array_Some)
  then show "raw = Parsed (JObj [(''nodeIds'', JArr (map (\<lambda>n. JNum (NInt n)) ids))])
      \<and> sorted_wrt (<) ids"
    using obj v ids by (auto simp: map_res_decode_node_id check_canonical_ids_Inr)
next
  assume "raw = Parsed (JObj [(''nodeIds'', JArr (map (\<lambda>n. JNum (NInt n)) ids))])
      \<and> sorted_wrt (<) ids"
  then show "decodeGitOpsRequiredTargetsJson raw = Inr ids"
    by (simp add: decodeGitOpsRequiredTargetsJson_def keys_of_def prop_of_def
        map_res_decode_node_id check_canonical_ids_Inr)
qed

lemma encodeRequired_Inr:
  "encodeGitOpsRequiredTargetsJson ids = Inr raw \<longleftrightarrow>
     raw = Parsed (JObj [(''nodeIds'', JArr (map (\<lambda>n. JNum (NInt n)) ids))]) \<and> sorted_wrt (<) ids"
  by (auto simp: encodeGitOpsRequiredTargetsJson_def check_canonical_ids_Inr encodeGitOpsJson_def comp_def)

interpretation required_targets: column_codec encodeGitOpsRequiredTargetsJson decodeGitOpsRequiredTargetsJson
  by unfold_locales (simp add: decodeRequired_Inr encodeRequired_Inr)

section \<open>Evidence limitations\<close>

type_synonym evidence_limitation = "string \<times> string option"

definition decode_limitation_item :: "json \<Rightarrow> evidence_limitation res" where
  "decode_limitation_item item =
     (case as_record item of
        None \<Rightarrow> Inl (GitOpsJsonError ''evidence limitation must be an object'')
      | Some obj \<Rightarrow>
          require_res (length (keys_of obj) = 2 \<and> has_key obj ''code'' \<and> has_key obj ''detail'')
            (GitOpsJsonError ''evidence limitation must have exactly code and detail'')
            (case Option.bind (prop_of obj ''code'') as_string of
               None \<Rightarrow> Inl (GitOpsJsonError ''evidence limitation code must be a non-empty string'')
             | Some code \<Rightarrow>
                 require_res (code \<noteq> [])
                   (GitOpsJsonError ''evidence limitation code must be a non-empty string'')
                   (case prop_of obj ''detail'' of
                      Some JNull \<Rightarrow> Inr (code, None)
                    | Some (JStr d) \<Rightarrow> Inr (code, Some d)
                    | _ \<Rightarrow> Inl (GitOpsJsonError
                        ''evidence limitation detail must be a string or null''))))"

definition decodeGitOpsEvidenceLimitations :: "raw_json option \<Rightarrow> evidence_limitation list res" where
  "decodeGitOpsEvidenceLimitations raw =
     (case raw of
        None \<Rightarrow> Inr []
      | Some r \<Rightarrow> bind_res (decodeGitOpsJson r) (\<lambda>decoded.
          case as_array decoded of
            None \<Rightarrow> Inl (GitOpsJsonError ''evidence_limitations_json must be an array'')
          | Some items \<Rightarrow> map_res decode_limitation_item items))"

definition limitation_json :: "evidence_limitation \<Rightarrow> json" where
  "limitation_json l = JObj [(''code'', JStr (fst l)), (''detail'', nullable_json JStr (snd l))]"

definition encodeGitOpsEvidenceLimitations ::
    "evidence_limitation list \<Rightarrow> string \<Rightarrow> evidence_limitation option \<Rightarrow> raw_json option res" where
  "encodeGitOpsEvidenceLimitations existing code next1 =
     (let kept = filter (\<lambda>item. fst item \<noteq> code) existing;
          kept' = (case next1 of None \<Rightarrow> kept | Some n \<Rightarrow> kept @ [n])
      in if kept' = [] then Inr None
         else
           (let encoded = encodeGitOpsJson (JArr (map limitation_json kept'))
            in bind_res (decodeGitOpsEvidenceLimitations (Some encoded)) (\<lambda>_. Inr (Some encoded))))"

lemma decode_limitation_json:
  "fst l \<noteq> [] \<Longrightarrow> decode_limitation_item (limitation_json l) = Inr l"
  by (cases l; cases "snd l")
    (auto simp: decode_limitation_item_def limitation_json_def keys_of_def has_key_def prop_of_def
      nullable_json_def)

section \<open>Approved target effects\<close>

datatype effect_outcome = Eff_place | Eff_remove

type_synonym target_effect = "int \<times> effect_outcome"

definition effect_outcome_of :: "json option \<Rightarrow> effect_outcome option" where
  "effect_outcome_of v =
     (case Option.bind v as_string of
        None \<Rightarrow> None
      | Some s \<Rightarrow> (if s = ''place'' then Some Eff_place
                 else if s = ''remove'' then Some Eff_remove else None))"

fun decode_effects :: "json list \<Rightarrow> int list \<Rightarrow> int option \<Rightarrow> target_effect list res" where
  "decode_effects [] seen prev = Inr []"
| "decode_effects (item # items) seen prev =
     (case as_record item of
        None \<Rightarrow> Inl (GitOpsJsonError ''blast_json entries must be objects'')
      | Some obj \<Rightarrow>
          require_res (length (keys_of obj) = 2 \<and> has_key obj ''nodeId'' \<and> has_key obj ''outcome'')
            (GitOpsJsonError ''blast_json entries must have exactly nodeId and outcome'')
            (case Option.bind (prop_of obj ''nodeId'') as_integer of
               None \<Rightarrow> Inl (GitOpsJsonError ''blast_json.nodeId must be a positive integer'')
             | Some n \<Rightarrow>
                 require_res (0 < n) (GitOpsJsonError ''blast_json.nodeId must be a positive integer'')
                   (case effect_outcome_of (prop_of obj ''outcome'') of
                      None \<Rightarrow> Inl (GitOpsJsonError ''blast_json.outcome must be place or remove'')
                    | Some outcome \<Rightarrow>
                        require_res (n \<notin> set seen)
                          (GitOpsJsonError ''blast_json node ids must be unique'')
                          (require_res (case prev of None \<Rightarrow> True | Some l \<Rightarrow> l < n)
                            (GitOpsJsonError ''blast_json must be strictly increasing by nodeId'')
                            (bind_res (decode_effects items (n # seen) (Some n))
                              (\<lambda>rest. Inr ((n, outcome) # rest)))))))"

definition decodeGitOpsApprovedTargetEffectJson :: "raw_json \<Rightarrow> target_effect list res" where
  "decodeGitOpsApprovedTargetEffectJson raw =
     bind_res (decodeGitOpsJson raw) (\<lambda>decoded.
       case as_array decoded of
         None \<Rightarrow> Inl (GitOpsJsonError ''blast_json must be an array'')
       | Some items \<Rightarrow> decode_effects items [] None)"

definition outcome_text :: "effect_outcome \<Rightarrow> string" where
  "outcome_text e = (case e of Eff_place \<Rightarrow> ''place'' | Eff_remove \<Rightarrow> ''remove'')"

definition effect_json :: "target_effect \<Rightarrow> json" where
  "effect_json e = JObj [(''nodeId'', JNum (NInt (fst e))), (''outcome'', JStr (outcome_text (snd e)))]"

definition encodeGitOpsApprovedTargetEffectJson :: "target_effect list \<Rightarrow> raw_json res" where
  "encodeGitOpsApprovedTargetEffectJson effect =
     (let encoded = encodeGitOpsJson (JArr (map effect_json effect))
      in bind_res (decodeGitOpsApprovedTargetEffectJson encoded) (\<lambda>_. Inr encoded))"

lemma printed_effect_json [simp]: "printed (effect_json e) = effect_json e"
  by (simp add: effect_json_def)

lemma effect_outcome_of_text [simp]: "effect_outcome_of (Some (JStr (outcome_text e))) = Some e"
  by (cases e) (simp_all add: effect_outcome_of_def outcome_text_def)

lemma decode_effects_json:
  "decode_effects (map effect_json es) seen prev = Inr es' \<Longrightarrow> es' = es"
proof (induction es arbitrary: seen prev es')
  case Nil
  then show ?case by simp
next
  case (Cons e es)
  then show ?case by (auto simp: effect_json_def prop_of_def)
qed

lemma decode_effects_increasing:
  "decode_effects items seen prev = Inr es \<Longrightarrow>
     sorted_wrt (<) (map fst es) \<and> (\<forall>e \<in> set es. 0 < fst e)
     \<and> (\<forall>l. prev = Some l \<longrightarrow> (\<forall>e \<in> set es. l < fst e))"
proof (induction items arbitrary: seen prev es)
  case Nil
  then show ?case by simp
next
  case (Cons item items)
  then obtain n out rest where
    es: "es = (n, out) # rest" and rest: "decode_effects items (n # seen) (Some n) = Inr rest"
    and n: "0 < n" "case prev of None \<Rightarrow> True | Some l \<Rightarrow> l < n"
    by (auto split: option.splits)
  from Cons.IH [OF rest] have "sorted_wrt (<) (map fst rest)" "\<forall>e \<in> set rest. 0 < fst e"
    "\<forall>e \<in> set rest. n < fst e" by auto
  then show ?case using es n by (auto split: option.splits intro: less_trans)
qed

interpretation target_effects:
  column_codec encodeGitOpsApprovedTargetEffectJson decodeGitOpsApprovedTargetEffectJson
  by unfold_locales
    (auto simp: encodeGitOpsApprovedTargetEffectJson_def Let_def decodeGitOpsApprovedTargetEffectJson_def
      encodeGitOpsJson_def comp_def dest: decode_effects_json)

end
