(* ===== verification/Artifact_Evidence.thy ===== *)
theory Artifact_Evidence
  imports Json_Codec
begin

text \<open>
  Artifact evidence and observed artifact identities (\<^verbatim>\<open>gitops/json.ts\<close>): the per-service evidence
  record with its strict decoder, the aggregate evidence of an artifact set, and the identity a node
  reported. The decoders return the canonical platform labels whatever spelling was stored.
\<close>

section \<open>Data\<close>

datatype artifact_service_source = Ss_registry | Ss_build | Ss_unsupported

datatype artifact_service_failure_class =
  Fc_unresolved | Fc_registry_unavailable | Fc_credential_failure | Fc_unsupported_registry
  | Fc_platform_ambiguity | Fc_platform_unavailable | Fc_digest_unavailable | Fc_stale_resolution

record artifact_platform_variant =
  var_platform :: string
  var_digest :: string

record service_artifact_evidence =
  svc_serviceName :: string
  svc_authoredRef :: "string option"
  svc_source :: artifact_service_source
  svc_platform :: "string option"
  svc_indexDigest :: "string option"
  svc_platformDigest :: "string option"
  svc_platformVariants :: "artifact_platform_variant list option"
  svc_localDigests :: "string list option"
  svc_buildContextFingerprint :: "string option"
  svc_producedImageId :: "string option"
  svc_failureClass :: "artifact_service_failure_class option"
  svc_resolvedAt :: "js_number option"

datatype artifact_evidence =
    AE_unresolved "service_artifact_evidence list option"
  | AE_exact string "service_artifact_evidence list option"
  | AE_qualified string "service_artifact_evidence list option"
  | AE_stale "string option" "service_artifact_evidence list option"
  | AE_unavailable "service_artifact_evidence list option"
  | AE_local_build_unverified "string option" "service_artifact_evidence list option"

datatype observed_artifact_identity =
    OA_unknown
  | OA_missing
  | OA_unavailable
  | OA_exact string js_number "service_artifact_evidence list option"
  | OA_qualified string js_number "service_artifact_evidence list option"
  | OA_stale string js_number "service_artifact_evidence list option"
  | OA_local_build_unverified string js_number "service_artifact_evidence list option"

text \<open>The reads \<^verbatim>\<open>'identity' in decoded ? decoded.identity : null\<close> and \<^verbatim>\<open>decoded.services\<close>.\<close>

fun ae_identity :: "artifact_evidence \<Rightarrow> string option" where
  "ae_identity (AE_unresolved _) = None"
| "ae_identity (AE_exact i _) = Some i"
| "ae_identity (AE_qualified i _) = Some i"
| "ae_identity (AE_stale i _) = i"
| "ae_identity (AE_unavailable _) = None"
| "ae_identity (AE_local_build_unverified i _) = i"

fun ae_services :: "artifact_evidence \<Rightarrow> service_artifact_evidence list option" where
  "ae_services (AE_unresolved s) = s"
| "ae_services (AE_exact _ s) = s"
| "ae_services (AE_qualified _ s) = s"
| "ae_services (AE_stale _ s) = s"
| "ae_services (AE_unavailable s) = s"
| "ae_services (AE_local_build_unverified _ s) = s"

text \<open>The kinds the source tests observations for.\<close>

fun obs_comparable :: "observed_artifact_identity \<Rightarrow> bool" where
  "obs_comparable (OA_exact _ _ _) = True"
| "obs_comparable (OA_qualified _ _ _) = True"
| "obs_comparable _ = False"

fun obs_uninformative :: "observed_artifact_identity \<Rightarrow> bool" where
  "obs_uninformative OA_unknown = True"
| "obs_uninformative OA_missing = True"
| "obs_uninformative OA_unavailable = True"
| "obs_uninformative _ = False"

fun obs_identity :: "observed_artifact_identity \<Rightarrow> string option" where
  "obs_identity (OA_exact i _ _) = Some i"
| "obs_identity (OA_qualified i _ _) = Some i"
| "obs_identity (OA_stale i _ _) = Some i"
| "obs_identity (OA_local_build_unverified i _ _) = Some i"
| "obs_identity _ = None"

fun obs_services :: "observed_artifact_identity \<Rightarrow> service_artifact_evidence list option" where
  "obs_services (OA_exact _ _ s) = s"
| "obs_services (OA_qualified _ _ s) = s"
| "obs_services (OA_stale _ _ s) = s"
| "obs_services (OA_local_build_unverified _ _ s) = s"
| "obs_services _ = None"

fun obs_at :: "observed_artifact_identity \<Rightarrow> js_number option" where
  "obs_at (OA_exact _ t _) = Some t"
| "obs_at (OA_qualified _ t _) = Some t"
| "obs_at (OA_stale _ t _) = Some t"
| "obs_at (OA_local_build_unverified _ t _) = Some t"
| "obs_at _ = None"

section \<open>Decoders\<close>

definition service_source_of :: "string \<Rightarrow> artifact_service_source option" where
  "service_source_of s = map_of
     [(''registry'', Ss_registry), (''build'', Ss_build), (''unsupported'', Ss_unsupported)] s"

definition isArtifactServiceFailureClass :: "string \<Rightarrow> artifact_service_failure_class option" where
  "isArtifactServiceFailureClass s = map_of
     [(''unresolved'', Fc_unresolved), (''registry_unavailable'', Fc_registry_unavailable),
      (''credential_failure'', Fc_credential_failure),
      (''unsupported_registry'', Fc_unsupported_registry),
      (''platform_ambiguity'', Fc_platform_ambiguity),
      (''platform_unavailable'', Fc_platform_unavailable),
      (''digest_unavailable'', Fc_digest_unavailable),
      (''stale_resolution'', Fc_stale_resolution)] s"

definition assertArtifactEvidenceKeys :: "(string \<times> json) list \<Rightarrow> string list \<Rightarrow> unit res" where
  "assertArtifactEvidenceKeys obj allowed =
     require_res (\<forall>k \<in> set (keys_of obj). k \<in> set allowed)
       (GitOpsJsonError ''artifact evidence has unknown keys'') (Inr ())"

text \<open>\<^verbatim>\<open>value == null\<close> holds of an absent property and of null.\<close>

definition decodeOptionalArray :: "json option \<Rightarrow> string \<Rightarrow> json list option res" where
  "decodeOptionalArray v err =
     (case v of
        None \<Rightarrow> Inr None
      | Some JNull \<Rightarrow> Inr None
      | Some w \<Rightarrow> (case as_array w of None \<Rightarrow> Inl (GitOpsJsonError err) | Some xs \<Rightarrow> Inr (Some xs)))"

definition nonempty_string_prop :: "(string \<times> json) list \<Rightarrow> string \<Rightarrow> string \<Rightarrow> string res" where
  "nonempty_string_prop obj k err =
     (case Option.bind (prop_of obj k) as_string of
        None \<Rightarrow> Inl (GitOpsJsonError err)
      | Some s \<Rightarrow> require_res (s \<noteq> []) (GitOpsJsonError err) (Inr s))"

definition nullable_string_prop :: "(string \<times> json) list \<Rightarrow> string \<Rightarrow> string \<Rightarrow> string option res" where
  "nullable_string_prop obj k err =
     (case prop_of obj k of
        Some JNull \<Rightarrow> Inr None
      | Some (JStr s) \<Rightarrow> Inr (Some s)
      | _ \<Rightarrow> Inl (GitOpsJsonError err))"

definition decode_variant :: "json \<Rightarrow> artifact_platform_variant res" where
  "decode_variant entry =
     (case as_record entry of
        None \<Rightarrow> Inl (GitOpsJsonError ''platform variant must be an object'')
      | Some obj \<Rightarrow>
          require_res (\<forall>k \<in> set (keys_of obj). k \<in> set [''platform'', ''digest''])
            (GitOpsJsonError ''platform variant has unknown keys'')
            (bind_res (nonempty_string_prop obj ''platform''
                 ''platform variant platform must be a non-empty string'') (\<lambda>p.
             bind_res (nonempty_string_prop obj ''digest''
                 ''platform variant digest must be a non-empty string'') (\<lambda>d.
             Inr \<lparr>var_platform = p, var_digest = d\<rparr>))))"

definition variant_cmp ::
    "(string \<Rightarrow> string \<Rightarrow> int) \<Rightarrow> artifact_platform_variant \<Rightarrow> artifact_platform_variant \<Rightarrow> int" where
  "variant_cmp lc a b = lc (var_platform a) (var_platform b)"

definition decodePlatformVariants ::
    "(string \<Rightarrow> string \<Rightarrow> int) \<Rightarrow> json option \<Rightarrow> artifact_platform_variant list option res" where
  "decodePlatformVariants lc value =
     bind_res (decodeOptionalArray value
         ''service artifact evidence platformVariants must be an array'') (\<lambda>raw.
       case raw of
         None \<Rightarrow> Inr None
       | Some entries \<Rightarrow>
           bind_res (map_res decode_variant entries) (\<lambda>variants.
             let sorted = js_sort (variant_cmp lc) variants;
                 canonical = js_sort (variant_cmp lc)
                   (map (\<lambda>v. v\<lparr>var_platform := canonicalPlatformLabel (var_platform v)\<rparr>) variants)
             in require_res (distinct (map var_platform sorted))
                  (GitOpsJsonError ''platform variants must be unique by platform'')
                  (require_res (map var_platform variants = map var_platform sorted)
                    (GitOpsJsonError ''platform variants must be sorted by platform'')
                    (require_res (distinct (map var_platform canonical))
                      (GitOpsJsonError ''platform variants must be unique by platform'')
                      (Inr (Some canonical))))))"

definition decode_local_digest :: "json \<Rightarrow> string res" where
  "decode_local_digest entry =
     (case as_string entry of
        None \<Rightarrow> Inl (GitOpsJsonError ''local digest must be a non-empty string'')
      | Some s \<Rightarrow> require_res (s \<noteq> [])
          (GitOpsJsonError ''local digest must be a non-empty string'') (Inr s))"

text \<open>The source checks uniqueness while it walks the entries; a malformed later entry is reached
  only when no duplicate came before it. \<open>seen\<close> holds the lower-cased digests.\<close>

fun decode_digests :: "json list \<Rightarrow> string list \<Rightarrow> string list res" where
  "decode_digests [] seen = Inr []"
| "decode_digests (e # es) seen =
     bind_res (decode_local_digest e) (\<lambda>d.
       require_res (lower d \<notin> set seen) (GitOpsJsonError ''localDigests must be unique'')
         (bind_res (decode_digests es (lower d # seen)) (\<lambda>ds. Inr (d # ds))))"

definition decodeLocalDigests ::
    "(string \<Rightarrow> string \<Rightarrow> int) \<Rightarrow> json option \<Rightarrow> string list option res" where
  "decodeLocalDigests lc value =
     bind_res (decodeOptionalArray value
         ''service artifact evidence localDigests must be an array'') (\<lambda>raw.
       case raw of
         None \<Rightarrow> Inr None
       | Some entries \<Rightarrow>
           bind_res (decode_digests entries []) (\<lambda>digests.
             let sorted = js_sort lc digests
             in require_res (digests = sorted) (GitOpsJsonError ''localDigests must be sorted'')
                  (Inr (Some sorted))))"

definition SERVICE_KEYS :: "string list" where
  "SERVICE_KEYS =
     [''serviceName'', ''authoredRef'', ''source'', ''platform'', ''indexDigest'',
      ''platformDigest'', ''platformVariants'', ''localDigests'', ''buildContextFingerprint'',
      ''producedImageId'', ''failureClass'', ''resolvedAt'']"

definition decode_failure_class ::
    "(string \<times> json) list \<Rightarrow> artifact_service_failure_class option res" where
  "decode_failure_class obj =
     (let err = GitOpsJsonError ''service artifact evidence failureClass is invalid''
      in case prop_of obj ''failureClass'' of
           Some JNull \<Rightarrow> Inr None
         | Some (JStr s) \<Rightarrow> (case isArtifactServiceFailureClass s of
               None \<Rightarrow> Inl err | Some c \<Rightarrow> Inr (Some c))
         | _ \<Rightarrow> Inl err)"

definition decode_resolved_at :: "(string \<times> json) list \<Rightarrow> js_number option res" where
  "decode_resolved_at obj =
     (case prop_of obj ''resolvedAt'' of
        Some JNull \<Rightarrow> Inr None
      | v \<Rightarrow> (case Option.bind v as_finite of
            None \<Rightarrow> Inl (GitOpsJsonError
              ''service artifact evidence resolvedAt must be a finite number or null'')
          | Some n \<Rightarrow> Inr (Some n)))"

definition decodeServiceArtifactEvidence ::
    "(string \<Rightarrow> string \<Rightarrow> int) \<Rightarrow> json \<Rightarrow> service_artifact_evidence res" where
  "decodeServiceArtifactEvidence lc value =
     (case as_record value of
        None \<Rightarrow> Inl (GitOpsJsonError ''service artifact evidence must be an object'')
      | Some obj \<Rightarrow>
          require_res (\<forall>k \<in> set (keys_of obj). k \<in> set SERVICE_KEYS)
            (GitOpsJsonError ''service artifact evidence has unknown keys'')
            (bind_res (nonempty_string_prop obj ''serviceName''
                ''service artifact evidence serviceName must be a non-empty string'') (\<lambda>name.
             bind_res (nullable_string_prop obj ''authoredRef''
                ''service artifact evidence authoredRef must be a string or null'') (\<lambda>authored.
             bind_res (case Option.bind (Option.bind (prop_of obj ''source'') as_string) service_source_of of
                  None \<Rightarrow> Inl (GitOpsJsonError ''service artifact evidence source is invalid'')
                | Some src \<Rightarrow> Inr src) (\<lambda>src.
             bind_res (nullable_string_prop obj ''platform''
                ''service artifact evidence platform must be a string or null'') (\<lambda>platform.
             bind_res (nullable_string_prop obj ''indexDigest''
                ''service artifact evidence indexDigest must be a string or null'') (\<lambda>index.
             bind_res (nullable_string_prop obj ''platformDigest''
                ''service artifact evidence platformDigest must be a string or null'') (\<lambda>pdigest.
             bind_res (decodePlatformVariants lc (prop_of obj ''platformVariants'')) (\<lambda>variants.
             bind_res (decodeLocalDigests lc (prop_of obj ''localDigests'')) (\<lambda>digests.
             bind_res (nullable_string_prop obj ''buildContextFingerprint''
                ''service artifact evidence buildContextFingerprint must be a string or null'') (\<lambda>build.
             bind_res (nullable_string_prop obj ''producedImageId''
                ''service artifact evidence producedImageId must be a string or null'') (\<lambda>image.
             bind_res (decode_failure_class obj) (\<lambda>failure.
             bind_res (decode_resolved_at obj) (\<lambda>resolved.
             Inr \<lparr> svc_serviceName = name, svc_authoredRef = authored, svc_source = src,
               svc_platform = map_option canonicalPlatformLabel platform,
               svc_indexDigest = index, svc_platformDigest = pdigest,
               svc_platformVariants = variants, svc_localDigests = digests,
               svc_buildContextFingerprint = build, svc_producedImageId = image,
               svc_failureClass = failure, svc_resolvedAt = resolved \<rparr>))))))))))))))"

definition canonicalizeServiceEvidence ::
    "(string \<Rightarrow> string \<Rightarrow> int) \<Rightarrow> service_artifact_evidence list \<Rightarrow> service_artifact_evidence list" where
  "canonicalizeServiceEvidence lc services =
     js_sort (\<lambda>a b. lc (svc_serviceName a) (svc_serviceName b))
       (map (\<lambda>s. s\<lparr> svc_platformVariants := map_option (js_sort (variant_cmp lc)) (svc_platformVariants s),
                     svc_localDigests := map_option (js_sort lc) (svc_localDigests s) \<rparr>) services)"

definition decodeServiceArtifactEvidenceList ::
    "(string \<Rightarrow> string \<Rightarrow> int) \<Rightarrow> json \<Rightarrow> service_artifact_evidence list res" where
  "decodeServiceArtifactEvidenceList lc value =
     (case as_array value of
        None \<Rightarrow> Inl (GitOpsJsonError ''artifact evidence services must be an array'')
      | Some items \<Rightarrow>
          bind_res (map_res (decodeServiceArtifactEvidence lc) items) (\<lambda>services.
            let sorted = canonicalizeServiceEvidence lc services
            in require_res (map svc_serviceName services = map svc_serviceName sorted)
                 (GitOpsJsonError ''artifact evidence services must be sorted by serviceName'')
                 (require_res (distinct (map svc_serviceName services))
                   (GitOpsJsonError ''artifact evidence services must be unique by serviceName'')
                   (Inr services))))"

definition attachServices ::
    "(string \<Rightarrow> string \<Rightarrow> int) \<Rightarrow> (string \<times> json) list
      \<Rightarrow> service_artifact_evidence list option res" where
  "attachServices lc obj =
     (case prop_of obj ''services'' of
        None \<Rightarrow> Inr None
      | Some v \<Rightarrow> bind_res (decodeServiceArtifactEvidenceList lc v) (\<lambda>s. Inr (Some s)))"

definition requireNonEmptyIdentity :: "(string \<times> json) list \<Rightarrow> string res" where
  "requireNonEmptyIdentity obj =
     nonempty_string_prop obj ''identity'' ''artifact identity must be a non-empty string''"

text \<open>The two kinds that carry no identity, the two that require one and the two that allow null.\<close>

definition decode_evidence_without_identity ::
    "(string \<Rightarrow> string \<Rightarrow> int) \<Rightarrow> (string \<times> json) list \<Rightarrow> string
      \<Rightarrow> service_artifact_evidence list option res" where
  "decode_evidence_without_identity lc obj kind =
     bind_res (assertArtifactEvidenceKeys obj [''kind'', ''services'']) (\<lambda>_.
       require_res (\<not> has_key obj ''identity'')
         (GitOpsJsonError (kind @ '' evidence forbids identity'')) (attachServices lc obj))"

definition decode_evidence_with_identity ::
    "(string \<Rightarrow> string \<Rightarrow> int) \<Rightarrow> (string \<times> json) list
      \<Rightarrow> (string \<times> service_artifact_evidence list option) res" where
  "decode_evidence_with_identity lc obj =
     bind_res (assertArtifactEvidenceKeys obj [''kind'', ''identity'', ''services'']) (\<lambda>_.
       bind_res (requireNonEmptyIdentity obj) (\<lambda>i.
         bind_res (attachServices lc obj) (\<lambda>s. Inr (i, s))))"

definition decode_evidence_nullable_identity ::
    "(string \<Rightarrow> string \<Rightarrow> int) \<Rightarrow> (string \<times> json) list \<Rightarrow> string
      \<Rightarrow> (string option \<times> service_artifact_evidence list option) res" where
  "decode_evidence_nullable_identity lc obj kind =
     bind_res (assertArtifactEvidenceKeys obj [''kind'', ''identity'', ''services'']) (\<lambda>_.
       require_res (has_key obj ''identity'')
         (GitOpsJsonError (kind @ '' evidence requires identity''))
         (bind_res (nullable_string_prop obj ''identity'' (kind @ '' identity must be string or null''))
           (\<lambda>i. bind_res (attachServices lc obj) (\<lambda>s. Inr (i, s)))))"

definition decodeArtifactEvidenceJson ::
    "(string \<Rightarrow> string \<Rightarrow> int) \<Rightarrow> raw_json \<Rightarrow> artifact_evidence res" where
  "decodeArtifactEvidenceJson lc raw =
     bind_res (decodeGitOpsJson raw) (\<lambda>decoded.
       case Option.bind (as_record decoded)
              (\<lambda>obj. map_option (\<lambda>k. (obj, k)) (Option.bind (prop_of obj ''kind'') as_string)) of
         None \<Rightarrow> Inl (GitOpsJsonError ''evidence_json must have a kind'')
       | Some (obj, kind) \<Rightarrow>
           (if kind = ''unresolved'' then
              bind_res (decode_evidence_without_identity lc obj kind) (\<lambda>s. Inr (AE_unresolved s))
            else if kind = ''unavailable'' then
              bind_res (decode_evidence_without_identity lc obj kind) (\<lambda>s. Inr (AE_unavailable s))
            else if kind = ''exact'' then
              bind_res (decode_evidence_with_identity lc obj) (\<lambda>(i, s). Inr (AE_exact i s))
            else if kind = ''qualified'' then
              bind_res (decode_evidence_with_identity lc obj) (\<lambda>(i, s). Inr (AE_qualified i s))
            else if kind = ''stale'' then
              bind_res (decode_evidence_nullable_identity lc obj kind) (\<lambda>(i, s). Inr (AE_stale i s))
            else if kind = ''local_build_unverified'' then
              bind_res (decode_evidence_nullable_identity lc obj kind)
                (\<lambda>(i, s). Inr (AE_local_build_unverified i s))
            else Inl (GitOpsJsonError ''unknown artifact evidence kind'')))"

definition decode_observation_body ::
    "(string \<Rightarrow> string \<Rightarrow> int) \<Rightarrow> (string \<times> json) list \<Rightarrow> string
      \<Rightarrow> (string \<times> js_number \<times> service_artifact_evidence list option) res" where
  "decode_observation_body lc obj kind =
     bind_res (assertArtifactEvidenceKeys obj [''kind'', ''identity'', ''observedAt'', ''services'']) (\<lambda>_.
       require_res (has_key obj ''identity'' \<and> has_key obj ''observedAt'')
         (GitOpsJsonError (kind @ '' observation requires identity and observedAt''))
         (bind_res (nonempty_string_prop obj ''identity''
             (kind @ '' observation identity must be a non-empty string'')) (\<lambda>i.
           case Option.bind (prop_of obj ''observedAt'') as_finite of
             None \<Rightarrow> Inl (GitOpsJsonError (kind @ '' observation observedAt must be a finite number''))
           | Some t \<Rightarrow> bind_res (attachServices lc obj) (\<lambda>s. Inr (i, t, s)))))"

definition decodeObservedArtifactIdentity ::
    "(string \<Rightarrow> string \<Rightarrow> int) \<Rightarrow> raw_json option \<Rightarrow> observed_artifact_identity res" where
  "decodeObservedArtifactIdentity lc raw =
     (case raw of
        None \<Rightarrow> Inr OA_unknown
      | Some r \<Rightarrow> bind_res (decodeGitOpsJson r) (\<lambda>decoded.
          case Option.bind (as_record decoded)
                 (\<lambda>obj. map_option (\<lambda>k. (obj, k)) (Option.bind (prop_of obj ''kind'') as_string)) of
            None \<Rightarrow> Inl (GitOpsJsonError ''observed artifact identity must have a kind'')
          | Some (obj, kind) \<Rightarrow>
              (if kind = ''unknown'' then
                 bind_res (assertArtifactEvidenceKeys obj [''kind'']) (\<lambda>_. Inr OA_unknown)
               else if kind = ''missing'' then
                 bind_res (assertArtifactEvidenceKeys obj [''kind'']) (\<lambda>_. Inr OA_missing)
               else if kind = ''unavailable'' then
                 bind_res (assertArtifactEvidenceKeys obj [''kind'']) (\<lambda>_. Inr OA_unavailable)
               else if kind = ''exact'' then
                 bind_res (decode_observation_body lc obj kind) (\<lambda>(i, t, s). Inr (OA_exact i t s))
               else if kind = ''qualified'' then
                 bind_res (decode_observation_body lc obj kind) (\<lambda>(i, t, s). Inr (OA_qualified i t s))
               else if kind = ''stale'' then
                 bind_res (decode_observation_body lc obj kind) (\<lambda>(i, t, s). Inr (OA_stale i t s))
               else if kind = ''local_build_unverified'' then
                 bind_res (decode_observation_body lc obj kind)
                   (\<lambda>(i, t, s). Inr (OA_local_build_unverified i t s))
               else Inl (GitOpsJsonError ''unknown observed artifact identity kind''))))"

section \<open>Observed invocations\<close>

record observed_invocation_identity =
  oinv_composeFileOrder :: "string list"
  oinv_projectName :: string
  oinv_projectDirectory :: string
  oinv_envFileOrder :: "string list"
  oinv_observedAt :: js_number

definition decode_path_entry :: "string \<Rightarrow> json \<Rightarrow> string res" where
  "decode_path_entry field entry =
     (let err = GitOpsJsonError (''observed invocation '' @ field @ '' must hold non-empty strings'')
      in case as_string entry of
           None \<Rightarrow> Inl err
         | Some s \<Rightarrow> require_res (s \<noteq> []) err (Inr s))"

definition decodeInvocationPathList :: "(string \<times> json) list \<Rightarrow> string \<Rightarrow> string list res" where
  "decodeInvocationPathList obj field =
     (case Option.bind (prop_of obj field) as_array of
        None \<Rightarrow> Inl (GitOpsJsonError (''observed invocation '' @ field @ '' must be an array''))
      | Some xs \<Rightarrow> map_res (decode_path_entry field) xs)"

definition decodeObservedInvocation :: "raw_json option \<Rightarrow> observed_invocation_identity option res" where
  "decodeObservedInvocation raw =
     (case raw of
        None \<Rightarrow> Inr None
      | Some r \<Rightarrow> bind_res (decodeGitOpsJson r) (\<lambda>decoded.
          case as_record decoded of
            None \<Rightarrow> Inl (GitOpsJsonError ''observed invocation must be an object'')
          | Some obj \<Rightarrow>
              require_res (\<forall>k \<in> set (keys_of obj). k \<in> set [''composeFileOrder'', ''projectName'',
                  ''projectDirectory'', ''envFileOrder'', ''observedAt''])
                (GitOpsJsonError ''observed invocation has unknown keys'')
                (bind_res (nonempty_string_prop obj ''projectName''
                    ''observed invocation projectName must be a non-empty string'') (\<lambda>name.
                 bind_res (nonempty_string_prop obj ''projectDirectory''
                    ''observed invocation projectDirectory must be a non-empty string'') (\<lambda>dir.
                 case Option.bind (prop_of obj ''observedAt'') as_finite of
                   None \<Rightarrow> Inl (GitOpsJsonError ''observed invocation observedAt must be a finite number'')
                 | Some t \<Rightarrow>
                     bind_res (decodeInvocationPathList obj ''composeFileOrder'') (\<lambda>files.
                     bind_res (decodeInvocationPathList obj ''envFileOrder'') (\<lambda>envs.
                     Inr (Some \<lparr> oinv_composeFileOrder = files, oinv_projectName = name,
                       oinv_projectDirectory = dir, oinv_envFileOrder = envs,
                       oinv_observedAt = t \<rparr>))))))))"

section \<open>Encoders\<close>

text \<open>The property order of the evidence object is the one the record is built in.\<close>

definition service_source_text :: "artifact_service_source \<Rightarrow> string" where
  "service_source_text s =
     (case s of Ss_registry \<Rightarrow> ''registry'' | Ss_build \<Rightarrow> ''build'' | Ss_unsupported \<Rightarrow> ''unsupported'')"

definition failure_class_text :: "artifact_service_failure_class \<Rightarrow> string" where
  "failure_class_text c = (case c of
     Fc_unresolved \<Rightarrow> ''unresolved'' | Fc_registry_unavailable \<Rightarrow> ''registry_unavailable''
   | Fc_credential_failure \<Rightarrow> ''credential_failure'' | Fc_unsupported_registry \<Rightarrow> ''unsupported_registry''
   | Fc_platform_ambiguity \<Rightarrow> ''platform_ambiguity'' | Fc_platform_unavailable \<Rightarrow> ''platform_unavailable''
   | Fc_digest_unavailable \<Rightarrow> ''digest_unavailable'' | Fc_stale_resolution \<Rightarrow> ''stale_resolution'')"

definition service_evidence_json :: "service_artifact_evidence \<Rightarrow> json" where
  "service_evidence_json s = JObj
     [(''serviceName'', JStr (svc_serviceName s)),
      (''authoredRef'', nullable_json JStr (svc_authoredRef s)),
      (''source'', JStr (service_source_text (svc_source s))),
      (''platform'', nullable_json JStr (svc_platform s)),
      (''indexDigest'', nullable_json JStr (svc_indexDigest s)),
      (''platformDigest'', nullable_json JStr (svc_platformDigest s)),
      (''platformVariants'', nullable_json (\<lambda>vs. JArr (map (\<lambda>v. JObj
         [(''platform'', JStr (var_platform v)), (''digest'', JStr (var_digest v))]) vs))
         (svc_platformVariants s)),
      (''localDigests'', nullable_json (\<lambda>ds. JArr (map JStr ds)) (svc_localDigests s)),
      (''buildContextFingerprint'', nullable_json JStr (svc_buildContextFingerprint s)),
      (''producedImageId'', nullable_json JStr (svc_producedImageId s)),
      (''failureClass'', nullable_json (\<lambda>c. JStr (failure_class_text c)) (svc_failureClass s)),
      (''resolvedAt'', nullable_json JNum (svc_resolvedAt s))]"

definition services_property ::
    "(string \<Rightarrow> string \<Rightarrow> int) \<Rightarrow> service_artifact_evidence list option \<Rightarrow> (string \<times> json) list" where
  "services_property lc services =
     (if nullish services [] = [] then []
      else [(''services'', JArr (map service_evidence_json
              (canonicalizeServiceEvidence lc (nullish services []))))])"

fun evidence_payload :: "(string \<Rightarrow> string \<Rightarrow> int) \<Rightarrow> artifact_evidence \<Rightarrow> (string \<times> json) list" where
  "evidence_payload lc (AE_unresolved s) = (''kind'', JStr ''unresolved'') # services_property lc s"
| "evidence_payload lc (AE_unavailable s) = (''kind'', JStr ''unavailable'') # services_property lc s"
| "evidence_payload lc (AE_exact i s) =
     [(''kind'', JStr ''exact''), (''identity'', JStr i)] @ services_property lc s"
| "evidence_payload lc (AE_qualified i s) =
     [(''kind'', JStr ''qualified''), (''identity'', JStr i)] @ services_property lc s"
| "evidence_payload lc (AE_stale i s) =
     [(''kind'', JStr ''stale''), (''identity'', nullable_json JStr i)] @ services_property lc s"
| "evidence_payload lc (AE_local_build_unverified i s) =
     [(''kind'', JStr ''local_build_unverified''), (''identity'', nullable_json JStr i)]
     @ services_property lc s"

definition encodeArtifactEvidenceJson ::
    "(string \<Rightarrow> string \<Rightarrow> int) \<Rightarrow> artifact_evidence \<Rightarrow> raw_json res" where
  "encodeArtifactEvidenceJson lc value =
     (let encoded = encodeGitOpsJson (JObj (evidence_payload lc value))
      in bind_res (decodeArtifactEvidenceJson lc encoded) (\<lambda>_. Inr encoded))"

definition observation_payload ::
    "(string \<Rightarrow> string \<Rightarrow> int) \<Rightarrow> string \<Rightarrow> string \<Rightarrow> js_number \<Rightarrow> service_artifact_evidence list option
      \<Rightarrow> (string \<times> json) list" where
  "observation_payload lc kind i t s =
     [(''kind'', JStr kind), (''identity'', JStr i), (''observedAt'', JNum t)] @ services_property lc s"

definition encodeObservedArtifactIdentity ::
    "(string \<Rightarrow> string \<Rightarrow> int) \<Rightarrow> observed_artifact_identity \<Rightarrow> raw_json res" where
  "encodeObservedArtifactIdentity lc value =
     (let payload = (case value of
            OA_unknown \<Rightarrow> [(''kind'', JStr ''unknown'')]
          | OA_missing \<Rightarrow> [(''kind'', JStr ''missing'')]
          | OA_unavailable \<Rightarrow> [(''kind'', JStr ''unavailable'')]
          | OA_exact i t s \<Rightarrow> observation_payload lc ''exact'' i t s
          | OA_qualified i t s \<Rightarrow> observation_payload lc ''qualified'' i t s
          | OA_stale i t s \<Rightarrow> observation_payload lc ''stale'' i t s
          | OA_local_build_unverified i t s \<Rightarrow> observation_payload lc ''local_build_unverified'' i t s);
          encoded = encodeGitOpsJson (JObj payload)
      in bind_res (decodeObservedArtifactIdentity lc (Some encoded)) (\<lambda>_. Inr encoded))"

definition encodeObservedInvocation :: "observed_invocation_identity \<Rightarrow> raw_json res" where
  "encodeObservedInvocation v =
     (let encoded = encodeGitOpsJson (JObj
            [(''composeFileOrder'', JArr (map JStr (oinv_composeFileOrder v))),
             (''projectName'', JStr (oinv_projectName v)),
             (''projectDirectory'', JStr (oinv_projectDirectory v)),
             (''envFileOrder'', JArr (map JStr (oinv_envFileOrder v))),
             (''observedAt'', JNum (oinv_observedAt v))])
      in bind_res (decodeObservedInvocation (Some encoded)) (\<lambda>_. Inr encoded))"

lemma map_res_path_entries:
  "map_res (decode_path_entry f) (map JStr ps) = Inr qs \<Longrightarrow> qs = ps"
  by (induction ps arbitrary: qs) (auto simp: decode_path_entry_def)

definition invocation_json :: "observed_invocation_identity \<Rightarrow> raw_json" where
  "invocation_json v = Parsed (JObj
     [(''composeFileOrder'', JArr (map JStr (oinv_composeFileOrder v))),
      (''projectName'', JStr (oinv_projectName v)),
      (''projectDirectory'', JStr (oinv_projectDirectory v)),
      (''envFileOrder'', JArr (map JStr (oinv_envFileOrder v))),
      (''observedAt'', JNum (oinv_observedAt v))])"

lemma decode_invocation_json:
  assumes "decodeObservedInvocation (Some (invocation_json v)) = Inr r"
  shows "r = Some v"
proof (cases v)
  case (fields files name dir envs t)
  have t: "t \<noteq> NInf"
    using assms fields
    by (cases t) (simp_all add: invocation_json_def decodeObservedInvocation_def nonempty_string_prop_def
        prop_of_def as_finite_def)
  obtain files' envs' where
    f: "map_res (decode_path_entry ''composeFileOrder'') (map JStr files) = Inr files'" and
    e: "map_res (decode_path_entry ''envFileOrder'') (map JStr envs) = Inr envs'" and
    r: "r = Some \<lparr>oinv_composeFileOrder = files', oinv_projectName = name, oinv_projectDirectory = dir,
          oinv_envFileOrder = envs', oinv_observedAt = t\<rparr>"
    using assms fields t
    by (auto simp: invocation_json_def decodeObservedInvocation_def nonempty_string_prop_def
        decodeInvocationPathList_def prop_of_def)
  show ?thesis using map_res_path_entries [OF f] map_res_path_entries [OF e] r fields by simp
qed

lemma decode_of_encodeObservedInvocation:
  assumes "encodeObservedInvocation v = Inr raw"
  shows "decodeObservedInvocation (Some raw) = Inr (Some v)"
proof -
  have t: "oinv_observedAt v \<noteq> NInf"
  proof
    assume "oinv_observedAt v = NInf"
    then show False
      using assms by (simp add: encodeObservedInvocation_def encodeGitOpsJson_def decodeObservedInvocation_def
          nonempty_string_prop_def prop_of_def as_finite_def comp_def Let_def)
  qed
  have raw: "raw = invocation_json v" and "\<exists>r. decodeObservedInvocation (Some (invocation_json v)) = Inr r"
    using assms t
    by (auto simp: encodeObservedInvocation_def encodeGitOpsJson_def invocation_json_def comp_def Let_def)
  then show ?thesis using decode_invocation_json by blast
qed

interpretation observed_invocation:
  column_codec encodeObservedInvocation
    "\<lambda>r. bind_res (decodeObservedInvocation (Some r))
       (\<lambda>v. case v of None \<Rightarrow> Inl TypeError | Some i \<Rightarrow> Inr i)"
  by unfold_locales (simp add: decode_of_encodeObservedInvocation)

end
