(* ===== verification/Rows.thy ===== *)
theory Rows
  imports Prelude
begin

text \<open>
  The persisted rows of the GitOps revision model (\<^verbatim>\<open>backend/src/services/gitops/types.ts\<close>): one record
  per table, one field per column in the order of the source, with the closed vocabularies as
  datatypes. A column name is prefixed by its table (\<open>app_\<close>, \<open>gen_\<close>, \<open>art_\<close>, \<open>intent_\<close>, \<open>cand_\<close>,
  \<open>rgen_\<close>, \<open>apv_\<close>, \<open>tgt_\<close>), because Isabelle record fields share one name space. Columns that the
  source reads as open text although their type is closed (connectivity, the review block reason,
  the latest stage) are strings.
\<close>

section \<open>Vocabularies\<close>

datatype target_mode = Direct | Inline_blueprint | Blueprint

datatype lifecycle_status = Lc_active | Lc_creating | Lc_detached | Lc_deleted

datatype artifact_qualification =
  Q_unresolved | Q_exact | Q_qualified | Q_stale | Q_unavailable | Q_local_build_unverified

datatype approval_kind =
  Ak_source_acceptance | Ak_placement_approval | Ak_rollout_authorization | Ak_legacy_combined

datatype approval_authority = Au_operator | Au_configured_policy | Au_legacy_combined

datatype app_active_stage =
  Ast_fetch_started | Ast_apply_started | Ast_deploy_started | Ast_recovery_started

datatype target_active_stage =
  Tst_deploy_started | Tst_blueprint_deploy_started | Tst_blueprint_withdraw_started
  | Tst_recovery_started

datatype recovery_phase =
  Rp_capturing | Rp_restoring | Rp_compensating | Rp_complete | Rp_failed

datatype app_failure_stage = Af_fetch | Af_validation | Af_apply | Af_create | Af_recovery

datatype source_policy = Sp_manual | Sp_review | Sp_automatic

datatype placement_policy = Pp_operator | Pp_bounded_auto

datatype rollout_authorization_policy = Ra_manual | Ra_automatic

datatype target_failure_stage =
  Tf_deploy | Tf_recovery | Tf_blueprint_deploy | Tf_blueprint_withdraw

datatype lkg_unavailable_reason = Lu_generation_missing | Lu_recovery_unretainable

datatype health_stop_reason =
  Hs_health_passed | Hs_health_failed | Hs_health_unknown | Hs_health_retried
  | Hs_health_retry_exhausted | Hs_rollout_stopped | Hs_rollback_completed | Hs_rollback_pending
  | Hs_stop_acknowledged | Hs_rollback_unavailable

datatype health_verdict = Hv_passed | Hv_failed | Hv_unknown

datatype ref_kind = Rk_branch | Rk_tag | Rk_sha

datatype pause_origin = Po_operator | Po_system | Po_health

datatype target_status = Ts_active | Ts_tombstoned

datatype candidate_provenance = Cp_intent_change | Cp_roster_change | Cp_legacy_inline

datatype rollout_generation_provenance =
  Rg_legacy_inline | Rg_placement_approval | Rg_rollout_authorization

datatype placement_policy_reason =
  Pr_policy_is_operator | Pr_no_placement_change | Pr_stateless_addition | Pr_stateless_removal
  | Pr_mixed_add_and_remove | Pr_multiple_additions | Pr_multiple_removals
  | Pr_stateful_workload | Pr_unknown_workload | Pr_first_multi_node_placement
  | Pr_pin_driven_placement | Pr_cordon_override | Pr_cordon_driven_removal | Pr_stale_node
  | Pr_unknown_connectivity | Pr_missing_evidence | Pr_malformed_evidence
  | Pr_destructive_effect | Pr_conflicting_operation

section \<open>Rows\<close>

record gitops_application_row =
  app_id :: "string"
  app_lifecycle_key :: "string"
  app_lifecycle_status :: "lifecycle_status"
  app_target_mode :: "target_mode"
  app_stack_name :: "string option"
  app_configured_source_stack_name :: "string option"
  app_blueprint_id :: "int option"
  app_configured_repo_url :: "string option"
  app_repo_identity_json :: "raw_json option"
  app_configured_ref :: "string option"
  app_compose_paths_json :: "raw_json option"
  app_context_dir :: "string option"
  app_sync_env :: "int option"
  app_env_path :: "string option"
  app_materialization_fingerprint :: "string option"
  app_desired_commit_sha :: "string option"
  app_fetched_commit_sha :: "string option"
  app_fetched_resolved_ref_kind :: "ref_kind option"
  app_candidate_generation_id :: "string option"
  app_accepted_generation_id :: "string option"
  app_candidate_plan_blocked :: "int"
  app_review_required :: "int"
  app_review_block_reason :: "string option"
  app_artifact_set_id :: "string option"
  app_latest_artifact_set_id :: "string option"
  app_intent_revision_id :: "string option"
  app_rollout_candidate_id :: "string option"
  app_rollout_generation_id :: "string option"
  app_source_acceptance_ref :: "string option"
  app_placement_approval_ref :: "string option"
  app_rollout_authorization_ref :: "string option"
  app_legacy_combined_approval_ref :: "string option"
  app_preflight_fingerprint :: "string option"
  app_latest_preflight_evidence_json :: "raw_json option"
  app_latest_operation_id :: "string option"
  app_active_operation_id :: "string option"
  app_active_operation_stage :: "app_active_stage option"
  app_active_operation_at :: "int option"
  app_active_generation_id :: "string option"
  app_pause_at :: "int option"
  app_pause_reason :: "string option"
  app_pause_origin :: "pause_origin"
  app_source_suspended_reason :: "string option"
  app_source_policy :: "source_policy"
  app_placement_policy :: "placement_policy"
  app_rollout_authorization_policy :: "rollout_authorization_policy"
  app_placement_policy_refusal_reason :: "placement_policy_reason option"
  app_placement_policy_refused_at :: "int option"
  app_poll_interval_secs :: "int option"
  app_next_poll_at :: "int option"
  app_attempt_seq :: "int"
  app_partial_json :: "raw_json option"
  app_failure_stage :: "app_failure_stage option"
  app_failure_class :: "string option"
  app_failure_at :: "int option"
  app_retry_at :: "int option"
  app_retry_count :: "int"
  app_suspended_at :: "int option"
  app_recovery_ref :: "string option"
  app_recovery_phase :: "recovery_phase option"
  app_interruption_stage :: "app_active_stage option"
  app_interruption_at :: "int option"
  app_interruption_operation_id :: "string option"
  app_interruption_generation_id :: "string option"
  app_evidence_fresh_at :: "int option"
  app_evidence_limitations_json :: "raw_json option"
  app_created_at :: "int"
  app_updated_at :: "int"

record gitops_generation_row =
  gen_id :: "string"
  gen_application_id :: "string"
  gen_commit_sha :: "string"
  gen_repo_url :: "string"
  gen_configured_ref :: "string"
  gen_resolved_ref_kind :: "ref_kind option"
  gen_repo_identity_json :: "raw_json"
  gen_manifest_version :: "int"
  gen_candidate_dir :: "string"
  gen_applied_dir :: "string"
  gen_expected_invocation_json :: "raw_json"
  gen_materialization_fingerprint :: "string"
  gen_validation_ok :: "int"
  gen_plan_blocked :: "int"
  gen_change_plan_fingerprint :: "string option"
  gen_operation_id :: "string"
  gen_trigger :: "string"
  gen_actor :: "string option"
  gen_previous_generation_id :: "string option"
  gen_redacted_limitations_json :: "raw_json"
  gen_portable_manifest_json :: "raw_json option"
  gen_compose_inputs_json :: "raw_json option"
  gen_source_policy_evidence_json :: "raw_json option"
  gen_security_policy_evidence_json :: "raw_json option"
  gen_support_requirements_json :: "raw_json option"
  gen_compatibility_requirements_json :: "raw_json option"
  gen_secret_capability_json :: "raw_json option"
  gen_created_at :: "int"

record gitops_artifact_set_row =
  art_id :: "string"
  art_generation_id :: "string"
  art_evidence_version :: "int"
  art_authoritative :: "int"
  art_qualification :: "artifact_qualification"
  art_evidence_json :: "raw_json"
  art_created_at :: "int"

record gitops_intent_revision_row =
  intent_id :: "string"
  intent_application_id :: "string"
  intent_blueprint_id :: "int"
  intent_compose_content_sha256 :: "string"
  intent_blueprint_revision :: "int"
  intent_deploy_stack_name :: "string"
  intent_selector_json :: "raw_json"
  intent_pinned_node_id :: "int option"
  intent_cordon_implications_json :: "raw_json"
  intent_rollout_strategy_json :: "raw_json"
  intent_runtime_drift_policy :: "string option"
  intent_stateful_policy_json :: "raw_json option"
  intent_health_failure_rollback_policy_json :: "raw_json option"
  intent_operation_id :: "string"
  intent_actor :: "string option"
  intent_created_at :: "int"

record gitops_rollout_candidate_row =
  cand_id :: "string"
  cand_application_id :: "string"
  cand_intent_revision_id :: "string"
  cand_compose_content_sha256 :: "string"
  cand_accepted_generation_id :: "string option"
  cand_artifact_set_id :: "string option"
  cand_required_targets_json :: "raw_json"
  cand_authoritative :: "int"
  cand_provenance :: "candidate_provenance"
  cand_operation_id :: "string"
  cand_created_at :: "int"

record gitops_rollout_generation_row =
  rgen_id :: "string"
  rgen_application_id :: "string"
  rgen_intent_revision_id :: "string"
  rgen_rollout_candidate_id :: "string"
  rgen_accepted_generation_id :: "string option"
  rgen_artifact_set_id :: "string option"
  rgen_placement_approval_ref :: "string option"
  rgen_source_acceptance_ref :: "string option"
  rgen_rollout_authorization_ref :: "string option"
  rgen_required_targets_json :: "raw_json"
  rgen_preflight_fingerprint :: "string option"
  rgen_preflight_evidence_json :: "raw_json option"
  rgen_rollout_strategy_json :: "raw_json"
  rgen_policy_snapshot_json :: "raw_json option"
  rgen_provenance :: "rollout_generation_provenance"
  rgen_supersedes_generation_id :: "string option"
  rgen_superseded_at :: "int option"
  rgen_withdrawn_at :: "int option"
  rgen_operation_id :: "string"
  rgen_actor :: "string option"
  rgen_trigger :: "string"
  rgen_created_at :: "int"

record gitops_approval_row =
  apv_id :: "string"
  apv_kind :: "approval_kind"
  apv_authority :: "approval_authority"
  apv_authoritative :: "int"
  apv_application_id :: "string"
  apv_generation_id :: "string option"
  apv_intent_revision_id :: "string option"
  apv_artifact_set_id :: "string option"
  apv_rollout_candidate_id :: "string option"
  apv_rollout_generation_id :: "string option"
  apv_source_acceptance_ref :: "string option"
  apv_placement_approval_ref :: "string option"
  apv_required_targets_json :: "raw_json option"
  apv_preflight_fingerprint :: "string option"
  apv_fingerprint :: "string option"
  apv_blast_json :: "raw_json option"
  apv_policy_provenance_json :: "raw_json option"
  apv_source_confirmation_json :: "raw_json option"
  apv_actor :: "string option"
  apv_created_at :: "int"

record gitops_target_current_row =
  tgt_application_id :: "string"
  tgt_node_id :: "int"
  tgt_target_status :: "target_status"
  tgt_desired_generation_id :: "string option"
  tgt_candidate_generation_id :: "string option"
  tgt_applied_generation_id :: "string option"
  tgt_deployed_generation_id :: "string option"
  tgt_healthy_generation_id :: "string option"
  tgt_last_health_status :: "health_verdict option"
  tgt_last_health_generation_id :: "string option"
  tgt_last_health_run_id :: "string option"
  tgt_pending_health_run_id :: "string option"
  tgt_health_attempts :: "int"
  tgt_health_stop_reason :: "health_stop_reason option"
  tgt_lkg_generation_id :: "string option"
  tgt_lkg_artifact_set_id :: "string option"
  tgt_lkg_unavailable_at :: "int option"
  tgt_lkg_unavailable_reason :: "lkg_unavailable_reason option"
  tgt_expected_artifact_set_id :: "string option"
  tgt_latest_artifact_set_id :: "string option"
  tgt_observed_artifact_identity_json :: "raw_json option"
  tgt_observed_invocation_json :: "raw_json option"
  tgt_intent_revision_id :: "string option"
  tgt_rollout_candidate_id :: "string option"
  tgt_rollout_generation_id :: "string option"
  tgt_source_acceptance_ref :: "string option"
  tgt_placement_approval_ref :: "string option"
  tgt_rollout_authorization_ref :: "string option"
  tgt_legacy_combined_approval_ref :: "string option"
  tgt_legacy_applied_revision :: "int option"
  tgt_connectivity :: "string option"
  tgt_latest_stage :: "string option"
  tgt_active_operation_id :: "string option"
  tgt_active_operation_stage :: "target_active_stage option"
  tgt_active_operation_at :: "int option"
  tgt_active_generation_id :: "string option"
  tgt_active_intent_revision_id :: "string option"
  tgt_active_rollout_candidate_id :: "string option"
  tgt_failure_stage :: "target_failure_stage option"
  tgt_failure_class :: "string option"
  tgt_failure_at :: "int option"
  tgt_recovery_ref :: "string option"
  tgt_recovery_generation_id :: "string option"
  tgt_recovery_phase :: "recovery_phase option"
  tgt_recovery_failure_class :: "string option"
  tgt_recovery_failure_at :: "int option"
  tgt_interruption_stage :: "target_active_stage option"
  tgt_interruption_at :: "int option"
  tgt_interruption_operation_id :: "string option"
  tgt_interruption_generation_id :: "string option"
  tgt_interruption_intent_revision_id :: "string option"
  tgt_interruption_rollout_candidate_id :: "string option"
  tgt_pause_at :: "int option"
  tgt_pause_reason :: "string option"
  tgt_retry_at :: "int option"
  tgt_suspended_at :: "int option"
  tgt_partial_json :: "raw_json option"
  tgt_evidence_limitations_json :: "raw_json option"
  tgt_updated_at :: "int"

datatype create_phase =
  Cph_pre_stack | Cph_stack_created | Cph_promoting | Cph_manifest_committed | Cph_pointers_committed

record gitops_create_checkpoint_row =
  ck_application_id :: "string"
  ck_stack_name :: "string"
  ck_phase :: "create_phase"
  ck_generation_id :: "string option"
  ck_operation_id :: "string"
  ck_repo_url :: "string"
  ck_branch :: "string"
  ck_compose_path :: "string"
  ck_compose_paths_json :: "raw_json"
  ck_context_dir :: "string option"
  ck_sync_env :: "int"
  ck_env_path :: "string option"
  ck_auth_type :: "string"
  ck_encrypted_token :: "string option"
  ck_encrypted_deploy_key :: "string option"
  ck_ssh_known_hosts_entry :: "string option"
  ck_ssh_host_key_fingerprint :: "string option"
  ck_encrypted_ca_bundle :: "string option"
  ck_auto_apply_on_webhook :: "int"
  ck_auto_deploy_on_apply :: "int"
  ck_commit_sha :: "string option"
  ck_applied_spec_json :: "raw_json option"
  ck_created_managed_root :: "int"
  ck_created_at :: "int"
  ck_updated_at :: "int"

section \<open>Rows outside the GitOps tables that the projection reads\<close>

text \<open>The columns of the Git source row the revision model reads (DatabaseService.ts, StackGitSource).\<close>

record stack_git_source =
  src_auto_apply_on_webhook :: bool
  src_auto_deploy_on_apply :: bool
  src_last_applied_commit_sha :: "string option"
  src_manifest_version :: "int option"
  src_manifest_state :: "string option"
  src_manifest_generation :: "string option"
  src_updated_at :: int

datatype health_run_status = Hr_observing | Hr_passed | Hr_failed | Hr_unknown

datatype health_run_scope = Hsc_stack | Hsc_service

text \<open>The columns of a health gate run the revision model reads (DatabaseService.ts, HealthGateRunRow).\<close>

record health_gate_run_row =
  run_id :: string
  run_node_id :: int
  run_stack_name :: string
  run_status :: health_run_status
  run_started_at :: int
  run_ended_at :: "int option"
  run_target_scope :: health_run_scope
  run_deployed_generation_id :: "string option"

end
