(* ===== verification/Source_Confirmation.thy ===== *)
theory Source_Confirmation
  imports Rows Json_Codec
begin

text \<open>
  The reviewed claim a source action carries (\<^verbatim>\<open>gitops/sourceConfirmation.ts\<close>): parsing it from a
  request, storing it on the acceptance, and comparing it with the live row.
\<close>

record source_confirmation =
  conf_placementApprovalRef :: "string option"
  conf_rolloutMayStart :: bool

datatype confirmation_drift = Drift_placement_changed | Drift_rollout_authorization_widened

datatype stored_source_confirmation =
  Conf_absent | Conf_present source_confirmation | Conf_unreadable

definition CONFIRMATION_STALE :: string where
  "CONFIRMATION_STALE = ''CONFIRMATION_STALE''"

text \<open>\<^verbatim>\<open>isApprovalRef\<close>: null or a non-empty string. The result is the reference when it is one.\<close>

definition isApprovalRef :: "json option \<Rightarrow> string option option" where
  "isApprovalRef v =
     (case v of
        Some JNull \<Rightarrow> Some None
      | Some (JStr s) \<Rightarrow> (if s \<noteq> [] then Some (Some s) else None)
      | _ \<Rightarrow> None)"

definition parseSourceConfirmation :: "json \<Rightarrow> string + source_confirmation" where
  "parseSourceConfirmation raw =
     (case as_record raw of
        None \<Rightarrow> Inl ''confirmation is required''
      | Some obj \<Rightarrow>
          (case Option.bind (prop_of obj ''rolloutMayStart'') as_bool of
             None \<Rightarrow> Inl ''confirmation.rolloutMayStart must be a boolean''
           | Some may \<Rightarrow>
               (case isApprovalRef (prop_of obj ''placementApprovalRef'') of
                  None \<Rightarrow> Inl ''confirmation.placementApprovalRef must be an approval id''
                | Some ref \<Rightarrow> Inr \<lparr>conf_placementApprovalRef = ref, conf_rolloutMayStart = may\<rparr>)))"

definition sourceConfirmationDrift ::
    "gitops_application_row \<Rightarrow> source_confirmation \<Rightarrow> confirmation_drift option" where
  "sourceConfirmationDrift app confirmation =
     (if app_placement_approval_ref app \<noteq> conf_placementApprovalRef confirmation
      then Some Drift_placement_changed
      else if \<not> conf_rolloutMayStart confirmation \<and> app_rollout_authorization_policy app = Ra_automatic
      then Some Drift_rollout_authorization_widened
      else None)"

definition driftSentence :: "confirmation_drift \<Rightarrow> string" where
  "driftSentence drift =
     (if drift = Drift_placement_changed
      then ''The approved placement changed since you reviewed it; review the current approval and confirm again.''
      else ''Rollout authorization now authorizes without an operator, so this could start a rollout; review it and confirm again.'')"

definition driftHoldReason :: "confirmation_drift \<Rightarrow> string" where
  "driftHoldReason drift =
     (if drift = Drift_placement_changed
      then ''The approved placement changed after this was confirmed; review the current placement, then resume the rollout''
      else ''Rollout authorization started authorizing without an operator after this was confirmed; review it, then resume the rollout'')"

definition encodeSourceConfirmation :: "source_confirmation \<Rightarrow> raw_json" where
  "encodeSourceConfirmation c =
     Parsed (JObj [(''placementApprovalRef'', nullable_json JStr (conf_placementApprovalRef c)),
                   (''rolloutMayStart'', JBool (conf_rolloutMayStart c))])"

definition decodeSourceConfirmation :: "raw_json option \<Rightarrow> stored_source_confirmation" where
  "decodeSourceConfirmation raw =
     (case raw of
        None \<Rightarrow> Conf_absent
      | Some (Unparsable s) \<Rightarrow> (if s = [] then Conf_absent else Conf_unreadable)
      | Some (Parsed v) \<Rightarrow>
          (case parseSourceConfirmation v of Inl _ \<Rightarrow> Conf_unreadable | Inr c \<Rightarrow> Conf_present c))"

lemma decode_encode_confirmation:
  "decodeSourceConfirmation (Some (encodeSourceConfirmation c)) =
     (if conf_placementApprovalRef c = Some [] then Conf_unreadable else Conf_present c)"
  by (cases "conf_placementApprovalRef c")
    (auto simp: decodeSourceConfirmation_def encodeSourceConfirmation_def parseSourceConfirmation_def
      prop_of_def nullable_json_def isApprovalRef_def)

lemma no_drift_iff:
  "sourceConfirmationDrift app c = None \<longleftrightarrow>
     app_placement_approval_ref app = conf_placementApprovalRef c
     \<and> (app_rollout_authorization_policy app = Ra_automatic \<longrightarrow> conf_rolloutMayStart c)"
  by (auto simp: sourceConfirmationDrift_def)

end
