(* ===== verification/Notifications.thy ===== *)
theory Notifications
  imports Rows Json_Codec
begin

text \<open>
  Which committed transitions are announced, and the payload that carries an announcement
  (\<^verbatim>\<open>gitops/notifications.ts\<close>, \<^verbatim>\<open>gitops/attemptPayload.ts\<close>, and the outcome vocabulary of
  \<^verbatim>\<open>gitops/outcomes.ts\<close> it reads). A stage and an outcome are the strings of their columns.
\<close>

section \<open>Outcomes\<close>

definition NO_NEWS_SETTLED_OUTCOMES :: "string list" where
  "NO_NEWS_SETTLED_OUTCOMES =
     [''unknown'', ''no_source_change'', ''candidate_already_fetched'', ''suspended'', ''superseded'',
      ''retry_scheduled'']"

definition settledOutcomeCarriesNews :: "string \<Rightarrow> bool" where
  "settledOutcomeCarriesNews outcome = (outcome \<notin> set NO_NEWS_SETTLED_OUTCOMES)"

section \<open>The outbox plan\<close>

definition NOTIFIABLE_GITOPS_STAGES :: "string list" where
  "NOTIFIABLE_GITOPS_STAGES =
     [''source_accepted'', ''placement_approved'', ''rollout_authorized'', ''rollout_paused'',
      ''rollout_unpaused'', ''rollout_generation_superseded'', ''rollback_in_progress'',
      ''rollback_completed'', ''rollback_partial_failed'', ''blueprint_state_review'',
      ''health_rollout_policy_set'', ''placement_policy_changed'',
      ''rollout_authorization_policy_changed'']"

definition isNotifiableGitOpsStage :: "string \<Rightarrow> bool" where
  "isNotifiableGitOpsStage v = (v \<in> set NOTIFIABLE_GITOPS_STAGES)"

datatype gitops_outbox_plan = Plan_settled | Plan_event string

definition string_prop_or :: "(string \<times> json) list \<Rightarrow> string \<Rightarrow> string \<Rightarrow> string" where
  "string_prop_or after key fallback = nullish (Option.bind (prop_of after key) as_string) fallback"

definition gitOpsOutboxPlan ::
    "string \<Rightarrow> target_mode \<Rightarrow> (string \<times> json) list \<Rightarrow> gitops_outbox_plan option" where
  "gitOpsOutboxPlan stage targetMode after =
     (if stage = ''source_reconcile_settled'' then
        (if \<not> settledOutcomeCarriesNews (string_prop_or after ''outcome'' ''unknown'') then None
         else Some Plan_settled)
      else if \<not> isNotifiableGitOpsStage stage then None
      else if stage = ''source_accepted'' \<and> targetMode = Direct then None
      else Some (Plan_event stage))"

datatype settled_notification_family = Fam_ready | Fam_blocked | Fam_failed

datatype notification_level = Lv_info | Lv_warning | Lv_error

definition SETTLED_FAMILY_NOTIFICATION :: "settled_notification_family \<Rightarrow> string \<times> notification_level" where
  "SETTLED_FAMILY_NOTIFICATION f =
     (case f of Fam_ready \<Rightarrow> (''git_pull_ready'', Lv_info)
      | Fam_blocked \<Rightarrow> (''git_plan_blocked'', Lv_warning)
      | Fam_failed \<Rightarrow> (''git_pull_failed'', Lv_error))"

definition settledNotificationFamily :: "string \<Rightarrow> settled_notification_family" where
  "settledNotificationFamily outcome =
     (if outcome = ''blocked'' then Fam_blocked
      else if outcome = ''failed_previous_intact'' \<or> outcome = ''recovery_required'' \<or> outcome = ''unknown''
      then Fam_failed
      else Fam_ready)"

datatype gitops_candidate_state = Cs_awaiting_review | Cs_blocked | Cs_held

definition CANDIDATE_STATES :: "(string \<times> gitops_candidate_state) list" where
  "CANDIDATE_STATES =
     [(''awaiting_review'', Cs_awaiting_review), (''blocked'', Cs_blocked), (''held'', Cs_held)]"

definition candidate_state_text :: "gitops_candidate_state \<Rightarrow> string" where
  "candidate_state_text s =
     (case s of Cs_awaiting_review \<Rightarrow> ''awaiting_review'' | Cs_blocked \<Rightarrow> ''blocked'' | Cs_held \<Rightarrow> ''held'')"

record gitops_candidate_identity =
  ci_applicationId :: string
  ci_generationId :: string
  ci_state :: gitops_candidate_state

definition gitOpsAttemptNotificationKey :: "string \<Rightarrow> gitops_candidate_identity option \<Rightarrow> string" where
  "gitOpsAttemptNotificationKey operationId candidate =
     (case candidate of
        Some c \<Rightarrow> ''gitops:candidate:'' @ ci_applicationId c @ '':'' @ ci_generationId c @ '':''
                    @ candidate_state_text (ci_state c)
      | None \<Rightarrow> ''gitops:attempt:'' @ operationId)"

definition gitOpsCandidateState :: "gitops_application_row \<Rightarrow> gitops_candidate_state option" where
  "gitOpsCandidateState app =
     (if \<not> truthy_str (app_candidate_generation_id app) then None
      else if app_candidate_plan_blocked app = 1 then Some Cs_blocked
      else if app_review_block_reason app \<noteq> None then Some Cs_held
      else Some Cs_awaiting_review)"

record gitops_notification_meta =
  nm_category :: string
  nm_level :: notification_level
  nm_phrase :: string

definition GITOPS_NOTIFICATION_META :: "(string \<times> gitops_notification_meta) list" where
  "GITOPS_NOTIFICATION_META =
     map (\<lambda>(stage, c, l, p). (stage, \<lparr>nm_category = c, nm_level = l, nm_phrase = p\<rparr>))
     [(''source_accepted'', ''gitops_source_accepted'', Lv_info, ''source accepted''),
      (''placement_approved'', ''gitops_placement_approved'', Lv_info, ''placement approved''),
      (''rollout_authorized'', ''gitops_rollout_authorized'', Lv_info, ''rollout authorized''),
      (''rollout_paused'', ''gitops_rollout_paused'', Lv_warning, ''rollout paused''),
      (''rollout_unpaused'', ''gitops_rollout_resumed'', Lv_info, ''rollout resumed''),
      (''rollout_generation_superseded'', ''gitops_rollout_superseded'', Lv_warning, ''rollout superseded''),
      (''rollback_in_progress'', ''gitops_rollback_started'', Lv_warning, ''rollback started''),
      (''rollback_completed'', ''gitops_rollback_completed'', Lv_info, ''rollback completed''),
      (''rollback_partial_failed'', ''gitops_rollback_partial_failed'', Lv_error, ''rollback partially failed''),
      (''blueprint_state_review'', ''gitops_stateful_confirmation'', Lv_warning,
        ''stateful deploy awaiting confirmation''),
      (''health_rollout_policy_set'', ''gitops_health_rollout_policy_set'', Lv_info,
        ''health rollout policy changed''),
      (''placement_policy_changed'', ''gitops_placement_policy_changed'', Lv_info, ''placement policy changed''),
      (''rollout_authorization_policy_changed'', ''gitops_rollout_authorization_policy_changed'', Lv_info,
        ''rollout authorization policy changed'')]"

definition gitOpsPauseReason :: "(string \<times> json) list \<Rightarrow> string option" where
  "gitOpsPauseReason after =
     (case Option.bind (prop_of after ''pauseReason'') as_string of
        None \<Rightarrow> None | Some s \<Rightarrow> (if s = [] then None else Some s))"

section \<open>Payloads\<close>

definition SETTLED_ATTEMPT_PAYLOAD_VERSION :: int where
  "SETTLED_ATTEMPT_PAYLOAD_VERSION = 1"

definition GITOPS_EVENT_PAYLOAD_VERSION :: int where
  "GITOPS_EVENT_PAYLOAD_VERSION = 2"

text \<open>The \<^verbatim>\<open>version\<close> field has one value and is left out of the records.\<close>

record settled_attempt_payload =
  sp_settledHistoryId :: string
  sp_applicationId :: string
  sp_operationId :: string
  sp_stackName :: "string option"
  sp_nodeId :: "js_number option"
  sp_outcome :: string
  sp_nextAction :: string
  sp_reason :: "string option"
  sp_trigger :: string
  sp_actor :: "string option"
  sp_at :: js_number
  sp_candidateGenerationId :: "string option"
  sp_candidateState :: "gitops_candidate_state option"

record gitops_event_payload =
  ep_historyId :: string
  ep_applicationId :: string
  ep_operationId :: string
  ep_stage :: string
  ep_stackName :: "string option"
  ep_nodeId :: "js_number option"
  ep_actor :: "string option"
  ep_reason :: "string option"
  ep_at :: js_number

definition encodeSettledAttemptPayload :: "settled_attempt_payload \<Rightarrow> raw_json" where
  "encodeSettledAttemptPayload p =
     encodeGitOpsJson (JObj
       [(''version'', JNum (NInt SETTLED_ATTEMPT_PAYLOAD_VERSION)),
        (''settledHistoryId'', JStr (sp_settledHistoryId p)),
        (''applicationId'', JStr (sp_applicationId p)),
        (''operationId'', JStr (sp_operationId p)),
        (''stackName'', nullable_json JStr (sp_stackName p)),
        (''nodeId'', nullable_json JNum (sp_nodeId p)),
        (''outcome'', JStr (sp_outcome p)),
        (''nextAction'', JStr (sp_nextAction p)),
        (''reason'', nullable_json JStr (sp_reason p)),
        (''trigger'', JStr (sp_trigger p)),
        (''actor'', nullable_json JStr (sp_actor p)),
        (''at'', JNum (sp_at p)),
        (''candidateGenerationId'', nullable_json JStr (sp_candidateGenerationId p)),
        (''candidateState'', nullable_json (\<lambda>s. JStr (candidate_state_text s)) (sp_candidateState p))])"

definition encodeGitOpsEventPayload :: "gitops_event_payload \<Rightarrow> raw_json" where
  "encodeGitOpsEventPayload p =
     encodeGitOpsJson (JObj
       [(''version'', JNum (NInt GITOPS_EVENT_PAYLOAD_VERSION)),
        (''historyId'', JStr (ep_historyId p)),
        (''applicationId'', JStr (ep_applicationId p)),
        (''operationId'', JStr (ep_operationId p)),
        (''stage'', JStr (ep_stage p)),
        (''stackName'', nullable_json JStr (ep_stackName p)),
        (''nodeId'', nullable_json JNum (ep_nodeId p)),
        (''actor'', nullable_json JStr (ep_actor p)),
        (''reason'', nullable_json JStr (ep_reason p)),
        (''at'', JNum (ep_at p))])"

text \<open>The type tests of the decoders. A required property that is absent is \<^verbatim>\<open>undefined\<close>, which is
  neither null nor of the wanted type.\<close>

definition as_number :: "json \<Rightarrow> js_number option" where
  "as_number v = (case v of JNum n \<Rightarrow> Some n | _ \<Rightarrow> None)"

definition isNonEmptyString :: "json option \<Rightarrow> bool" where
  "isNonEmptyString v = (case Option.bind v as_string of None \<Rightarrow> False | Some s \<Rightarrow> s \<noteq> [])"

definition null_or :: "(json \<Rightarrow> 'a option) \<Rightarrow> json option \<Rightarrow> 'a option option" where
  "null_or view v =
     (case v of None \<Rightarrow> None | Some JNull \<Rightarrow> Some None | Some j \<Rightarrow> map_option Some (view j))"

definition absent_or_null_or :: "(json \<Rightarrow> 'a option) \<Rightarrow> json option \<Rightarrow> 'a option option" where
  "absent_or_null_or view v = (if v = None then Some None else null_or view v)"

definition isCandidateState :: "json \<Rightarrow> gitops_candidate_state option" where
  "isCandidateState v = Option.bind (as_string v) (map_of CANDIDATE_STATES)"

definition str_of :: "json option \<Rightarrow> string" where
  "str_of v = nullish (Option.bind v as_string) []"

definition decodeSettledAttemptPayload :: "raw_json \<Rightarrow> int \<Rightarrow> string + settled_attempt_payload" where
  "decodeSettledAttemptPayload raw version =
     (let invalid = Inl ''settled_attempt_payload_invalid''
      in if version \<noteq> SETTLED_ATTEMPT_PAYLOAD_VERSION
         then Inl (''settled_attempt_payload_version_unsupported:'' @ show_int version)
         else (case decodeGitOpsJson raw of
           Inl _ \<Rightarrow> Inl ''settled_attempt_payload_unparseable''
         | Inr decoded \<Rightarrow>
           (case as_record decoded of
             None \<Rightarrow> invalid
           | Some obj \<Rightarrow>
             (let p = prop_of obj
              in if p ''version'' \<noteq> Some (JNum (NInt SETTLED_ATTEMPT_PAYLOAD_VERSION)) then invalid
                 else if \<not> isNonEmptyString (p ''settledHistoryId'') \<or> \<not> isNonEmptyString (p ''applicationId'')
                   \<or> \<not> isNonEmptyString (p ''operationId'') \<or> \<not> isNonEmptyString (p ''outcome'')
                   \<or> \<not> isNonEmptyString (p ''nextAction'') \<or> \<not> isNonEmptyString (p ''trigger'') then invalid
                 else (case (Option.bind (p ''at'') as_number, null_or as_string (p ''stackName''),
                      null_or as_number (p ''nodeId''), null_or as_string (p ''reason''),
                      null_or as_string (p ''actor''),
                      absent_or_null_or as_string (p ''candidateGenerationId''),
                      absent_or_null_or isCandidateState (p ''candidateState'')) of
                    (Some time, Some stackName, Some nodeId, Some reason, Some actor, Some gen, Some state) \<Rightarrow>
                      Inr \<lparr>sp_settledHistoryId = str_of (p ''settledHistoryId''),
                        sp_applicationId = str_of (p ''applicationId''),
                        sp_operationId = str_of (p ''operationId''), sp_stackName = stackName,
                        sp_nodeId = nodeId, sp_outcome = str_of (p ''outcome''),
                        sp_nextAction = str_of (p ''nextAction''), sp_reason = reason,
                        sp_trigger = str_of (p ''trigger''), sp_actor = actor, sp_at = time,
                        sp_candidateGenerationId = gen, sp_candidateState = state\<rparr>
                  | _ \<Rightarrow> invalid)))))"

definition decodeGitOpsEventPayload :: "raw_json \<Rightarrow> int \<Rightarrow> string + gitops_event_payload" where
  "decodeGitOpsEventPayload raw version =
     (let invalid = Inl ''gitops_event_payload_invalid''
      in if version \<noteq> GITOPS_EVENT_PAYLOAD_VERSION
         then Inl (''gitops_event_payload_version_unsupported:'' @ show_int version)
         else (case decodeGitOpsJson raw of
           Inl _ \<Rightarrow> Inl ''gitops_event_payload_unparseable''
         | Inr decoded \<Rightarrow>
           (case as_record decoded of
             None \<Rightarrow> invalid
           | Some obj \<Rightarrow>
             (let p = prop_of obj
              in if p ''version'' \<noteq> Some (JNum (NInt GITOPS_EVENT_PAYLOAD_VERSION)) then invalid
                 else if \<not> isNonEmptyString (p ''historyId'') \<or> \<not> isNonEmptyString (p ''applicationId'')
                   \<or> \<not> isNonEmptyString (p ''operationId'') then invalid
                 else (case (Option.bind (p ''stage'') as_string, Option.bind (p ''at'') as_number,
                      null_or as_string (p ''stackName''), null_or as_number (p ''nodeId''),
                      null_or as_string (p ''actor''), null_or as_string (p ''reason'')) of
                    (Some stage, Some time, Some stackName, Some nodeId, Some actor, Some reason) \<Rightarrow>
                      (if \<not> isNotifiableGitOpsStage stage then invalid
                       else Inr \<lparr>ep_historyId = str_of (p ''historyId''),
                         ep_applicationId = str_of (p ''applicationId''),
                         ep_operationId = str_of (p ''operationId''), ep_stage = stage,
                         ep_stackName = stackName, ep_nodeId = nodeId, ep_actor = actor,
                         ep_reason = reason, ep_at = time\<rparr>)
                  | _ \<Rightarrow> invalid)))))"

section \<open>Round trips\<close>

lemma null_or_nullable [simp]:
  "null_or as_string (Some (nullable_json JStr x)) = Some x"
  "null_or as_number (Some (nullable_json JNum n)) = Some n"
  "null_or isCandidateState (Some (nullable_json (\<lambda>s. JStr (candidate_state_text s)) c)) = Some c"
  subgoal by (cases x) (simp_all add: null_or_def nullable_json_def)
  subgoal by (cases n) (simp_all add: null_or_def nullable_json_def as_number_def)
  subgoal by (cases c; cases "the c")
      (simp_all add: null_or_def nullable_json_def isCandidateState_def CANDIDATE_STATES_def candidate_state_text_def)
  done

lemma absent_or_null_or_Some [simp]: "absent_or_null_or view (Some v) = null_or view (Some v)"
  by (simp add: absent_or_null_or_def)

lemma isNonEmptyString_str [simp]: "isNonEmptyString (Some (JStr s)) = (s \<noteq> [])"
  by (simp add: isNonEmptyString_def)

lemma str_of_str [simp]: "str_of (Some (JStr s)) = s"
  by (simp add: str_of_def)

definition settled_complete :: "settled_attempt_payload \<Rightarrow> bool" where
  "settled_complete p \<longleftrightarrow> sp_settledHistoryId p \<noteq> [] \<and> sp_applicationId p \<noteq> [] \<and> sp_operationId p \<noteq> []
     \<and> sp_outcome p \<noteq> [] \<and> sp_nextAction p \<noteq> [] \<and> sp_trigger p \<noteq> [] \<and> sp_at p \<noteq> NInf"

lemma decode_encode_settled:
  "sp_nodeId p \<noteq> Some NInf \<Longrightarrow>
   decodeSettledAttemptPayload (encodeSettledAttemptPayload p) SETTLED_ATTEMPT_PAYLOAD_VERSION =
     (if settled_complete p then Inr p else Inl ''settled_attempt_payload_invalid'')"
  by (simp add: decodeSettledAttemptPayload_def encodeSettledAttemptPayload_def settled_complete_def
      encodeGitOpsJson_def prop_of_def as_number_def Let_def)

definition event_complete :: "gitops_event_payload \<Rightarrow> bool" where
  "event_complete p \<longleftrightarrow> ep_historyId p \<noteq> [] \<and> ep_applicationId p \<noteq> [] \<and> ep_operationId p \<noteq> []
     \<and> isNotifiableGitOpsStage (ep_stage p) \<and> ep_at p \<noteq> NInf"

lemma decode_encode_event:
  "ep_nodeId p \<noteq> Some NInf \<Longrightarrow>
   decodeGitOpsEventPayload (encodeGitOpsEventPayload p) GITOPS_EVENT_PAYLOAD_VERSION =
     (if event_complete p then Inr p else Inl ''gitops_event_payload_invalid'')"
  by (simp add: decodeGitOpsEventPayload_def encodeGitOpsEventPayload_def event_complete_def
      encodeGitOpsJson_def prop_of_def as_number_def Let_def)

lemma every_planned_stage_has_text:
  "isNotifiableGitOpsStage stage \<longleftrightarrow> map_of GITOPS_NOTIFICATION_META stage \<noteq> None"
  by (simp add: isNotifiableGitOpsStage_def NOTIFIABLE_GITOPS_STAGES_def GITOPS_NOTIFICATION_META_def)

end
