(* ===== verification/Store.thy ===== *)
theory Store
  imports Artifact_Evidence Source_Confirmation Notifications
begin

text \<open>
  The GitOps store (\<^verbatim>\<open>gitops/store.ts\<close>): the tables as lists of rows in insertion (rowid) order, the
  lookups and ordered scans the model reads them by, the guarded inserts and updates, and the
  resolution of approval references. A primary-key conflict of an \<^verbatim>\<open>INSERT\<close> throws; the CHECK and
  foreign-key clauses of the schema are not modelled.
\<close>

section \<open>Tables\<close>

text \<open>An appended audit row (types.ts, GitOpsHistoryRow). The four columns no writer fills
  (\<^verbatim>\<open>validation_json\<close>, \<^verbatim>\<open>per_target_results_json\<close>, \<^verbatim>\<open>health_run_id\<close>, \<^verbatim>\<open>health_snapshot_json\<close>) are always null
  and left out.\<close>

datatype history_outcome =
  Ho_committed | Ho_failed | Ho_skipped | Ho_superseded | Ho_recovered | Ho_unknown

record gitops_history_row =
  his_id :: string
  his_created_at :: int
  his_application_id :: string
  his_target_mode :: target_mode
  his_lifecycle_key :: string
  his_stack_name :: "string option"
  his_blueprint_id :: "int option"
  his_node_id :: "int option"
  his_dedupe_target :: string
  his_repo_url :: "string option"
  his_configured_ref :: "string option"
  his_repo_identity_json :: "raw_json option"
  his_commit_sha :: "string option"
  his_generation_id :: "string option"
  his_artifact_set_id :: "string option"
  his_intent_revision_id :: "string option"
  his_rollout_candidate_id :: "string option"
  his_rollout_generation_id :: "string option"
  his_source_acceptance_ref :: "string option"
  his_placement_approval_ref :: "string option"
  his_rollout_authorization_ref :: "string option"
  his_legacy_combined_approval_ref :: "string option"
  his_operation_id :: string
  his_stage :: string
  his_outcome :: history_outcome
  his_trigger :: string
  his_actor :: "string option"
  his_before_json :: raw_json
  his_after_json :: raw_json
  his_required_targets_json :: "raw_json option"
  his_invocation_observed_json :: "raw_json option"
  his_recovery_ref :: "string option"
  his_redacted_reason_class :: "string option"

text \<open>A row of the transactional outbox (outbox.ts), of the notification history and of the SOPS identity
  table; of the last, the columns that bind an identity.\<close>

record outbox_row =
  obx_settled_history_id :: string
  obx_payload_json :: raw_json
  obx_payload_version :: int
  obx_created_at :: js_number
  obx_updated_at :: js_number
  obx_drained_at :: "js_number option"

record notification_row =
  ntf_node_id :: js_number
  ntf_level :: notification_level
  ntf_message :: string
  ntf_timestamp :: js_number
  ntf_is_read :: bool
  ntf_stack_name :: "string option"
  ntf_category :: string
  ntf_actor_username :: "string option"
  ntf_gitops_operation_id :: "string option"
  ntf_dedupe_key :: "string option"

record sops_identity_row =
  sid_id :: string
  sid_application_id :: string
  sid_stack_name :: string
  sid_recipient :: string

record gitops_db =
  db_applications :: "gitops_application_row list"
  db_generations :: "gitops_generation_row list"
  db_artifact_sets :: "gitops_artifact_set_row list"
  db_intents :: "gitops_intent_revision_row list"
  db_candidates :: "gitops_rollout_candidate_row list"
  db_rollout_generations :: "gitops_rollout_generation_row list"
  db_approvals :: "gitops_approval_row list"
  db_targets :: "gitops_target_current_row list"
  db_history :: "gitops_history_row list"
  db_outbox :: "outbox_row list"
  db_notifications :: "notification_row list"
  db_sops_identities :: "sops_identity_row list"
  db_blueprint_names :: "(int \<times> string) list"
  db_git_sources :: "(string \<times> stack_git_source) list"
  db_health_runs :: "health_gate_run_row list"
  db_create_checkpoints :: "gitops_create_checkpoint_row list"

definition CONSTRAINT_PRIMARYKEY :: js_error where
  "CONSTRAINT_PRIMARYKEY = PlainError ''UNIQUE constraint failed''"

text \<open>\<^verbatim>\<open>ORDER BY k DESC\<close> with ties broken by the id descending: the first row of the scan.\<close>

definition newest_by :: "('r \<Rightarrow> int) \<Rightarrow> ('r \<Rightarrow> string) \<Rightarrow> 'r list \<Rightarrow> 'r option" where
  "newest_by stamp ident rows =
     (case js_sort (\<lambda>a b. if stamp a \<noteq> stamp b then stamp b - stamp a else code_unit_cmp (ident b) (ident a)) rows of
        [] \<Rightarrow> None
      | r # _ \<Rightarrow> Some r)"

section \<open>Lookups\<close>

definition getApplication :: "gitops_db \<Rightarrow> string \<Rightarrow> gitops_application_row option" where
  "getApplication db i = find (\<lambda>r. app_id r = i) (db_applications db)"

definition live_lifecycle :: "gitops_application_row \<Rightarrow> bool" where
  "live_lifecycle r = (app_lifecycle_status r = Lc_active \<or> app_lifecycle_status r = Lc_creating)"

definition blueprint_modes :: "gitops_application_row \<Rightarrow> bool" where
  "blueprint_modes r = (app_target_mode r = Inline_blueprint \<or> app_target_mode r = Blueprint)"

definition assertNoLiveBlueprintApplication ::
    "gitops_db \<Rightarrow> int \<Rightarrow> (string \<times> target_mode \<times> lifecycle_status) option" where
  "assertNoLiveBlueprintApplication db b =
     map_option (\<lambda>r. (app_id r, app_target_mode r, app_lifecycle_status r))
       (find (\<lambda>r. app_blueprint_id r = Some b \<and> live_lifecycle r \<and> blueprint_modes r) (db_applications db))"

definition getLiveDirectApplication :: "gitops_db \<Rightarrow> string \<Rightarrow> gitops_application_row option" where
  "getLiveDirectApplication db s =
     find (\<lambda>r. app_stack_name r = Some s \<and> app_target_mode r = Direct \<and> live_lifecycle r)
       (db_applications db)"

definition getLiveBlueprintApplication :: "gitops_db \<Rightarrow> int \<Rightarrow> gitops_application_row option" where
  "getLiveBlueprintApplication db b =
     find (\<lambda>r. app_blueprint_id r = Some b \<and> blueprint_modes r \<and> live_lifecycle r) (db_applications db)"

definition getIntentRevision :: "gitops_db \<Rightarrow> string \<Rightarrow> gitops_intent_revision_row option" where
  "getIntentRevision db i = find (\<lambda>r. intent_id r = i) (db_intents db)"

definition getLiveBlueprintApplicationByDeployStack ::
    "gitops_db \<Rightarrow> string \<Rightarrow> gitops_application_row option" where
  "getLiveBlueprintApplicationByDeployStack db s =
     find (\<lambda>r. (case Option.bind (app_intent_revision_id r) (getIntentRevision db) of
                  None \<Rightarrow> False
                | Some i \<Rightarrow> intent_deploy_stack_name i = s)
               \<and> blueprint_modes r \<and> live_lifecycle r) (db_applications db)"

definition getLiveBlueprintApplicationBySourceStack ::
    "gitops_db \<Rightarrow> string \<Rightarrow> gitops_application_row option" where
  "getLiveBlueprintApplicationBySourceStack db s =
     find (\<lambda>r. app_configured_source_stack_name r = Some s \<and> blueprint_modes r \<and> live_lifecycle r)
       (db_applications db)"

definition getLiveSourceApplication :: "gitops_db \<Rightarrow> string \<Rightarrow> gitops_application_row option" where
  "getLiveSourceApplication db s =
     nullish_opt (getLiveDirectApplication db s) (getLiveBlueprintApplicationBySourceStack db s)"

definition getGeneration :: "gitops_db \<Rightarrow> string \<Rightarrow> gitops_generation_row option" where
  "getGeneration db i = find (\<lambda>r. gen_id r = i) (db_generations db)"

definition getStackGitSource :: "gitops_db \<Rightarrow> string \<Rightarrow> stack_git_source option" where
  "getStackGitSource db s = map_of (db_git_sources db) s"

definition getLatestStackHealthRun :: "gitops_db \<Rightarrow> int \<Rightarrow> string \<Rightarrow> health_gate_run_row option" where
  "getLatestStackHealthRun db n s =
     newest_by run_started_at run_id
       (filter (\<lambda>r. run_node_id r = n \<and> run_stack_name r = s \<and> run_target_scope r = Hsc_stack)
         (db_health_runs db))"

definition getArtifactSet :: "gitops_db \<Rightarrow> string \<Rightarrow> gitops_artifact_set_row option" where
  "getArtifactSet db i = find (\<lambda>r. art_id r = i) (db_artifact_sets db)"

definition newestArtifactSetIdForGeneration :: "gitops_db \<Rightarrow> string \<Rightarrow> string option" where
  "newestArtifactSetIdForGeneration db g =
     (case js_sort (\<lambda>a b. art_evidence_version b - art_evidence_version a)
             (filter (\<lambda>r. art_generation_id r = g) (db_artifact_sets db)) of
        [] \<Rightarrow> None
      | r # _ \<Rightarrow> Some (art_id r))"

definition getRolloutCandidate :: "gitops_db \<Rightarrow> string \<Rightarrow> gitops_rollout_candidate_row option" where
  "getRolloutCandidate db i = find (\<lambda>r. cand_id r = i) (db_candidates db)"

definition getRolloutGeneration :: "gitops_db \<Rightarrow> string \<Rightarrow> gitops_rollout_generation_row option" where
  "getRolloutGeneration db i = find (\<lambda>r. rgen_id r = i) (db_rollout_generations db)"

definition getApproval :: "gitops_db \<Rightarrow> string \<Rightarrow> gitops_approval_row option" where
  "getApproval db i = find (\<lambda>r. apv_id r = i) (db_approvals db)"

definition latestPlacementApproval :: "gitops_db \<Rightarrow> string \<Rightarrow> gitops_approval_row option" where
  "latestPlacementApproval db a =
     newest_by apv_created_at apv_id
       (filter (\<lambda>r. apv_application_id r = a \<and> apv_kind r = Ak_placement_approval) (db_approvals db))"

definition hasEverHadPlacementAuthority :: "gitops_db \<Rightarrow> string \<Rightarrow> bool" where
  "hasEverHadPlacementAuthority db a =
     (\<exists>r \<in> set (db_approvals db). apv_application_id r = a
        \<and> (apv_kind r = Ak_placement_approval \<or> apv_kind r = Ak_legacy_combined))"

definition hasPlacementApprovalFor :: "gitops_db \<Rightarrow> string \<Rightarrow> string \<Rightarrow> string \<Rightarrow> bool" where
  "hasPlacementApprovalFor db a intent cand =
     (\<exists>r \<in> set (db_approvals db). apv_application_id r = a \<and> apv_kind r = Ak_placement_approval
        \<and> apv_intent_revision_id r = Some intent \<and> apv_rollout_candidate_id r = Some cand)"

definition getTarget :: "gitops_db \<Rightarrow> string \<Rightarrow> int \<Rightarrow> gitops_target_current_row option" where
  "getTarget db a n = find (\<lambda>r. tgt_application_id r = a \<and> tgt_node_id r = n) (db_targets db)"

definition listTargets :: "gitops_db \<Rightarrow> string \<Rightarrow> gitops_target_current_row list" where
  "listTargets db a =
     js_sort (num_cmp tgt_node_id) (filter (\<lambda>r. tgt_application_id r = a) (db_targets db))"

definition listActiveTargetsForNode :: "gitops_db \<Rightarrow> int \<Rightarrow> gitops_target_current_row list" where
  "listActiveTargetsForNode db n =
     js_sort (\<lambda>a b. code_unit_cmp (tgt_application_id a) (tgt_application_id b))
       (filter (\<lambda>r. tgt_node_id r = n \<and> tgt_target_status r = Ts_active) (db_targets db))"

definition newestSourceAcceptanceId :: "gitops_db \<Rightarrow> string \<Rightarrow> string \<Rightarrow> string option" where
  "newestSourceAcceptanceId db a g =
     map_option apv_id (newest_by apv_created_at apv_id
       (filter (\<lambda>r. apv_application_id r = a \<and> apv_kind r = Ak_source_acceptance
                    \<and> apv_authoritative r = 1 \<and> apv_generation_id r = Some g) (db_approvals db)))"

text \<open>The two due scans of the controller.\<close>

definition SOURCE_APPLICATION_MODE_SQL :: "gitops_application_row \<Rightarrow> bool" where
  "SOURCE_APPLICATION_MODE_SQL r =
     (app_target_mode r = Direct
      \<or> (app_target_mode r = Blueprint \<and> app_configured_source_stack_name r \<noteq> None))"

definition SOURCES_DUE_FOR_POLL_SQL :: "int \<Rightarrow> gitops_application_row \<Rightarrow> bool" where
  "SOURCES_DUE_FOR_POLL_SQL now r =
     (SOURCE_APPLICATION_MODE_SQL r \<and> app_lifecycle_status r = Lc_active \<and> app_suspended_at r = None
      \<and> app_active_operation_stage r = None
      \<and> (case app_next_poll_at r of None \<Rightarrow> False | Some t \<Rightarrow> t \<le> now)
      \<and> app_retry_at r = None)"

definition APPLICATIONS_DUE_FOR_RETRY_SQL :: "int \<Rightarrow> gitops_application_row \<Rightarrow> bool" where
  "APPLICATIONS_DUE_FOR_RETRY_SQL now r =
     ((case app_retry_at r of None \<Rightarrow> False | Some t \<Rightarrow> t \<le> now) \<and> SOURCE_APPLICATION_MODE_SQL r
      \<and> app_lifecycle_status r = Lc_active \<and> app_suspended_at r = None
      \<and> app_active_operation_stage r = None)"

definition listSourcesDueForPoll :: "gitops_db \<Rightarrow> int \<Rightarrow> nat \<Rightarrow> gitops_application_row list" where
  "listSourcesDueForPoll db now maxn =
     take maxn (js_sort (num_cmp (\<lambda>r. nullish (app_next_poll_at r) 0))
       (filter (SOURCES_DUE_FOR_POLL_SQL now) (db_applications db)))"

definition listApplicationsDueForRetry :: "gitops_db \<Rightarrow> int \<Rightarrow> nat \<Rightarrow> gitops_application_row list" where
  "listApplicationsDueForRetry db now maxn =
     take maxn (js_sort (num_cmp (\<lambda>r. nullish (app_retry_at r) 0))
       (filter (APPLICATIONS_DUE_FOR_RETRY_SQL now) (db_applications db)))"

section \<open>Writes\<close>

text \<open>The constraints of the application table (\<^verbatim>\<open>gitops/schema.ts\<close>): the columns a target mode needs, and at
  most one live row per stack and per Blueprint.\<close>

definition CONSTRAINT_CHECK :: js_error where
  "CONSTRAINT_CHECK = PlainError ''CHECK constraint failed: gitops_applications''"

definition application_check :: "gitops_application_row \<Rightarrow> bool" where
  "application_check r =
     ((app_target_mode r \<noteq> Direct \<or> app_stack_name r \<noteq> None \<and> app_blueprint_id r = None)
      \<and> (app_target_mode r \<noteq> Inline_blueprint
         \<or> app_blueprint_id r \<noteq> None \<and> app_stack_name r = None \<and> app_configured_repo_url r = None)
      \<and> (app_target_mode r \<noteq> Blueprint
         \<or> app_blueprint_id r \<noteq> None \<and> app_stack_name r = None \<and> app_configured_repo_url r \<noteq> None))"

definition live_conflict :: "gitops_application_row \<Rightarrow> gitops_application_row \<Rightarrow> bool" where
  "live_conflict a b =
     (live_lifecycle a \<and> live_lifecycle b
      \<and> (app_target_mode a = Direct \<and> app_target_mode b = Direct
           \<and> app_stack_name a = app_stack_name b \<and> app_stack_name a \<noteq> None
         \<or> blueprint_modes a \<and> blueprint_modes b
           \<and> app_blueprint_id a = app_blueprint_id b \<and> app_blueprint_id a \<noteq> None))"

definition insertApplication :: "gitops_application_row \<Rightarrow> gitops_db \<Rightarrow> gitops_db res" where
  "insertApplication row db =
     require_res (application_check row) CONSTRAINT_CHECK
      (require_res (getApplication db (app_id row) = None
          \<and> \<not> list_ex (\<lambda>r. live_conflict r row) (db_applications db)) CONSTRAINT_PRIMARYKEY
        (Inr (db\<lparr>db_applications := db_applications db @ [row]\<rparr>)))"

definition listLiveBlueprintModeApplications :: "gitops_db \<Rightarrow> gitops_application_row list" where
  "listLiveBlueprintModeApplications db =
     filter (\<lambda>r. app_target_mode r = Blueprint \<and> live_lifecycle r) (db_applications db)"

text \<open>The only writer that may change the target mode; the count of changed rows comes first.\<close>

record target_binding =
  tb_targetMode :: target_mode
  tb_stackName :: "string option"
  tb_blueprintId :: "int option"
  tb_configuredSourceStackName :: "string option"
  tb_configuredRepoUrl :: "string option"

definition bound_row :: "target_binding \<Rightarrow> int \<Rightarrow> gitops_application_row \<Rightarrow> gitops_application_row" where
  "bound_row b now r =
     r\<lparr>app_target_mode := tb_targetMode b, app_stack_name := tb_stackName b,
       app_blueprint_id := tb_blueprintId b,
       app_configured_source_stack_name := tb_configuredSourceStackName b,
       app_configured_repo_url := tb_configuredRepoUrl b, app_updated_at := now\<rparr>"

definition updateApplicationTargetBinding ::
    "string \<Rightarrow> target_mode \<Rightarrow> target_binding \<Rightarrow> int \<Rightarrow> gitops_db \<Rightarrow> (nat \<times> gitops_db) res" where
  "updateApplicationTargetBinding i expectedMode b updatedAt db =
     (case getApplication db i of
        None \<Rightarrow> Inr (0, db)
      | Some r \<Rightarrow>
          (if app_target_mode r \<noteq> expectedMode then Inr (0, db)
           else
             (let r1 = bound_row b updatedAt r
              in require_res (application_check r1) CONSTRAINT_CHECK
                  (require_res (\<not> list_ex (\<lambda>o1. app_id o1 \<noteq> i \<and> live_conflict o1 r1) (db_applications db))
                    CONSTRAINT_PRIMARYKEY
                    (Inr (1, db\<lparr>db_applications :=
                        map (\<lambda>a. if app_id a = i then bound_row b updatedAt a else a) (db_applications db)\<rparr>))))))"

text \<open>Create checkpoints.\<close>

definition getCreateCheckpoint :: "gitops_db \<Rightarrow> string \<Rightarrow> gitops_create_checkpoint_row option" where
  "getCreateCheckpoint db i = find (\<lambda>r. ck_application_id r = i) (db_create_checkpoints db)"

definition insertCreateCheckpoint :: "gitops_create_checkpoint_row \<Rightarrow> gitops_db \<Rightarrow> gitops_db res" where
  "insertCreateCheckpoint row db =
     bind_res (decodeGitOpsJson (ck_compose_paths_json row)) (\<lambda>_.
       require_res (getCreateCheckpoint db (ck_application_id row) = None) CONSTRAINT_PRIMARYKEY
         (Inr (db\<lparr>db_create_checkpoints := db_create_checkpoints db @ [row]\<rparr>)))"

record create_checkpoint_patch =
  ckp_phase :: "create_phase option"
  ckp_generationId :: "string option option"
  ckp_commitSha :: "string option option"
  ckp_appliedSpecJson :: "raw_json option option"
  ckp_createdManagedRoot :: "int option"

definition updateCreateCheckpoint ::
    "string \<Rightarrow> create_checkpoint_patch \<Rightarrow> int \<Rightarrow> gitops_db \<Rightarrow> gitops_db res" where
  "updateCreateCheckpoint i patch now db =
     (case getCreateCheckpoint db i of
        None \<Rightarrow> Inl (PlainError ''create checkpoint not found'')
      | Some current \<Rightarrow>
          Inr (db\<lparr>db_create_checkpoints := map (\<lambda>r. if ck_application_id r = i then
              r\<lparr>ck_phase := nullish (ckp_phase patch) (ck_phase current),
                ck_generation_id := nullish (ckp_generationId patch) (ck_generation_id current),
                ck_commit_sha := nullish (ckp_commitSha patch) (ck_commit_sha current),
                ck_applied_spec_json := nullish (ckp_appliedSpecJson patch) (ck_applied_spec_json current),
                ck_created_managed_root :=
                  nullish (ckp_createdManagedRoot patch) (ck_created_managed_root current),
                ck_updated_at := now\<rparr> else r) (db_create_checkpoints db)\<rparr>))"

definition deleteCreateCheckpoint :: "string \<Rightarrow> gitops_db \<Rightarrow> gitops_db" where
  "deleteCreateCheckpoint i db =
     db\<lparr>db_create_checkpoints := filter (\<lambda>r. ck_application_id r \<noteq> i) (db_create_checkpoints db)\<rparr>"

definition insertGeneration :: "gitops_generation_row \<Rightarrow> gitops_db \<Rightarrow> gitops_db res" where
  "insertGeneration row db =
     require_res (getGeneration db (gen_id row) = None) CONSTRAINT_PRIMARYKEY
       (Inr (db\<lparr>db_generations := db_generations db @ [row]\<rparr>))"

fun ae_kind :: "artifact_evidence \<Rightarrow> artifact_qualification" where
  "ae_kind (AE_unresolved _) = Q_unresolved"
| "ae_kind (AE_exact _ _) = Q_exact"
| "ae_kind (AE_qualified _ _) = Q_qualified"
| "ae_kind (AE_stale _ _) = Q_stale"
| "ae_kind (AE_unavailable _) = Q_unavailable"
| "ae_kind (AE_local_build_unverified _ _) = Q_local_build_unverified"

text \<open>The table is unique on the id and on (generation, evidence version).\<close>

definition insertArtifactSet ::
    "(string \<Rightarrow> string \<Rightarrow> int) \<Rightarrow> gitops_artifact_set_row \<Rightarrow> gitops_db \<Rightarrow> gitops_db res" where
  "insertArtifactSet lc row db =
     bind_res (decodeArtifactEvidenceJson lc (art_evidence_json row)) (\<lambda>evidence.
       require_res (ae_kind evidence = art_qualification row)
         (GitOpsJsonError ''artifact qualification must match evidence_json.kind'')
         (require_res (art_authoritative row = 0)
           (PlainError ''artifact rows must be non-authoritative until qualification is accepted'')
           (require_res (getArtifactSet db (art_id row) = None
               \<and> (\<forall>r \<in> set (db_artifact_sets db). art_generation_id r = art_generation_id row
                    \<longrightarrow> art_evidence_version r \<noteq> art_evidence_version row)) CONSTRAINT_PRIMARYKEY
             (Inr (db\<lparr>db_artifact_sets := db_artifact_sets db @ [row]\<rparr>)))))"

definition insertIntentRevision :: "gitops_intent_revision_row \<Rightarrow> gitops_db \<Rightarrow> gitops_db res" where
  "insertIntentRevision row db =
     require_res (getIntentRevision db (intent_id row) = None) CONSTRAINT_PRIMARYKEY
       (Inr (db\<lparr>db_intents := db_intents db @ [row]\<rparr>))"

definition updateIntentHealthPolicy :: "string \<Rightarrow> raw_json \<Rightarrow> gitops_db \<Rightarrow> gitops_db res" where
  "updateIntentHealthPolicy i policyJson db =
     require_res (\<exists>r \<in> set (db_intents db). intent_id r = i)
       (PlainError ''intent revision could not be updated'')
       (Inr (db\<lparr>db_intents := map (\<lambda>r. if intent_id r = i
            then r\<lparr>intent_health_failure_rollback_policy_json := Some policyJson\<rparr> else r) (db_intents db)\<rparr>))"

definition insertRolloutCandidate :: "gitops_rollout_candidate_row \<Rightarrow> gitops_db \<Rightarrow> gitops_db res" where
  "insertRolloutCandidate row db =
     bind_res (decodeGitOpsRequiredTargetsJson (cand_required_targets_json row)) (\<lambda>_.
       require_res (getRolloutCandidate db (cand_id row) = None) CONSTRAINT_PRIMARYKEY
         (Inr (db\<lparr>db_candidates := db_candidates db @ [row]\<rparr>)))"

definition insertRolloutGeneration :: "gitops_rollout_generation_row \<Rightarrow> gitops_db \<Rightarrow> gitops_db res" where
  "insertRolloutGeneration row db =
     bind_res (decodeGitOpsRequiredTargetsJson (rgen_required_targets_json row)) (\<lambda>_.
       require_res (case rgen_preflight_fingerprint row of None \<Rightarrow> True | Some f \<Rightarrow> isPreflightFingerprint f)
         (PlainError ''preflight_fingerprint must be a 64-char hex digest'')
         (require_res (getRolloutGeneration db (rgen_id row) = None) CONSTRAINT_PRIMARYKEY
           (Inr (db\<lparr>db_rollout_generations := db_rollout_generations db @ [row]\<rparr>))))"

definition markRolloutGenerationSuperseded :: "string \<Rightarrow> int \<Rightarrow> gitops_db \<Rightarrow> gitops_db" where
  "markRolloutGenerationSuperseded i supersededAt db =
     db\<lparr>db_rollout_generations := map (\<lambda>r. if rgen_id r = i \<and> rgen_superseded_at r = None
        then r\<lparr>rgen_superseded_at := Some supersededAt\<rparr> else r) (db_rollout_generations db)\<rparr>"

definition markRolloutGenerationWithdrawn :: "string \<Rightarrow> int \<Rightarrow> gitops_db \<Rightarrow> gitops_db" where
  "markRolloutGenerationWithdrawn i withdrawnAt db =
     db\<lparr>db_rollout_generations := map (\<lambda>r. if rgen_id r = i \<and> rgen_withdrawn_at r = None
        then r\<lparr>rgen_withdrawn_at := Some withdrawnAt\<rparr> else r) (db_rollout_generations db)\<rparr>"

definition latestRolloutAuthorizationForAcceptedGeneration ::
    "gitops_db \<Rightarrow> string \<Rightarrow> string \<Rightarrow> gitops_rollout_generation_row option" where
  "latestRolloutAuthorizationForAcceptedGeneration db a g =
     find (\<lambda>r. rgen_application_id r = a \<and> rgen_provenance r = Rg_rollout_authorization
               \<and> rgen_accepted_generation_id r = Some g) (rev (db_rollout_generations db))"

text \<open>Checks of the JSON columns an approval carries, before the row is stored.\<close>

definition check_approval_columns :: "gitops_approval_row \<Rightarrow> unit res" where
  "check_approval_columns row =
     bind_res (case apv_required_targets_json row of
         None \<Rightarrow> Inr () | Some j \<Rightarrow> bind_res (decodeGitOpsRequiredTargetsJson j) (\<lambda>_. Inr ())) (\<lambda>_.
     bind_res (case apv_blast_json row of
         None \<Rightarrow> Inr ()
       | Some j \<Rightarrow> (if apv_kind row = Ak_placement_approval
            then bind_res (decodeGitOpsApprovedTargetEffectJson j) (\<lambda>_. Inr ())
            else bind_res (decodeGitOpsJson j) (\<lambda>_. Inr ()))) (\<lambda>_.
     bind_res (case apv_policy_provenance_json row of
         None \<Rightarrow> Inr () | Some j \<Rightarrow> bind_res (decodeGitOpsJson j) (\<lambda>_. Inr ())) (\<lambda>_.
     require_res (case apv_source_confirmation_json row of
         None \<Rightarrow> True
       | Some j \<Rightarrow> (case decodeSourceConfirmation (Some j) of Conf_present _ \<Rightarrow> True | _ \<Rightarrow> False))
       (GitOpsJsonError ''source_confirmation_json is not a confirmation'') (Inr ()))))"

definition insertApproval :: "gitops_approval_row \<Rightarrow> gitops_db \<Rightarrow> gitops_db res" where
  "insertApproval row db =
     bind_res (check_approval_columns row) (\<lambda>_.
       require_res (getApproval db (apv_id row) = None) CONSTRAINT_PRIMARYKEY
         (Inr (db\<lparr>db_approvals := db_approvals db @ [row]\<rparr>)))"

definition assertArtifactPointer :: "gitops_db \<Rightarrow> string option \<Rightarrow> string option \<Rightarrow> unit res" where
  "assertArtifactPointer db artifactSetId desiredGenerationId =
     (if \<not> truthy_str artifactSetId then Inr ()
      else require_res (truthy_str desiredGenerationId)
        (PlainError ''artifact pointer requires desired_generation_id'')
        (require_res (case Option.bind artifactSetId (getArtifactSet db) of
             None \<Rightarrow> False | Some a \<Rightarrow> Some (art_generation_id a) = desiredGenerationId)
          (PlainError ''target artifact pointer must belong to desired_generation_id'') (Inr ())))"

definition owned_generation :: "gitops_db \<Rightarrow> string \<Rightarrow> string option \<Rightarrow> bool" where
  "owned_generation db applicationId g =
     (truthy_str g \<longrightarrow>
        (case Option.bind g (getGeneration db) of
           None \<Rightarrow> False | Some gen \<Rightarrow> gen_application_id gen = applicationId))"

definition assertTargetInvariants :: "gitops_db \<Rightarrow> gitops_target_current_row \<Rightarrow> unit res" where
  "assertTargetInvariants db row =
     require_res (truthy_str (tgt_lkg_artifact_set_id row) \<longrightarrow>
         (case Option.bind (tgt_lkg_artifact_set_id row) (getArtifactSet db) of
            None \<Rightarrow> False | Some a \<Rightarrow> Some (art_generation_id a) = tgt_lkg_generation_id row))
       (PlainError ''lkg_artifact_set_id must belong to lkg_generation_id'')
       (require_res (\<not> (tgt_lkg_unavailable_at row \<noteq> None \<and> tgt_lkg_generation_id row \<noteq> None))
         (PlainError ''lkg unavailability cannot coexist with an LKG generation'')
         (bind_res (assertArtifactPointer db (tgt_expected_artifact_set_id row)
              (tgt_desired_generation_id row)) (\<lambda>_.
          bind_res (assertArtifactPointer db (tgt_latest_artifact_set_id row)
              (tgt_desired_generation_id row)) (\<lambda>_.
          require_res (owned_generation db (tgt_application_id row) (tgt_desired_generation_id row))
            (PlainError ''target desired generation must belong to the application'')
            (require_res (owned_generation db (tgt_application_id row) (tgt_candidate_generation_id row))
              (PlainError ''target candidate generation must belong to the application'')
              (Inr ()))))))"

definition put_target :: "gitops_target_current_row \<Rightarrow> gitops_db \<Rightarrow> gitops_db" where
  "put_target row db =
     (if \<exists>r \<in> set (db_targets db). tgt_application_id r = tgt_application_id row \<and> tgt_node_id r = tgt_node_id row
      then db\<lparr>db_targets := map (\<lambda>r. if tgt_application_id r = tgt_application_id row
             \<and> tgt_node_id r = tgt_node_id row then row else r) (db_targets db)\<rparr>
      else db\<lparr>db_targets := db_targets db @ [row]\<rparr>)"

definition upsertTarget :: "gitops_target_current_row \<Rightarrow> gitops_db \<Rightarrow> gitops_db res" where
  "upsertTarget row db = bind_res (assertTargetInvariants db row) (\<lambda>_. Inr (put_target row db))"

definition bindRolloutCandidateSource :: "string \<Rightarrow> string \<Rightarrow> string \<Rightarrow> gitops_db \<Rightarrow> gitops_db res" where
  "bindRolloutCandidateSource c g a db =
     (case getRolloutCandidate db c of
        None \<Rightarrow> Inl (PlainError ''rollout candidate not found'')
      | Some candidate \<Rightarrow>
          require_res (cand_accepted_generation_id candidate = None
              \<or> cand_accepted_generation_id candidate = Some g)
            (PlainError ''rollout candidate already bound to a different generation'')
            (require_res (cand_artifact_set_id candidate = None \<or> cand_artifact_set_id candidate = Some a)
              (PlainError ''rollout candidate already bound to a different artifact set'')
              (Inr (db\<lparr>db_candidates := map (\<lambda>r. if cand_id r = c
                   then r\<lparr>cand_accepted_generation_id := Some g, cand_artifact_set_id := Some a\<rparr> else r)
                   (db_candidates db)\<rparr>))))"

definition rebindRolloutCandidateSource :: "string \<Rightarrow> string \<Rightarrow> string \<Rightarrow> gitops_db \<Rightarrow> gitops_db res" where
  "rebindRolloutCandidateSource applicationId c g db =
     (case getRolloutCandidate db c of
        None \<Rightarrow> Inl (PlainError ''rollout candidate not found'')
      | Some candidate \<Rightarrow>
          require_res (cand_application_id candidate = applicationId)
            (PlainError ''rollout candidate belongs to another application'')
            (if cand_accepted_generation_id candidate = Some g \<and> cand_artifact_set_id candidate = None
             then Inr db
             else Inr (db\<lparr>db_candidates := map (\<lambda>r. if cand_id r = c
                    then r\<lparr>cand_accepted_generation_id := Some g, cand_artifact_set_id := None\<rparr> else r)
                    (db_candidates db)\<rparr>)))"

text \<open>The columns a transition may change; identity and provenance stay as inserted
  (\<^verbatim>\<open>writeApplication\<close> of transitions.ts).\<close>

definition writeApplication :: "gitops_application_row \<Rightarrow> gitops_db \<Rightarrow> gitops_db" where
  "writeApplication app db =
     db\<lparr>db_applications := map (\<lambda>r. if app_id r = app_id app
        then app\<lparr>app_lifecycle_key := app_lifecycle_key r, app_target_mode := app_target_mode r,
          app_stack_name := app_stack_name r,
          app_configured_source_stack_name := app_configured_source_stack_name r,
          app_blueprint_id := app_blueprint_id r, app_created_at := app_created_at r\<rparr>
        else r) (db_applications db)\<rparr>"

definition emptyTargetRow :: "string \<Rightarrow> int \<Rightarrow> int \<Rightarrow> gitops_target_current_row" where
  "emptyTargetRow applicationId nodeId now =
     \<lparr>tgt_application_id = applicationId, tgt_node_id = nodeId, tgt_target_status = Ts_active,
      tgt_desired_generation_id = None, tgt_candidate_generation_id = None,
      tgt_applied_generation_id = None, tgt_deployed_generation_id = None,
      tgt_healthy_generation_id = None, tgt_last_health_status = None,
      tgt_last_health_generation_id = None, tgt_last_health_run_id = None,
      tgt_pending_health_run_id = None, tgt_health_attempts = 0, tgt_health_stop_reason = None,
      tgt_lkg_generation_id = None, tgt_lkg_artifact_set_id = None, tgt_lkg_unavailable_at = None,
      tgt_lkg_unavailable_reason = None, tgt_expected_artifact_set_id = None,
      tgt_latest_artifact_set_id = None, tgt_observed_artifact_identity_json = None,
      tgt_observed_invocation_json = None, tgt_intent_revision_id = None,
      tgt_rollout_candidate_id = None, tgt_rollout_generation_id = None,
      tgt_source_acceptance_ref = None, tgt_placement_approval_ref = None,
      tgt_rollout_authorization_ref = None, tgt_legacy_combined_approval_ref = None,
      tgt_legacy_applied_revision = None, tgt_connectivity = None, tgt_latest_stage = None,
      tgt_active_operation_id = None, tgt_active_operation_stage = None,
      tgt_active_operation_at = None, tgt_active_generation_id = None,
      tgt_active_intent_revision_id = None, tgt_active_rollout_candidate_id = None,
      tgt_failure_stage = None, tgt_failure_class = None, tgt_failure_at = None,
      tgt_recovery_ref = None, tgt_recovery_generation_id = None, tgt_recovery_phase = None,
      tgt_recovery_failure_class = None, tgt_recovery_failure_at = None,
      tgt_interruption_stage = None, tgt_interruption_at = None,
      tgt_interruption_operation_id = None, tgt_interruption_generation_id = None,
      tgt_interruption_intent_revision_id = None, tgt_interruption_rollout_candidate_id = None,
      tgt_pause_at = None, tgt_pause_reason = None, tgt_retry_at = None, tgt_suspended_at = None,
      tgt_partial_json = None, tgt_evidence_limitations_json = None,
      tgt_updated_at = now\<rparr>"

section \<open>Confirmations on the acceptance\<close>

definition storedSourceConfirmation ::
    "gitops_db \<Rightarrow> gitops_application_row \<Rightarrow> stored_source_confirmation" where
  "storedSourceConfirmation db app =
     (if \<not> truthy_str (app_source_acceptance_ref app) then Conf_absent
      else
        (case Option.bind (app_source_acceptance_ref app) (getApproval db) of
           None \<Rightarrow> Conf_absent
         | Some acceptance \<Rightarrow>
             (if apv_kind acceptance \<noteq> Ak_source_acceptance then Conf_absent
              else
                (let stored = decodeSourceConfirmation (apv_source_confirmation_json acceptance)
                 in if stored = Conf_absent \<and> truthy_str (apv_placement_approval_ref acceptance)
                    then Conf_present \<lparr>conf_placementApprovalRef = apv_placement_approval_ref acceptance,
                           conf_rolloutMayStart = False\<rparr>
                    else stored))))"

definition confirmedPlacementForAcceptance :: "gitops_db \<Rightarrow> gitops_application_row \<Rightarrow> string option" where
  "confirmedPlacementForAcceptance db app =
     (case storedSourceConfirmation db app of
        Conf_present c \<Rightarrow> conf_placementApprovalRef c
      | _ \<Rightarrow> None)"

text \<open>The boolean says whether a row changed.\<close>

definition writeSourceConfirmation ::
    "string \<Rightarrow> source_confirmation option \<Rightarrow> gitops_db \<Rightarrow> bool \<times> gitops_db" where
  "writeSourceConfirmation applicationId confirmation db =
     (case getApplication db applicationId of
        None \<Rightarrow> (False, db)
      | Some app \<Rightarrow>
          (if \<not> truthy_str (app_source_acceptance_ref app) then (False, db)
           else
             (case Option.bind (app_source_acceptance_ref app) (getApproval db) of
                None \<Rightarrow> (False, db)
              | Some acceptance \<Rightarrow>
                  (if apv_kind acceptance \<noteq> Ak_source_acceptance then (False, db)
                   else
                     (let json = map_option encodeSourceConfirmation confirmation;
                          placement = Option.bind confirmation conf_placementApprovalRef
                      in if apv_source_confirmation_json acceptance = json
                            \<and> apv_placement_approval_ref acceptance = placement then (False, db)
                         else (True, db\<lparr>db_approvals := map (\<lambda>r. if apv_id r = apv_id acceptance
                                \<and> apv_kind r = Ak_source_acceptance
                              then r\<lparr>apv_placement_approval_ref := placement,
                                     apv_source_confirmation_json := json\<rparr> else r)
                              (db_approvals db)\<rparr>))))))"

definition recordConfirmedPlacement :: "string \<Rightarrow> string option \<Rightarrow> gitops_db \<Rightarrow> bool \<times> gitops_db" where
  "recordConfirmedPlacement applicationId ref db =
     writeSourceConfirmation applicationId
       (Some \<lparr>conf_placementApprovalRef = ref, conf_rolloutMayStart = True\<rparr>) db"

definition releaseConfirmedPlacement :: "string \<Rightarrow> gitops_db \<Rightarrow> bool \<times> gitops_db" where
  "releaseConfirmedPlacement applicationId db = writeSourceConfirmation applicationId None db"

section \<open>Approval resolution\<close>

record future_rollout_authorization_binding =
  bnd_rolloutCandidateId :: string
  bnd_acceptedGenerationId :: string
  bnd_artifactSetId :: string
  bnd_intentRevisionId :: string
  bnd_requiredNodeIds :: "int list"
  bnd_sourceAcceptanceRef :: string
  bnd_placementApprovalRef :: string
  bnd_preflightFingerprint :: string

datatype resolve_approval_expected =
    Expect_source_acceptance string string
  | Expect_placement_approval string string "int list"
  | Expect_rollout_authorization string future_rollout_authorization_binding
  | Expect_legacy_combined string

definition placementEffectCompatible :: "target_effect list \<Rightarrow> int list \<Rightarrow> bool" where
  "placementEffectCompatible effect requiredNodeIds =
     list_all (\<lambda>(nodeId, outcome).
        \<not> (outcome = Eff_place \<and> nodeId \<notin> set requiredNodeIds)
        \<and> \<not> (outcome = Eff_remove \<and> nodeId \<in> set requiredNodeIds)) effect"

definition authorizationBindingsEqual ::
    "future_rollout_authorization_binding \<Rightarrow> future_rollout_authorization_binding \<Rightarrow> bool" where
  "authorizationBindingsEqual l r =
     (bnd_rolloutCandidateId l = bnd_rolloutCandidateId r
      \<and> bnd_acceptedGenerationId l = bnd_acceptedGenerationId r
      \<and> bnd_artifactSetId l = bnd_artifactSetId r
      \<and> bnd_intentRevisionId l = bnd_intentRevisionId r
      \<and> bnd_sourceAcceptanceRef l = bnd_sourceAcceptanceRef r
      \<and> bnd_placementApprovalRef l = bnd_placementApprovalRef r
      \<and> bnd_preflightFingerprint l = bnd_preflightFingerprint r
      \<and> length (bnd_requiredNodeIds l) = length (bnd_requiredNodeIds r)
      \<and> list_all (\<lambda>i. bnd_requiredNodeIds l ! i = bnd_requiredNodeIds r ! i)
           [0..<length (bnd_requiredNodeIds l)])"

definition reconstructAuthorizationBinding ::
    "gitops_approval_row \<Rightarrow> future_rollout_authorization_binding option" where
  "reconstructAuthorizationBinding row =
     (if apv_kind row \<noteq> Ak_rollout_authorization then None
      else if \<not> truthy_str (apv_rollout_candidate_id row) \<or> \<not> truthy_str (apv_generation_id row)
        \<or> \<not> truthy_str (apv_artifact_set_id row) \<or> \<not> truthy_str (apv_intent_revision_id row)
        \<or> \<not> truthy_str (apv_source_acceptance_ref row) \<or> \<not> truthy_str (apv_placement_approval_ref row)
        \<or> \<not> truthy_raw (apv_required_targets_json row) \<or> \<not> truthy_str (apv_preflight_fingerprint row)
      then None
      else if \<not> isPreflightFingerprint (the (apv_preflight_fingerprint row)) then None
      else
        (case decodeGitOpsRequiredTargetsJson (the (apv_required_targets_json row)) of
           Inl _ \<Rightarrow> None
         | Inr nodeIds \<Rightarrow>
             Some \<lparr>bnd_rolloutCandidateId = the (apv_rollout_candidate_id row),
                   bnd_acceptedGenerationId = the (apv_generation_id row),
                   bnd_artifactSetId = the (apv_artifact_set_id row),
                   bnd_intentRevisionId = the (apv_intent_revision_id row),
                   bnd_requiredNodeIds = nodeIds,
                   bnd_sourceAcceptanceRef = the (apv_source_acceptance_ref row),
                   bnd_placementApprovalRef = the (apv_placement_approval_ref row),
                   bnd_preflightFingerprint = the (apv_preflight_fingerprint row)\<rparr>))"

text \<open>The checks every decomposed kind shares, then the part of each kind.\<close>

definition decomposed_approval ::
    "gitops_db \<Rightarrow> string \<Rightarrow> string \<Rightarrow> approval_kind \<Rightarrow> gitops_approval_row option" where
  "decomposed_approval db i applicationId kind =
     (case getApproval db i of
        None \<Rightarrow> None
      | Some row \<Rightarrow>
          (if apv_application_id row \<noteq> applicationId then None
           else if apv_kind row \<noteq> kind then None
           else if apv_authoritative row \<noteq> 1 then None
           else if apv_authority row \<noteq> Au_operator \<and> apv_authority row \<noteq> Au_configured_policy then None
           else Some row))"

definition resolve_source_acceptance ::
    "gitops_db \<Rightarrow> string \<Rightarrow> string \<Rightarrow> string \<Rightarrow> gitops_approval_row option" where
  "resolve_source_acceptance db i applicationId generationId =
     (case decomposed_approval db i applicationId Ak_source_acceptance of
        None \<Rightarrow> None
      | Some row \<Rightarrow>
          (if \<not> truthy_str (apv_generation_id row) then None
           else
             (case getGeneration db (the (apv_generation_id row)) of
                None \<Rightarrow> None
              | Some generation \<Rightarrow>
                  (if gen_application_id generation \<noteq> applicationId then None
                   else if apv_generation_id row \<noteq> Some generationId then None
                   else Some row))))"

definition resolve_placement_approval ::
    "gitops_db \<Rightarrow> string \<Rightarrow> string \<Rightarrow> string \<Rightarrow> int list \<Rightarrow> gitops_approval_row option" where
  "resolve_placement_approval db i applicationId intentRevisionId requiredNodeIds =
     (case decomposed_approval db i applicationId Ak_placement_approval of
        None \<Rightarrow> None
      | Some row \<Rightarrow>
          (if \<not> truthy_str (apv_intent_revision_id row)
              \<or> apv_intent_revision_id row \<noteq> Some intentRevisionId then None
           else if \<not> truthy_raw (apv_blast_json row) then None
           else
             (case decodeGitOpsApprovedTargetEffectJson (the (apv_blast_json row)) of
                Inl _ \<Rightarrow> None
              | Inr effect \<Rightarrow>
                  (if \<not> placementEffectCompatible effect requiredNodeIds then None else Some row))))"

definition resolveApprovalRef ::
    "gitops_db \<Rightarrow> string \<Rightarrow> resolve_approval_expected \<Rightarrow> gitops_approval_row option" where
  "resolveApprovalRef db i expected =
     (case expected of
        Expect_legacy_combined applicationId \<Rightarrow>
          (case getApproval db i of
             None \<Rightarrow> None
           | Some row \<Rightarrow>
               (if apv_application_id row \<noteq> applicationId then None
                else if apv_kind row \<noteq> Ak_legacy_combined then None
                else if apv_authoritative row \<noteq> 0 \<or> apv_authority row \<noteq> Au_legacy_combined then None
                else Some row))
      | Expect_source_acceptance applicationId generationId \<Rightarrow>
          resolve_source_acceptance db i applicationId generationId
      | Expect_placement_approval applicationId intentRevisionId requiredNodeIds \<Rightarrow>
          resolve_placement_approval db i applicationId intentRevisionId requiredNodeIds
      | Expect_rollout_authorization applicationId binding \<Rightarrow>
          (case decomposed_approval db i applicationId Ak_rollout_authorization of
             None \<Rightarrow> None
           | Some row \<Rightarrow>
               (case reconstructAuthorizationBinding row of
                  None \<Rightarrow> None
                | Some reconstructed \<Rightarrow>
                    (if \<not> authorizationBindingsEqual reconstructed binding then None
                     else if resolve_source_acceptance db (bnd_sourceAcceptanceRef reconstructed)
                               applicationId (bnd_acceptedGenerationId binding) = None then None
                     else if resolve_placement_approval db (bnd_placementApprovalRef reconstructed)
                               applicationId (bnd_intentRevisionId binding)
                               (bnd_requiredNodeIds binding) = None then None
                     else Some row))))"

text \<open>The ingredients are the binding without the fingerprint, which is left empty.\<close>

definition authorizationIngredients ::
    "gitops_db \<Rightarrow> gitops_application_row \<Rightarrow> future_rollout_authorization_binding option" where
  "authorizationIngredients db app =
     (if \<not> truthy_str (app_rollout_candidate_id app) \<or> \<not> truthy_str (app_accepted_generation_id app)
        \<or> \<not> truthy_str (app_artifact_set_id app) \<or> \<not> truthy_str (app_intent_revision_id app)
        \<or> \<not> truthy_str (app_source_acceptance_ref app) \<or> \<not> truthy_str (app_placement_approval_ref app)
      then None
      else
        (case getRolloutCandidate db (the (app_rollout_candidate_id app)) of
           None \<Rightarrow> None
         | Some candidate \<Rightarrow>
             (if cand_application_id candidate \<noteq> app_id app then None
              else if cand_accepted_generation_id candidate \<noteq> None
                \<and> cand_accepted_generation_id candidate \<noteq> app_accepted_generation_id app then None
              else if cand_artifact_set_id candidate \<noteq> None
                \<and> cand_artifact_set_id candidate \<noteq> app_artifact_set_id app then None
              else if Some (cand_intent_revision_id candidate) \<noteq> app_intent_revision_id app then None
              else if \<not> owned_generation db (app_id app) (app_accepted_generation_id app) then None
              else if \<not> (case getArtifactSet db (the (app_artifact_set_id app)) of
                            None \<Rightarrow> False
                          | Some a \<Rightarrow> Some (art_generation_id a) = app_accepted_generation_id app) then None
              else
                (case decodeGitOpsRequiredTargetsJson (cand_required_targets_json candidate) of
                   Inl _ \<Rightarrow> None
                 | Inr nodeIds \<Rightarrow>
                     (if resolve_source_acceptance db (the (app_source_acceptance_ref app)) (app_id app)
                           (the (app_accepted_generation_id app)) = None then None
                      else if resolve_placement_approval db (the (app_placement_approval_ref app))
                           (app_id app) (the (app_intent_revision_id app)) nodeIds = None then None
                      else Some \<lparr>bnd_rolloutCandidateId = the (app_rollout_candidate_id app),
                                 bnd_acceptedGenerationId = the (app_accepted_generation_id app),
                                 bnd_artifactSetId = the (app_artifact_set_id app),
                                 bnd_intentRevisionId = the (app_intent_revision_id app),
                                 bnd_requiredNodeIds = nodeIds,
                                 bnd_sourceAcceptanceRef = the (app_source_acceptance_ref app),
                                 bnd_placementApprovalRef = the (app_placement_approval_ref app),
                                 bnd_preflightFingerprint = []\<rparr>)))))"

definition currentAuthorizationBinding ::
    "gitops_db \<Rightarrow> gitops_application_row \<Rightarrow> future_rollout_authorization_binding option" where
  "currentAuthorizationBinding db app =
     (case app_preflight_fingerprint app of
        None \<Rightarrow> None
      | Some fp \<Rightarrow>
          (if fp = [] \<or> \<not> isPreflightFingerprint fp then None
           else map_option (\<lambda>b. b\<lparr>bnd_preflightFingerprint := fp\<rparr>) (authorizationIngredients db app)))"

end
