(* ===== verification/Recovery_Claim.thy ===== *)
theory Recovery_Claim
  imports Store
begin

text \<open>
  Recovery claims on a target row (\<^verbatim>\<open>gitops/recoveryClaim.ts\<close>), the running generation of a target and
  the rollback binding captured for it (\<^verbatim>\<open>gitops/recoveryCapture.ts\<close>).
\<close>

section \<open>Claims\<close>

definition targetRestoreInFlight :: "gitops_target_current_row \<Rightarrow> bool" where
  "targetRestoreInFlight target =
     (tgt_recovery_phase target = Some Rp_capturing \<or> tgt_recovery_phase target = Some Rp_restoring
      \<or> tgt_recovery_phase target = Some Rp_compensating)"

definition recoveryFailureClaimClass :: "gitops_target_current_row \<Rightarrow> string option" where
  "recoveryFailureClaimClass target = tgt_recovery_failure_class target"

definition recoveryFailureClaimAt :: "gitops_target_current_row \<Rightarrow> int option" where
  "recoveryFailureClaimAt target = tgt_recovery_failure_at target"

definition recoveryClaimMoved :: "gitops_target_current_row \<Rightarrow> bool" where
  "recoveryClaimMoved target =
     (let failureClass = recoveryFailureClaimClass target
      in failureClass \<noteq> None \<and> failureClass \<noteq> Some ''pre_mutation'')"

definition targetRecoveryFailureMoved :: "gitops_target_current_row \<Rightarrow> bool" where
  "targetRecoveryFailureMoved target =
     (if targetRestoreInFlight target then True
      else
        (let failureClass = recoveryFailureClaimClass target
         in failureClass \<noteq> None \<and> failureClass \<noteq> Some ''pre_mutation''))"

definition recoveryClaimRetirable :: "gitops_target_current_row \<Rightarrow> bool" where
  "recoveryClaimRetirable target =
     (if targetRestoreInFlight target then False
      else recoveryFailureClaimClass target = Some ''pre_mutation'')"

lemma retirable_not_moved: "recoveryClaimRetirable t \<Longrightarrow> \<not> targetRecoveryFailureMoved t"
  by (auto simp: recoveryClaimRetirable_def targetRecoveryFailureMoved_def split: if_splits)

section \<open>Running generation and capture\<close>

definition runningGenerationForTarget ::
    "gitops_application_row \<Rightarrow> gitops_target_current_row option \<Rightarrow> string option" where
  "runningGenerationForTarget application target =
     (case target of
        None \<Rightarrow> None
      | Some t \<Rightarrow> (if app_target_mode application = Direct then tgt_deployed_generation_id t
                    else tgt_applied_generation_id t))"

record gitops_recovery_capture =
  cap_gitops_generation_id :: "string option"
  cap_gitops_artifact_set_id :: "string option"
  cap_gitops_source_acceptance_ref :: "string option"

definition EMPTY_GITOPS_RECOVERY_CAPTURE :: gitops_recovery_capture where
  "EMPTY_GITOPS_RECOVERY_CAPTURE =
     \<lparr>cap_gitops_generation_id = None, cap_gitops_artifact_set_id = None,
      cap_gitops_source_acceptance_ref = None\<rparr>"

definition recoveryBindingForTarget ::
    "gitops_db \<Rightarrow> gitops_application_row \<Rightarrow> gitops_target_current_row option \<Rightarrow> gitops_recovery_capture" where
  "recoveryBindingForTarget db application target =
     (let generationId = runningGenerationForTarget application target
      in if \<not> truthy_str generationId then EMPTY_GITOPS_RECOVERY_CAPTURE
         else
           (let g = the generationId;
                expectedSet = Option.bind target tgt_expected_artifact_set_id;
                artifactSetId =
                  (if truthy_str expectedSet
                   then (case getArtifactSet db (the expectedSet) of
                           None \<Rightarrow> None
                         | Some a \<Rightarrow> (if art_generation_id a = g then Some (art_id a) else None))
                   else None);
                expected = Expect_source_acceptance (app_id application) g;
                recorded = Option.bind target tgt_source_acceptance_ref;
                sourceAcceptanceRef =
                  (if truthy_str recorded \<and> resolveApprovalRef db (the recorded) expected \<noteq> None
                   then recorded
                   else
                     (let newest = newestSourceAcceptanceId db (app_id application) g
                      in if truthy_str newest \<and> resolveApprovalRef db (the newest) expected \<noteq> None
                         then newest else None))
            in \<lparr>cap_gitops_generation_id = generationId, cap_gitops_artifact_set_id = artifactSetId,
                cap_gitops_source_acceptance_ref = sourceAcceptanceRef\<rparr>))"

definition captureGitOpsRecoveryBinding :: "gitops_db \<Rightarrow> string \<Rightarrow> int \<Rightarrow> gitops_recovery_capture" where
  "captureGitOpsRecoveryBinding db stackName nodeId =
     (case nullish_opt (getLiveDirectApplication db stackName)
             (getLiveBlueprintApplicationByDeployStack db stackName) of
        None \<Rightarrow> EMPTY_GITOPS_RECOVERY_CAPTURE
      | Some application \<Rightarrow>
          recoveryBindingForTarget db application (getTarget db (app_id application) nodeId))"

text \<open>What a capture promises: everything it names belongs to the generation the target runs.\<close>

lemma resolve_source_generation:
  "resolve_source_acceptance db i a g = Some row \<Longrightarrow>
     apv_generation_id row = Some g \<and> apv_application_id row = a \<and> apv_kind row = Ak_source_acceptance
     \<and> getApproval db i = Some row"
  by (auto simp: resolve_source_acceptance_def decomposed_approval_def split: option.splits if_splits)

lemma getArtifactSet_id: "getArtifactSet db i = Some a \<Longrightarrow> art_id a = i"
  by (auto simp: getArtifactSet_def dest: find_Some_set)

lemma capture_artifact:
  assumes "cap_gitops_artifact_set_id (recoveryBindingForTarget db app t) = Some i"
  shows "\<exists>a. getArtifactSet db i = Some a \<and> Some (art_generation_id a) = runningGenerationForTarget app t"
  using assms
  by (auto simp: recoveryBindingForTarget_def EMPTY_GITOPS_RECOVERY_CAPTURE_def Let_def getArtifactSet_id
      elim!: truthy_strE split: if_splits option.splits)

lemma capture_acceptance:
  assumes "cap_gitops_source_acceptance_ref (recoveryBindingForTarget db app t) = Some i"
  shows "\<exists>row. getApproval db i = Some row \<and> apv_kind row = Ak_source_acceptance
     \<and> apv_application_id row = app_id app \<and> apv_generation_id row = runningGenerationForTarget app t"
proof -
  let ?g = "the (runningGenerationForTarget app t)"
  from assms have "truthy_str (runningGenerationForTarget app t)"
    and "resolve_source_acceptance db i (app_id app) ?g \<noteq> None"
    by (auto simp: recoveryBindingForTarget_def EMPTY_GITOPS_RECOVERY_CAPTURE_def Let_def
        resolveApprovalRef_def split: if_splits)
  then show ?thesis
    by (auto dest!: resolve_source_generation elim!: truthy_strE)
qed

end
