(* ===== verification/Policy_Composition.thy ===== *)
theory Policy_Composition
  imports Rows Json_Codec
begin

text \<open>
  The versioned authority-policy contract (\<^verbatim>\<open>gitops/policyComposition.ts\<close>): one snapshot with a value
  per domain, its strict decoder and the reconstruction used for rows that predate it.
\<close>

record policy_snapshot =
  snap_version :: int
  snap_source :: source_policy
  snap_placement :: placement_policy
  snap_rolloutAuthorization :: rollout_authorization_policy

datatype policy_domain = Dom_source | Dom_placement | Dom_rollout_authorization

definition POLICY_CONTRACT_VERSION :: int where
  "POLICY_CONTRACT_VERSION = 1"

definition DEFAULT_SOURCE_POLICY :: source_policy where
  "DEFAULT_SOURCE_POLICY = Sp_review"

definition DEFAULT_PLACEMENT_POLICY :: placement_policy where
  "DEFAULT_PLACEMENT_POLICY = Pp_operator"

definition DEFAULT_ROLLOUT_AUTHORIZATION_POLICY :: rollout_authorization_policy where
  "DEFAULT_ROLLOUT_AUTHORIZATION_POLICY = Ra_manual"

definition SOURCE_POLICIES :: "(string \<times> source_policy) list" where
  "SOURCE_POLICIES = [(''manual'', Sp_manual), (''review'', Sp_review), (''automatic'', Sp_automatic)]"

definition PLACEMENT_POLICIES :: "(string \<times> placement_policy) list" where
  "PLACEMENT_POLICIES = [(''operator'', Pp_operator), (''bounded_auto'', Pp_bounded_auto)]"

definition ROLLOUT_AUTHORIZATION_POLICIES :: "(string \<times> rollout_authorization_policy) list" where
  "ROLLOUT_AUTHORIZATION_POLICIES = [(''manual'', Ra_manual), (''automatic'', Ra_automatic)]"

definition source_policy_text :: "source_policy \<Rightarrow> string" where
  "source_policy_text p =
     (case p of Sp_manual \<Rightarrow> ''manual'' | Sp_review \<Rightarrow> ''review'' | Sp_automatic \<Rightarrow> ''automatic'')"

definition placement_policy_text :: "placement_policy \<Rightarrow> string" where
  "placement_policy_text p = (case p of Pp_operator \<Rightarrow> ''operator'' | Pp_bounded_auto \<Rightarrow> ''bounded_auto'')"

definition rollout_policy_text :: "rollout_authorization_policy \<Rightarrow> string" where
  "rollout_policy_text p = (case p of Ra_manual \<Rightarrow> ''manual'' | Ra_automatic \<Rightarrow> ''automatic'')"

definition isSourcePolicy :: "json option \<Rightarrow> source_policy option" where
  "isSourcePolicy v = Option.bind (Option.bind v as_string) (map_of SOURCE_POLICIES)"

definition isPlacementPolicy :: "json option \<Rightarrow> placement_policy option" where
  "isPlacementPolicy v = Option.bind (Option.bind v as_string) (map_of PLACEMENT_POLICIES)"

definition isRolloutAuthorizationPolicy :: "json option \<Rightarrow> rollout_authorization_policy option" where
  "isRolloutAuthorizationPolicy v =
     Option.bind (Option.bind v as_string) (map_of ROLLOUT_AUTHORIZATION_POLICIES)"

definition LEGACY_FROZEN_POLICY_SNAPSHOT :: policy_snapshot where
  "LEGACY_FROZEN_POLICY_SNAPSHOT =
     \<lparr>snap_version = 0, snap_source = DEFAULT_SOURCE_POLICY, snap_placement = DEFAULT_PLACEMENT_POLICY,
      snap_rolloutAuthorization = Ra_automatic\<rparr>"

definition defaultPolicySnapshot :: policy_snapshot where
  "defaultPolicySnapshot =
     \<lparr>snap_version = POLICY_CONTRACT_VERSION, snap_source = DEFAULT_SOURCE_POLICY,
      snap_placement = DEFAULT_PLACEMENT_POLICY,
      snap_rolloutAuthorization = DEFAULT_ROLLOUT_AUTHORIZATION_POLICY\<rparr>"

definition encodePolicySnapshot :: "policy_snapshot \<Rightarrow> raw_json" where
  "encodePolicySnapshot s =
     encodeGitOpsJson (JObj
       [(''version'', JNum (NInt (snap_version s))),
        (''source'', JStr (source_policy_text (snap_source s))),
        (''placement'', JStr (placement_policy_text (snap_placement s))),
        (''rolloutAuthorization'', JStr (rollout_policy_text (snap_rolloutAuthorization s)))])"

definition SNAPSHOT_KEYS :: "string list" where
  "SNAPSHOT_KEYS = [''version'', ''source'', ''placement'', ''rolloutAuthorization'']"

definition assertNoUnrecognizedKeys :: "(string \<times> json) list \<Rightarrow> unit res" where
  "assertNoUnrecognizedKeys obj =
     require_res (\<forall>k \<in> set (keys_of obj). k \<in> set SNAPSHOT_KEYS)
       (PlainError ''The policy snapshot names an unrecognized key'') (Inr ())"

definition decodePolicySnapshot :: "raw_json option \<Rightarrow> policy_snapshot res" where
  "decodePolicySnapshot raw =
     (case raw of
        None \<Rightarrow> Inr LEGACY_FROZEN_POLICY_SNAPSHOT
      | Some r \<Rightarrow>
          if raw_is_blank r then Inr LEGACY_FROZEN_POLICY_SNAPSHOT
          else bind_res (decodeGitOpsJson r) (\<lambda>decoded.
            case as_record decoded of
              None \<Rightarrow> Inl (PlainError ''The policy snapshot is not a JSON object.'')
            | Some obj \<Rightarrow>
                bind_res (assertNoUnrecognizedKeys obj) (\<lambda>_.
                  case Option.bind (prop_of obj ''version'') as_integer of
                    None \<Rightarrow> Inl (PlainError ''The policy snapshot does not name a version.'')
                  | Some version \<Rightarrow>
                      require_res (version = POLICY_CONTRACT_VERSION)
                        (PlainError ''The policy snapshot names an unknown version'')
                        (case isSourcePolicy (prop_of obj ''source'') of
                           None \<Rightarrow> Inl (PlainError ''The policy snapshot names an unknown source policy'')
                         | Some source \<Rightarrow>
                             (case isPlacementPolicy (prop_of obj ''placement'') of
                                None \<Rightarrow> Inl (PlainError
                                  ''The policy snapshot names an unknown placement policy'')
                              | Some placement \<Rightarrow>
                                  (case isRolloutAuthorizationPolicy (prop_of obj ''rolloutAuthorization'') of
                                     None \<Rightarrow> Inl (PlainError
                                       ''The policy snapshot names an unknown rollout authorization policy'')
                                   | Some rollout \<Rightarrow>
                                       Inr \<lparr>snap_version = version, snap_source = source,
                                            snap_placement = placement,
                                            snap_rolloutAuthorization = rollout\<rparr>))))))"

definition decodeApprovalPolicySnapshot :: "raw_json option \<Rightarrow> policy_snapshot option res" where
  "decodeApprovalPolicySnapshot raw =
     (case raw of
        None \<Rightarrow> Inr None
      | Some r \<Rightarrow> (if raw_is_blank r then Inr None
                    else bind_res (decodePolicySnapshot (Some r)) (\<lambda>s. Inr (Some s))))"

definition isLegacyPolicySnapshot :: "policy_snapshot \<Rightarrow> bool" where
  "isLegacyPolicySnapshot s = (snap_version s = snap_version LEGACY_FROZEN_POLICY_SNAPSHOT)"

definition configuredSnapshotFor :: "gitops_application_row \<Rightarrow> policy_snapshot" where
  "configuredSnapshotFor app =
     \<lparr>snap_version = POLICY_CONTRACT_VERSION, snap_source = app_source_policy app,
      snap_placement = app_placement_policy app,
      snap_rolloutAuthorization = app_rollout_authorization_policy app\<rparr>"

definition policyValuesEqual :: "policy_snapshot \<Rightarrow> policy_snapshot \<Rightarrow> bool" where
  "policyValuesEqual a b =
     (snap_source a = snap_source b \<and> snap_placement a = snap_placement b
      \<and> snap_rolloutAuthorization a = snap_rolloutAuthorization b)"

section \<open>Lemmas\<close>

lemma policy_text_roundtrips [simp]:
  "isSourcePolicy (Some (JStr (source_policy_text s))) = Some s"
  "isPlacementPolicy (Some (JStr (placement_policy_text p))) = Some p"
  "isRolloutAuthorizationPolicy (Some (JStr (rollout_policy_text r))) = Some r"
  by (cases s, simp_all add: isSourcePolicy_def SOURCE_POLICIES_def source_policy_text_def)
    (cases p, simp_all add: isPlacementPolicy_def PLACEMENT_POLICIES_def placement_policy_text_def,
     cases r, simp_all add: isRolloutAuthorizationPolicy_def ROLLOUT_AUTHORIZATION_POLICIES_def
       rollout_policy_text_def)

lemma decode_encode_snapshot:
  "decodePolicySnapshot (Some (encodePolicySnapshot s)) =
     (if snap_version s = POLICY_CONTRACT_VERSION then Inr s
      else Inl (PlainError ''The policy snapshot names an unknown version''))"
  by (simp add: decodePolicySnapshot_def encodePolicySnapshot_def encodeGitOpsJson_def raw_is_blank_def
      assertNoUnrecognizedKeys_def keys_of_def SNAPSHOT_KEYS_def prop_of_def)

lemma decoded_snapshot_version:
  assumes "decodePolicySnapshot (Some (Parsed v)) = Inr s"
  shows "snap_version s = POLICY_CONTRACT_VERSION"
  using assms by (auto simp: decodePolicySnapshot_def raw_is_blank_def split: option.splits)

lemma encode_snapshot_injective: "encodePolicySnapshot a = encodePolicySnapshot b \<Longrightarrow> a = b"
proof -
  assume h: "encodePolicySnapshot a = encodePolicySnapshot b"
  then have v: "snap_version a = snap_version b"
    by (simp add: encodePolicySnapshot_def encodeGitOpsJson_def)
  let ?a = "a\<lparr>snap_version := POLICY_CONTRACT_VERSION\<rparr>"
    and ?b = "b\<lparr>snap_version := POLICY_CONTRACT_VERSION\<rparr>"
  have e: "encodePolicySnapshot ?a = encodePolicySnapshot ?b"
    using h by (simp add: encodePolicySnapshot_def encodeGitOpsJson_def)
  have "decodePolicySnapshot (Some (encodePolicySnapshot ?a)) = Inr ?a"
    by (simp add: decode_encode_snapshot)
  moreover have "decodePolicySnapshot (Some (encodePolicySnapshot ?b)) = Inr ?b"
    by (simp add: decode_encode_snapshot)
  ultimately have "?a = ?b" using e by (metis sum.inject(2))
  with v show "a = b" by (cases a; cases b) simp
qed

end
