(* ===== verification/Read_Auth.thy ===== *)
theory Read_Auth
  imports Rows Prelude
begin

text \<open>
  Who may read a GitOps row (\<^verbatim>\<open>gitops/readAuth.ts\<close>). Evidence that crossed an instance boundary has no
  guaranteed shape: it is a JSON value, or absent.
\<close>

datatype gitops_read_requirement = Read_admin | Read_audit | Read_stack string

definition normalizeStackResourcePresent :: "json option \<Rightarrow> bool" where
  "normalizeStackResourcePresent v = (v = Some (JBool True))"

definition usableStackName :: "json option \<Rightarrow> string option" where
  "usableStackName v =
     (case Option.bind v as_string of None \<Rightarrow> None | Some s \<Rightarrow> (if s \<noteq> [] then Some s else None))"

definition lifecycleAllowsStackRead :: "json option \<Rightarrow> bool" where
  "lifecycleAllowsStackRead v = (v = Some (JStr ''active'') \<or> v = Some (JStr ''detached''))"

definition classifySourceRow :: "json option \<Rightarrow> json option \<Rightarrow> json option \<Rightarrow> gitops_read_requirement" where
  "classifySourceRow stackName gitopsRevision stackResourcePresent =
     (case usableStackName stackName of
        None \<Rightarrow> Read_admin
      | Some name \<Rightarrow>
          (case Option.bind gitopsRevision as_record of
             None \<Rightarrow> Read_admin
           | Some revision \<Rightarrow>
               (if \<not> lifecycleAllowsStackRead (prop_of revision ''lifecycleStatus'') then Read_admin
                else if \<not> normalizeStackResourcePresent stackResourcePresent then Read_admin
                else Read_stack name)))"

definition classifyHistoryRow :: "json option \<Rightarrow> json option \<Rightarrow> json option \<Rightarrow> gitops_read_requirement" where
  "classifyHistoryRow stackName applicationLifecycleStatus stackResourcePresent =
     (case usableStackName stackName of
        None \<Rightarrow> Read_audit
      | Some name \<Rightarrow>
          (if applicationLifecycleStatus \<noteq> Some (JStr ''active'') then Read_audit
           else if \<not> normalizeStackResourcePresent stackResourcePresent then Read_audit
           else Read_stack name))"

text \<open>The caller: its role and \<^verbatim>\<open>checkPermission\<close> applied to the request.\<close>

record read_caller =
  rc_role :: "string option"
  rc_permission :: "string \<Rightarrow> string option \<Rightarrow> string option \<Rightarrow> int option \<Rightarrow> bool"

definition satisfiesGitOpsRead :: "read_caller \<Rightarrow> gitops_read_requirement \<Rightarrow> int option \<Rightarrow> bool" where
  "satisfiesGitOpsRead req requirement resourceNodeId =
     (case requirement of
        Read_admin \<Rightarrow> rc_role req = Some ''admin''
      | Read_audit \<Rightarrow> rc_permission req ''system:audit'' None None None
      | Read_stack name \<Rightarrow> rc_permission req ''stack:read'' (Some ''stack'') (Some name) resourceNodeId)"

section \<open>A stack grant opens only what it names\<close>

lemma classifyHistoryRow_stack:
  "classifyHistoryRow s l p = Read_stack name \<longleftrightarrow>
     s = Some (JStr name) \<and> name \<noteq> [] \<and> l = Some (JStr ''active'') \<and> p = Some (JBool True)"
  by (auto simp: classifyHistoryRow_def usableStackName_def normalizeStackResourcePresent_def as_string_Some
      bind_eq_Some_conv split: option.splits)

lemma classifySourceRow_stack:
  "classifySourceRow s r p = Read_stack name \<longleftrightarrow>
     s = Some (JStr name) \<and> name \<noteq> [] \<and> p = Some (JBool True)
     \<and> (\<exists>kvs. r = Some (JObj kvs) \<and> lifecycleAllowsStackRead (prop_of kvs ''lifecycleStatus''))"
  by (auto simp: classifySourceRow_def usableStackName_def normalizeStackResourcePresent_def as_string_Some
      as_record_Some bind_eq_Some_conv split: option.splits)

end
