(* ===== verification/Outbox.thy ===== *)
theory Outbox
  imports Store Read_Auth
begin

text \<open>
  The transactional outbox (\<^verbatim>\<open>gitops/outbox.ts\<close>): the row inserted beside an announced audit row, and the
  drain that turns it into a notification. The notification insert is \<^verbatim>\<open>addNotificationHistory\<close> of
  \<^verbatim>\<open>DatabaseService.ts\<close>, whose unique dedupe key makes a repeated insert a no-op. A storage error inside
  the drain, which leaves the row undrained, is not modelled. \<open>default_node\<close> is the registry's default
  node and \<open>now\<close> the clock.
\<close>

section \<open>Insertion\<close>

definition insertOutboxRow :: "string \<Rightarrow> raw_json \<Rightarrow> int \<Rightarrow> js_number \<Rightarrow> gitops_db \<Rightarrow> gitops_db" where
  "insertOutboxRow historyId payloadJson payloadVersion time db =
     (if \<exists>r \<in> set (db_outbox db). obx_settled_history_id r = historyId then db
      else db\<lparr>db_outbox := db_outbox db @
        [\<lparr>obx_settled_history_id = historyId, obx_payload_json = payloadJson,
          obx_payload_version = payloadVersion, obx_created_at = time, obx_updated_at = time,
          obx_drained_at = None\<rparr>]\<rparr>)"

definition insertSettledOutbox :: "settled_attempt_payload \<Rightarrow> gitops_db \<Rightarrow> gitops_db" where
  "insertSettledOutbox payload =
     insertOutboxRow (sp_settledHistoryId payload) (encodeSettledAttemptPayload payload)
       SETTLED_ATTEMPT_PAYLOAD_VERSION (sp_at payload)"

definition insertGitOpsEventOutbox :: "gitops_event_payload \<Rightarrow> gitops_db \<Rightarrow> gitops_db" where
  "insertGitOpsEventOutbox payload =
     insertOutboxRow (ep_historyId payload) (encodeGitOpsEventPayload payload)
       GITOPS_EVENT_PAYLOAD_VERSION (ep_at payload)"

section \<open>Draining\<close>

definition outbox_before :: "outbox_row \<Rightarrow> outbox_row \<Rightarrow> int" where
  "outbox_before a b =
     (let x = num_value (obx_created_at a); y = num_value (obx_created_at b)
      in if x < y then - 1 else if y < x then 1
         else code_unit_cmp (obx_settled_history_id a) (obx_settled_history_id b))"

definition listUndrained :: "gitops_db \<Rightarrow> outbox_row list" where
  "listUndrained db = js_sort outbox_before (filter (\<lambda>r. obx_drained_at r = None) (db_outbox db))"

definition markDrained :: "string \<Rightarrow> js_number \<Rightarrow> gitops_db \<Rightarrow> gitops_db" where
  "markDrained historyId time db =
     db\<lparr>db_outbox := map (\<lambda>r. if obx_settled_history_id r = historyId \<and> obx_drained_at r = None
          then r\<lparr>obx_drained_at := Some time, obx_updated_at := time\<rparr> else r) (db_outbox db)\<rparr>"

definition addNotificationHistory :: "notification_row \<Rightarrow> gitops_db \<Rightarrow> gitops_db" where
  "addNotificationHistory row db =
     (if ntf_dedupe_key row \<noteq> None
         \<and> (\<exists>r \<in> set (db_notifications db). ntf_dedupe_key r = ntf_dedupe_key row) then db
      else db\<lparr>db_notifications := db_notifications db @ [row]\<rparr>)"

definition gitOpsEventNotificationDedupeKey :: "string \<Rightarrow> string" where
  "gitOpsEventNotificationDedupeKey historyId = ''gitops:event:'' @ historyId"

definition lifecycle_status_text :: "lifecycle_status \<Rightarrow> string" where
  "lifecycle_status_text s = (case s of Lc_active \<Rightarrow> ''active'' | Lc_creating \<Rightarrow> ''creating''
     | Lc_detached \<Rightarrow> ''detached'' | Lc_deleted \<Rightarrow> ''deleted'')"

definition notificationLabel :: "gitops_db \<Rightarrow> string \<Rightarrow> string option \<Rightarrow> string option \<times> string" where
  "notificationLabel db applicationId stackName =
     (let app = getApplication db applicationId
      in case classifyHistoryRow (Some (nullable_json JStr stackName))
           (Some (nullable_json (\<lambda>a. JStr (lifecycle_status_text (app_lifecycle_status a))) app))
           (Some (JBool True)) of
           Read_stack visible \<Rightarrow> (Some visible, visible)
         | _ \<Rightarrow> (None,
             (case Option.bind (Option.bind app app_blueprint_id) (map_of (db_blueprint_names db)) of
                Some name \<Rightarrow> ''Blueprint '' @ [CHR 0x22] @ name @ [CHR 0x22]
              | None \<Rightarrow> applicationId)))"

definition reason_suffix :: "string option \<Rightarrow> string" where
  "reason_suffix reason = (if truthy_str reason then '': '' @ the reason else [])"

definition settled_candidate :: "settled_attempt_payload \<Rightarrow> gitops_candidate_identity option" where
  "settled_candidate payload =
     (case (sp_candidateGenerationId payload, sp_candidateState payload) of
        (Some g, Some state) \<Rightarrow>
          (if g \<noteq> [] \<and> (if settledNotificationFamily (sp_outcome payload) = Fam_ready
                        then state = Cs_awaiting_review \<or> state = Cs_held else state = Cs_blocked)
           then Some \<lparr>ci_applicationId = sp_applicationId payload, ci_generationId = g, ci_state = state\<rparr>
           else None)
      | _ \<Rightarrow> None)"

definition fanoutSettledNotification :: "js_number \<Rightarrow> settled_attempt_payload \<Rightarrow> gitops_db \<Rightarrow> gitops_db" where
  "fanoutSettledNotification default_node payload db =
     (if \<not> settledOutcomeCarriesNews (sp_outcome payload) then db
      else
        (let (visibleStack, label) = notificationLabel db (sp_applicationId payload) (sp_stackName payload);
             (category, level) = SETTLED_FAMILY_NOTIFICATION (settledNotificationFamily (sp_outcome payload))
         in addNotificationHistory
              \<lparr>ntf_node_id = nullish (sp_nodeId payload) default_node, ntf_level = level,
               ntf_message = ''GitOps '' @ sp_outcome payload @ '' for '' @ label
                 @ reason_suffix (sp_reason payload),
               ntf_timestamp = sp_at payload, ntf_is_read = False, ntf_stack_name = visibleStack,
               ntf_category = category, ntf_actor_username = sp_actor payload,
               ntf_gitops_operation_id = Some (sp_operationId payload),
               ntf_dedupe_key = Some (gitOpsAttemptNotificationKey (sp_operationId payload)
                 (settled_candidate payload))\<rparr> db))"

text \<open>The decoder admits only stages of the table, so the lookup of the text is defined.\<close>

definition fanoutGitOpsEvent :: "js_number \<Rightarrow> gitops_event_payload \<Rightarrow> gitops_db \<Rightarrow> gitops_db" where
  "fanoutGitOpsEvent default_node payload db =
     (let (visibleStack, label) = notificationLabel db (ep_applicationId payload) (ep_stackName payload);
          meta = the (map_of GITOPS_NOTIFICATION_META (ep_stage payload))
      in addNotificationHistory
           \<lparr>ntf_node_id = nullish (ep_nodeId payload) default_node, ntf_level = nm_level meta,
            ntf_message = ''GitOps '' @ nm_phrase meta @ '' for '' @ label @ reason_suffix (ep_reason payload),
            ntf_timestamp = ep_at payload, ntf_is_read = False, ntf_stack_name = visibleStack,
            ntf_category = nm_category meta, ntf_actor_username = ep_actor payload,
            ntf_gitops_operation_id = Some (ep_operationId payload),
            ntf_dedupe_key = Some (gitOpsEventNotificationDedupeKey (ep_historyId payload))\<rparr> db)"

definition drainDecodedRow ::
    "js_number \<Rightarrow> string \<Rightarrow> (string + 'a) \<Rightarrow> ('a \<Rightarrow> gitops_db \<Rightarrow> gitops_db) \<Rightarrow> gitops_db \<Rightarrow> gitops_db" where
  "drainDecodedRow now historyId decoded fanout db =
     (case decoded of Inl _ \<Rightarrow> db | Inr payload \<Rightarrow> markDrained historyId now (fanout payload db))"

definition drainGitOpsOutboxRow :: "js_number \<Rightarrow> js_number \<Rightarrow> string \<Rightarrow> gitops_db \<Rightarrow> gitops_db" where
  "drainGitOpsOutboxRow default_node now historyId db =
     (case find (\<lambda>r. obx_settled_history_id r = historyId) (db_outbox db) of
        None \<Rightarrow> db
      | Some row \<Rightarrow>
          (if obx_drained_at row \<noteq> None then db
           else if obx_payload_version row = GITOPS_EVENT_PAYLOAD_VERSION then
             drainDecodedRow now historyId
               (decodeGitOpsEventPayload (obx_payload_json row) (obx_payload_version row))
               (fanoutGitOpsEvent default_node) db
           else if obx_payload_version row = SETTLED_ATTEMPT_PAYLOAD_VERSION then
             drainDecodedRow now historyId
               (decodeSettledAttemptPayload (obx_payload_json row) (obx_payload_version row))
               (fanoutSettledNotification default_node) db
           else db))"

definition repairGitOpsOutbox :: "js_number \<Rightarrow> js_number \<Rightarrow> gitops_db \<Rightarrow> gitops_db" where
  "repairGitOpsOutbox default_node now db =
     fold (\<lambda>row. drainGitOpsOutboxRow default_node now (obx_settled_history_id row)) (listUndrained db) db"

end
