(* ===== verification/Transition_Engine.thy ===== *)
theory Transition_Engine
  imports Recovery_Claim Policy_Composition Outbox
begin

text \<open>
  The shared half of the transitions (\<^verbatim>\<open>gitops/transitions.ts\<close>): the audit row, the transaction that
  loads, mutates, writes and records an application or a target, and the private helpers the
  transitions are composed of. A transition is a function from the database to an error or to the new
  database with its result; an error leaves no database behind, as a throw inside
  \<^verbatim>\<open>transaction()\<close> rolls back. The outbox row of an announced audit row is
  inserted with it.
\<close>

section \<open>Envelope, results, audit\<close>

record event_envelope =
  ev_operationId :: string
  ev_actor :: "string option"
  ev_trigger :: string
  ev_at :: int

record transition_result =
  tr_historyIds :: "string list"
  tr_replayed :: bool

abbreviation terr :: "string \<Rightarrow> js_error" where
  "terr m \<equiv> GitOpsTransitionError m None"

record history_fields =
  hf_stage :: string
  hf_outcome :: history_outcome
  hf_before :: "(string \<times> json) list"
  hf_after :: "(string \<times> json) list"
  hf_nodeId :: "int option"
  hf_generationId :: "string option"
  hf_artifactSetId :: "string option"
  hf_sourceAcceptanceRef :: "string option"
  hf_placementApprovalRef :: "string option"
  hf_rolloutAuthorizationRef :: "string option"
  hf_rolloutGenerationId :: "string option"
  hf_commitSha :: "string option"
  hf_invocationObservedJson :: "raw_json option"

definition history_fields0 ::
    "string \<Rightarrow> history_outcome \<Rightarrow> (string \<times> json) list \<Rightarrow> (string \<times> json) list \<Rightarrow> history_fields" where
  "history_fields0 stage outcome before after =
     \<lparr>hf_stage = stage, hf_outcome = outcome, hf_before = before, hf_after = after, hf_nodeId = None,
      hf_generationId = None, hf_artifactSetId = None, hf_sourceAcceptanceRef = None,
      hf_placementApprovalRef = None, hf_rolloutAuthorizationRef = None, hf_rolloutGenerationId = None,
      hf_commitSha = None, hf_invocationObservedJson = None\<rparr>"

definition dedupe_of :: "gitops_history_row \<Rightarrow> string \<times> string \<times> string \<times> string" where
  "dedupe_of r = (his_application_id r, his_operation_id r, his_stage r, his_dedupe_target r)"

text \<open>\<^verbatim>\<open>randomUUID()\<close> for an audit row: a fresh non-empty string, here numbered by the table.\<close>

definition history_uuid :: "gitops_db \<Rightarrow> string" where
  "history_uuid db = ''history-'' @ show_nat (length (db_history db))"

text \<open>What an inserted row announces: the outbox row of its plan, in the same transaction.\<close>

definition announce_history ::
    "gitops_application_row \<Rightarrow> (string \<times> json) list \<Rightarrow> gitops_history_row \<Rightarrow> gitops_db \<Rightarrow> gitops_db" where
  "announce_history app after row db =
     (case gitOpsOutboxPlan (his_stage row) (app_target_mode app) after of
        None \<Rightarrow> db
      | Some Plan_settled \<Rightarrow> insertSettledOutbox
          \<lparr>sp_settledHistoryId = his_id row, sp_applicationId = app_id app,
           sp_operationId = his_operation_id row, sp_stackName = app_stack_name app,
           sp_nodeId = map_option NInt (his_node_id row),
           sp_outcome = string_prop_or after ''outcome'' ''unknown'',
           sp_nextAction = string_prop_or after ''nextAction'' ''none'',
           sp_reason = Option.bind (prop_of after ''reason'') as_string, sp_trigger = his_trigger row,
           sp_actor = his_actor row, sp_at = NInt (his_created_at row),
           sp_candidateGenerationId =
             nullish_opt (his_generation_id row) (app_candidate_generation_id app),
           sp_candidateState = gitOpsCandidateState app\<rparr> db
      | Some (Plan_event stage) \<Rightarrow> insertGitOpsEventOutbox
          \<lparr>ep_historyId = his_id row, ep_applicationId = app_id app,
           ep_operationId = his_operation_id row, ep_stage = stage, ep_stackName = app_stack_name app,
           ep_nodeId = map_option NInt (his_node_id row), ep_actor = his_actor row,
           ep_reason = gitOpsPauseReason after, ep_at = NInt (his_created_at row)\<rparr> db)"

text \<open>\<^verbatim>\<open>insertHistory\<close> (history.ts): a duplicate of the dedupe tuple inserts nothing and returns null. The
  in-process queue that announces the row to clients is in the theory of the publication.\<close>

definition insertHistory ::
    "gitops_application_row \<Rightarrow> (string \<times> json) list \<Rightarrow> gitops_history_row \<Rightarrow> gitops_db
      \<Rightarrow> string option \<times> gitops_db" where
  "insertHistory app after row db =
     (if \<exists>r \<in> set (db_history db). dedupe_of r = dedupe_of row then (None, db)
      else (Some (his_id row),
            announce_history app after row (db\<lparr>db_history := db_history db @ [row]\<rparr>)))"

definition history ::
    "gitops_application_row \<Rightarrow> event_envelope \<Rightarrow> history_fields \<Rightarrow> gitops_db
      \<Rightarrow> string option \<times> gitops_db" where
  "history app envelope fs db =
     insertHistory app (hf_after fs)
       \<lparr>his_id = history_uuid db, his_created_at = ev_at envelope, his_application_id = app_id app,
        his_target_mode = app_target_mode app, his_lifecycle_key = app_lifecycle_key app,
        his_stack_name = app_stack_name app, his_blueprint_id = app_blueprint_id app,
        his_node_id = hf_nodeId fs,
        his_dedupe_target = (case hf_nodeId fs of None \<Rightarrow> ''app'' | Some n \<Rightarrow> ''node:'' @ show_int n),
        his_repo_url = app_configured_repo_url app, his_configured_ref = app_configured_ref app,
        his_repo_identity_json = app_repo_identity_json app,
        his_commit_sha = nullish_opt (hf_commitSha fs) (app_desired_commit_sha app),
        his_generation_id = hf_generationId fs, his_artifact_set_id = hf_artifactSetId fs,
        his_intent_revision_id = app_intent_revision_id app,
        his_rollout_candidate_id = app_rollout_candidate_id app,
        his_rollout_generation_id =
          nullish_opt (hf_rolloutGenerationId fs) (app_rollout_generation_id app),
        his_source_acceptance_ref =
          nullish_opt (hf_sourceAcceptanceRef fs) (app_source_acceptance_ref app),
        his_placement_approval_ref =
          nullish_opt (hf_placementApprovalRef fs) (app_placement_approval_ref app),
        his_rollout_authorization_ref =
          nullish_opt (hf_rolloutAuthorizationRef fs) (app_rollout_authorization_ref app),
        his_legacy_combined_approval_ref = app_legacy_combined_approval_ref app,
        his_operation_id = ev_operationId envelope, his_stage = hf_stage fs,
        his_outcome = hf_outcome fs, his_trigger = ev_trigger envelope,
        his_actor = ev_actor envelope, his_before_json = encodeGitOpsJson (JObj (hf_before fs)),
        his_after_json = encodeGitOpsJson (JObj (hf_after fs)), his_required_targets_json = None,
        his_invocation_observed_json = hf_invocationObservedJson fs, his_recovery_ref = None,
        his_redacted_reason_class = None\<rparr> db"

definition opt_list :: "'a option \<Rightarrow> 'a list" where
  "opt_list x = (case x of None \<Rightarrow> [] | Some v \<Rightarrow> [v])"

definition result_of :: "string list \<Rightarrow> transition_result" where
  "result_of ids = \<lparr>tr_historyIds = ids, tr_replayed = (ids = [])\<rparr>"

section \<open>Texts of the recorded vocabularies\<close>

definition lifecycle_text :: "lifecycle_status \<Rightarrow> string" where
  "lifecycle_text s = (case s of Lc_active \<Rightarrow> ''active'' | Lc_creating \<Rightarrow> ''creating''
     | Lc_detached \<Rightarrow> ''detached'' | Lc_deleted \<Rightarrow> ''deleted'')"

definition target_status_text :: "target_status \<Rightarrow> string" where
  "target_status_text s = (case s of Ts_active \<Rightarrow> ''active'' | Ts_tombstoned \<Rightarrow> ''tombstoned'')"

definition app_stage_text :: "app_active_stage \<Rightarrow> string" where
  "app_stage_text s = (case s of Ast_fetch_started \<Rightarrow> ''fetch_started'' | Ast_apply_started \<Rightarrow> ''apply_started''
     | Ast_deploy_started \<Rightarrow> ''deploy_started'' | Ast_recovery_started \<Rightarrow> ''recovery_started'')"

definition target_stage_text :: "target_active_stage \<Rightarrow> string" where
  "target_stage_text s = (case s of Tst_deploy_started \<Rightarrow> ''deploy_started''
     | Tst_blueprint_deploy_started \<Rightarrow> ''blueprint_deploy_started''
     | Tst_blueprint_withdraw_started \<Rightarrow> ''blueprint_withdraw_started''
     | Tst_recovery_started \<Rightarrow> ''recovery_started'')"

definition app_failure_text :: "app_failure_stage \<Rightarrow> string" where
  "app_failure_text s = (case s of Af_fetch \<Rightarrow> ''fetch'' | Af_validation \<Rightarrow> ''validation'' | Af_apply \<Rightarrow> ''apply''
     | Af_create \<Rightarrow> ''create'' | Af_recovery \<Rightarrow> ''recovery'')"

definition placement_reason_text :: "placement_policy_reason \<Rightarrow> string" where
  "placement_reason_text r = (case r of
     Pr_policy_is_operator \<Rightarrow> ''policy_is_operator'' | Pr_no_placement_change \<Rightarrow> ''no_placement_change''
   | Pr_stateless_addition \<Rightarrow> ''stateless_addition'' | Pr_stateless_removal \<Rightarrow> ''stateless_removal''
   | Pr_mixed_add_and_remove \<Rightarrow> ''mixed_add_and_remove'' | Pr_multiple_additions \<Rightarrow> ''multiple_additions''
   | Pr_multiple_removals \<Rightarrow> ''multiple_removals'' | Pr_stateful_workload \<Rightarrow> ''stateful_workload''
   | Pr_unknown_workload \<Rightarrow> ''unknown_workload''
   | Pr_first_multi_node_placement \<Rightarrow> ''first_multi_node_placement''
   | Pr_pin_driven_placement \<Rightarrow> ''pin_driven_placement'' | Pr_cordon_override \<Rightarrow> ''cordon_override''
   | Pr_cordon_driven_removal \<Rightarrow> ''cordon_driven_removal'' | Pr_stale_node \<Rightarrow> ''stale_node''
   | Pr_unknown_connectivity \<Rightarrow> ''unknown_connectivity'' | Pr_missing_evidence \<Rightarrow> ''missing_evidence''
   | Pr_malformed_evidence \<Rightarrow> ''malformed_evidence'' | Pr_destructive_effect \<Rightarrow> ''destructive_effect''
   | Pr_conflicting_operation \<Rightarrow> ''conflicting_operation'')"

definition snapshotApp :: "gitops_application_row \<Rightarrow> (string \<times> json) list" where
  "snapshotApp app =
     [(''lifecycleStatus'', JStr (lifecycle_text (app_lifecycle_status app))),
      (''desiredCommitSha'', nullable_json JStr (app_desired_commit_sha app)),
      (''fetchedCommitSha'', nullable_json JStr (app_fetched_commit_sha app)),
      (''candidateGenerationId'', nullable_json JStr (app_candidate_generation_id app)),
      (''acceptedGenerationId'', nullable_json JStr (app_accepted_generation_id app)),
      (''artifactSetId'', nullable_json JStr (app_artifact_set_id app)),
      (''latestArtifactSetId'', nullable_json JStr (app_latest_artifact_set_id app)),
      (''sourceAcceptanceRef'', nullable_json JStr (app_source_acceptance_ref app)),
      (''placementApprovalRef'', nullable_json JStr (app_placement_approval_ref app)),
      (''rolloutAuthorizationRef'', nullable_json JStr (app_rollout_authorization_ref app)),
      (''activeOperationStage'',
        nullable_json (\<lambda>s. JStr (app_stage_text s)) (app_active_operation_stage app)),
      (''failureStage'', nullable_json (\<lambda>s. JStr (app_failure_text s)) (app_failure_stage app)),
      (''sourcePolicy'', JStr (source_policy_text (app_source_policy app))),
      (''placementPolicy'', JStr (placement_policy_text (app_placement_policy app))),
      (''rolloutAuthorizationPolicy'', JStr (rollout_policy_text (app_rollout_authorization_policy app))),
      (''placementPolicyRefusalReason'',
        nullable_json (\<lambda>r. JStr (placement_reason_text r)) (app_placement_policy_refusal_reason app))]"

section \<open>The two transactions\<close>

record extra_history =
  xh_generationId :: "string option"
  xh_artifactSetId :: "string option"
  xh_sourceAcceptanceRef :: "string option"
  xh_rolloutGenerationId :: "string option"
  xh_historyAfter :: "(string \<times> json) list"

definition no_extra :: extra_history where
  "no_extra = \<lparr>xh_generationId = None, xh_artifactSetId = None, xh_sourceAcceptanceRef = None,
     xh_rolloutGenerationId = None, xh_historyAfter = []\<rparr>"

text \<open>A mutation of the application: the row, the database it writes other tables of, and the keys of
  the audit rows it appended.\<close>

type_synonym app_mutation =
  "gitops_application_row \<Rightarrow> gitops_db \<Rightarrow> (gitops_application_row \<times> gitops_db \<times> string list) res"

definition stamp_app :: "event_envelope \<Rightarrow> gitops_application_row \<Rightarrow> gitops_application_row" where
  "stamp_app envelope app =
     app\<lparr>app_latest_operation_id := Some (ev_operationId envelope), app_updated_at := ev_at envelope\<rparr>"

definition mutateApp ::
    "string \<Rightarrow> event_envelope \<Rightarrow> string \<Rightarrow> history_outcome \<Rightarrow> app_mutation \<Rightarrow> extra_history
      \<Rightarrow> gitops_db \<Rightarrow> (gitops_db \<times> transition_result) res" where
  "mutateApp applicationId envelope stage outcome mutate extraHistory db =
     (case getApplication db applicationId of
        None \<Rightarrow> Inl (terr ''application not found'')
      | Some app0 \<Rightarrow>
          bind_res (mutate app0 db) (\<lambda>(app1, db1, ids).
            let app = stamp_app envelope app1;
                db2 = writeApplication app db1;
                (historyId, db3) = history app envelope
                  ((history_fields0 stage outcome (snapshotApp app0)
                     (obj_spread (xh_historyAfter extraHistory) (snapshotApp app)))
                   \<lparr>hf_generationId := xh_generationId extraHistory,
                    hf_artifactSetId := xh_artifactSetId extraHistory,
                    hf_sourceAcceptanceRef := xh_sourceAcceptanceRef extraHistory,
                    hf_rolloutGenerationId := xh_rolloutGenerationId extraHistory\<rparr>) db2
            in Inr (db3, result_of (ids @ opt_list historyId))))"

definition requireApp :: "gitops_db \<Rightarrow> string \<Rightarrow> gitops_application_row res" where
  "requireApp db applicationId =
     (case getApplication db applicationId of
        None \<Rightarrow> Inl (terr ''application not found'') | Some app \<Rightarrow> Inr app)"

definition STANDING_BLUEPRINT_DECISIONS :: "string list" where
  "STANDING_BLUEPRINT_DECISIONS =
     [''blueprint_state_review'', ''blueprint_evict_blocked'', ''blueprint_drifted'',
      ''blueprint_correcting'', ''blueprint_repair_held'']"

definition isStandingBlueprintDecision :: "string option \<Rightarrow> bool" where
  "isStandingBlueprintDecision stage =
     (case stage of None \<Rightarrow> False | Some s \<Rightarrow> s \<in> set STANDING_BLUEPRINT_DECISIONS)"

type_synonym target_mutation =
  "gitops_target_current_row \<Rightarrow> gitops_application_row \<Rightarrow> gitops_db
    \<Rightarrow> (gitops_target_current_row \<times> gitops_db \<times> (string \<times> json) list \<times> (string \<times> json) list) res"

record mutate_options =
  mo_keepStandingDecision :: bool
  mo_invocationObservedJson :: "raw_json option"

definition no_options :: mutate_options where
  "no_options = \<lparr>mo_keepStandingDecision = False, mo_invocationObservedJson = None\<rparr>"

definition stamp_target ::
    "mutate_options \<Rightarrow> string \<Rightarrow> event_envelope \<Rightarrow> gitops_target_current_row \<Rightarrow> gitops_target_current_row" where
  "stamp_target options stage envelope target =
     (if mo_keepStandingDecision options \<and> isStandingBlueprintDecision (tgt_latest_stage target)
      then target else target\<lparr>tgt_latest_stage := Some stage\<rparr>)\<lparr>tgt_updated_at := ev_at envelope\<rparr>"

definition mutateTarget ::
    "string \<Rightarrow> int \<Rightarrow> event_envelope \<Rightarrow> string \<Rightarrow> string option \<Rightarrow> target_mutation \<Rightarrow> history_outcome
      \<Rightarrow> mutate_options \<Rightarrow> gitops_db \<Rightarrow> (gitops_db \<times> transition_result) res" where
  "mutateTarget applicationId nodeId envelope stage generationId mutate outcome options db =
     bind_res (requireApp db applicationId) (\<lambda>app.
       case getTarget db applicationId nodeId of
         None \<Rightarrow> Inl (terr ''target not found'')
       | Some target0 \<Rightarrow>
           bind_res (mutate target0 app db) (\<lambda>(target1, db1, before, after).
             let target = stamp_target options stage envelope target1
             in bind_res (upsertTarget target db1) (\<lambda>db2.
                  let (historyId, db3) = history app envelope
                        ((history_fields0 stage outcome before after)
                         \<lparr>hf_nodeId := Some nodeId, hf_generationId := generationId,
                          hf_invocationObservedJson := mo_invocationObservedJson options\<rparr>) db2
                  in Inr (db3, result_of (opt_list historyId)))))"

section \<open>Helpers on the application row\<close>

definition requireMatchingFetch :: "gitops_application_row \<Rightarrow> event_envelope \<Rightarrow> unit res" where
  "requireMatchingFetch app envelope =
     (let live = app_active_operation_stage app = Some Ast_fetch_started
            \<and> (\<not> truthy_str (app_active_operation_id app)
               \<or> app_active_operation_id app = Some (ev_operationId envelope));
          interrupted = app_interruption_stage app = Some Ast_fetch_started
            \<and> (\<not> truthy_str (app_interruption_operation_id app)
               \<or> app_interruption_operation_id app = Some (ev_operationId envelope))
      in require_res (live \<or> interrupted) (terr ''no matching fetch operation'') (Inr ()))"

definition requireOwnedGeneration :: "gitops_db \<Rightarrow> string \<Rightarrow> string \<Rightarrow> gitops_generation_row res" where
  "requireOwnedGeneration db applicationId generationId =
     (case getGeneration db generationId of
        None \<Rightarrow> Inl (terr ''generation is not owned by this application'')
      | Some g \<Rightarrow> require_res (gen_application_id g = applicationId)
          (terr ''generation is not owned by this application'') (Inr g))"

definition clearActive :: "gitops_application_row \<Rightarrow> gitops_application_row" where
  "clearActive app =
     app\<lparr>app_active_operation_id := None, app_active_operation_stage := None,
         app_active_operation_at := None, app_active_generation_id := None\<rparr>"

definition clearInterruption ::
    "app_active_stage option \<Rightarrow> gitops_application_row \<Rightarrow> gitops_application_row" where
  "clearInterruption stage app =
     (if app_interruption_stage app \<noteq> stage then app
      else app\<lparr>app_interruption_stage := None, app_interruption_at := None,
               app_interruption_operation_id := None, app_interruption_generation_id := None\<rparr>)"

definition clearAppFailure ::
    "app_failure_stage list \<Rightarrow> gitops_application_row \<Rightarrow> gitops_application_row" where
  "clearAppFailure stages app =
     (case app_failure_stage app of
        None \<Rightarrow> app
      | Some s \<Rightarrow> (if s \<notin> set stages then app
                    else app\<lparr>app_failure_stage := None, app_failure_class := None,
                             app_failure_at := None\<rparr>))"

definition withApplication ::
    "string \<Rightarrow> event_envelope \<Rightarrow> (gitops_application_row \<Rightarrow> gitops_application_row) \<Rightarrow> gitops_db
      \<Rightarrow> gitops_db res" where
  "withApplication applicationId envelope mutate db =
     bind_res (requireApp db applicationId) (\<lambda>app.
       Inr (writeApplication ((mutate app)\<lparr>app_updated_at := ev_at envelope\<rparr>) db))"

section \<open>Helpers on target rows\<close>

fun upsert_each :: "gitops_target_current_row list \<Rightarrow> gitops_db \<Rightarrow> gitops_db res" where
  "upsert_each [] db = Inr db"
| "upsert_each (t # ts) db = bind_res (upsertTarget t db) (upsert_each ts)"

text \<open>The callback of \<^verbatim>\<open>forEachLiveDirectTarget\<close> returns the row to upsert, or \<open>None\<close> when it returns
  early.\<close>

definition forEachLiveDirectTarget ::
    "gitops_application_row \<Rightarrow> (gitops_target_current_row \<Rightarrow> gitops_target_current_row option)
      \<Rightarrow> gitops_db \<Rightarrow> gitops_db res" where
  "forEachLiveDirectTarget app f db =
     (if app_target_mode app \<noteq> Direct then Inr db
      else upsert_each (List.map_filter f
             (filter (\<lambda>t. tgt_target_status t = Ts_active) (listTargets db (app_id app)))) db)"

definition clearTargetActive :: "gitops_target_current_row \<Rightarrow> gitops_target_current_row" where
  "clearTargetActive target =
     target\<lparr>tgt_active_operation_id := None, tgt_active_operation_stage := None,
            tgt_active_operation_at := None, tgt_active_generation_id := None,
            tgt_active_intent_revision_id := None, tgt_active_rollout_candidate_id := None\<rparr>"

definition clearTargetInterruption ::
    "target_active_stage option \<Rightarrow> gitops_target_current_row \<Rightarrow> gitops_target_current_row" where
  "clearTargetInterruption stage target =
     (if tgt_interruption_stage target \<noteq> stage then target
      else target\<lparr>tgt_interruption_stage := None, tgt_interruption_at := None,
                  tgt_interruption_operation_id := None, tgt_interruption_generation_id := None,
                  tgt_interruption_intent_revision_id := None,
                  tgt_interruption_rollout_candidate_id := None\<rparr>)"

definition markInFlightRestore :: "int \<Rightarrow> gitops_target_current_row \<Rightarrow> gitops_target_current_row" where
  "markInFlightRestore now target =
     (if \<not> targetRestoreInFlight target then target
      else if tgt_active_operation_stage target \<noteq> None then target
      else target\<lparr>tgt_active_operation_stage := Some Tst_recovery_started,
                  tgt_active_operation_at := Some now,
                  tgt_active_generation_id := tgt_recovery_generation_id target,
                  tgt_active_operation_id := None, tgt_active_intent_revision_id := None,
                  tgt_active_rollout_candidate_id := None\<rparr>)"

definition clear_recovery_app :: "gitops_application_row \<Rightarrow> gitops_application_row" where
  "clear_recovery_app app =
     (if app_recovery_phase app \<noteq> Some Rp_failed \<and> app_failure_stage app \<noteq> Some Af_recovery then app
      else clearAppFailure [Af_recovery] (app\<lparr>app_recovery_phase := None, app_recovery_ref := None\<rparr>))"

definition clearApplicationRecoveryWhenNoTargetFails ::
    "string \<Rightarrow> int \<Rightarrow> event_envelope \<Rightarrow> gitops_db \<Rightarrow> gitops_db res" where
  "clearApplicationRecoveryWhenNoTargetFails applicationId acknowledgedNodeId envelope db =
     (if \<exists>row \<in> set (listTargets db applicationId).
           (tgt_node_id row \<noteq> acknowledgedNodeId \<or> targetRestoreInFlight row)
           \<and> tgt_target_status row \<noteq> Ts_tombstoned \<and> targetRecoveryFailureMoved row
      then Inr db
      else withApplication applicationId envelope clear_recovery_app db)"

definition clear_failure_slot :: "gitops_target_current_row \<Rightarrow> gitops_target_current_row" where
  "clear_failure_slot target =
     target\<lparr>tgt_failure_stage := None, tgt_failure_class := None, tgt_failure_at := None\<rparr>"

definition clear_recovery_slot :: "gitops_target_current_row \<Rightarrow> gitops_target_current_row" where
  "clear_recovery_slot target =
     (let t = target\<lparr>tgt_recovery_phase := None, tgt_recovery_ref := None,
                     tgt_recovery_failure_class := None, tgt_recovery_failure_at := None\<rparr>
      in if tgt_failure_stage t = Some Tf_recovery then clear_failure_slot t else t)"

definition clearRecoveryClaim ::
    "string \<Rightarrow> event_envelope \<Rightarrow> gitops_target_current_row \<Rightarrow> gitops_db
      \<Rightarrow> (gitops_target_current_row \<times> gitops_db) res" where
  "clearRecoveryClaim applicationId envelope target db =
     bind_res (clearApplicationRecoveryWhenNoTargetFails applicationId (tgt_node_id target) envelope db)
       (\<lambda>db1. Inr (clear_recovery_slot target, db1))"

definition retireRecoveryClaimOnSuccess ::
    "string \<Rightarrow> event_envelope \<Rightarrow> gitops_target_current_row \<Rightarrow> gitops_db
      \<Rightarrow> (gitops_target_current_row \<times> gitops_db) res" where
  "retireRecoveryClaimOnSuccess applicationId envelope target db =
     (if targetRestoreInFlight target then Inr (target, db)
      else if recoveryFailureClaimClass target = None \<and> tgt_recovery_phase target \<noteq> Some Rp_failed
      then Inr (target, db)
      else clearRecoveryClaim applicationId envelope target db)"

definition retireNonMovingRecoveryClaim ::
    "string \<Rightarrow> event_envelope \<Rightarrow> gitops_target_current_row \<Rightarrow> gitops_db
      \<Rightarrow> (gitops_target_current_row \<times> gitops_db) res" where
  "retireNonMovingRecoveryClaim applicationId envelope target db =
     (if \<not> recoveryClaimRetirable target then Inr (target, db)
      else clearRecoveryClaim applicationId envelope target db)"

definition requireMatchingDeploy ::
    "gitops_target_current_row \<Rightarrow> string \<Rightarrow> event_envelope \<Rightarrow> unit res" where
  "requireMatchingDeploy target generationId envelope =
     (let live = tgt_active_operation_stage target = Some Tst_deploy_started
            \<and> tgt_active_generation_id target = Some generationId
            \<and> (\<not> truthy_str (tgt_active_operation_id target)
               \<or> tgt_active_operation_id target = Some (ev_operationId envelope));
          interrupted = tgt_interruption_stage target = Some Tst_deploy_started
            \<and> tgt_interruption_generation_id target = Some generationId
            \<and> (\<not> truthy_str (tgt_interruption_operation_id target)
               \<or> tgt_interruption_operation_id target = Some (ev_operationId envelope))
      in require_res (live \<or> interrupted) (terr ''no matching deploy operation'') (Inr ()))"

section \<open>Acceptance and supersession\<close>

definition supersedeCandidate ::
    "gitops_application_row \<Rightarrow> string \<Rightarrow> event_envelope \<Rightarrow> gitops_db \<Rightarrow> string list \<times> gitops_db" where
  "supersedeCandidate app nextGenerationId envelope db =
     (if \<not> truthy_str (app_candidate_generation_id app)
         \<or> app_candidate_generation_id app = Some nextGenerationId then ([], db)
      else
        (let (h, db1) = history app envelope
               ((history_fields0 ''candidate_superseded'' Ho_superseded
                  [(''candidateGenerationId'', nullable_json JStr (app_candidate_generation_id app))]
                  [(''candidateGenerationId'', JStr nextGenerationId)])
                \<lparr>hf_generationId := app_candidate_generation_id app\<rparr>) db
         in (opt_list h, db1)))"

definition recordRolloutGenerationSuperseded ::
    "gitops_application_row \<Rightarrow> string \<Rightarrow> string option \<Rightarrow> event_envelope \<Rightarrow> gitops_db
      \<Rightarrow> string list \<times> gitops_db" where
  "recordRolloutGenerationSuperseded app previousGenerationId nextGenerationId envelope db =
     (case getRolloutGeneration db previousGenerationId of
        None \<Rightarrow> ([], db)
      | Some existing \<Rightarrow>
          (if rgen_superseded_at existing \<noteq> None then ([], db)
           else
             (let (h, db1) = history app envelope
                    ((history_fields0 ''rollout_generation_superseded'' Ho_superseded
                       [(''rolloutGenerationId'', JStr previousGenerationId)]
                       [(''rolloutGenerationId'', nullable_json JStr nextGenerationId)])
                     \<lparr>hf_rolloutGenerationId := Some previousGenerationId\<rparr>)
                    (markRolloutGenerationSuperseded previousGenerationId (ev_at envelope) db)
              in (opt_list h, db1))))"

definition invalidatePlacementOnMaterialChange ::
    "gitops_application_row \<Rightarrow> event_envelope \<Rightarrow> gitops_db
      \<Rightarrow> gitops_application_row \<times> gitops_db \<times> string list" where
  "invalidatePlacementOnMaterialChange app0 envelope db =
     (let app = app0\<lparr>app_placement_approval_ref := None, app_rollout_authorization_ref := None,
                     app_preflight_fingerprint := None\<rparr>
      in if \<not> truthy_str (app_rollout_generation_id app) then (app, db, [])
         else
           (let (ids, db1) = recordRolloutGenerationSuperseded app
                  (the (app_rollout_generation_id app)) None envelope db
            in (app\<lparr>app_rollout_generation_id := None\<rparr>, db1, ids)))"

definition pause_origin_text :: "pause_origin \<Rightarrow> string" where
  "pause_origin_text po = (case po of Po_operator \<Rightarrow> ''operator'' | Po_system \<Rightarrow> ''system'' | Po_health \<Rightarrow> ''health'')"

text \<open>A hold the system placed ends with the rollout it held, unless a rollback is still pending.\<close>

definition release_system_pause ::
    "gitops_application_row \<Rightarrow> event_envelope \<Rightarrow> gitops_db
      \<Rightarrow> gitops_application_row \<times> gitops_db \<times> string list" where
  "release_system_pause app envelope db =
     (let rollbackPending = app_target_mode app = Blueprint
            \<and> (\<exists>t \<in> set (listTargets db (app_id app)). tgt_target_status t = Ts_active
                 \<and> tgt_health_stop_reason t = Some Hs_rollback_pending)
      in if app_pause_at app \<noteq> None \<and> app_pause_origin app = Po_system \<and> \<not> rollbackPending
         then
           (let a = app\<lparr>app_pause_at := None, app_pause_reason := None, app_pause_origin := Po_operator\<rparr>;
                (h, d) = history a envelope
                  (history_fields0 ''rollout_unpaused'' Ho_committed
                     [(''pauseAt'', nullable_json (\<lambda>n. JNum (NInt n)) (app_pause_at app)),
                      (''pauseReason'', nullable_json JStr (app_pause_reason app)),
                      (''pauseOrigin'', JStr (pause_origin_text (app_pause_origin app)))]
                     [(''pauseAt'', JNull), (''pauseReason'', JNull), (''pauseOrigin'', JStr ''operator'')]) db
            in (a, d, opt_list h))
         else (app, db, []))"

definition invalidateAuthorizationOnSourceChange ::
    "gitops_application_row \<Rightarrow> event_envelope \<Rightarrow> gitops_db
      \<Rightarrow> gitops_application_row \<times> gitops_db \<times> string list" where
  "invalidateAuthorizationOnSourceChange app0 envelope db =
     (let (app1, db1, ids1) = release_system_pause app0 envelope db
      in if app_target_mode app1 \<noteq> Blueprint then (app1, db1, ids1)
         else
           (let app2 = app1\<lparr>app_rollout_authorization_ref := None, app_preflight_fingerprint := None\<rparr>
            in if \<not> truthy_str (app_rollout_generation_id app2) then (app2, db1, ids1)
               else
                 (case getRolloutGeneration db1 (the (app_rollout_generation_id app2)) of
                    None \<Rightarrow> (app2, db1, ids1)
                  | Some live \<Rightarrow>
                      (if rgen_provenance live \<noteq> Rg_rollout_authorization then (app2, db1, ids1)
                       else
                         (let (ids2, db2) = recordRolloutGenerationSuperseded app2
                                (the (app_rollout_generation_id app2)) None envelope db1
                          in (app2\<lparr>app_rollout_generation_id := None\<rparr>, db2, ids1 @ ids2))))))"

definition allowedExpectedAdvance :: "gitops_db \<Rightarrow> string option \<Rightarrow> artifact_qualification \<Rightarrow> bool" where
  "allowedExpectedAdvance db loadedExpectedId qualification =
     (if qualification \<noteq> Q_exact \<and> qualification \<noteq> Q_qualified then False
      else if \<not> truthy_str loadedExpectedId then True
      else
        (case getArtifactSet db (the loadedExpectedId) of
           None \<Rightarrow> True
         | Some loaded \<Rightarrow> art_qualification loaded \<noteq> Q_exact \<and> art_qualification loaded \<noteq> Q_qualified))"

end
