(* ===== verification/Transitions.thy ===== *)
theory Transitions
  imports Transition_Engine
begin

text \<open>
  The transitions of a source and of its Direct targets (\<^verbatim>\<open>gitops/transitions.ts\<close>): fetching,
  staging and dismissing a candidate, accepting and applying it, deploying it on a node, suspension,
  retirement and interruption. \<open>lc\<close> is \<^verbatim>\<open>localeCompare\<close>, used by the evidence codecs.
\<close>

section \<open>Fetching\<close>

definition fetched ::
    "string \<Rightarrow> string \<Rightarrow> event_envelope \<Rightarrow> ref_kind option \<Rightarrow> gitops_db \<Rightarrow> (gitops_db \<times> transition_result) res" where
  "fetched applicationId commitSha envelope resolvedRefKind =
     mutateApp applicationId envelope ''fetched'' Ho_committed (\<lambda>app db.
       bind_res (requireMatchingFetch app envelope) (\<lambda>_.
         Inr (clearInterruption (Some Ast_fetch_started)
                (clearAppFailure [Af_fetch, Af_validation]
                  ((clearActive app)\<lparr>app_desired_commit_sha := Some commitSha,
                     app_fetched_commit_sha := Some commitSha,
                     app_fetched_resolved_ref_kind := resolvedRefKind, app_retry_count := 0\<rparr>)), db, [])))
       no_extra"

definition fetchStarted ::
    "string \<Rightarrow> event_envelope \<Rightarrow> gitops_db \<Rightarrow> (gitops_db \<times> transition_result) res" where
  "fetchStarted applicationId envelope =
     mutateApp applicationId envelope ''fetch_started'' Ho_committed (\<lambda>app db.
       require_res (\<not> truthy_num (app_suspended_at app)) (terr ''source is suspended'')
         (require_res (app_active_operation_stage app \<noteq> Some Ast_apply_started) (terr ''apply is already active'')
           (require_res (\<not> (app_active_operation_stage app \<noteq> None
               \<and> app_active_operation_id app \<noteq> Some (ev_operationId envelope)))
             (terr ''conflicting active operation'')
             (Inr (clearInterruption (Some Ast_fetch_started)
                (app\<lparr>app_active_operation_id := Some (ev_operationId envelope),
                     app_active_operation_stage := Some Ast_fetch_started,
                     app_active_operation_at := Some (ev_at envelope), app_active_generation_id := None,
                     app_retry_at := None, app_next_poll_at := None\<rparr>), db, [])))))
       no_extra"

definition fetchFailed ::
    "string \<Rightarrow> event_envelope \<Rightarrow> string option \<Rightarrow> gitops_db \<Rightarrow> (gitops_db \<times> transition_result) res" where
  "fetchFailed applicationId envelope code =
     mutateApp applicationId envelope ''fetch_failed'' Ho_failed (\<lambda>app db.
       bind_res (requireMatchingFetch app envelope) (\<lambda>_.
         Inr (clearInterruption (Some Ast_fetch_started)
                ((clearActive app)\<lparr>app_failure_stage := Some Af_fetch,
                   app_failure_class := Some (nullish code ''fetch''),
                   app_failure_at := Some (ev_at envelope)\<rparr>), db, [])))
       no_extra"

definition fetchedInvalid ::
    "string \<Rightarrow> string \<Rightarrow> event_envelope \<Rightarrow> ref_kind option \<Rightarrow> gitops_db \<Rightarrow> (gitops_db \<times> transition_result) res" where
  "fetchedInvalid applicationId commitSha envelope resolvedRefKind =
     mutateApp applicationId envelope ''fetched_invalid'' Ho_failed (\<lambda>app db.
       bind_res (requireMatchingFetch app envelope) (\<lambda>_.
         Inr (clearInterruption (Some Ast_fetch_started)
                ((clearActive app)\<lparr>app_desired_commit_sha := Some commitSha,
                   app_fetched_commit_sha := Some commitSha,
                   app_fetched_resolved_ref_kind := resolvedRefKind,
                   app_failure_stage := Some Af_validation, app_failure_class := Some ''validation'',
                   app_failure_at := Some (ev_at envelope)\<rparr>), db, [])))
       no_extra"

section \<open>Candidates\<close>

definition set_target_candidate ::
    "string option \<Rightarrow> gitops_target_current_row \<Rightarrow> gitops_target_current_row option" where
  "set_target_candidate g target = Some (target\<lparr>tgt_candidate_generation_id := g\<rparr>)"

definition sourceConflictBlocker ::
    "string \<Rightarrow> string \<Rightarrow> event_envelope \<Rightarrow> gitops_db \<Rightarrow> (gitops_db \<times> transition_result) res" where
  "sourceConflictBlocker applicationId generationId envelope =
     mutateApp applicationId envelope ''source_conflict_blocker'' Ho_committed (\<lambda>app db.
       bind_res (requireOwnedGeneration db (app_id app) generationId) (\<lambda>generation.
         require_res (gen_plan_blocked generation = 1) (terr ''generation is not blocked'')
           (require_res (\<not> (app_active_operation_stage app = Some Ast_apply_started
               \<and> app_candidate_generation_id app \<noteq> Some generationId))
             (terr ''cannot replace the candidate while an apply is in flight'')
             (let (ids, db1) = supersedeCandidate app generationId envelope db;
                  app1 = app\<lparr>app_candidate_generation_id := Some generationId,
                             app_candidate_plan_blocked := 1, app_review_block_reason := None\<rparr>
              in bind_res (forEachLiveDirectTarget app1 (set_target_candidate (Some generationId)) db1)
                   (\<lambda>db2. Inr (app1, db2, ids))))))
       (no_extra\<lparr>xh_generationId := Some generationId\<rparr>)"

definition dismissed ::
    "string \<Rightarrow> event_envelope \<Rightarrow> gitops_db \<Rightarrow> (gitops_db \<times> transition_result) res" where
  "dismissed applicationId envelope =
     mutateApp applicationId envelope ''dismissed'' Ho_skipped (\<lambda>app db.
       require_res (truthy_str (app_candidate_generation_id app)) (terr ''no candidate to dismiss'')
         (require_res (app_active_operation_stage app = None)
           (terr ''cannot dismiss while an operation is in flight'')
           (let app1 = app\<lparr>app_candidate_generation_id := None, app_candidate_plan_blocked := 0,
                           app_review_required := 0, app_review_block_reason := None\<rparr>
            in bind_res (forEachLiveDirectTarget app1 (set_target_candidate None) db)
                 (\<lambda>db1. Inr (app1, db1, [])))))
       no_extra"

record material_change =
  mc_repoUrl :: string
  mc_repoIdentityJson :: raw_json
  mc_configuredRef :: string
  mc_composePathsJson :: raw_json
  mc_contextDir :: "string option"
  mc_syncEnv :: int
  mc_envPath :: "string option"
  mc_fingerprint :: string

definition configChangedPendingCleared ::
    "string \<Rightarrow> material_change \<Rightarrow> event_envelope \<Rightarrow> gitops_db \<Rightarrow> (gitops_db \<times> transition_result) res" where
  "configChangedPendingCleared applicationId material envelope =
     mutateApp applicationId envelope ''config_changed_pending_cleared'' Ho_committed (\<lambda>app db.
       require_res (app_target_mode app = Direct)
         (terr ''material configuration applies to Direct applications only'')
         (require_res (app_active_operation_stage app = None)
           (terr ''cannot change material configuration while an operation is in flight'')
           (let app1 = clearAppFailure [Af_fetch, Af_validation]
                  (app\<lparr>app_configured_repo_url := Some (mc_repoUrl material),
                       app_repo_identity_json := Some (mc_repoIdentityJson material),
                       app_configured_ref := Some (mc_configuredRef material),
                       app_compose_paths_json := Some (mc_composePathsJson material),
                       app_context_dir := mc_contextDir material,
                       app_sync_env := Some (mc_syncEnv material),
                       app_env_path := mc_envPath material,
                       app_materialization_fingerprint := Some (mc_fingerprint material),
                       app_desired_commit_sha := None, app_fetched_commit_sha := None,
                       app_fetched_resolved_ref_kind := None, app_candidate_generation_id := None,
                       app_candidate_plan_blocked := 0, app_review_required := 0,
                       app_review_block_reason := None\<rparr>)
            in bind_res (forEachLiveDirectTarget app1 (set_target_candidate None) db)
                 (\<lambda>db1. Inr (app1, db1, [])))))
       no_extra"

definition candidateReady ::
    "string \<Rightarrow> string \<Rightarrow> bool \<Rightarrow> event_envelope \<Rightarrow> gitops_db \<Rightarrow> (gitops_db \<times> transition_result) res" where
  "candidateReady applicationId generationId reviewRequired envelope =
     mutateApp applicationId envelope ''candidate_ready'' Ho_committed (\<lambda>app db.
       bind_res (requireOwnedGeneration db (app_id app) generationId) (\<lambda>generation.
         require_res (gen_validation_ok generation = 1 \<and> gen_plan_blocked generation = 0)
           (terr ''generation is not a valid candidate'')
           (require_res (Some (gen_materialization_fingerprint generation)
               = app_materialization_fingerprint app)
             (terr ''generation fingerprint does not match current configuration'')
             (require_res (\<not> (app_active_operation_stage app = Some Ast_apply_started
                 \<and> app_candidate_generation_id app \<noteq> Some generationId))
               (terr ''cannot replace the candidate while an apply is in flight'')
               (let (ids, db1) = supersedeCandidate app generationId envelope db;
                    app1 = clearAppFailure [Af_validation]
                      (app\<lparr>app_candidate_generation_id := Some generationId,
                           app_candidate_plan_blocked := 0,
                           app_review_required := (if reviewRequired then 1 else 0),
                           app_review_block_reason := None\<rparr>)
                in bind_res (forEachLiveDirectTarget app1 (set_target_candidate (Some generationId)) db1)
                     (\<lambda>db2. Inr (app1, db2, ids)))))))
       (no_extra\<lparr>xh_generationId := Some generationId\<rparr>)"

definition sourceReviewBlocked ::
    "string \<Rightarrow> string \<Rightarrow> string \<Rightarrow> event_envelope \<Rightarrow> gitops_db \<Rightarrow> (gitops_db \<times> transition_result) res" where
  "sourceReviewBlocked applicationId generationId reason envelope =
     mutateApp applicationId envelope ''source_review_blocked'' Ho_committed (\<lambda>app db.
       require_res (app_candidate_generation_id app = Some generationId)
         (terr ''blocked generation is not the current candidate'')
         (require_res (app_candidate_plan_blocked app \<noteq> 1)
           (terr ''candidate is blocked by its plan, not by acceptance'')
           (require_res (app_active_operation_stage app \<noteq> Some Ast_apply_started)
             (terr ''cannot hold acceptance while an apply is in flight'')
             (Inr (app\<lparr>app_review_required := 1, app_review_block_reason := Some reason\<rparr>, db, [])))))
       (no_extra\<lparr>xh_generationId := Some generationId\<rparr>)"

section \<open>Applying\<close>

definition applyStarted ::
    "string \<Rightarrow> string \<Rightarrow> event_envelope \<Rightarrow> gitops_db \<Rightarrow> (gitops_db \<times> transition_result) res" where
  "applyStarted applicationId generationId envelope =
     mutateApp applicationId envelope ''apply_started'' Ho_committed (\<lambda>app db.
       require_res (\<not> truthy_num (app_suspended_at app)) (terr ''source is suspended'')
         (require_res (app_candidate_generation_id app = Some generationId)
           (terr ''apply generation is not the current candidate'')
           (require_res (app_candidate_plan_blocked app \<noteq> 1) (terr ''candidate is blocked'')
             (bind_res (requireOwnedGeneration db (app_id app) generationId) (\<lambda>generation.
               require_res (Some (gen_materialization_fingerprint generation)
                   = app_materialization_fingerprint app)
                 (terr ''generation fingerprint does not match current configuration'')
                 (require_res (\<not> (app_active_operation_stage app \<noteq> None
                     \<and> app_active_operation_id app \<noteq> Some (ev_operationId envelope)))
                   (terr ''conflicting active operation'')
                   (Inr (clearInterruption (Some Ast_apply_started)
                      (app\<lparr>app_active_operation_id := Some (ev_operationId envelope),
                           app_active_operation_stage := Some Ast_apply_started,
                           app_active_operation_at := Some (ev_at envelope),
                           app_active_generation_id := Some generationId\<rparr>), db, []))))))))
       (no_extra\<lparr>xh_generationId := Some generationId\<rparr>)"

definition applyFailed ::
    "string \<Rightarrow> string \<Rightarrow> event_envelope \<Rightarrow> gitops_db \<Rightarrow> (gitops_db \<times> transition_result) res" where
  "applyFailed applicationId failureClass envelope =
     mutateApp applicationId envelope ''apply_failed'' Ho_failed (\<lambda>app db.
       require_res (app_active_operation_stage app = Some Ast_apply_started
           \<or> app_interruption_stage app = Some Ast_apply_started)
         (terr ''no matching apply operation'')
         (Inr (clearInterruption (Some Ast_apply_started)
                ((clearActive app)\<lparr>app_failure_stage := Some Af_apply,
                   app_failure_class := Some failureClass,
                   app_failure_at := Some (ev_at envelope)\<rparr>), db, [])))
       no_extra"

text \<open>\<^verbatim>\<open>Exclude<GitOpsApprovalAuthority, 'legacy_combined'>\<close>.\<close>

datatype decided_authority = By_operator | By_configured_policy

definition authority_of :: "decided_authority \<Rightarrow> approval_authority" where
  "authority_of a = (case a of By_operator \<Rightarrow> Au_operator | By_configured_policy \<Rightarrow> Au_configured_policy)"

record applied_args =
  aa_applicationId :: string
  aa_generationId :: string
  aa_artifactSetId :: string
  aa_sourceAcceptanceId :: string
  aa_authority :: decided_authority
  aa_envelope :: event_envelope
  aa_activateCreating :: bool
  aa_confirmation :: "source_confirmation option"

definition requireAcceptableCandidate ::
    "gitops_db \<Rightarrow> gitops_application_row \<Rightarrow> applied_args \<Rightarrow> unit res" where
  "requireAcceptableCandidate db app args =
     require_res (app_candidate_generation_id app = Some (aa_generationId args))
       (terr ''applied generation is not the current candidate'')
       (require_res (app_candidate_plan_blocked app \<noteq> 1) (terr ''candidate is blocked'')
         (require_res (\<not> (aa_authority args = By_configured_policy \<and> app_source_policy app \<noteq> Sp_automatic))
           (terr ''source policy is no longer automatic'')
           (require_res (app_accepted_generation_id app \<noteq> Some (aa_generationId args))
             (terr ''generation is already accepted'')
             (bind_res (requireOwnedGeneration db (app_id app) (aa_generationId args)) (\<lambda>_.
               if app_active_operation_stage app = Some Ast_apply_started then
                 require_res (app_active_generation_id app = Some (aa_generationId args))
                   (terr ''live apply is bound to a different generation'')
                   (require_res (\<not> (truthy_str (app_active_operation_id app)
                       \<and> app_active_operation_id app \<noteq> Some (ev_operationId (aa_envelope args))))
                     (terr ''live apply belongs to a different operation'') (Inr ()))
               else Inr ())))))"

definition acceptanceTargets ::
    "gitops_db \<Rightarrow> gitops_application_row \<Rightarrow> applied_args \<Rightarrow> gitops_target_current_row list res" where
  "acceptanceTargets db app args =
     bind_res (requireAcceptableCandidate db app args) (\<lambda>_.
       let targets = filter (\<lambda>row. tgt_target_status row = Ts_active) (listTargets db (app_id app))
       in require_res (app_target_mode app = Direct \<longrightarrow>
             list_all (\<lambda>t. tgt_candidate_generation_id t = Some (aa_generationId args)) targets)
           (terr ''direct target candidate does not match applied generation'') (Inr targets))"

definition seed_artifact_set :: "applied_args \<Rightarrow> raw_json \<Rightarrow> gitops_artifact_set_row" where
  "seed_artifact_set args evidence =
     \<lparr>art_id = aa_artifactSetId args, art_generation_id = aa_generationId args,
      art_evidence_version = 1, art_authoritative = 0, art_qualification = Q_unresolved,
      art_evidence_json = evidence, art_created_at = ev_at (aa_envelope args)\<rparr>"

definition acceptance_approval :: "gitops_application_row \<Rightarrow> applied_args \<Rightarrow> gitops_approval_row" where
  "acceptance_approval app args =
     \<lparr>apv_id = aa_sourceAcceptanceId args, apv_kind = Ak_source_acceptance,
      apv_authority = authority_of (aa_authority args), apv_authoritative = 1,
      apv_application_id = app_id app,
      apv_generation_id = Some (aa_generationId args), apv_intent_revision_id = None,
      apv_artifact_set_id = None, apv_rollout_candidate_id = None, apv_rollout_generation_id = None,
      apv_source_acceptance_ref = None,
      apv_placement_approval_ref = Option.bind (aa_confirmation args) conf_placementApprovalRef,
      apv_required_targets_json = None, apv_preflight_fingerprint = None, apv_fingerprint = None,
      apv_blast_json = None, apv_policy_provenance_json = None,
      apv_source_confirmation_json = map_option encodeSourceConfirmation (aa_confirmation args),
      apv_actor = ev_actor (aa_envelope args), apv_created_at = ev_at (aa_envelope args)\<rparr>"

definition insertAcceptanceRecords ::
    "(string \<Rightarrow> string \<Rightarrow> int) \<Rightarrow> gitops_application_row \<Rightarrow> applied_args \<Rightarrow> gitops_db \<Rightarrow> gitops_db res" where
  "insertAcceptanceRecords lc app args db =
     bind_res (encodeArtifactEvidenceJson lc (AE_unresolved None)) (\<lambda>evidence.
     bind_res (insertArtifactSet lc (seed_artifact_set args evidence) db)
       (insertApproval (acceptance_approval app args)))"

definition accept_row ::
    "applied_args \<Rightarrow> raw_json option \<Rightarrow> gitops_application_row \<Rightarrow> gitops_application_row" where
  "accept_row args limitations app =
     clearInterruption (Some Ast_apply_started)
       (clearAppFailure [Af_apply, Af_fetch, Af_validation]
         (clearActive
           (app\<lparr>app_evidence_limitations_json := limitations,
                app_accepted_generation_id := Some (aa_generationId args),
                app_artifact_set_id := Some (aa_artifactSetId args),
                app_latest_artifact_set_id := Some (aa_artifactSetId args),
                app_source_acceptance_ref := Some (aa_sourceAcceptanceId args),
                app_candidate_generation_id := None, app_candidate_plan_blocked := 0,
                app_review_required := 0, app_review_block_reason := None,
                app_lifecycle_status :=
                  (if aa_activateCreating args \<and> app_lifecycle_status app = Lc_creating then Lc_active
                   else app_lifecycle_status app)\<rparr>)))"

definition applySourceAcceptanceMutation ::
    "(string \<Rightarrow> string \<Rightarrow> int) \<Rightarrow> gitops_application_row \<Rightarrow> applied_args \<Rightarrow> gitops_db
      \<Rightarrow> (gitops_application_row \<times> gitops_db) res" where
  "applySourceAcceptanceMutation lc app args db =
     bind_res (insertAcceptanceRecords lc app args db) (\<lambda>db1.
     bind_res (decodeGitOpsEvidenceLimitations (app_evidence_limitations_json app)) (\<lambda>existing.
     bind_res (encodeGitOpsEvidenceLimitations existing ''git_managed_artifact_unmodellable'' None)
       (\<lambda>limitations. Inr (accept_row args limitations app, db1))))"

definition rebindRolloutCandidateOnAcceptance ::
    "gitops_application_row \<Rightarrow> string \<Rightarrow> gitops_db \<Rightarrow> gitops_db res" where
  "rebindRolloutCandidateOnAcceptance app acceptedGenerationId db =
     (if app_target_mode app \<noteq> Blueprint \<or> \<not> truthy_str (app_rollout_candidate_id app) then Inr db
      else
        (case getRolloutCandidate db (the (app_rollout_candidate_id app)) of
           None \<Rightarrow> Inr db
         | Some candidate \<Rightarrow>
             (if cand_application_id candidate \<noteq> app_id app then Inr db
              else if Some (cand_intent_revision_id candidate) \<noteq> app_intent_revision_id app then Inr db
              else rebindRolloutCandidateSource (app_id app) (cand_id candidate) acceptedGenerationId db)))"

definition applyTargetAcceptanceMutation ::
    "applied_args \<Rightarrow> gitops_target_current_row \<Rightarrow> gitops_target_current_row" where
  "applyTargetAcceptanceMutation args target =
     target\<lparr>tgt_desired_generation_id := Some (aa_generationId args),
            tgt_applied_generation_id := Some (aa_generationId args),
            tgt_expected_artifact_set_id := Some (aa_artifactSetId args),
            tgt_latest_artifact_set_id := Some (aa_artifactSetId args),
            tgt_source_acceptance_ref := Some (aa_sourceAcceptanceId args),
            tgt_candidate_generation_id := None\<rparr>"

definition acceptance_extra :: "applied_args \<Rightarrow> extra_history" where
  "acceptance_extra args =
     no_extra\<lparr>xh_generationId := Some (aa_generationId args),
              xh_artifactSetId := Some (aa_artifactSetId args),
              xh_sourceAcceptanceRef := Some (aa_sourceAcceptanceId args)\<rparr>"

definition applied ::
    "(string \<Rightarrow> string \<Rightarrow> int) \<Rightarrow> applied_args \<Rightarrow> gitops_db \<Rightarrow> (gitops_db \<times> transition_result) res" where
  "applied lc args =
     mutateApp (aa_applicationId args) (aa_envelope args) ''applied'' Ho_committed (\<lambda>app db.
       bind_res (acceptanceTargets db app args) (\<lambda>targets.
         let (app1, db1, ids) = invalidateAuthorizationOnSourceChange app (aa_envelope args) db
         in bind_res (applySourceAcceptanceMutation lc app1 args db1) (\<lambda>(app2, db2).
            bind_res (rebindRolloutCandidateOnAcceptance app2 (aa_generationId args) db2) (\<lambda>db3.
            bind_res (upsert_each
                (map (\<lambda>t. if app_target_mode app2 = Direct then applyTargetAcceptanceMutation args t else t)
                   targets) db3) (\<lambda>db4.
            Inr (app2, db4, ids))))))
       (acceptance_extra args)"

definition sourceAccepted ::
    "(string \<Rightarrow> string \<Rightarrow> int) \<Rightarrow> applied_args \<Rightarrow> gitops_db \<Rightarrow> (gitops_db \<times> transition_result) res" where
  "sourceAccepted lc args =
     mutateApp (aa_applicationId args) (aa_envelope args) ''source_accepted'' Ho_committed (\<lambda>app db.
       require_res (\<not> truthy_num (app_suspended_at app)) (terr ''source is suspended'')
         (bind_res (requireAcceptableCandidate db app args) (\<lambda>_.
          bind_res (case aa_confirmation args of
              None \<Rightarrow> Inr ()
            | Some c \<Rightarrow>
                (case sourceConfirmationDrift app c of
                   None \<Rightarrow> Inr ()
                 | Some drift \<Rightarrow>
                     Inl (GitOpsTransitionError (driftSentence drift) (Some CONFIRMATION_STALE)))) (\<lambda>_.
          let (app1, db1, ids) = invalidateAuthorizationOnSourceChange app (aa_envelope args) db
          in bind_res (applySourceAcceptanceMutation lc app1 args db1) (\<lambda>(app2, db2).
             bind_res (rebindRolloutCandidateOnAcceptance app2 (aa_generationId args) db2) (\<lambda>db3.
             Inr (app2, db3, ids)))))))
       (acceptance_extra args)"

definition targetApplied ::
    "int \<Rightarrow> applied_args \<Rightarrow> gitops_db \<Rightarrow> (gitops_db \<times> transition_result) res" where
  "targetApplied nodeId args db =
     bind_res (requireApp db (aa_applicationId args)) (\<lambda>app.
       require_res (app_target_mode app = Direct) (terr ''target application is not direct'')
         (require_res (app_accepted_generation_id app = Some (aa_generationId args))
           (terr ''generation is not accepted'')
           (require_res (app_source_acceptance_ref app = Some (aa_sourceAcceptanceId args))
             (terr ''source acceptance reference does not match the accepted generation'')
             (mutateTarget (aa_applicationId args) nodeId (aa_envelope args) ''target_applied''
               (Some (aa_generationId args)) (\<lambda>target _ db1.
                 require_res (tgt_target_status target = Ts_active) (terr ''cannot apply to a tombstoned target'')
                   (require_res (tgt_candidate_generation_id target = Some (aa_generationId args))
                     (terr ''target candidate does not match applied generation'')
                     (Inr (applyTargetAcceptanceMutation args target, db1,
                        [(''appliedGenerationId'', nullable_json JStr (tgt_applied_generation_id target))],
                        [(''appliedGenerationId'', JStr (aa_generationId args))]))))
               Ho_committed no_options db))))"

end
