(* ===== verification/Deploy_Transitions.thy ===== *)
theory Deploy_Transitions
  imports Transitions
begin

text \<open>
  The transitions of a deploy on one node, the evidence recorded for it, retirement, suspension and
  the interruption of work a process did not finish (\<^verbatim>\<open>gitops/transitions.ts\<close>, continued).
\<close>

section \<open>Activation and retirement\<close>

text \<open>\<^verbatim>\<open>SopsIdentityStore.adoptStackScopedIdentities\<close> (sops/identityStore.ts).\<close>

definition adoptStackScopedIdentities :: "string \<Rightarrow> string \<Rightarrow> gitops_db \<Rightarrow> gitops_db" where
  "adoptStackScopedIdentities applicationId stackName db =
     db\<lparr>db_sops_identities := map (\<lambda>r. if sid_stack_name r = stackName \<and> sid_application_id r = stackName
          then r\<lparr>sid_application_id := applicationId\<rparr> else r) (db_sops_identities db)\<rparr>"

definition activateDirect ::
    "gitops_application_row \<Rightarrow> int \<Rightarrow> event_envelope \<Rightarrow> gitops_db \<Rightarrow> (gitops_db \<times> transition_result) res" where
  "activateDirect application nodeId envelope db =
     require_res (getLiveDirectApplication db (nullish (app_stack_name application) []) = None)
       (terr ''live direct application already exists'')
       (bind_res (insertApplication application db) (\<lambda>db0.
        let db1 = (if truthy_str (app_stack_name application)
                   then adoptStackScopedIdentities (app_id application) (the (app_stack_name application)) db0
                   else db0)
        in bind_res (upsertTarget (emptyTargetRow (app_id application) nodeId (ev_at envelope)) db1) (\<lambda>db2.
        let (h, db3) = history application envelope
              (history_fields0 ''application_activated'' Ho_committed [(''lifecycleStatus'', JNull)]
                 [(''lifecycleStatus'', JStr (lifecycle_text (app_lifecycle_status application))),
                  (''targetMode'', JStr ''direct'')]) db2
        in Inr (db3, result_of (opt_list h)))))"

datatype tombstone_status = To_deleted | To_detached

definition tombstone_lifecycle :: "tombstone_status \<Rightarrow> lifecycle_status" where
  "tombstone_lifecycle s = (case s of To_deleted \<Rightarrow> Lc_deleted | To_detached \<Rightarrow> Lc_detached)"

definition applicationTombstoned ::
    "string \<Rightarrow> tombstone_status \<Rightarrow> event_envelope \<Rightarrow> gitops_db \<Rightarrow> (gitops_db \<times> transition_result) res" where
  "applicationTombstoned applicationId lifecycleStatus envelope =
     mutateApp applicationId envelope ''application_tombstoned'' Ho_committed (\<lambda>app db.
       require_res (app_lifecycle_status app \<noteq> Lc_deleted \<and> app_lifecycle_status app \<noteq> Lc_detached)
         (terr ''application is already tombstoned'')
         (Inr ((clearActive (app\<lparr>app_lifecycle_status := tombstone_lifecycle lifecycleStatus\<rparr>))
                 \<lparr>app_failure_stage := None, app_failure_class := None, app_failure_at := None\<rparr>, db, [])))
       no_extra"

definition clear_lkg :: "gitops_target_current_row \<Rightarrow> gitops_target_current_row" where
  "clear_lkg target =
     target\<lparr>tgt_lkg_generation_id := None, tgt_lkg_artifact_set_id := None,
            tgt_lkg_unavailable_at := None, tgt_lkg_unavailable_reason := None\<rparr>"

definition targetTombstoned ::
    "string \<Rightarrow> int \<Rightarrow> event_envelope \<Rightarrow> gitops_db \<Rightarrow> (gitops_db \<times> transition_result) res" where
  "targetTombstoned applicationId nodeId envelope =
     mutateTarget applicationId nodeId envelope ''target_tombstoned'' None (\<lambda>target _ db.
       let target1 = markInFlightRestore (ev_at envelope)
             (clear_lkg (clear_failure_slot (clearTargetActive
               (target\<lparr>tgt_target_status := Ts_tombstoned\<rparr>))))
       in bind_res (clearApplicationRecoveryWhenNoTargetFails applicationId nodeId envelope db) (\<lambda>db1.
            Inr (target1, db1,
              [(''targetStatus'', JStr (target_status_text (tgt_target_status target)))],
              [(''targetStatus'', JStr ''tombstoned'')])))
       Ho_committed no_options"

fun tombstone_each ::
    "gitops_target_current_row list \<Rightarrow> int \<Rightarrow> event_envelope \<Rightarrow> gitops_db \<Rightarrow> (gitops_db \<times> string list) res" where
  "tombstone_each [] nodeId envelope db = Inr (db, [])"
| "tombstone_each (t # ts) nodeId envelope db =
     bind_res (targetTombstoned (tgt_application_id t) nodeId envelope db) (\<lambda>(db1, r).
     bind_res (tombstone_each ts nodeId envelope db1) (\<lambda>(db2, ids).
     Inr (db2, tr_historyIds r @ ids)))"

definition tombstoneNodeTargets ::
    "int \<Rightarrow> event_envelope \<Rightarrow> gitops_db \<Rightarrow> (gitops_db \<times> transition_result) res" where
  "tombstoneNodeTargets nodeId envelope db =
     bind_res (tombstone_each (listActiveTargetsForNode db nodeId) nodeId envelope db) (\<lambda>(db1, ids).
       Inr (db1, result_of ids))"

section \<open>Deploying\<close>

definition deployStarted ::
    "string \<Rightarrow> int \<Rightarrow> string \<Rightarrow> event_envelope \<Rightarrow> gitops_db \<Rightarrow> (gitops_db \<times> transition_result) res" where
  "deployStarted applicationId nodeId generationId envelope =
     mutateTarget applicationId nodeId envelope ''deploy_started'' (Some generationId) (\<lambda>target _ db.
       require_res (tgt_target_status target = Ts_active) (terr ''target not found'')
         (require_res (tgt_applied_generation_id target = Some generationId)
           (terr ''deploy generation is not applied'')
           (require_res (\<not> (tgt_active_operation_stage target \<noteq> None
               \<and> tgt_active_operation_id target \<noteq> Some (ev_operationId envelope)))
             (terr ''conflicting target operation'')
             (Inr (clearTargetInterruption (Some Tst_deploy_started)
                (target\<lparr>tgt_active_operation_id := Some (ev_operationId envelope),
                        tgt_active_operation_stage := Some Tst_deploy_started,
                        tgt_active_operation_at := Some (ev_at envelope),
                        tgt_active_generation_id := Some generationId\<rparr>), db,
                [(''deployedGenerationId'', nullable_json JStr (tgt_deployed_generation_id target))],
                [(''activeGenerationId'', JStr generationId)])))))
       Ho_committed no_options"

definition deployBound ::
    "string \<Rightarrow> int \<Rightarrow> string \<Rightarrow> event_envelope \<Rightarrow> gitops_db \<Rightarrow> (gitops_db \<times> transition_result) res" where
  "deployBound applicationId nodeId generationId envelope =
     mutateTarget applicationId nodeId envelope ''deploy_bound'' (Some generationId) (\<lambda>target _ db.
       require_res (tgt_target_status target = Ts_active)
         (terr ''cannot bind a deploy on a tombstoned target'')
         (bind_res (requireMatchingDeploy target generationId envelope) (\<lambda>_.
           let target1 = clearTargetActive (target\<lparr>tgt_deployed_generation_id := Some generationId\<rparr>);
               target2 = (if tgt_failure_stage target1 = Some Tf_deploy then clear_failure_slot target1
                          else target1);
               target3 = clearTargetInterruption (Some Tst_recovery_started)
                           (clearTargetInterruption (Some Tst_deploy_started) target2)
           in bind_res (retireRecoveryClaimOnSuccess applicationId envelope target3 db) (\<lambda>(target4, db1).
                Inr (markInFlightRestore (ev_at envelope) target4, db1, [],
                     [(''deployedGenerationId'', JStr generationId)])))))
       Ho_committed no_options"

definition fail_deploy :: "string \<Rightarrow> event_envelope \<Rightarrow> gitops_target_current_row \<Rightarrow> gitops_target_current_row" where
  "fail_deploy failureClass envelope target =
     clearTargetInterruption (Some Tst_deploy_started)
       (target\<lparr>tgt_failure_stage := Some Tf_deploy, tgt_failure_class := Some failureClass,
               tgt_failure_at := Some (ev_at envelope)\<rparr>)"

definition deployUnbound ::
    "string \<Rightarrow> int \<Rightarrow> string \<Rightarrow> event_envelope \<Rightarrow> gitops_db \<Rightarrow> (gitops_db \<times> transition_result) res" where
  "deployUnbound applicationId nodeId generationId envelope =
     mutateTarget applicationId nodeId envelope ''deploy_unbound'' (Some generationId) (\<lambda>target _ db.
       bind_res (requireMatchingDeploy target generationId envelope) (\<lambda>_.
       bind_res (retireNonMovingRecoveryClaim applicationId envelope (clearTargetActive target) db)
         (\<lambda>(target1, db1).
           let target2 = fail_deploy ''unbound'' envelope (markInFlightRestore (ev_at envelope) target1)
           in Inr (target2, db1,
                [(''deployedGenerationId'', nullable_json JStr (tgt_deployed_generation_id target2))],
                [(''failureClass'', JStr ''unbound'')]))))
       Ho_failed no_options"

datatype deploy_failure_class = Pre_mutation | Post_mutation

definition deploy_failure_text :: "deploy_failure_class \<Rightarrow> string" where
  "deploy_failure_text c = (case c of Pre_mutation \<Rightarrow> ''pre_mutation'' | Post_mutation \<Rightarrow> ''post_mutation'')"

definition deployFailed ::
    "string \<Rightarrow> int \<Rightarrow> deploy_failure_class \<Rightarrow> event_envelope \<Rightarrow> gitops_db \<Rightarrow> (gitops_db \<times> transition_result) res" where
  "deployFailed applicationId nodeId failureClass envelope =
     mutateTarget applicationId nodeId envelope ''deploy_failed'' None (\<lambda>target _ db.
       bind_res (retireNonMovingRecoveryClaim applicationId envelope (clearTargetActive target) db)
         (\<lambda>(target1, db1).
           let target2 = fail_deploy (deploy_failure_text failureClass) envelope
                 (markInFlightRestore (ev_at envelope) target1)
           in Inr (target2, db1,
                [(''deployedGenerationId'', nullable_json JStr (tgt_deployed_generation_id target2))],
                [(''failureClass'', JStr (deploy_failure_text failureClass))])))
       Ho_failed no_options"

section \<open>Evidence\<close>

definition recordObservedRuntimeArtifact ::
    "(string \<Rightarrow> string \<Rightarrow> int) \<Rightarrow> string \<Rightarrow> int \<Rightarrow> observed_artifact_identity \<Rightarrow> event_envelope \<Rightarrow> gitops_db
      \<Rightarrow> (gitops_db \<times> transition_result) res" where
  "recordObservedRuntimeArtifact lc applicationId nodeId observed envelope db =
     bind_res (encodeObservedArtifactIdentity lc observed) (\<lambda>observedJson.
       mutateTarget applicationId nodeId envelope ''runtime_artifact_observed'' None (\<lambda>target _ db1.
         Inr (target\<lparr>tgt_observed_artifact_identity_json := Some observedJson\<rparr>, db1,
           [(''observedArtifactIdentityJson'',
              nullable_json (\<lambda>r. case r of Parsed v \<Rightarrow> v | Unparsable s \<Rightarrow> JStr s)
                (tgt_observed_artifact_identity_json target))],
           [(''observedArtifactIdentityJson'', (case observedJson of Parsed v \<Rightarrow> v | Unparsable s \<Rightarrow> JStr s))]))
         Ho_committed \<lparr>mo_keepStandingDecision = True, mo_invocationObservedJson = None\<rparr> db)"

definition recordObservedInvocation ::
    "string \<Rightarrow> int \<Rightarrow> observed_invocation_identity \<Rightarrow> event_envelope \<Rightarrow> gitops_db
      \<Rightarrow> (gitops_db \<times> transition_result) res" where
  "recordObservedInvocation applicationId nodeId observed envelope db =
     bind_res (encodeObservedInvocation observed) (\<lambda>observedJson.
       mutateTarget applicationId nodeId envelope ''invocation_observed'' None (\<lambda>target _ db1.
         Inr (target\<lparr>tgt_observed_invocation_json := Some observedJson\<rparr>, db1,
           [(''observedInvocationJson'',
              nullable_json (\<lambda>r. case r of Parsed v \<Rightarrow> v | Unparsable s \<Rightarrow> JStr s)
                (tgt_observed_invocation_json target))],
           [(''observedInvocationJson'', (case observedJson of Parsed v \<Rightarrow> v | Unparsable s \<Rightarrow> JStr s))]))
         Ho_committed \<lparr>mo_keepStandingDecision = True, mo_invocationObservedJson = Some observedJson\<rparr> db)"

definition max_evidence_version :: "gitops_db \<Rightarrow> string \<Rightarrow> int" where
  "max_evidence_version db g =
     fold max (map art_evidence_version (filter (\<lambda>r. art_generation_id r = g) (db_artifact_sets db))) 0"

definition advance_target ::
    "gitops_db \<Rightarrow> string \<Rightarrow> string \<Rightarrow> artifact_qualification \<Rightarrow> gitops_target_current_row
      \<Rightarrow> gitops_target_current_row option" where
  "advance_target db generationId artifactSetId qualification target =
     (if tgt_target_status target \<noteq> Ts_active then None
      else if tgt_desired_generation_id target \<noteq> Some generationId then None
      else Some (target\<lparr>tgt_latest_artifact_set_id := Some artifactSetId,
             tgt_expected_artifact_set_id :=
               (if allowedExpectedAdvance db (tgt_expected_artifact_set_id target) qualification
                then Some artifactSetId else tgt_expected_artifact_set_id target)\<rparr>))"

definition recordArtifactEvidence ::
    "(string \<Rightarrow> string \<Rightarrow> int) \<Rightarrow> string \<Rightarrow> gitops_artifact_set_row \<Rightarrow> event_envelope \<Rightarrow> gitops_db
      \<Rightarrow> (gitops_db \<times> transition_result) res" where
  "recordArtifactEvidence lc applicationId row envelope =
     mutateApp applicationId envelope ''artifact_evidence_recorded'' Ho_committed (\<lambda>app db.
       require_res (art_authoritative row = 0)
         (terr ''artifact rows must be non-authoritative until qualification is accepted'')
         (bind_res (requireOwnedGeneration db (app_id app) (art_generation_id row)) (\<lambda>generation.
          bind_res (decodeArtifactEvidenceJson lc (art_evidence_json row)) (\<lambda>evidence.
          require_res (ae_kind evidence = art_qualification row)
            (terr ''qualification must match evidence_json.kind'')
            (require_res (art_evidence_version row = max_evidence_version db (art_generation_id row) + 1)
              (terr ''evidenceVersion must be max+1'')
              (bind_res (insertArtifactSet lc (row\<lparr>art_created_at := ev_at envelope\<rparr>) db) (\<lambda>db1.
                let app1 = (if app_accepted_generation_id app = Some (art_generation_id row)
                            then app\<lparr>app_latest_artifact_set_id := Some (art_id row),
                                     app_artifact_set_id :=
                                       (if allowedExpectedAdvance db1 (app_artifact_set_id app)
                                             (art_qualification row)
                                        then Some (art_id row) else app_artifact_set_id app)\<rparr>
                            else app)
                in bind_res (upsert_each (List.map_filter
                       (advance_target db1 (art_generation_id row) (art_id row) (art_qualification row))
                       (listTargets db1 (app_id app))) db1) (\<lambda>db2. Inr (app1, db2, [])))))))))
       (no_extra\<lparr>xh_generationId := Some (art_generation_id row), xh_artifactSetId := Some (art_id row)\<rparr>)"

definition acceptArtifactExpectation ::
    "string \<Rightarrow> string \<Rightarrow> string \<Rightarrow> event_envelope \<Rightarrow> gitops_db \<Rightarrow> (gitops_db \<times> transition_result) res" where
  "acceptArtifactExpectation applicationId generationId artifactSetId envelope =
     mutateApp applicationId envelope ''artifact_expectation_accepted'' Ho_committed (\<lambda>app db.
       case getArtifactSet db artifactSetId of
         None \<Rightarrow> Inl (terr ''artifact set is not owned by the generation'')
       | Some artifact \<Rightarrow>
           require_res (art_generation_id artifact = generationId)
             (terr ''artifact set is not owned by the generation'')
             (require_res (art_qualification artifact = Q_exact \<or> art_qualification artifact = Q_qualified)
               (terr ''only exact or qualified evidence can be accepted'')
               (require_res (app_accepted_generation_id app = Some generationId)
                 (terr ''application accepted generation does not match'')
                 (let (app1, db1, ids) = (if app_artifact_set_id app \<noteq> Some artifactSetId
                        then invalidateAuthorizationOnSourceChange app envelope db else (app, db, []));
                      app2 = app1\<lparr>app_artifact_set_id := Some artifactSetId\<rparr>
                  in bind_res (forEachLiveDirectTarget app2 (\<lambda>t.
                        if tgt_desired_generation_id t \<noteq> Some generationId then None
                        else Some (t\<lparr>tgt_expected_artifact_set_id := Some artifactSetId\<rparr>)) db1)
                       (\<lambda>db2. Inr (app2, db2, ids))))))
       (no_extra\<lparr>xh_generationId := Some generationId, xh_artifactSetId := Some artifactSetId\<rparr>)"

section \<open>Schedule, policy, suspension\<close>

definition sourceRetryScheduled ::
    "string \<Rightarrow> int \<Rightarrow> int \<Rightarrow> event_envelope \<Rightarrow> gitops_db \<Rightarrow> (gitops_db \<times> transition_result) res" where
  "sourceRetryScheduled applicationId retryAt retryCount envelope =
     mutateApp applicationId envelope ''source_retry_scheduled'' Ho_committed (\<lambda>app db.
       require_res (\<not> truthy_num (app_suspended_at app)) (terr ''source is suspended'')
         (require_res (app_active_operation_stage app = None)
           (terr ''cannot schedule a retry while an operation is in flight'')
           (Inr (app\<lparr>app_retry_at := Some retryAt, app_retry_count := retryCount\<rparr>, db, []))))
       no_extra"

definition sourcePollScheduled ::
    "string \<Rightarrow> int \<Rightarrow> event_envelope \<Rightarrow> gitops_db \<Rightarrow> (gitops_db \<times> transition_result) res" where
  "sourcePollScheduled applicationId nextPollAt envelope =
     mutateApp applicationId envelope ''source_poll_scheduled'' Ho_committed (\<lambda>app db.
       require_res (\<not> truthy_num (app_suspended_at app)) (terr ''source is suspended'')
         (require_res (app_active_operation_stage app = None)
           (terr ''cannot schedule a poll while an operation is in flight'')
           (Inr (app\<lparr>app_next_poll_at := Some nextPollAt\<rparr>, db, []))))
       no_extra"

definition sourcePolicyChanged ::
    "string \<Rightarrow> source_policy \<Rightarrow> event_envelope \<Rightarrow> gitops_db \<Rightarrow> (gitops_db \<times> transition_result) res" where
  "sourcePolicyChanged applicationId sourcePolicy envelope =
     mutateApp applicationId envelope ''source_policy_changed'' Ho_committed (\<lambda>app db.
       require_res (app_active_operation_stage app = None)
         (terr ''cannot change the source policy while an operation is in flight'')
         (let app1 = app\<lparr>app_source_policy := sourcePolicy\<rparr>;
              app2 = (if sourcePolicy \<noteq> Sp_automatic then app1\<lparr>app_review_block_reason := None\<rparr> else app1);
              app3 = (if sourcePolicy = Sp_manual then app2\<lparr>app_next_poll_at := None, app_retry_at := None\<rparr>
                      else app2)
          in Inr (app3, db, [])))
       no_extra"

text \<open>\<^verbatim>\<open>interruptActiveOperations\<close>: the application, then every target with work open.\<close>

definition interrupt_target :: "event_envelope \<Rightarrow> gitops_target_current_row \<Rightarrow> gitops_target_current_row option" where
  "interrupt_target envelope target =
     (let interrupted = targetRestoreInFlight target
      in if tgt_active_operation_stage target = None \<and> \<not> interrupted then None
         else
           (let moved = recoveryClaimMoved target;
                target1 = (if interrupted then
                     target\<lparr>tgt_recovery_phase := Some Rp_failed, tgt_failure_stage := Some Tf_recovery,
                       tgt_failure_class := Some ''interrupted'', tgt_failure_at := Some (ev_at envelope),
                       tgt_recovery_failure_class :=
                         (if moved then recoveryFailureClaimClass target else Some ''interrupted''),
                       tgt_recovery_failure_at :=
                         (if moved then Some (nullish (recoveryFailureClaimAt target) (ev_at envelope))
                          else Some (ev_at envelope))\<rparr>
                   else target)
            in Some ((clearTargetActive
                 (target1\<lparr>tgt_interruption_stage :=
                      nullish_opt (tgt_active_operation_stage target1)
                        (if interrupted then Some Tst_recovery_started else None),
                    tgt_interruption_at := Some (ev_at envelope),
                    tgt_interruption_operation_id := tgt_active_operation_id target1,
                    tgt_interruption_generation_id := tgt_active_generation_id target1,
                    tgt_interruption_intent_revision_id := tgt_active_intent_revision_id target1,
                    tgt_interruption_rollout_candidate_id := tgt_active_rollout_candidate_id target1\<rparr>))
                 \<lparr>tgt_updated_at := ev_at envelope\<rparr>)))"

fun interrupt_targets ::
    "gitops_application_row \<Rightarrow> event_envelope \<Rightarrow> gitops_target_current_row list \<Rightarrow> gitops_db
      \<Rightarrow> (gitops_db \<times> string list) res" where
  "interrupt_targets app envelope [] db = Inr (db, [])"
| "interrupt_targets app envelope (t # ts) db =
     (case interrupt_target envelope t of
        None \<Rightarrow> interrupt_targets app envelope ts db
      | Some t1 \<Rightarrow>
          bind_res (upsertTarget t1 db) (\<lambda>db1.
            let (h, db2) = history app envelope
                  ((history_fields0 ''operation_interrupted'' Ho_unknown
                     [(''interruptedStage'',
                        nullable_json (\<lambda>s. JStr (target_stage_text s)) (tgt_interruption_stage t1))]
                     [(''activeOperationStage'', JNull)])\<lparr>hf_nodeId := Some (tgt_node_id t1)\<rparr>) db1
            in bind_res (interrupt_targets app envelope ts db2) (\<lambda>(db3, ids).
                 Inr (db3, opt_list h @ ids))))"

definition interrupt_app :: "event_envelope \<Rightarrow> gitops_application_row \<Rightarrow> gitops_application_row" where
  "interrupt_app envelope app =
     (let interruptedRecovery = app_recovery_phase app = Some Rp_capturing
            \<or> app_recovery_phase app = Some Rp_restoring \<or> app_recovery_phase app = Some Rp_compensating;
          app1 = (if interruptedRecovery then
                    app\<lparr>app_recovery_phase := Some Rp_failed, app_failure_stage := Some Af_recovery,
                        app_failure_class := Some ''interrupted'', app_failure_at := Some (ev_at envelope)\<rparr>
                  else app)
      in if app_active_operation_stage app1 = None \<and> \<not> interruptedRecovery then app1
         else (clearActive
                (app1\<lparr>app_interruption_stage := app_active_operation_stage app1,
                      app_interruption_at := Some (ev_at envelope),
                      app_interruption_operation_id := app_active_operation_id app1,
                      app_interruption_generation_id := app_active_generation_id app1\<rparr>))
              \<lparr>app_updated_at := ev_at envelope\<rparr>)"

definition interruptActiveOperations ::
    "string \<Rightarrow> event_envelope \<Rightarrow> gitops_db \<Rightarrow> (gitops_db \<times> transition_result) res" where
  "interruptActiveOperations applicationId envelope db =
     bind_res (requireApp db applicationId) (\<lambda>app0.
       let recovering = app_recovery_phase app0 = Some Rp_capturing
             \<or> app_recovery_phase app0 = Some Rp_restoring \<or> app_recovery_phase app0 = Some Rp_compensating;
           app = interrupt_app envelope app0;
           (ids, db1) =
             (if app_active_operation_stage app0 \<noteq> None \<or> recovering then
                (let (h, d) = history app envelope
                       (history_fields0 ''operation_interrupted'' Ho_unknown
                          [(''interruptedStage'',
                             nullable_json (\<lambda>s. JStr (app_stage_text s)) (app_interruption_stage app))]
                          [(''activeOperationStage'', JNull)]) (writeApplication app db)
                 in (opt_list h, d))
              else ([], db))
       in bind_res (interrupt_targets app envelope (listTargets db1 applicationId) db1) (\<lambda>(db2, ids2).
            Inr (db2, result_of (ids @ ids2))))"

definition sourceSuspended ::
    "string \<Rightarrow> string \<Rightarrow> event_envelope \<Rightarrow> gitops_db \<Rightarrow> (gitops_db \<times> transition_result) res" where
  "sourceSuspended applicationId reason envelope =
     mutateApp applicationId envelope ''source_suspended'' Ho_committed (\<lambda>app db.
       require_res (app_lifecycle_status app = Lc_active) (terr ''source is not live'')
         (bind_res
           (if app_active_operation_stage app = None then Inr (app, db, [])
            else bind_res (interruptActiveOperations applicationId envelope db) (\<lambda>(db1, r).
                 bind_res (requireApp db1 applicationId) (\<lambda>reloaded.
                 Inr (clearActive
                        (app\<lparr>app_interruption_stage := app_interruption_stage reloaded,
                             app_interruption_at := app_interruption_at reloaded,
                             app_interruption_operation_id := app_interruption_operation_id reloaded,
                             app_interruption_generation_id := app_interruption_generation_id reloaded\<rparr>),
                      db1, tr_historyIds r))))
           (\<lambda>(app1, db1, ids).
             Inr (app1\<lparr>app_suspended_at := Some (ev_at envelope),
                       app_source_suspended_reason := Some reason\<rparr>, db1, ids))))
       no_extra"

definition sourceUnsuspended ::
    "string \<Rightarrow> event_envelope \<Rightarrow> gitops_db \<Rightarrow> (gitops_db \<times> transition_result) res" where
  "sourceUnsuspended applicationId envelope =
     mutateApp applicationId envelope ''source_unsuspended'' Ho_committed (\<lambda>app db.
       require_res (truthy_num (app_suspended_at app)) (terr ''source is not suspended'')
         (Inr (app\<lparr>app_suspended_at := None, app_source_suspended_reason := None\<rparr>, db, [])))
       no_extra"

definition placementInvalidated ::
    "string \<Rightarrow> event_envelope \<Rightarrow> gitops_db \<Rightarrow> (gitops_db \<times> transition_result) res" where
  "placementInvalidated applicationId envelope =
     mutateApp applicationId envelope ''placement_invalidated'' Ho_committed (\<lambda>app db.
       require_res (app_lifecycle_status app = Lc_active) (terr ''application is not live'')
         (Inr (invalidatePlacementOnMaterialChange app envelope db)))
       no_extra"

end
