(* ===== verification/Store_Laws.thy ===== *)
theory Store_Laws
  imports Store
begin

text \<open>
  What the store promises its clients: a keyed table returns the row last put under its key and leaves
  the others alone, an insert-only table never loses a row, and the pointers of a stored target belong
  to the generation and application they name.
\<close>

section \<open>Keyed tables\<close>

locale keyed_rows =
  fixes get :: "'d \<Rightarrow> 'k \<Rightarrow> 'r option"
    and put :: "'r \<Rightarrow> 'd \<Rightarrow> 'd"
    and key :: "'r \<Rightarrow> 'k"
  assumes get_put_same: "get (put r d) (key r) = Some r"
    and get_put_other: "k \<noteq> key r \<Longrightarrow> get (put r d) k = get d k"
begin

lemma get_put: "get (put r d) k = (if k = key r then Some r else get d k)"
  by (simp add: get_put_same get_put_other)

text \<open>A batch of writes: the last row put under a key is the one returned.\<close>

lemma get_fold_put:
  "get (fold put rs d) k = (case find (\<lambda>r. key r = k) (rev rs) of Some r \<Rightarrow> Some r | None \<Rightarrow> get d k)"
proof (induction rs rule: rev_induct)
  case Nil
  then show ?case by simp
next
  case (snoc r rs)
  then show ?case by (simp add: get_put)
qed

lemma get_fold_put_fresh: "k \<notin> key ` set rs \<Longrightarrow> get (fold put rs d) k = get d k"
  by (induction rs arbitrary: d) (auto simp: get_put_other)

end

lemma find_map_replace:
  "find (\<lambda>r. key r = k) (map (\<lambda>r. if key r = key row then row else r) rows) =
     (if k = key row \<and> (\<exists>r \<in> set rows. key r = key row) then Some row
      else find (\<lambda>r. key r = k) rows)"
  by (induction rows) auto

lemma find_distinct_key:
  assumes "distinct (map key xs)" and "x \<in> set xs"
  shows "find (\<lambda>y. key y = key x) xs = Some x"
  using assms by (induction xs) force+

lemma find_snoc: "find P (xs @ [x]) = (case find P xs of Some y \<Rightarrow> Some y | None \<Rightarrow> if P x then Some x else None)"
  by (induction xs) auto

definition target_key :: "gitops_target_current_row \<Rightarrow> string \<times> int" where
  "target_key r = (tgt_application_id r, tgt_node_id r)"

lemma getTarget_key: "getTarget db a n = find (\<lambda>r. target_key r = (a, n)) (db_targets db)"
  by (simp add: getTarget_def target_key_def)

lemma put_target_key:
  "put_target row db =
     (if \<exists>r \<in> set (db_targets db). target_key r = target_key row
      then db\<lparr>db_targets := map (\<lambda>r. if target_key r = target_key row then row else r) (db_targets db)\<rparr>
      else db\<lparr>db_targets := db_targets db @ [row]\<rparr>)"
  by (simp add: put_target_def target_key_def)

interpretation targets: keyed_rows "\<lambda>db k. getTarget db (fst k) (snd k)" put_target target_key
proof unfold_locales
  fix r :: gitops_target_current_row and d :: gitops_db and k :: "string \<times> int"
  show "getTarget (put_target r d) (fst (target_key r)) (snd (target_key r)) = Some r"
    by (auto simp: getTarget_key put_target_key find_map_replace find_snoc find_None_all
        split: option.splits dest!: find_Some_set)
  show "k \<noteq> target_key r \<Longrightarrow> getTarget (put_target r d) (fst k) (snd k) = getTarget d (fst k) (snd k)"
    by (auto simp: getTarget_key put_target_key find_map_replace find_snoc split: option.splits)
qed

lemma getTarget_put: "getTarget (put_target r db) a n = (if (a, n) = target_key r then Some r else getTarget db a n)"
  using targets.get_put [of r db "(a, n)"] by simp

lemma getTarget_ids: "getTarget db a n = Some t \<Longrightarrow> tgt_application_id t = a \<and> tgt_node_id t = n \<and> t \<in> set (db_targets db)"
  by (auto simp: getTarget_def dest: find_Some_set)

lemma set_listTargets: "set (listTargets db a) = {t \<in> set (db_targets db). tgt_application_id t = a}"
  by (auto simp: listTargets_def)

lemma listTargets_sorted: "sorted (map tgt_node_id (listTargets db a))"
  by (simp add: listTargets_def js_sort_num_sorted)

section \<open>Frames\<close>

lemma put_target_frame [simp]:
  "db_applications (put_target t db) = db_applications db"
  "db_generations (put_target t db) = db_generations db"
  "db_artifact_sets (put_target t db) = db_artifact_sets db"
  "db_intents (put_target t db) = db_intents db"
  "db_candidates (put_target t db) = db_candidates db"
  "db_rollout_generations (put_target t db) = db_rollout_generations db"
  "db_approvals (put_target t db) = db_approvals db"
  "db_outbox (put_target t db) = db_outbox db"
  "db_history (put_target t db) = db_history db"
  by (simp_all add: put_target_def)

lemma writeApplication_frame [simp]:
  "db_generations (writeApplication a db) = db_generations db"
  "db_artifact_sets (writeApplication a db) = db_artifact_sets db"
  "db_candidates (writeApplication a db) = db_candidates db"
  "db_rollout_generations (writeApplication a db) = db_rollout_generations db"
  "db_approvals (writeApplication a db) = db_approvals db"
  "db_targets (writeApplication a db) = db_targets db"
  "db_history (writeApplication a db) = db_history db"
  "db_outbox (writeApplication a db) = db_outbox db"
  by (simp_all add: writeApplication_def)

lemma lookups_by_table:
  "db_generations d = db_generations e \<Longrightarrow> getGeneration d = getGeneration e"
  "db_artifact_sets d = db_artifact_sets e \<Longrightarrow> getArtifactSet d = getArtifactSet e"
  "db_approvals d = db_approvals e \<Longrightarrow> getApproval d = getApproval e"
  "db_applications d = db_applications e \<Longrightarrow> getApplication d = getApplication e"
  "db_targets d = db_targets e \<Longrightarrow> getTarget d = getTarget e"
  by (auto simp: getGeneration_def getArtifactSet_def getApproval_def getApplication_def getTarget_def
      intro!: ext)

lemma put_target_lookups [simp]:
  "getGeneration (put_target t db) = getGeneration db"
  "getArtifactSet (put_target t db) = getArtifactSet db"
  "getApproval (put_target t db) = getApproval db"
  "getApplication (put_target t db) = getApplication db"
  by (rule lookups_by_table, simp)+

lemma writeApplication_lookups [simp]:
  "getGeneration (writeApplication a db) = getGeneration db"
  "getArtifactSet (writeApplication a db) = getArtifactSet db"
  "getApproval (writeApplication a db) = getApproval db"
  "getTarget (writeApplication a db) = getTarget db"
  by (rule lookups_by_table, simp)+

text \<open>A write of an application row: the stored identity columns win.\<close>

definition keep_identity :: "gitops_application_row \<Rightarrow> gitops_application_row \<Rightarrow> gitops_application_row" where
  "keep_identity r app =
     app\<lparr>app_lifecycle_key := app_lifecycle_key r, app_target_mode := app_target_mode r,
         app_stack_name := app_stack_name r,
         app_configured_source_stack_name := app_configured_source_stack_name r,
         app_blueprint_id := app_blueprint_id r, app_created_at := app_created_at r\<rparr>"

lemma writeApplication_map:
  "db_applications (writeApplication app db) =
     map (\<lambda>r. if app_id r = app_id app then keep_identity r app else r) (db_applications db)"
  by (simp add: writeApplication_def keep_identity_def)

lemma getApplication_write:
  "getApplication (writeApplication app db) i =
     (if i = app_id app then map_option (\<lambda>r. keep_identity r app) (getApplication db i)
      else getApplication db i)"
proof -
  have "find (\<lambda>r. app_id r = i) (map (\<lambda>r. if app_id r = app_id app then keep_identity r app else r) rows) =
     (if i = app_id app then map_option (\<lambda>r. keep_identity r app) (find (\<lambda>r. app_id r = i) rows)
      else find (\<lambda>r. app_id r = i) rows)" for rows
    by (induction rows) (auto simp: keep_identity_def)
  then show ?thesis by (simp add: getApplication_def writeApplication_map)
qed

lemma getApplication_id: "getApplication db i = Some a \<Longrightarrow> app_id a = i \<and> a \<in> set (db_applications db)"
  by (auto simp: getApplication_def dest: find_Some_set)

section \<open>Insert-only tables\<close>

text \<open>\<open>db_le d e\<close>: every generation and artifact set of \<open>d\<close> is found in \<open>e\<close> unchanged, and so is every
  approval, save that the confirmation written beside a source acceptance may be replaced.\<close>

definition approval_kept :: "gitops_approval_row \<Rightarrow> gitops_approval_row \<Rightarrow> bool" where
  "approval_kept p q \<longleftrightarrow> q = p \<or> (apv_kind p = Ak_source_acceptance
     \<and> q = p\<lparr>apv_placement_approval_ref := apv_placement_approval_ref q,
            apv_source_confirmation_json := apv_source_confirmation_json q\<rparr>)"

lemma approval_kept_refl [simp]: "approval_kept p p"
  by (simp add: approval_kept_def)

lemma approval_kept_columns:
  assumes "approval_kept p q"
  shows "apv_id q = apv_id p" and "apv_kind q = apv_kind p" and "apv_authority q = apv_authority p"
    and "apv_authoritative q = apv_authoritative p" and "apv_application_id q = apv_application_id p"
    and "apv_generation_id q = apv_generation_id p"
proof -
  obtain r j where "q = p \<or> q = p\<lparr>apv_placement_approval_ref := r, apv_source_confirmation_json := j\<rparr>"
    using assms unfolding approval_kept_def by blast
  then show "apv_id q = apv_id p" and "apv_kind q = apv_kind p" and "apv_authority q = apv_authority p"
    and "apv_authoritative q = apv_authoritative p" and "apv_application_id q = apv_application_id p"
    and "apv_generation_id q = apv_generation_id p"
    by auto
qed

lemma approval_keptI:
  "apv_kind p = Ak_source_acceptance \<Longrightarrow>
   approval_kept p (p\<lparr>apv_placement_approval_ref := r, apv_source_confirmation_json := j\<rparr>)"
  by (simp add: approval_kept_def)

lemma approval_kept_trans:
  assumes "approval_kept p q" and "approval_kept q r"
  shows "approval_kept p r"
proof -
  consider "q = p" | "r = q" | a b c d where "apv_kind p = Ak_source_acceptance"
      "q = p\<lparr>apv_placement_approval_ref := a, apv_source_confirmation_json := b\<rparr>"
      "r = q\<lparr>apv_placement_approval_ref := c, apv_source_confirmation_json := d\<rparr>"
    using assms unfolding approval_kept_def by blast
  then show ?thesis
  proof cases
    case 3
    then have "r = p\<lparr>apv_placement_approval_ref := c, apv_source_confirmation_json := d\<rparr>" by simp
    then show ?thesis using 3(1) approval_keptI by simp
  qed (use assms in auto)
qed

definition db_le :: "gitops_db \<Rightarrow> gitops_db \<Rightarrow> bool" where
  "db_le d e \<longleftrightarrow>
     (\<forall>i g. getGeneration d i = Some g \<longrightarrow> getGeneration e i = Some g)
     \<and> (\<forall>i a. getArtifactSet d i = Some a \<longrightarrow> getArtifactSet e i = Some a)
     \<and> (\<forall>i p. getApproval d i = Some p \<longrightarrow> (\<exists>q. getApproval e i = Some q \<and> approval_kept p q))"

lemma db_le_refl [simp]: "db_le d d"
  by (simp add: db_le_def)

lemma db_le_trans: "db_le d e \<Longrightarrow> db_le e f \<Longrightarrow> db_le d f"
proof -
  assume de: "db_le d e" and ef: "db_le e f"
  have "\<exists>r. getApproval f i = Some r \<and> approval_kept p r" if p: "getApproval d i = Some p" for i p
  proof -
    obtain q where q: "getApproval e i = Some q" "approval_kept p q" using de p unfolding db_le_def by blast
    obtain r where "getApproval f i = Some r" "approval_kept q r" using ef q(1) unfolding db_le_def by blast
    with q(2) show ?thesis using approval_kept_trans by blast
  qed
  with de ef show "db_le d f" unfolding db_le_def by blast
qed

lemma db_le_by_lookups:
  "getGeneration d = getGeneration e \<Longrightarrow> getArtifactSet d = getArtifactSet e
   \<Longrightarrow> getApproval d = getApproval e \<Longrightarrow> db_le d e"
  by (simp add: db_le_def)

lemma insertGeneration_le: "insertGeneration row db = Inr db' \<Longrightarrow> db_le db db'"
  by (auto simp: insertGeneration_def db_le_def getGeneration_def getArtifactSet_def getApproval_def find_snoc)

lemma insertArtifactSet_le: "insertArtifactSet lc row db = Inr db' \<Longrightarrow> db_le db db'"
  by (auto simp: insertArtifactSet_def db_le_def getGeneration_def getArtifactSet_def getApproval_def find_snoc)

lemma insertApproval_le: "insertApproval row db = Inr db' \<Longrightarrow> db_le db db'"
  by (auto simp: insertApproval_def db_le_def getGeneration_def getArtifactSet_def getApproval_def find_snoc)

lemma insertApproval_get: "insertApproval row db = Inr db' \<Longrightarrow> getApproval db' (apv_id row) = Some row"
  by (auto simp: insertApproval_def getApproval_def find_snoc)

lemma insertArtifactSet_get: "insertArtifactSet lc row db = Inr db' \<Longrightarrow> getArtifactSet db' (art_id row) = Some row"
  by (auto simp: insertArtifactSet_def getArtifactSet_def find_snoc)

section \<open>Target pointers\<close>

definition target_ok :: "gitops_db \<Rightarrow> gitops_target_current_row \<Rightarrow> bool" where
  "target_ok db t \<longleftrightarrow> assertTargetInvariants db t = Inr ()"

lemma owned_generation_mono:
  "db_le d e \<Longrightarrow> owned_generation d a g \<Longrightarrow> owned_generation e a g"
  by (cases g) (fastforce simp: owned_generation_def db_le_def split: option.splits)+

lemma artifact_owner_mono:
  assumes "db_le d e"
    and "case Option.bind i (getArtifactSet d) of None \<Rightarrow> False | Some a \<Rightarrow> Some (art_generation_id a) = g"
  shows "case Option.bind i (getArtifactSet e) of None \<Rightarrow> False | Some a \<Rightarrow> Some (art_generation_id a) = g"
  using assms by (cases i) (fastforce simp: db_le_def split: option.splits)+

lemma assertArtifactPointer_Inr:
  "assertArtifactPointer db i g = Inr () \<longleftrightarrow>
     (truthy_str i \<longrightarrow> truthy_str g \<and>
        (case Option.bind i (getArtifactSet db) of None \<Rightarrow> False | Some a \<Rightarrow> Some (art_generation_id a) = g))"
  by (simp add: assertArtifactPointer_def)

lemma target_ok_mono: "db_le d e \<Longrightarrow> target_ok d t \<Longrightarrow> target_ok e t"
  using owned_generation_mono artifact_owner_mono
  unfolding target_ok_def assertTargetInvariants_def assertArtifactPointer_Inr
  by (simp add: assertArtifactPointer_Inr)

lemma upsertTarget_Inr: "upsertTarget t db = Inr db' \<longleftrightarrow> target_ok db t \<and> db' = put_target t db"
  by (auto simp: upsertTarget_def target_ok_def)

lemma set_put_target: "set (db_targets (put_target t db)) \<subseteq> insert t (set (db_targets db))"
  by (auto simp: put_target_def)

lemma target_ok_put [simp]: "target_ok (put_target s db) t = target_ok db t"
  by (simp add: target_ok_def assertTargetInvariants_def assertArtifactPointer_def owned_generation_def)

lemma target_ok_write [simp]: "target_ok (writeApplication a db) t = target_ok db t"
  by (simp add: target_ok_def assertTargetInvariants_def assertArtifactPointer_def owned_generation_def)

end
