(* ===== verification/Audit_Laws.thy ===== *)
theory Audit_Laws
  imports Transition_Engine Store_Laws
begin

text \<open>
  The audit trail and the transactional outbox beside it: the only writes that reach the two tables, what
  they leave alone, and the invariant that ties them together. The ids of the audit rows are pairwise
  distinct, and the outbox holds one row for every audit row that is announced, in the order of the
  trail, and no other.
\<close>

section \<open>Decimal text\<close>

lemma digit_inj: "a < 10 \<Longrightarrow> b < 10 \<Longrightarrow> (char_of (48 + a) :: char) = char_of (48 + b) \<Longrightarrow> a = (b :: nat)"
  by (simp add: char_of_eq_iff take_bit_eq_mod)

lemma show_nat_nonempty [simp]: "show_nat n \<noteq> []"
  by (subst show_nat.simps) simp

lemma show_nat_small: "n < 10 \<Longrightarrow> show_nat n = [char_of (48 + n)]"
  by (subst show_nat.simps) simp

lemma show_nat_big: "\<not> n < 10 \<Longrightarrow> show_nat n = show_nat (n div 10) @ [char_of (48 + n mod 10)]"
  by (subst show_nat.simps) simp

lemma show_nat_inj: "show_nat m = show_nat n \<Longrightarrow> m = n"
proof (induction m arbitrary: n rule: show_nat.induct)
  case (1 m)
  consider "m < 10" "n < 10" | "\<not> m < 10" "\<not> n < 10" | "(m < 10) \<noteq> (n < 10)" by blast
  then show ?case
  proof cases
    case 1
    then show ?thesis using "1.prems" digit_inj by (simp add: show_nat_small)
  next
    case 2
    have "show_nat (m div 10) @ [char_of (48 + m mod 10)] = show_nat (n div 10) @ [char_of (48 + n mod 10)]"
      using "1.prems" by (simp only: show_nat_big [OF 2(1)] show_nat_big [OF 2(2)])
    then have "show_nat (m div 10) = show_nat (n div 10)" and d: "m mod 10 = n mod 10"
      using digit_inj [of "m mod 10" "n mod 10"] by simp_all
    then have "m div 10 = n div 10" using "1.IH" 2(1) by blast
    with d show ?thesis by (metis div_mult_mod_eq)
  next
    case 3
    then have "length (show_nat m) \<noteq> length (show_nat n)"
      using show_nat_nonempty [of "m div 10"] show_nat_nonempty [of "n div 10"]
      by (cases "m < 10") (simp_all add: show_nat_small show_nat_big [of m] show_nat_big [of n])
    with "1.prems" show ?thesis by simp
  qed
qed

section \<open>Frames\<close>

lemma insertOutboxRow_frame:
  "insertOutboxRow i p v t db = db\<lparr>db_outbox := db_outbox (insertOutboxRow i p v t db)\<rparr>"
  by (simp add: insertOutboxRow_def)

lemma announce_outbox_only:
  "announce_history app after row db = db\<lparr>db_outbox := db_outbox (announce_history app after row db)\<rparr>"
  unfolding announce_history_def insertSettledOutbox_def insertGitOpsEventOutbox_def
  by (auto split: option.split gitops_outbox_plan.split intro: insertOutboxRow_frame)

text \<open>The two tables an appended audit row can change.\<close>

lemma history_tables_only:
  "snd (history app e f db) = db\<lparr>db_history := db_history (snd (history app e f db)),
     db_outbox := db_outbox (snd (history app e f db))\<rparr>"
proof -
  have "snd (insertHistory app after row db) = db\<lparr>db_history := db_history (snd (insertHistory app after row db)),
     db_outbox := db_outbox (snd (insertHistory app after row db))\<rparr>" for after row
  proof (cases "\<exists>r \<in> set (db_history db). dedupe_of r = dedupe_of row")
    case True
    then show ?thesis by (simp add: insertHistory_def)
  next
    case False
    let ?d = "announce_history app after row (db\<lparr>db_history := db_history db @ [row]\<rparr>)"
    have d: "?d = db\<lparr>db_history := db_history db @ [row], db_outbox := db_outbox ?d\<rparr>"
      by (rule announce_outbox_only)
    have "db_history ?d = db_history db @ [row]" using arg_cong [OF d, of db_history] by simp
    with d show ?thesis using False by (simp add: insertHistory_def)
  qed
  then show ?thesis unfolding history_def .
qed

lemma history_frame [simp]:
  "db_applications (snd (history app e f db)) = db_applications db"
  "db_targets (snd (history app e f db)) = db_targets db"
  "db_generations (snd (history app e f db)) = db_generations db"
  "db_artifact_sets (snd (history app e f db)) = db_artifact_sets db"
  "db_approvals (snd (history app e f db)) = db_approvals db"
  "db_intents (snd (history app e f db)) = db_intents db"
  "db_candidates (snd (history app e f db)) = db_candidates db"
  "db_rollout_generations (snd (history app e f db)) = db_rollout_generations db"
  "db_notifications (snd (history app e f db)) = db_notifications db"
  by (subst history_tables_only, simp)+

section \<open>Which rows are announced\<close>

text \<open>The plan of a stored row: it reads the stage, the target mode and the printed after-image.\<close>

definition row_plan :: "gitops_history_row \<Rightarrow> gitops_outbox_plan option" where
  "row_plan r =
     (case his_after_json r of
        Parsed (JObj after) \<Rightarrow> gitOpsOutboxPlan (his_stage r) (his_target_mode r) after
      | _ \<Rightarrow> None)"

definition announced :: "gitops_history_row \<Rightarrow> bool" where
  "announced r = (row_plan r \<noteq> None)"

lemma prop_of_printed: "prop_of (map (\<lambda>(k, v). (k, printed v)) after) k = map_option printed (prop_of after k)"
  unfolding prop_of_def by (induction after) auto

lemma as_string_printed [simp]: "as_string (printed v) = as_string v"
  by (cases v) (auto simp: as_string_def)

lemma string_prop_or_printed [simp]:
  "string_prop_or (map (\<lambda>(k, v). (k, printed v)) after) k d = string_prop_or after k d"
  by (cases "prop_of after k") (simp_all add: string_prop_or_def prop_of_printed)

lemma plan_printed [simp]:
  "gitOpsOutboxPlan stage mode (map (\<lambda>(k, v). (k, printed v)) after) = gitOpsOutboxPlan stage mode after"
  by (simp add: gitOpsOutboxPlan_def)

section \<open>The invariant\<close>

definition audit_ok :: "gitops_db \<Rightarrow> bool" where
  "audit_ok db \<longleftrightarrow>
     map his_id (db_history db) = map (\<lambda>i. ''history-'' @ show_nat i) [0..<length (db_history db)]
     \<and> map obx_settled_history_id (db_outbox db) = map his_id (filter announced (db_history db))"

lemma audit_ids_distinct: "audit_ok db \<Longrightarrow> distinct (map his_id (db_history db))"
proof -
  assume ok: "audit_ok db"
  have "inj_on (\<lambda>i. ''history-'' @ show_nat i) A" for A
    by (auto simp: inj_on_def dest: show_nat_inj)
  then have "distinct (map (\<lambda>i. ''history-'' @ show_nat i) [0..<length (db_history db)])"
    by (simp add: distinct_map)
  then show ?thesis using ok unfolding audit_ok_def by metis
qed

lemma audit_uuid_fresh: "audit_ok db \<Longrightarrow> history_uuid db \<notin> his_id ` set (db_history db)"
proof
  assume ok: "audit_ok db" and "history_uuid db \<in> his_id ` set (db_history db)"
  moreover have "set (map his_id (db_history db)) =
      set (map (\<lambda>i. ''history-'' @ show_nat i) [0..<length (db_history db)])"
    using ok unfolding audit_ok_def by (simp only:)
  ultimately have "history_uuid db \<in> set (map (\<lambda>i. ''history-'' @ show_nat i) [0..<length (db_history db)])"
    by simp
  then show False by (auto simp: history_uuid_def dest!: show_nat_inj)
qed

lemma audit_ok_cong:
  "audit_ok d \<Longrightarrow> db_history e = db_history d \<Longrightarrow> db_outbox e = db_outbox d \<Longrightarrow> audit_ok e"
  by (simp add: audit_ok_def)

lemma insertOutboxRow_ids:
  "i \<notin> obx_settled_history_id ` set (db_outbox db) \<Longrightarrow>
   map obx_settled_history_id (db_outbox (insertOutboxRow i p v t db))
     = map obx_settled_history_id (db_outbox db) @ [i]"
  by (auto simp: insertOutboxRow_def)

lemma announce_ids:
  assumes "his_id row \<notin> obx_settled_history_id ` set (db_outbox db)"
    and "his_target_mode row = app_target_mode app" and "his_after_json row = encodeGitOpsJson (JObj after)"
  shows "map obx_settled_history_id (db_outbox (announce_history app after row db)) =
     map obx_settled_history_id (db_outbox db) @ (if announced row then [his_id row] else [])"
proof -
  have plan: "row_plan row = gitOpsOutboxPlan (his_stage row) (app_target_mode app) after"
    by (simp add: row_plan_def assms encodeGitOpsJson_def)
  have settled: "map obx_settled_history_id (db_outbox (insertSettledOutbox p db)) =
      map obx_settled_history_id (db_outbox db) @ [his_id row]" if "sp_settledHistoryId p = his_id row" for p
    using insertOutboxRow_ids [OF assms(1)] that by (simp add: insertSettledOutbox_def)
  have event: "map obx_settled_history_id (db_outbox (insertGitOpsEventOutbox p db)) =
      map obx_settled_history_id (db_outbox db) @ [his_id row]" if "ep_historyId p = his_id row" for p
    using insertOutboxRow_ids [OF assms(1)] that by (simp add: insertGitOpsEventOutbox_def)
  show ?thesis
    by (cases "row_plan row"; cases "the (row_plan row)")
      (simp_all add: announce_history_def announced_def plan [symmetric] settled event)
qed

lemma insertHistory_audit:
  assumes ok: "audit_ok db" and i: "his_id row = history_uuid db"
    and m: "his_target_mode row = app_target_mode app" and a: "his_after_json row = encodeGitOpsJson (JObj after)"
  shows "audit_ok (snd (insertHistory app after row db))"
proof (cases "\<exists>r \<in> set (db_history db). dedupe_of r = dedupe_of row")
  case True
  then show ?thesis using ok by (simp add: insertHistory_def)
next
  case False
  let ?db = "db\<lparr>db_history := db_history db @ [row]\<rparr>"
  have outbox_ids: "set (map obx_settled_history_id (db_outbox db)) \<subseteq> his_id ` set (db_history db)"
    using ok unfolding audit_ok_def by auto
  then have "his_id row \<notin> obx_settled_history_id ` set (db_outbox ?db)"
    using audit_uuid_fresh [OF ok] i by auto
  then have "map obx_settled_history_id (db_outbox (announce_history app after row ?db)) =
     map obx_settled_history_id (db_outbox db) @ (if announced row then [his_id row] else [])"
    using announce_ids [of row ?db app after] m a by simp
  moreover have "db_history (announce_history app after row ?db) = db_history db @ [row]"
    by (subst announce_outbox_only) simp
  ultimately show ?thesis
    using ok i False by (simp add: audit_ok_def insertHistory_def history_uuid_def)
qed

lemma history_audit: "audit_ok db \<Longrightarrow> audit_ok (snd (history app e f db))"
  unfolding history_def by (rule insertHistory_audit) simp_all

end
