(* ===== verification/Transition_Invariants.thy ===== *)
theory Transition_Invariants
  imports Deploy_Transitions Audit_Laws
begin

text \<open>
  The invariant every modelled transition keeps, stated once for a mutation of the application and once
  for a mutation of a target, then for each transition.
\<close>

section \<open>The invariant\<close>

text \<open>The pointers of an application row: the candidate is one of its own generations and, unless it is
  marked blocked, a validated one; the accepted generation is a validated one of its own, backed by an
  authoritative acceptance and by artifact evidence of that generation (an Inline Blueprint freezes a
  generation of its own instead, with its evidence but no acceptance); an apply in flight is bound to
  the current, unblocked candidate; a row names an operation exactly when a stage is active; and the
  authority pointers name decisions about what the row points at now.\<close>

definition owned :: "gitops_db \<Rightarrow> string \<Rightarrow> string \<Rightarrow> bool" where
  "owned db a g \<longleftrightarrow> (\<exists>row. getGeneration db g = Some row \<and> gen_application_id row = a)"

definition validated :: "gitops_db \<Rightarrow> string \<Rightarrow> string \<Rightarrow> bool" where
  "validated db a g \<longleftrightarrow>
     (\<exists>row. getGeneration db g = Some row \<and> gen_application_id row = a
        \<and> gen_validation_ok row = 1 \<and> gen_plan_blocked row = 0)"

definition accepted_by :: "gitops_db \<Rightarrow> string \<Rightarrow> string \<Rightarrow> string \<Rightarrow> bool" where
  "accepted_by db a g ref \<longleftrightarrow>
     (\<exists>p. getApproval db ref = Some p \<and> apv_application_id p = a \<and> apv_kind p = Ak_source_acceptance
        \<and> apv_authoritative p = 1 \<and> apv_authority p \<in> {Au_operator, Au_configured_policy}
        \<and> apv_generation_id p = Some g)"

definition evidence_of :: "gitops_db \<Rightarrow> string \<Rightarrow> string \<Rightarrow> bool" where
  "evidence_of db g i \<longleftrightarrow> (\<exists>s. getArtifactSet db i = Some s \<and> art_generation_id s = g)"

text \<open>The placement approval of a row was decided for its current intent and candidate.\<close>

definition placed_by :: "gitops_db \<Rightarrow> string \<Rightarrow> string option \<Rightarrow> string option \<Rightarrow> string \<Rightarrow> bool" where
  "placed_by db a intent cand ref \<longleftrightarrow>
     (\<exists>p. getApproval db ref = Some p \<and> apv_application_id p = a \<and> apv_kind p = Ak_placement_approval
        \<and> apv_authoritative p = 1 \<and> apv_authority p \<in> {Au_operator, Au_configured_policy}
        \<and> intent \<noteq> None \<and> cand \<noteq> None
        \<and> apv_intent_revision_id p = intent \<and> apv_rollout_candidate_id p = cand)"

text \<open>Its rollout authorization was decided for them too, for the placement approval and for the rollout
  generation the row points at.\<close>

definition authorized_by ::
    "gitops_db \<Rightarrow> string \<Rightarrow> string option \<Rightarrow> string option \<Rightarrow> string option \<Rightarrow> string option \<Rightarrow> string \<Rightarrow> bool" where
  "authorized_by db a intent cand rgen placement ref \<longleftrightarrow>
     (\<exists>p. getApproval db ref = Some p \<and> apv_application_id p = a \<and> apv_kind p = Ak_rollout_authorization
        \<and> apv_authoritative p = 1 \<and> apv_authority p \<in> {Au_operator, Au_configured_policy}
        \<and> apv_intent_revision_id p = intent \<and> apv_rollout_candidate_id p = cand
        \<and> rgen \<noteq> None \<and> placement \<noteq> None
        \<and> apv_rollout_generation_id p = rgen \<and> apv_placement_approval_ref p = placement)"

definition authority_ok ::
    "gitops_db \<Rightarrow> string \<Rightarrow> string option \<Rightarrow> string option \<Rightarrow> string option \<Rightarrow> string option \<Rightarrow> string option \<Rightarrow> bool" where
  "authority_ok db a intent cand rgen placement auth \<longleftrightarrow>
     (\<forall>ref. placement = Some ref \<longrightarrow> placed_by db a intent cand ref)
     \<and> (\<forall>ref. auth = Some ref \<longrightarrow> authorized_by db a intent cand rgen placement ref)"

lemma authority_ok_none [simp]: "authority_ok db a i c g None None"
  by (simp add: authority_ok_def)

lemma authority_ok_withdraw: "authority_ok db a i c g p r \<Longrightarrow> authority_ok db a i c g' p None"
  by (simp add: authority_ok_def)

definition app_ok :: "gitops_db \<Rightarrow> gitops_application_row \<Rightarrow> bool" where
  "app_ok db app \<longleftrightarrow>
     (\<forall>g. app_candidate_generation_id app = Some g \<longrightarrow>
        owned db (app_id app) g \<and> (app_candidate_plan_blocked app \<noteq> 1 \<longrightarrow> validated db (app_id app) g))
     \<and> (\<forall>g. app_accepted_generation_id app = Some g \<longrightarrow>
           owned db (app_id app) g
           \<and> (app_target_mode app \<noteq> Inline_blueprint \<longrightarrow>
                validated db (app_id app) g
                \<and> (\<exists>ref. app_source_acceptance_ref app = Some ref \<and> accepted_by db (app_id app) g ref))
           \<and> (\<exists>i. app_artifact_set_id app = Some i \<and> evidence_of db g i)
           \<and> (\<exists>i. app_latest_artifact_set_id app = Some i \<and> evidence_of db g i))
     \<and> (app_active_operation_stage app = Some Ast_apply_started \<longrightarrow>
           app_active_generation_id app = app_candidate_generation_id app
           \<and> app_candidate_generation_id app \<noteq> None \<and> app_candidate_plan_blocked app \<noteq> 1)
     \<and> (app_active_operation_stage app = None \<longleftrightarrow> app_active_operation_id app = None)
     \<and> authority_ok db (app_id app) (app_intent_revision_id app) (app_rollout_candidate_id app)
           (app_rollout_generation_id app) (app_placement_approval_ref app)
           (app_rollout_authorization_ref app)"

definition db_ok :: "gitops_db \<Rightarrow> bool" where
  "db_ok db \<longleftrightarrow>
     (\<forall>app \<in> set (db_applications db). app_ok db app)
     \<and> (\<forall>t \<in> set (db_targets db). target_ok db t)
     \<and> distinct (map app_id (db_applications db))
     \<and> distinct (map target_key (db_targets db))
     \<and> audit_ok db"

lemma owned_mono: "db_le d e \<Longrightarrow> owned d a g \<Longrightarrow> owned e a g"
  by (auto simp: owned_def db_le_def)

lemma validated_mono: "db_le d e \<Longrightarrow> validated d a g \<Longrightarrow> validated e a g"
  by (auto simp: validated_def db_le_def)

lemma accepted_by_mono: "db_le d e \<Longrightarrow> accepted_by d a g r \<Longrightarrow> accepted_by e a g r"
proof -
  assume le: "db_le d e" and "accepted_by d a g r"
  then obtain p where p: "getApproval d r = Some p" and "apv_application_id p = a"
    "apv_kind p = Ak_source_acceptance" "apv_authoritative p = 1"
    "apv_authority p \<in> {Au_operator, Au_configured_policy}" "apv_generation_id p = Some g"
    by (auto simp: accepted_by_def)
  moreover obtain q where "getApproval e r = Some q" "approval_kept p q"
    using le p unfolding db_le_def by blast
  ultimately show ?thesis by (auto simp: accepted_by_def approval_kept_columns)
qed

lemma evidence_of_mono: "db_le d e \<Longrightarrow> evidence_of d g i \<Longrightarrow> evidence_of e g i"
  by (auto simp: evidence_of_def db_le_def)

lemma db_le_approval:
  "db_le d e \<Longrightarrow> getApproval d r = Some p \<Longrightarrow> apv_kind p \<noteq> Ak_source_acceptance \<Longrightarrow> getApproval e r = Some p"
  unfolding db_le_def approval_kept_def by blast

lemma placed_by_mono: "db_le d e \<Longrightarrow> placed_by d a i c r \<Longrightarrow> placed_by e a i c r"
  by (auto simp: placed_by_def dest: db_le_approval)

lemma authorized_by_mono: "db_le d e \<Longrightarrow> authorized_by d a i c g p r \<Longrightarrow> authorized_by e a i c g p r"
  by (auto simp: authorized_by_def dest: db_le_approval)

lemma authority_ok_mono: "db_le d e \<Longrightarrow> authority_ok d a i c g p r \<Longrightarrow> authority_ok e a i c g p r"
  by (auto simp: authority_ok_def intro: placed_by_mono authorized_by_mono)

lemma validated_owned: "validated db a g \<Longrightarrow> owned db a g"
  by (auto simp: validated_def owned_def)

lemma app_ok_mono: "db_le d e \<Longrightarrow> app_ok d app \<Longrightarrow> app_ok e app"
  unfolding app_ok_def
  by (meson owned_mono validated_mono accepted_by_mono evidence_of_mono authority_ok_mono)

lemma app_ok_keep:
  "app_target_mode r = app_target_mode app \<Longrightarrow> app_ok db (keep_identity r app) = app_ok db app"
  by (simp add: app_ok_def keep_identity_def)

lemma app_ok_stamp [simp]: "app_ok db (stamp_app e app) = app_ok db app"
  by (simp add: app_ok_def stamp_app_def)

lemma app_id_stamp [simp]:
  "app_id (stamp_app e app) = app_id app" "app_target_mode (stamp_app e app) = app_target_mode app"
  by (simp_all add: stamp_app_def)

text \<open>What a mutation may not touch of its row: the identity, what it is bound to, and a retired row does not
  come back to life. The binding of an application changes only when it is retargeted.\<close>

definition live_status :: "lifecycle_status \<Rightarrow> bool" where
  "live_status s \<longleftrightarrow> s = Lc_active \<or> s = Lc_creating"

lemma live_status_simps [simp]:
  "live_status Lc_active" "live_status Lc_creating" "\<not> live_status Lc_detached" "\<not> live_status Lc_deleted"
  by (simp_all add: live_status_def)

lemma live_lifecycle_status: "live_lifecycle r = live_status (app_lifecycle_status r)"
  by (simp add: live_lifecycle_def live_status_def)

abbreviation same_row :: "gitops_application_row \<Rightarrow> gitops_application_row \<Rightarrow> bool" where
  "same_row a b \<equiv> app_id b = app_id a \<and> app_target_mode b = app_target_mode a
     \<and> app_stack_name b = app_stack_name a \<and> app_blueprint_id b = app_blueprint_id a
     \<and> (app_target_mode a \<noteq> Direct \<longrightarrow> app_configured_repo_url b = app_configured_repo_url a)
     \<and> (live_status (app_lifecycle_status b) \<longrightarrow> live_status (app_lifecycle_status a))"

definition bindings_kept :: "gitops_db \<Rightarrow> gitops_db \<Rightarrow> bool" where
  "bindings_kept d e \<longleftrightarrow> list_all2 same_row (db_applications d) (db_applications e)"

lemma bindings_kept_refl [simp]: "bindings_kept d d"
  by (simp add: bindings_kept_def list.rel_refl)

lemma bindings_kept_trans: "bindings_kept d e \<Longrightarrow> bindings_kept e f \<Longrightarrow> bindings_kept d f"
  unfolding bindings_kept_def by (rule list_all2_trans [of same_row same_row same_row]) auto

lemma bindings_kept_tables: "db_applications e = db_applications d \<Longrightarrow> bindings_kept d e"
  by (simp add: bindings_kept_def list.rel_refl)

lemma bindings_kept_map:
  assumes "db_applications e = map f (db_applications d)" and "\<And>r. r \<in> set (db_applications d) \<Longrightarrow> same_row r (f r)"
  shows "bindings_kept d e"
  using assms by (auto simp: bindings_kept_def list_all2_map2 intro: list.rel_refl_strong)

lemma bindings_kept_row:
  assumes "bindings_kept d e" and "getApplication d i = Some a"
  shows "\<exists>b. getApplication e i = Some b \<and> same_row a b"
proof -
  have "list_all2 same_row xs ys \<Longrightarrow> find (\<lambda>r. app_id r = i) xs = Some a
      \<Longrightarrow> \<exists>b. find (\<lambda>r. app_id r = i) ys = Some b \<and> same_row a b" for xs ys
    by (induction rule: list_all2_induct) (auto split: if_splits)
  then show ?thesis using assms unfolding bindings_kept_def getApplication_def by blast
qed

section \<open>Writes that keep it\<close>

lemma distinct_map_replace:
  "distinct (map key rows) \<Longrightarrow> (\<And>r. key (f r) = key r) \<Longrightarrow> distinct (map key (map f rows))"
  by (simp add: comp_def)

lemma db_ok_cong:
  assumes "db_ok d" and "db_le d e" and "db_applications e = db_applications d"
    and "db_targets e = db_targets d" and "db_history e = db_history d" and "db_outbox e = db_outbox d"
  shows "db_ok e"
  using assms app_ok_mono target_ok_mono audit_ok_cong [of d e] by (auto simp: db_ok_def)

text \<open>A write goes to the row it was read from.\<close>

definition mode_matches :: "gitops_db \<Rightarrow> gitops_application_row \<Rightarrow> bool" where
  "mode_matches db app \<longleftrightarrow>
     (\<forall>r. getApplication db (app_id app) = Some r \<longrightarrow> app_target_mode r = app_target_mode app)"

lemma same_row_stamp [simp]:
  "app_stack_name (stamp_app e app) = app_stack_name app" "app_blueprint_id (stamp_app e app) = app_blueprint_id app"
  "app_configured_repo_url (stamp_app e app) = app_configured_repo_url app"
  "app_lifecycle_status (stamp_app e app) = app_lifecycle_status app"
  by (simp_all add: stamp_app_def)

lemma distinct_getApplication:
  "distinct (map app_id (db_applications db)) \<Longrightarrow> r \<in> set (db_applications db) \<Longrightarrow> getApplication db (app_id r) = Some r"
  by (simp add: getApplication_def find_distinct_key)

lemma db_ok_write:
  assumes "db_ok db" and "app_ok db app" and "mode_matches db app"
  shows "db_ok (writeApplication app db)"
proof -
  have le: "db_le db (writeApplication app db)" by (rule db_le_by_lookups) simp_all
  have "distinct (map app_id (db_applications (writeApplication app db)))"
    unfolding writeApplication_map
    by (rule distinct_map_replace) (use assms in \<open>auto simp: db_ok_def keep_identity_def\<close>)
  moreover have "\<forall>a \<in> set (db_applications (writeApplication app db)). app_ok db a"
  proof
    fix a assume "a \<in> set (db_applications (writeApplication app db))"
    then obtain r where r: "r \<in> set (db_applications db)"
      and a: "a = (if app_id r = app_id app then keep_identity r app else r)"
      by (auto simp: writeApplication_map)
    have "getApplication db (app_id r) = Some r"
      using assms(1) r by (auto simp: db_ok_def intro: distinct_getApplication)
    then show "app_ok db a"
      using assms r unfolding a by (auto simp: db_ok_def mode_matches_def app_ok_keep)
  qed
  ultimately show ?thesis
    using assms le app_ok_mono audit_ok_cong [of db "writeApplication app db"] by (auto simp: db_ok_def)
qed

lemma db_ok_put:
  assumes "db_ok db" and "target_ok db t"
  shows "db_ok (put_target t db)"
proof -
  have le: "db_le db (put_target t db)" by (rule db_le_by_lookups) simp_all
  have "distinct (map target_key (db_targets (put_target t db)))"
  proof (cases "\<exists>r \<in> set (db_targets db). target_key r = target_key t")
    case True
    then have "db_targets (put_target t db) =
        map (\<lambda>r. if target_key r = target_key t then t else r) (db_targets db)"
      by (simp add: put_target_key)
    moreover have "distinct (map target_key (map (\<lambda>r. if target_key r = target_key t then t else r) (db_targets db)))"
      by (rule distinct_map_replace) (use assms in \<open>auto simp: db_ok_def\<close>)
    ultimately show ?thesis by simp
  next
    case False
    then show ?thesis using assms by (auto simp: db_ok_def put_target_key)
  qed
  then show ?thesis
    using assms le app_ok_mono set_put_target [of t db] audit_ok_cong [of db "put_target t db"]
    by (auto simp: db_ok_def)
qed

lemma db_le_tables:
  "db_generations d = db_generations e \<Longrightarrow> db_artifact_sets d = db_artifact_sets e
   \<Longrightarrow> db_approvals d = db_approvals e \<Longrightarrow> db_le d e"
  by (rule db_le_by_lookups; rule lookups_by_table; assumption)

lemma db_le_history: "db_le db (snd (history app e f db))"
  by (rule db_le_tables) simp_all

lemma db_ok_history: "db_ok db \<Longrightarrow> db_ok (snd (history app e f db))"
  using app_ok_mono [OF db_le_history] target_ok_mono [OF db_le_history]
  by (auto simp: db_ok_def history_audit)

text \<open>What a step of a mutation may do to the database: keep the invariant, lose no evidence.\<close>

definition keeps :: "gitops_db \<Rightarrow> gitops_db \<Rightarrow> bool" where
  "keeps d e \<longleftrightarrow> db_ok e \<and> db_le d e \<and> bindings_kept d e"

lemma keeps_refl: "db_ok d \<Longrightarrow> keeps d d"
  by (simp add: keeps_def)

lemma keeps_trans: "keeps d e \<Longrightarrow> keeps e f \<Longrightarrow> keeps d f"
  using db_le_trans bindings_kept_trans by (auto simp: keeps_def)

lemma keeps_chain: "keeps a b \<Longrightarrow> (db_ok b \<Longrightarrow> keeps b c) \<Longrightarrow> keeps a c"
  by (rule keeps_trans, assumption) (simp add: keeps_def)

lemma keeps_history: "db_ok d \<Longrightarrow> keeps d (snd (history app e f d))"
  by (simp add: keeps_def db_ok_history db_le_history bindings_kept_tables)

lemma keeps_upsert: "db_ok d \<Longrightarrow> upsertTarget t d = Inr d' \<Longrightarrow> keeps d d'"
  by (auto simp: keeps_def upsertTarget_Inr db_ok_put intro: db_le_by_lookups bindings_kept_tables)

lemma keeps_upsert_each: "db_ok d \<Longrightarrow> upsert_each ts d = Inr d' \<Longrightarrow> keeps d d'"
proof (induction ts arbitrary: d)
  case Nil
  then show ?case by (simp add: keeps_refl)
next
  case (Cons t ts)
  then obtain d1 where "upsertTarget t d = Inr d1" and "upsert_each ts d1 = Inr d'" by auto
  with Cons keeps_upsert show ?case by (meson keeps_def keeps_trans)
qed

lemma keeps_direct_targets:
  "db_ok d \<Longrightarrow> forEachLiveDirectTarget app f d = Inr d' \<Longrightarrow> keeps d d'"
  by (auto simp: forEachLiveDirectTarget_def keeps_refl keeps_upsert_each split: if_splits)

text \<open>The row read at the start of a transaction is written back after the other writes of the transaction.\<close>

lemma keeps_write:
  assumes ok: "db_ok d" and a: "getApplication d i = Some a" and same: "same_row a b"
    and k: "keeps d d1" and b: "app_ok d1 b"
  shows "keeps d (writeApplication b d1)"
proof -
  have i: "app_id a = i" using getApplication_id [OF a] by simp
  obtain r where r: "getApplication d1 i = Some r" "same_row a r"
    using k a bindings_kept_row unfolding keeps_def by blast
  then have "mode_matches d1 b" using same i by (simp add: mode_matches_def)
  then have "db_ok (writeApplication b d1)" using k b by (simp add: keeps_def db_ok_write)
  moreover have "db_le d (writeApplication b d1)"
    by (rule db_le_trans [of d d1]) (use k in \<open>auto simp: keeps_def intro: db_le_by_lookups\<close>)
  moreover have "bindings_kept d (writeApplication b d1)"
    unfolding bindings_kept_def writeApplication_map list_all2_map2
  proof (rule list.rel_mono_strong)
    show "list_all2 same_row (db_applications d) (db_applications d1)"
      using k by (simp add: keeps_def bindings_kept_def)
    fix x y assume x: "x \<in> set (db_applications d)" and xy: "same_row x y"
    have "getApplication d (app_id x) = Some x"
      using ok x by (intro distinct_getApplication) (simp_all add: db_ok_def)
    then have "x = a" if "app_id x = app_id b" using that same i a by simp
    then show "same_row x (if app_id y = app_id b then keep_identity y b else y)"
      using xy same by (auto simp: keep_identity_def)
  qed
  ultimately show ?thesis by (simp add: keeps_def)
qed

section \<open>The transactions keep it\<close>

definition app_mutation_ok :: "string \<Rightarrow> gitops_db \<Rightarrow> app_mutation \<Rightarrow> bool" where
  "app_mutation_ok i db mutate \<longleftrightarrow>
     (\<forall>app app1 db1 ids. getApplication db i = Some app \<longrightarrow> app_ok db app \<longrightarrow> mutate app db = Inr (app1, db1, ids) \<longrightarrow>
        keeps db db1 \<and> same_row app app1 \<and> app_ok db1 app1)"

lemma app_mutation_okI [intro?]:
  assumes "\<And>app app1 db1 ids. app_ok db app \<Longrightarrow> mutate app db = Inr (app1, db1, ids) \<Longrightarrow>
     keeps db db1 \<and> same_row app app1 \<and> app_ok db1 app1"
  shows "app_mutation_ok i db mutate"
  using assms unfolding app_mutation_ok_def by blast

lemma app_mutation_ok_storedI:
  assumes "\<And>app app1 db1 ids. getApplication db i = Some app \<Longrightarrow> app_ok db app
     \<Longrightarrow> mutate app db = Inr (app1, db1, ids) \<Longrightarrow> keeps db db1 \<and> same_row app app1 \<and> app_ok db1 app1"
  shows "app_mutation_ok i db mutate"
  using assms unfolding app_mutation_ok_def by blast

lemma app_mutation_ok_rowI:
  assumes "\<And>app app1 db1 ids. app_id app = i \<Longrightarrow> app_ok db app \<Longrightarrow> mutate app db = Inr (app1, db1, ids) \<Longrightarrow>
     keeps db db1 \<and> same_row app app1 \<and> app_ok db1 app1"
  shows "app_mutation_ok i db mutate"
  by (rule app_mutation_ok_storedI, rule assms) (auto dest: getApplication_id)

lemma getApplication_ok: "db_ok db \<Longrightarrow> getApplication db i = Some app \<Longrightarrow> app_ok db app"
  by (auto simp: db_ok_def dest: getApplication_id)

lemma mutateApp_keeps:
  assumes ok: "db_ok db" and mut: "app_mutation_ok i db mutate"
    and run: "mutateApp i e stage outcome mutate x db = Inr (db', r)"
  shows "keeps db db'"
proof -
  obtain app0 app1 db1 ids where app0: "getApplication db i = Some app0"
    and m: "mutate app0 db = Inr (app1, db1, ids)"
    using run by (auto simp: mutateApp_def split: option.splits)
  have k1: "keeps db db1" and a1: "app_ok db1 app1" and same: "same_row app0 app1"
    using mut m app0 getApplication_ok [OF ok app0] unfolding app_mutation_ok_def by blast+
  have ok1: "db_ok db1" using k1 by (simp add: keeps_def)
  let ?db2 = "writeApplication (stamp_app e app1) db1"
  have k2: "keeps db ?db2" by (rule keeps_write [OF ok app0 _ k1]) (use same a1 in simp_all)
  obtain f where "db' = snd (history (stamp_app e app1) e f ?db2)"
    using run app0 m by (auto simp: mutateApp_def Let_def prod.case_eq_if)
  then show ?thesis using keeps_chain [OF k2 keeps_history] by simp
qed

definition target_mutation_ok :: "gitops_db \<Rightarrow> target_mutation \<Rightarrow> bool" where
  "target_mutation_ok db mutate \<longleftrightarrow>
     (\<forall>t app t1 db1 b a. mutate t app db = Inr (t1, db1, b, a) \<longrightarrow> keeps db db1)"

text \<open>The target transaction, taken apart.\<close>

lemma mutateTargetE:
  assumes "mutateTarget i n e stage g mutate outcome opts db = Inr (db', r)"
  obtains app t0 t1 db1 b a where "requireApp db i = Inr app" and "getTarget db i n = Some t0"
    and "mutate t0 app db = Inr (t1, db1, b, a)"
    and "target_ok db1 (stamp_target opts stage e t1)"
    and "db' = snd (history app e ((history_fields0 stage outcome b a)
           \<lparr>hf_nodeId := Some n, hf_generationId := g,
            hf_invocationObservedJson := mo_invocationObservedJson opts\<rparr>)
           (put_target (stamp_target opts stage e t1) db1))"
  using assms that
  by (auto simp: mutateTarget_def Let_def prod.case_eq_if upsertTarget_Inr split: option.splits)

lemma mutateTarget_keeps:
  assumes ok: "db_ok db" and mut: "target_mutation_ok db mutate"
    and run: "mutateTarget i n e stage g mutate outcome opts db = Inr (db', r)"
  shows "keeps db db'"
  using run
proof (rule mutateTargetE)
  fix app t0 t1 db1 b a
  let ?t = "stamp_target opts stage e t1"
  assume m: "mutate t0 app db = Inr (t1, db1, b, a)" and t: "target_ok db1 ?t"
    and h: "db' = snd (history app e ((history_fields0 stage outcome b a)
           \<lparr>hf_nodeId := Some n, hf_generationId := g,
            hf_invocationObservedJson := mo_invocationObservedJson opts\<rparr>) (put_target ?t db1))"
  have k1: "keeps db db1" using mut m unfolding target_mutation_ok_def by blast
  have "upsertTarget ?t db1 = Inr (put_target ?t db1)" using t by (simp add: upsertTarget_Inr)
  then have k2: "keeps db1 (put_target ?t db1)" using k1 keeps_upsert by (auto simp: keeps_def)
  then have "keeps (put_target ?t db1) db'" unfolding h by (intro keeps_history) (simp add: keeps_def)
  with k1 k2 show ?thesis using keeps_trans by blast
qed

section \<open>Row operations\<close>

text \<open>The columns the invariant reads.\<close>

definition same_pointers :: "gitops_application_row \<Rightarrow> gitops_application_row \<Rightarrow> bool" where
  "same_pointers a b \<longleftrightarrow>
     same_row a b
     \<and> app_candidate_generation_id b = app_candidate_generation_id a
     \<and> app_candidate_plan_blocked b = app_candidate_plan_blocked a
     \<and> app_accepted_generation_id b = app_accepted_generation_id a
     \<and> app_source_acceptance_ref b = app_source_acceptance_ref a
     \<and> app_artifact_set_id b = app_artifact_set_id a
     \<and> app_latest_artifact_set_id b = app_latest_artifact_set_id a
     \<and> (app_rollout_authorization_ref b = None
        \<or> app_rollout_authorization_ref b = app_rollout_authorization_ref a
          \<and> app_rollout_generation_id b = app_rollout_generation_id a
          \<and> app_placement_approval_ref b = app_placement_approval_ref a)
     \<and> (app_placement_approval_ref b = None \<and> app_rollout_authorization_ref b = None
        \<or> app_placement_approval_ref b = app_placement_approval_ref a
          \<and> app_intent_revision_id b = app_intent_revision_id a
          \<and> app_rollout_candidate_id b = app_rollout_candidate_id a)"

definition same_active :: "gitops_application_row \<Rightarrow> gitops_application_row \<Rightarrow> bool" where
  "same_active a b \<longleftrightarrow>
     app_active_operation_stage b = app_active_operation_stage a
     \<and> app_active_operation_id b = app_active_operation_id a
     \<and> app_active_generation_id b = app_active_generation_id a"

definition idle :: "gitops_application_row \<Rightarrow> bool" where
  "idle b \<longleftrightarrow> app_active_operation_stage b = None \<and> app_active_operation_id b = None"

lemma authority_same:
  "authority_ok db (app_id a) (app_intent_revision_id a) (app_rollout_candidate_id a)
     (app_rollout_generation_id a) (app_placement_approval_ref a) (app_rollout_authorization_ref a)
   \<Longrightarrow> same_pointers a b
   \<Longrightarrow> authority_ok db (app_id a) (app_intent_revision_id b) (app_rollout_candidate_id b)
     (app_rollout_generation_id b) (app_placement_approval_ref b) (app_rollout_authorization_ref b)"
  by (auto simp: authority_ok_def same_pointers_def)

lemma app_ok_same: "app_ok db a \<Longrightarrow> same_pointers a b \<Longrightarrow> same_active a b \<Longrightarrow> app_ok db b"
  using authority_same [of db a b] by (simp add: app_ok_def same_pointers_def same_active_def)

lemma app_ok_idle: "app_ok db a \<Longrightarrow> same_pointers a b \<Longrightarrow> idle b \<Longrightarrow> app_ok db b"
  using authority_same [of db a b] by (simp add: app_ok_def same_pointers_def idle_def)

lemma app_ok_fetching:
  "app_ok db a \<Longrightarrow> same_pointers a b \<Longrightarrow> app_active_operation_stage b = Some Ast_fetch_started
   \<Longrightarrow> app_active_operation_id b \<noteq> None \<Longrightarrow> app_ok db b"
  using authority_same [of db a b] by (simp add: app_ok_def same_pointers_def)

lemma app_ok_applying:
  "app_ok db a \<Longrightarrow> same_pointers a b \<Longrightarrow> app_candidate_generation_id a = Some g
   \<Longrightarrow> app_candidate_plan_blocked a \<noteq> 1 \<Longrightarrow> app_active_generation_id b = Some g
   \<Longrightarrow> app_active_operation_stage b \<noteq> None \<Longrightarrow> app_active_operation_id b \<noteq> None \<Longrightarrow> app_ok db b"
  using authority_same [of db a b] by (auto simp: app_ok_def same_pointers_def)

lemma clearInterruption_fields [simp]:
  "same_pointers a (clearInterruption s b) = same_pointers a b"
  "same_active a (clearInterruption s b) = same_active a b"
  "idle (clearInterruption s b) = idle b"
  "app_id (clearInterruption s b) = app_id b"
  "app_ok db (clearInterruption s b) = app_ok db b"
  "app_target_mode (clearInterruption s b) = app_target_mode b"
  by (simp_all add: clearInterruption_def same_pointers_def same_active_def idle_def app_ok_def)

lemma clearAppFailure_fields [simp]:
  "same_pointers a (clearAppFailure ss b) = same_pointers a b"
  "same_active a (clearAppFailure ss b) = same_active a b"
  "idle (clearAppFailure ss b) = idle b"
  "app_id (clearAppFailure ss b) = app_id b"
  "app_ok db (clearAppFailure ss b) = app_ok db b"
  "app_target_mode (clearAppFailure ss b) = app_target_mode b"
  by (simp_all add: clearAppFailure_def same_pointers_def same_active_def idle_def app_ok_def split: option.split)

lemma clear_columns [simp]:
  "app_candidate_generation_id (clearInterruption s b) = app_candidate_generation_id b"
  "app_stack_name (clearInterruption s b) = app_stack_name b"
  "app_blueprint_id (clearInterruption s b) = app_blueprint_id b"
  "app_configured_repo_url (clearInterruption s b) = app_configured_repo_url b"
  "app_lifecycle_status (clearInterruption s b) = app_lifecycle_status b"
  "app_candidate_plan_blocked (clearInterruption s b) = app_candidate_plan_blocked b"
  "app_accepted_generation_id (clearInterruption s b) = app_accepted_generation_id b"
  "app_source_acceptance_ref (clearInterruption s b) = app_source_acceptance_ref b"
  "app_artifact_set_id (clearInterruption s b) = app_artifact_set_id b"
  "app_latest_artifact_set_id (clearInterruption s b) = app_latest_artifact_set_id b"
  "app_active_operation_stage (clearInterruption s b) = app_active_operation_stage b"
  "app_active_operation_id (clearInterruption s b) = app_active_operation_id b"
  "app_active_generation_id (clearInterruption s b) = app_active_generation_id b"
  "app_intent_revision_id (clearInterruption s b) = app_intent_revision_id b"
  "app_rollout_candidate_id (clearInterruption s b) = app_rollout_candidate_id b"
  "app_rollout_generation_id (clearInterruption s b) = app_rollout_generation_id b"
  "app_placement_approval_ref (clearInterruption s b) = app_placement_approval_ref b"
  "app_rollout_authorization_ref (clearInterruption s b) = app_rollout_authorization_ref b"
  "app_candidate_generation_id (clearAppFailure ss b) = app_candidate_generation_id b"
  "app_stack_name (clearAppFailure ss b) = app_stack_name b"
  "app_blueprint_id (clearAppFailure ss b) = app_blueprint_id b"
  "app_configured_repo_url (clearAppFailure ss b) = app_configured_repo_url b"
  "app_lifecycle_status (clearAppFailure ss b) = app_lifecycle_status b"
  "app_candidate_plan_blocked (clearAppFailure ss b) = app_candidate_plan_blocked b"
  "app_accepted_generation_id (clearAppFailure ss b) = app_accepted_generation_id b"
  "app_source_acceptance_ref (clearAppFailure ss b) = app_source_acceptance_ref b"
  "app_artifact_set_id (clearAppFailure ss b) = app_artifact_set_id b"
  "app_latest_artifact_set_id (clearAppFailure ss b) = app_latest_artifact_set_id b"
  "app_active_operation_stage (clearAppFailure ss b) = app_active_operation_stage b"
  "app_active_operation_id (clearAppFailure ss b) = app_active_operation_id b"
  "app_active_generation_id (clearAppFailure ss b) = app_active_generation_id b"
  "app_intent_revision_id (clearAppFailure ss b) = app_intent_revision_id b"
  "app_rollout_candidate_id (clearAppFailure ss b) = app_rollout_candidate_id b"
  "app_rollout_generation_id (clearAppFailure ss b) = app_rollout_generation_id b"
  "app_placement_approval_ref (clearAppFailure ss b) = app_placement_approval_ref b"
  "app_rollout_authorization_ref (clearAppFailure ss b) = app_rollout_authorization_ref b"
  by (simp_all add: clearInterruption_def clearAppFailure_def split: option.split)

lemma clearActive_fields [simp]:
  "app_id (clearActive a) = app_id a"
  "app_target_mode (clearActive a) = app_target_mode a"
  "app_stack_name (clearActive a) = app_stack_name a"
  "app_blueprint_id (clearActive a) = app_blueprint_id a"
  "app_configured_repo_url (clearActive a) = app_configured_repo_url a"
  "app_lifecycle_status (clearActive a) = app_lifecycle_status a"
  by (simp_all add: clearActive_def)

lemma clearActive_ok [simp]: "app_ok db a \<Longrightarrow> app_ok db (clearActive a)"
  by (simp add: clearActive_def app_ok_def)

lemma tombstone_not_live [simp]: "\<not> live_status (tombstone_lifecycle s)"
  by (cases s) (simp_all add: tombstone_lifecycle_def)

lemmas pointer_defs = same_pointers_def same_active_def idle_def clearActive_def

section \<open>Fetching, scheduling, suspension\<close>

lemma pure_mutation_ok:
  assumes "db_ok db"
    and "\<And>app app1 db1 ids. app_ok db app \<Longrightarrow> mutate app db = Inr (app1, db1, ids) \<Longrightarrow>
       db1 = db \<and> same_row app app1 \<and> app_ok db app1"
  shows "app_mutation_ok i db mutate"
  using assms by (intro app_mutation_okI) (metis keeps_refl)

lemma mutateApp_keepsE:
  "mutateApp i e s o1 m x db = Inr (db', r) \<Longrightarrow> db_ok db \<Longrightarrow> app_mutation_ok i db m \<Longrightarrow> keeps db db'"
  by (rule mutateApp_keeps)

lemma fetched_keeps: "fetched i c e k db = Inr (db', r) \<Longrightarrow> db_ok db \<Longrightarrow> keeps db db'"
  unfolding fetched_def
  by (erule mutateApp_keepsE, assumption, erule pure_mutation_ok) (auto simp: pointer_defs elim!: app_ok_idle)

lemma fetchStarted_keeps: "fetchStarted i e db = Inr (db', r) \<Longrightarrow> db_ok db \<Longrightarrow> keeps db db'"
  unfolding fetchStarted_def
  by (erule mutateApp_keepsE, assumption, erule pure_mutation_ok)
    (auto simp: pointer_defs elim!: app_ok_fetching)

lemma fetchFailed_keeps: "fetchFailed i e c db = Inr (db', r) \<Longrightarrow> db_ok db \<Longrightarrow> keeps db db'"
  unfolding fetchFailed_def
  by (erule mutateApp_keepsE, assumption, erule pure_mutation_ok) (auto simp: pointer_defs elim!: app_ok_idle)

lemma fetchedInvalid_keeps: "fetchedInvalid i c e k db = Inr (db', r) \<Longrightarrow> db_ok db \<Longrightarrow> keeps db db'"
  unfolding fetchedInvalid_def
  by (erule mutateApp_keepsE, assumption, erule pure_mutation_ok) (auto simp: pointer_defs elim!: app_ok_idle)

lemma sourceRetryScheduled_keeps:
  "sourceRetryScheduled i t n e db = Inr (db', r) \<Longrightarrow> db_ok db \<Longrightarrow> keeps db db'"
  unfolding sourceRetryScheduled_def
  by (erule mutateApp_keepsE, assumption, erule pure_mutation_ok) (auto simp: pointer_defs elim!: app_ok_same)

lemma sourcePollScheduled_keeps:
  "sourcePollScheduled i t e db = Inr (db', r) \<Longrightarrow> db_ok db \<Longrightarrow> keeps db db'"
  unfolding sourcePollScheduled_def
  by (erule mutateApp_keepsE, assumption, erule pure_mutation_ok) (auto simp: pointer_defs elim!: app_ok_same)

lemma sourcePolicyChanged_keeps:
  "sourcePolicyChanged i p e db = Inr (db', r) \<Longrightarrow> db_ok db \<Longrightarrow> keeps db db'"
  unfolding sourcePolicyChanged_def
  by (erule mutateApp_keepsE, assumption, erule pure_mutation_ok) (auto simp: pointer_defs Let_def elim!: app_ok_same)

lemma sourceUnsuspended_keeps:
  "sourceUnsuspended i e db = Inr (db', r) \<Longrightarrow> db_ok db \<Longrightarrow> keeps db db'"
  unfolding sourceUnsuspended_def
  by (erule mutateApp_keepsE, assumption, erule pure_mutation_ok) (auto simp: pointer_defs elim!: app_ok_same)

lemma applicationTombstoned_keeps:
  "applicationTombstoned i s e db = Inr (db', r) \<Longrightarrow> db_ok db \<Longrightarrow> keeps db db'"
  unfolding applicationTombstoned_def
  by (erule mutateApp_keepsE, assumption, erule pure_mutation_ok) (auto simp: pointer_defs elim!: app_ok_idle)

lemma applyStarted_keeps: "applyStarted i g e db = Inr (db', r) \<Longrightarrow> db_ok db \<Longrightarrow> keeps db db'"
  unfolding applyStarted_def
  by (erule mutateApp_keepsE, assumption, erule pure_mutation_ok)
    (auto simp: pointer_defs elim!: app_ok_applying)

lemma applyFailed_keeps: "applyFailed i c e db = Inr (db', r) \<Longrightarrow> db_ok db \<Longrightarrow> keeps db db'"
  unfolding applyFailed_def
  by (erule mutateApp_keepsE, assumption, erule pure_mutation_ok) (auto simp: pointer_defs elim!: app_ok_idle)

lemma sourceReviewBlocked_keeps:
  "sourceReviewBlocked i g w e db = Inr (db', r) \<Longrightarrow> db_ok db \<Longrightarrow> keeps db db'"
  unfolding sourceReviewBlocked_def
  by (erule mutateApp_keepsE, assumption, erule pure_mutation_ok) (auto simp: pointer_defs elim!: app_ok_same)

section \<open>Candidates\<close>

lemma requireOwnedGeneration_Inr:
  "requireOwnedGeneration db a g = Inr row \<longleftrightarrow> getGeneration db g = Some row \<and> gen_application_id row = a"
  by (auto simp: requireOwnedGeneration_def split: option.splits)

lemma keeps_supersede: "db_ok db \<Longrightarrow> supersedeCandidate app g e db = (ids, db1) \<Longrightarrow> keeps db db1"
  by (auto simp: supersedeCandidate_def prod.case_eq_if keeps_refl keeps_history split: if_splits)

lemma app_ok_keeps: "app_ok d a \<Longrightarrow> keeps d e \<Longrightarrow> app_ok e a"
  by (auto simp: keeps_def intro: app_ok_mono)

text \<open>Staging: the candidate becomes \<open>g\<close>, an owned generation, unless an apply of another one is in
  flight; it is marked blocked or it is validated.\<close>

lemma app_ok_stage:
  assumes "app_ok db a" and "owned db (app_id a) g"
    and "\<not> (app_active_operation_stage a = Some Ast_apply_started \<and> app_candidate_generation_id a \<noteq> Some g)"
    and "app_active_operation_stage a = Some Ast_apply_started \<longrightarrow> blocked \<noteq> 1"
    and "blocked \<noteq> 1 \<longrightarrow> validated db (app_id a) g"
  shows "app_ok db (a\<lparr>app_candidate_generation_id := Some g, app_candidate_plan_blocked := blocked,
    app_review_required := rr, app_review_block_reason := rb\<rparr>)"
  using assms by (auto simp: app_ok_def)

lemma no_apply_of_blocked:
  assumes "app_ok db a" and "getGeneration db g = Some row" and "gen_plan_blocked row = 1"
    and "\<not> (app_active_operation_stage a = Some Ast_apply_started \<and> app_candidate_generation_id a \<noteq> Some g)"
  shows "app_active_operation_stage a \<noteq> Some Ast_apply_started"
  using assms by (auto simp: app_ok_def validated_def)

lemma mutation_step: "keeps db db1 \<Longrightarrow> same_row app app1 \<Longrightarrow> app_ok db app1
    \<Longrightarrow> keeps db db1 \<and> same_row app app1 \<and> app_ok db1 app1"
  using app_ok_keeps by blast

lemma dismissed_keeps: "dismissed i e db = Inr (db', r) \<Longrightarrow> db_ok db \<Longrightarrow> keeps db db'"
  unfolding dismissed_def
proof (erule mutateApp_keepsE, assumption, rule app_mutation_okI, goal_cases)
  case (1 app app1 db1 ids)
  show ?case
  proof (rule mutation_step)
    show "keeps db db1" using 1 by (auto simp: Let_def intro: keeps_direct_targets)
  qed (use 1 in \<open>auto simp: Let_def app_ok_def\<close>)
qed

lemma configChangedPendingCleared_keeps:
  "configChangedPendingCleared i m e db = Inr (db', r) \<Longrightarrow> db_ok db \<Longrightarrow> keeps db db'"
  unfolding configChangedPendingCleared_def
proof (erule mutateApp_keepsE, assumption, rule app_mutation_okI, goal_cases)
  case (1 app app1 db1 ids)
  show ?case
  proof (rule mutation_step)
    show "keeps db db1" using 1 by (auto simp: Let_def intro: keeps_direct_targets)
  qed (use 1 in \<open>auto simp: Let_def app_ok_def\<close>)
qed

lemma keeps_restage:
  assumes "db_ok db" and "supersedeCandidate app g e db = (ids, db1)"
    and "\<exists>a f. forEachLiveDirectTarget a f db1 = Inr db2"
  shows "keeps db db2"
  using assms keeps_supersede keeps_direct_targets keeps_trans unfolding keeps_def by blast

lemma candidateReady_keeps: "candidateReady i g w e db = Inr (db', r) \<Longrightarrow> db_ok db \<Longrightarrow> keeps db db'"
  unfolding candidateReady_def
proof (erule mutateApp_keepsE, assumption, rule app_mutation_okI, goal_cases)
  case (1 app app1 db2 ids)
  obtain db1 where own: "owned db (app_id app) g" "validated db (app_id app) g"
    and sup: "supersedeCandidate app g e db = (ids, db1)"
    and tg: "\<exists>a f. forEachLiveDirectTarget a f db1 = Inr db2"
    and free: "\<not> (app_active_operation_stage app = Some Ast_apply_started \<and> app_candidate_generation_id app \<noteq> Some g)"
    and app1: "app1 = clearAppFailure [Af_validation]
        (app\<lparr>app_candidate_generation_id := Some g, app_candidate_plan_blocked := 0,
             app_review_required := (if w then 1 else 0), app_review_block_reason := None\<rparr>)"
    using 1(3) by (auto simp: Let_def requireOwnedGeneration_Inr owned_def validated_def split: prod.splits)
  show ?case
  proof (rule mutation_step)
    show "keeps db db2" by (rule keeps_restage [OF 1(1) sup]) (rule tg)
    show "app_ok db app1" unfolding app1 using 1(2) own free by (simp add: app_ok_stage)
    show "same_row app app1" by (simp add: app1)
  qed
qed

lemma sourceConflictBlocker_keeps:
  "sourceConflictBlocker i g e db = Inr (db', r) \<Longrightarrow> db_ok db \<Longrightarrow> keeps db db'"
  unfolding sourceConflictBlocker_def
proof (erule mutateApp_keepsE, assumption, rule app_mutation_okI, goal_cases)
  case (1 app app1 db2 ids)
  obtain row db1 where row: "getGeneration db g = Some row" "gen_application_id row = app_id app" "gen_plan_blocked row = 1"
    and sup: "supersedeCandidate app g e db = (ids, db1)"
    and tg: "\<exists>a f. forEachLiveDirectTarget a f db1 = Inr db2"
    and free: "\<not> (app_active_operation_stage app = Some Ast_apply_started \<and> app_candidate_generation_id app \<noteq> Some g)"
    and app1: "app1 = app\<lparr>app_candidate_generation_id := Some g, app_candidate_plan_blocked := 1,
             app_review_block_reason := None\<rparr>"
    using 1(3) by (auto simp: Let_def requireOwnedGeneration_Inr split: prod.splits)
  have "app_ok db (app\<lparr>app_candidate_generation_id := Some g, app_candidate_plan_blocked := 1,
             app_review_required := app_review_required app, app_review_block_reason := None\<rparr>)"
    using row free no_apply_of_blocked [OF 1(2) row(1,3) free] by (intro app_ok_stage 1) (auto simp: owned_def)
  then have "app_ok db app1" unfolding app1 by simp
  then show ?case using keeps_restage [OF 1(1) sup tg] app1 by (intro mutation_step) auto
qed

section \<open>Acceptance\<close>

lemma keeps_superseded:
  "db_ok db \<Longrightarrow> keeps db (snd (recordRolloutGenerationSuperseded app p n e db))"
proof -
  assume ok: "db_ok db"
  let ?m = "markRolloutGenerationSuperseded p (ev_at e) db"
  have le: "db_le db ?m" by (rule db_le_tables) (simp_all add: markRolloutGenerationSuperseded_def)
  have "keeps db ?m"
    using db_ok_cong [OF ok le] le
    by (simp add: keeps_def markRolloutGenerationSuperseded_def bindings_kept_tables)
  moreover then have "keeps ?m (snd (history a e f ?m))" for a f by (intro keeps_history) (simp add: keeps_def)
  ultimately have "keeps db (snd (history a e f ?m))" for a f using keeps_trans by blast
  then show ?thesis
    by (auto simp: recordRolloutGenerationSuperseded_def prod.case_eq_if keeps_refl ok split: option.split)
qed

text \<open>Withdrawing an authorization touches neither the pointers nor the operation of the row.\<close>

lemma release_pause_row:
  assumes "release_system_pause app e db = (app1, db1, ids)"
  shows "\<exists>pa pr po. app1 = app\<lparr>app_pause_at := pa, app_pause_reason := pr, app_pause_origin := po\<rparr>"
proof (cases "app1 = app")
  case True
  then have "app1 = app\<lparr>app_pause_at := app_pause_at app, app_pause_reason := app_pause_reason app,
      app_pause_origin := app_pause_origin app\<rparr>" by simp
  then show ?thesis by blast
next
  case False
  then show ?thesis
    using assms by (auto simp: release_system_pause_def Let_def prod.case_eq_if split: if_splits)
qed

lemma release_pause_keeps:
  "db_ok db \<Longrightarrow> release_system_pause app e db = (app1, db1, ids) \<Longrightarrow> keeps db db1"
  using keeps_history
  by (auto simp: release_system_pause_def Let_def prod.case_eq_if keeps_refl split: if_splits)

text \<open>What is left of an authorization after a source change.\<close>

lemma invalidateAuthorization_cases:
  assumes "invalidateAuthorizationOnSourceChange app e db = (app1, db1, ids)"
  obtains a d ids1 where "release_system_pause app e db = (a, d, ids1)"
    and "app1 = a \<and> app_target_mode app \<noteq> Blueprint
       \<or> app1 = a\<lparr>app_rollout_authorization_ref := None, app_preflight_fingerprint := None\<rparr>
       \<or> app1 = a\<lparr>app_rollout_authorization_ref := None, app_preflight_fingerprint := None,
                 app_rollout_generation_id := None\<rparr>"
    and "db1 = d \<or> (\<exists>b g. db1 = snd (recordRolloutGenerationSuperseded b g None e d))"
proof -
  obtain a d ids1 where r: "release_system_pause app e db = (a, d, ids1)" by (rule prod_cases3)
  have "app_target_mode a = app_target_mode app" using release_pause_row [OF r] by auto
  then show thesis
    using assms r
    by (intro that [OF r])
      (auto simp: invalidateAuthorizationOnSourceChange_def Let_def prod.case_eq_if split: if_splits option.splits)
qed

lemma invalidateAuthorization_row:
  assumes "invalidateAuthorizationOnSourceChange app e db = (app1, db1, ids)"
  shows "same_pointers app app1 \<and> same_active app app1 \<and> app_target_mode app1 = app_target_mode app
    \<and> app_lifecycle_status app1 = app_lifecycle_status app
    \<and> app_evidence_limitations_json app1 = app_evidence_limitations_json app
    \<and> app_intent_revision_id app1 = app_intent_revision_id app
    \<and> app_rollout_candidate_id app1 = app_rollout_candidate_id app"
  using assms
proof (rule invalidateAuthorization_cases)
  fix a d ids1 assume r: "release_system_pause app e db = (a, d, ids1)"
    and c: "app1 = a \<and> app_target_mode app \<noteq> Blueprint
       \<or> app1 = a\<lparr>app_rollout_authorization_ref := None, app_preflight_fingerprint := None\<rparr>
       \<or> app1 = a\<lparr>app_rollout_authorization_ref := None, app_preflight_fingerprint := None,
                 app_rollout_generation_id := None\<rparr>"
  obtain pa pr po where "a = app\<lparr>app_pause_at := pa, app_pause_reason := pr, app_pause_origin := po\<rparr>"
    using release_pause_row [OF r] by blast
  with c show ?thesis by (elim disjE conjE) (simp_all add: same_pointers_def same_active_def)
qed

lemma invalidateAuthorization_keeps:
  assumes "db_ok db" and "invalidateAuthorizationOnSourceChange app e db = (app1, db1, ids)"
  shows "keeps db db1"
  using assms(2)
proof (rule invalidateAuthorization_cases)
  fix a d ids1 assume r: "release_system_pause app e db = (a, d, ids1)"
    and c: "db1 = d \<or> (\<exists>b g. db1 = snd (recordRolloutGenerationSuperseded b g None e d))"
  have k: "keeps db d" by (rule release_pause_keeps [OF assms(1) r])
  from c show ?thesis
  proof (elim disjE exE)
    fix b g assume "db1 = snd (recordRolloutGenerationSuperseded b g None e d)"
    then have "keeps d db1" using k keeps_superseded by (simp add: keeps_def)
    with k show ?thesis by (rule keeps_trans)
  qed (use k in simp)
qed

lemma invalidatePlacement_row:
  assumes "invalidatePlacementOnMaterialChange app e db = (app1, db1, ids)"
  obtains rg where "app1 = app\<lparr>app_placement_approval_ref := None, app_rollout_authorization_ref := None,
      app_preflight_fingerprint := None, app_rollout_generation_id := rg\<rparr>"
proof (cases "truthy_str (app_rollout_generation_id app)")
  case True
  with assms show thesis
    by (intro that [of None]) (auto simp: invalidatePlacementOnMaterialChange_def Let_def prod.case_eq_if)
next
  case False
  then have "app1 = app\<lparr>app_placement_approval_ref := None, app_rollout_authorization_ref := None,
      app_preflight_fingerprint := None\<rparr>"
    using assms by (simp add: invalidatePlacementOnMaterialChange_def)
  then show thesis by (intro that [of "app_rollout_generation_id app"]) simp
qed

lemma invalidatePlacement_db:
  assumes "db_ok db" and "invalidatePlacementOnMaterialChange app e db = (app1, db1, ids)"
  shows "keeps db db1"
  using assms keeps_superseded [OF assms(1)] keeps_refl [OF assms(1)]
  by (auto simp: invalidatePlacementOnMaterialChange_def Let_def prod.case_eq_if split: if_splits)

lemma invalidatePlacement_keeps:
  assumes "db_ok db" and "invalidatePlacementOnMaterialChange app e db = (app1, db1, ids)"
  shows "keeps db db1 \<and> same_pointers app app1 \<and> same_active app app1"
proof -
  obtain rg where "app1 = app\<lparr>app_placement_approval_ref := None, app_rollout_authorization_ref := None,
      app_preflight_fingerprint := None, app_rollout_generation_id := rg\<rparr>"
    using assms(2) by (rule invalidatePlacement_row)
  then show ?thesis using invalidatePlacement_db [OF assms] by (simp add: same_pointers_def same_active_def)
qed

lemma placementInvalidated_keeps:
  "placementInvalidated i e db = Inr (db', r) \<Longrightarrow> db_ok db \<Longrightarrow> keeps db db'"
  unfolding placementInvalidated_def
proof (erule mutateApp_keepsE, assumption, rule app_mutation_okI, goal_cases)
  case (1 app app1 db1 ids)
  then have "invalidatePlacementOnMaterialChange app e db = (app1, db1, ids)" by auto
  note k = invalidatePlacement_keeps [OF 1(1) this]
  then have "app_ok db app1" using 1(2) by (blast intro: app_ok_same)
  then show ?case using k by (intro mutation_step) (auto simp: same_pointers_def)
qed

end
