(* ===== verification/Acceptance_Invariants.thy ===== *)
theory Acceptance_Invariants
  imports Transition_Invariants
begin

text \<open>
  Acceptance, deploys, evidence and interruption keep the invariant of the previous theory.
\<close>

section \<open>Acceptance\<close>

lemma insertAcceptanceRecords_spec:
  assumes "insertAcceptanceRecords lc app args db = Inr db1"
  shows "db_le db db1" and "db_applications db1 = db_applications db" and "db_targets db1 = db_targets db"
    and "db_history db1 = db_history db" and "db_outbox db1 = db_outbox db"
    and "evidence_of db1 (aa_generationId args) (aa_artifactSetId args)"
    and "accepted_by db1 (app_id app) (aa_generationId args) (aa_sourceAcceptanceId args)"
proof -
  let ?p = "acceptance_approval app args"
  obtain ev d where ins: "insertArtifactSet lc (seed_artifact_set args ev) db = Inr d"
    and p: "insertApproval ?p d = Inr db1"
    using assms by (auto simp: insertAcceptanceRecords_def)
  note le1 = insertArtifactSet_le [OF ins] and le2 = insertApproval_le [OF p]
  show "db_le db db1" using le1 le2 by (rule db_le_trans)
  show "db_applications db1 = db_applications db" "db_targets db1 = db_targets db"
    "db_history db1 = db_history db" "db_outbox db1 = db_outbox db"
    using ins p by (auto simp: insertArtifactSet_def insertApproval_def)
  have "evidence_of d (aa_generationId args) (aa_artifactSetId args)"
    using insertArtifactSet_get [OF ins] by (simp add: evidence_of_def seed_artifact_set_def)
  then show "evidence_of db1 (aa_generationId args) (aa_artifactSetId args)"
    by (rule evidence_of_mono [OF le2])
  show "accepted_by db1 (app_id app) (aa_generationId args) (aa_sourceAcceptanceId args)"
    using insertApproval_get [OF p]
    by (auto simp: accepted_by_def acceptance_approval_def authority_of_def split: decided_authority.split)
qed

lemma requireAcceptable_spec:
  assumes "requireAcceptableCandidate db app args = Inr ()" and "app_ok db app"
  shows "app_candidate_generation_id app = Some (aa_generationId args)"
    and "validated db (app_id app) (aa_generationId args)"
  using assms by (auto simp: requireAcceptableCandidate_def app_ok_def)

lemma accept_row_ok:
  assumes "validated db (app_id app) (aa_generationId args)"
    and "evidence_of db (aa_generationId args) (aa_artifactSetId args)"
    and "accepted_by db (app_id app) (aa_generationId args) (aa_sourceAcceptanceId args)"
    and "app_ok db app"
  shows "app_ok db (accept_row args lim1 app)"
  using assms validated_owned by (simp add: accept_row_def app_ok_def clearActive_def)

lemma accept_row_id [simp]:
  "app_id (accept_row args lim1 app) = app_id app"
  "app_target_mode (accept_row args lim1 app) = app_target_mode app"
  "app_stack_name (accept_row args lim1 app) = app_stack_name app"
  "app_blueprint_id (accept_row args lim1 app) = app_blueprint_id app"
  "app_configured_repo_url (accept_row args lim1 app) = app_configured_repo_url app"
  "live_status (app_lifecycle_status (accept_row args lim1 app)) = live_status (app_lifecycle_status app)"
  by (simp_all add: accept_row_def clearActive_def)

text \<open>The mutation both acceptance entry points share.\<close>

lemma acceptance_keeps:
  assumes ok: "db_ok db" and app: "app_ok db app"
    and req: "requireAcceptableCandidate db app args = Inr ()"
    and inv: "invalidateAuthorizationOnSourceChange app e db = (app1, db1, ids)"
    and acc: "applySourceAcceptanceMutation lc app1 args db1 = Inr (app2, db2)"
  shows "keeps db db2 \<and> same_row app app2 \<and> app_ok db2 app2"
proof -
  have k1: "keeps db db1" by (rule invalidateAuthorization_keeps [OF ok inv])
  have same1: "same_pointers app app1 \<and> same_active app app1" using invalidateAuthorization_row [OF inv] by simp
  then have id1: "same_row app app1" by (simp add: same_pointers_def)
  have ok1: "app_ok db1 app1" using app same1 k1 by (blast intro: app_ok_same app_ok_keeps)
  obtain lim1 where ins: "insertAcceptanceRecords lc app1 args db1 = Inr db2" and app2: "app2 = accept_row args lim1 app1"
    using acc by (auto simp: applySourceAcceptanceMutation_def)
  note spec = insertAcceptanceRecords_spec [OF ins]
  have ok2: "db_ok db2" using db_ok_cong [OF _ spec(1,2,3,4,5)] k1 by (simp add: keeps_def)
  have "db_le db db2" using k1 spec(1) db_le_trans by (auto simp: keeps_def)
  then have "validated db2 (app_id app) (aa_generationId args)"
    using requireAcceptable_spec [OF req app] validated_mono by blast
  with spec id1 have "app_ok db2 app2"
    unfolding app2 by (intro accept_row_ok app_ok_mono [OF spec(1) ok1]) auto
  moreover have "bindings_kept db db2"
    using k1 spec(2) by (auto simp: keeps_def intro: bindings_kept_trans bindings_kept_tables)
  ultimately show ?thesis using ok2 \<open>db_le db db2\<close> id1 by (simp add: keeps_def app2)
qed

lemma rebind_keeps:
  assumes "db_ok db" and "rebindRolloutCandidateOnAcceptance app g db = Inr db1"
  shows "keeps db db1"
proof -
  have "db_generations db1 = db_generations db \<and> db_artifact_sets db1 = db_artifact_sets db
    \<and> db_approvals db1 = db_approvals db \<and> db_applications db1 = db_applications db
    \<and> db_targets db1 = db_targets db \<and> db_history db1 = db_history db \<and> db_outbox db1 = db_outbox db"
    using assms(2)
    by (auto simp: rebindRolloutCandidateOnAcceptance_def rebindRolloutCandidateSource_def
        split: if_splits option.splits)
  moreover then have "db_le db db1" by (intro db_le_tables) auto
  ultimately show ?thesis using db_ok_cong [OF assms(1)] by (simp add: keeps_def bindings_kept_tables)
qed

lemma sourceAccepted_keeps: "sourceAccepted lc args db = Inr (db', r) \<Longrightarrow> db_ok db \<Longrightarrow> keeps db db'"
  unfolding sourceAccepted_def
proof (erule mutateApp_keepsE, assumption, rule app_mutation_okI, goal_cases)
  case (1 app app2 db3 ids)
  obtain app1 db1 db2 where req: "requireAcceptableCandidate db app args = Inr ()"
    and inv: "invalidateAuthorizationOnSourceChange app (aa_envelope args) db = (app1, db1, ids)"
    and acc: "applySourceAcceptanceMutation lc app1 args db1 = Inr (app2, db2)"
    and reb: "rebindRolloutCandidateOnAcceptance app2 (aa_generationId args) db2 = Inr db3"
    using 1(3) by (auto simp: Let_def split: prod.splits option.splits)
  note a = acceptance_keeps [OF 1(1,2) req inv acc]
  have "keeps db2 db3" using a reb rebind_keeps by (auto simp: keeps_def)
  with a show ?case using keeps_trans app_ok_keeps by blast
qed

lemma applied_keeps: "applied lc args db = Inr (db', r) \<Longrightarrow> db_ok db \<Longrightarrow> keeps db db'"
  unfolding applied_def
proof (erule mutateApp_keepsE, assumption, rule app_mutation_okI, goal_cases)
  case (1 app app2 db4 ids)
  obtain app1 db1 db2 db3 where req: "requireAcceptableCandidate db app args = Inr ()"
    and inv: "invalidateAuthorizationOnSourceChange app (aa_envelope args) db = (app1, db1, ids)"
    and acc: "applySourceAcceptanceMutation lc app1 args db1 = Inr (app2, db2)"
    and reb: "rebindRolloutCandidateOnAcceptance app2 (aa_generationId args) db2 = Inr db3"
    and ups: "\<exists>ts. upsert_each ts db3 = Inr db4"
    using 1(3) by (auto simp: Let_def acceptanceTargets_def split: prod.splits)
  note a = acceptance_keeps [OF 1(1,2) req inv acc]
  have k3: "keeps db2 db3" using a reb rebind_keeps by (auto simp: keeps_def)
  then have "keeps db3 db4" using ups keeps_upsert_each by (auto simp: keeps_def)
  with a k3 show ?case using keeps_trans app_ok_keeps by blast
qed

section \<open>Targets\<close>

lemma keeps_withApplication:
  assumes "db_ok db" and "withApplication i e f db = Inr db1"
    and "\<And>a. same_pointers a (f a) \<and> same_active a (f a)"
  shows "keeps db db1"
proof -
  obtain app where app: "getApplication db i = Some app"
    and db1: "db1 = writeApplication ((f app)\<lparr>app_updated_at := ev_at e\<rparr>) db"
    using assms(2) by (auto simp: withApplication_def requireApp_def split: option.splits)
  have "app_ok db (f app)" using getApplication_ok [OF assms(1) app] assms(3) by (blast intro: app_ok_same)
  then have "app_ok db ((f app)\<lparr>app_updated_at := ev_at e\<rparr>)"
    by (rule app_ok_same) (simp_all add: same_pointers_def same_active_def)
  moreover have "same_row app ((f app)\<lparr>app_updated_at := ev_at e\<rparr>)"
    using assms(3) [of app] by (simp add: same_pointers_def)
  ultimately show ?thesis
    unfolding db1 by (intro keeps_write [OF assms(1) app _ keeps_refl [OF assms(1)]])
qed

lemma clear_recovery_app_row: "same_pointers a (clear_recovery_app a) \<and> same_active a (clear_recovery_app a)"
  by (simp add: clear_recovery_app_def same_pointers_def same_active_def)

lemma keeps_clearRecovery:
  "db_ok db \<Longrightarrow> clearApplicationRecoveryWhenNoTargetFails i n e db = Inr db1 \<Longrightarrow> keeps db db1"
  using keeps_withApplication [of db i e clear_recovery_app db1] clear_recovery_app_row
  by (auto simp: clearApplicationRecoveryWhenNoTargetFails_def keeps_refl split: if_splits)

lemma keeps_retireOnSuccess:
  "db_ok db \<Longrightarrow> retireRecoveryClaimOnSuccess i e t db = Inr (t1, db1) \<Longrightarrow> keeps db db1"
  using keeps_clearRecovery
  by (auto simp: retireRecoveryClaimOnSuccess_def clearRecoveryClaim_def keeps_refl split: if_splits)

lemma keeps_retireNonMoving:
  "db_ok db \<Longrightarrow> retireNonMovingRecoveryClaim i e t db = Inr (t1, db1) \<Longrightarrow> keeps db db1"
  using keeps_clearRecovery
  by (auto simp: retireNonMovingRecoveryClaim_def clearRecoveryClaim_def keeps_refl split: if_splits)

lemma mutateTarget_keepsE:
  "mutateTarget i n e s g m o1 x db = Inr (db', r) \<Longrightarrow> db_ok db
   \<Longrightarrow> (\<And>t app t1 db1 b a. m t app db = Inr (t1, db1, b, a) \<Longrightarrow> keeps db db1) \<Longrightarrow> keeps db db'"
  by (rule mutateTarget_keeps) (auto simp: target_mutation_ok_def)

lemma targetApplied_keeps: "targetApplied n args db = Inr (db', r) \<Longrightarrow> db_ok db \<Longrightarrow> keeps db db'"
  unfolding targetApplied_def
  by (clarsimp, erule mutateTarget_keepsE, assumption) (auto simp: keeps_refl)

lemma deployStarted_keeps: "deployStarted i n g e db = Inr (db', r) \<Longrightarrow> db_ok db \<Longrightarrow> keeps db db'"
  unfolding deployStarted_def by (erule mutateTarget_keepsE, assumption) (auto simp: keeps_refl)

lemma deployBound_keeps: "deployBound i n g e db = Inr (db', r) \<Longrightarrow> db_ok db \<Longrightarrow> keeps db db'"
  unfolding deployBound_def
  by (erule mutateTarget_keepsE, assumption) (auto simp: Let_def dest: keeps_retireOnSuccess)

lemma deployUnbound_keeps: "deployUnbound i n g e db = Inr (db', r) \<Longrightarrow> db_ok db \<Longrightarrow> keeps db db'"
  unfolding deployUnbound_def
  by (erule mutateTarget_keepsE, assumption) (auto simp: Let_def dest: keeps_retireNonMoving)

lemma deployFailed_keeps: "deployFailed i n c e db = Inr (db', r) \<Longrightarrow> db_ok db \<Longrightarrow> keeps db db'"
  unfolding deployFailed_def
  by (erule mutateTarget_keepsE, assumption) (auto simp: Let_def dest: keeps_retireNonMoving)

lemma targetTombstoned_keeps: "targetTombstoned i n e db = Inr (db', r) \<Longrightarrow> db_ok db \<Longrightarrow> keeps db db'"
  unfolding targetTombstoned_def
  by (erule mutateTarget_keepsE, assumption) (auto simp: Let_def dest: keeps_clearRecovery)

lemma recordObservedRuntimeArtifact_keeps:
  "recordObservedRuntimeArtifact lc i n ob e db = Inr (db', r) \<Longrightarrow> db_ok db \<Longrightarrow> keeps db db'"
  unfolding recordObservedRuntimeArtifact_def
  by (clarsimp, erule mutateTarget_keepsE, assumption) (auto simp: keeps_refl)

lemma recordObservedInvocation_keeps:
  "recordObservedInvocation i n ob e db = Inr (db', r) \<Longrightarrow> db_ok db \<Longrightarrow> keeps db db'"
  unfolding recordObservedInvocation_def
  by (clarsimp, erule mutateTarget_keepsE, assumption) (auto simp: keeps_refl)

lemma tombstone_each_keeps:
  "tombstone_each ts n e db = Inr (db', ids) \<Longrightarrow> db_ok db \<Longrightarrow> keeps db db'"
proof (induction ts arbitrary: db ids)
  case Nil
  then show ?case by (simp add: keeps_refl)
next
  case (Cons t ts)
  then obtain db1 r ids1 where "targetTombstoned (tgt_application_id t) n e db = Inr (db1, r)"
    and "tombstone_each ts n e db1 = Inr (db', ids1)" by auto
  with Cons targetTombstoned_keeps show ?case by (meson keeps_def keeps_trans)
qed

lemma tombstoneNodeTargets_keeps:
  "tombstoneNodeTargets n e db = Inr (db', r) \<Longrightarrow> db_ok db \<Longrightarrow> keeps db db'"
  by (auto simp: tombstoneNodeTargets_def intro: tombstone_each_keeps)

section \<open>Evidence\<close>

lemma app_ok_latest:
  "app_ok db a \<Longrightarrow> app_accepted_generation_id a = Some g \<Longrightarrow> evidence_of db g i
   \<Longrightarrow> app_ok db (a\<lparr>app_latest_artifact_set_id := Some i\<rparr>)"
  by (simp add: app_ok_def)

lemma app_ok_expect:
  "app_ok db a \<Longrightarrow> app_accepted_generation_id a = Some g \<Longrightarrow> evidence_of db g i
   \<Longrightarrow> app_ok db (a\<lparr>app_artifact_set_id := Some i\<rparr>)"
  by (simp add: app_ok_def)

lemma recordArtifactEvidence_keeps:
  "recordArtifactEvidence lc i row e db = Inr (db', r) \<Longrightarrow> db_ok db \<Longrightarrow> keeps db db'"
  unfolding recordArtifactEvidence_def
proof (erule mutateApp_keepsE, assumption, rule app_mutation_okI, goal_cases)
  case (1 app app1 db2 ids)
  let ?row = "row\<lparr>art_created_at := ev_at e\<rparr>"
  obtain db1 where ins: "insertArtifactSet lc ?row db = Inr db1"
    and ups: "\<exists>ts. upsert_each ts db1 = Inr db2"
    and app1: "app1 = (if app_accepted_generation_id app = Some (art_generation_id row)
        then app\<lparr>app_latest_artifact_set_id := Some (art_id row), app_artifact_set_id :=
               (if allowedExpectedAdvance db1 (app_artifact_set_id app) (art_qualification row)
                then Some (art_id row) else app_artifact_set_id app)\<rparr> else app)"
    using 1(3) by (auto simp: Let_def)
  have same: "db_applications db1 = db_applications db" "db_targets db1 = db_targets db"
    "db_history db1 = db_history db" "db_outbox db1 = db_outbox db"
    using ins by (auto simp: insertArtifactSet_def)
  have k1: "keeps db db1"
    using db_ok_cong [OF 1(1) insertArtifactSet_le [OF ins] same] insertArtifactSet_le [OF ins]
    by (simp add: keeps_def same bindings_kept_tables)
  then have k2: "keeps db1 db2" using ups keeps_upsert_each by (auto simp: keeps_def)
  have "evidence_of db1 (art_generation_id row) (art_id row)"
    using insertArtifactSet_get [OF ins] by (simp add: evidence_of_def)
  note adv = app_ok_keeps [OF 1(2) k1] app_ok_latest [OF app_ok_keeps [OF 1(2) k1] _ this]
    app_ok_expect [OF app_ok_latest [OF app_ok_keeps [OF 1(2) k1] _ this] _ this]
  have "app_ok db1 app1"
  proof (cases "app_accepted_generation_id app = Some (art_generation_id row)")
    case True
    show ?thesis
      using adv(2) [OF True] adv(3) [OF True] True unfolding app1 by simp
  next
    case False
    then show ?thesis using adv(1) unfolding app1 by simp
  qed
  then have "app_ok db2 app1" using k2 by (rule app_ok_keeps)
  moreover have "same_row app app1" using app1 by simp
  ultimately show ?case using keeps_trans [OF k1 k2] by blast
qed

lemma acceptArtifactExpectation_keeps:
  "acceptArtifactExpectation i g s e db = Inr (db', r) \<Longrightarrow> db_ok db \<Longrightarrow> keeps db db'"
  unfolding acceptArtifactExpectation_def
proof (erule mutateApp_keepsE, assumption, rule app_mutation_okI, goal_cases)
  case (1 app app2 db2 ids)
  obtain art app1 db1 where art: "getArtifactSet db s = Some art" "art_generation_id art = g"
    and acc: "app_accepted_generation_id app = Some g"
    and inv: "(if app_artifact_set_id app \<noteq> Some s then invalidateAuthorizationOnSourceChange app e db
               else (app, db, [])) = (app1, db1, ids)"
    and app2: "app2 = app1\<lparr>app_artifact_set_id := Some s\<rparr>"
    and tg: "\<exists>a f. forEachLiveDirectTarget a f db1 = Inr db2"
    using 1(3) by (auto simp: Let_def split: option.splits prod.splits)
  have k1: "keeps db db1"
    using inv invalidateAuthorization_keeps [OF 1(1)] keeps_refl [OF 1(1)] by (auto split: if_splits)
  have same: "same_pointers app app1 \<and> same_active app app1"
    using inv invalidateAuthorization_row [of app e db] by (auto simp: same_pointers_def same_active_def split: if_splits)
  have k2: "keeps db1 db2" using tg k1 keeps_direct_targets by (auto simp: keeps_def)
  have ok1: "app_ok db1 app1" using 1(2) same k1 by (blast intro: app_ok_same app_ok_keeps)
  have "evidence_of db1 g s" using art k1 by (auto simp: keeps_def db_le_def evidence_of_def)
  moreover have "app_accepted_generation_id app1 = Some g" using acc same by (simp add: same_pointers_def)
  ultimately have "app_ok db1 app2" unfolding app2 using ok1 by (intro app_ok_expect)
  then have "app_ok db2 app2" using k2 by (rule app_ok_keeps)
  moreover have "same_row app app2" using app2 same by (simp add: same_pointers_def)
  ultimately show ?case using keeps_trans [OF k1 k2] by blast
qed

section \<open>Interruption and suspension\<close>

lemma interrupt_app_row: "app_ok db a \<Longrightarrow> app_ok db (interrupt_app e a)"
  by (simp add: interrupt_app_def Let_def app_ok_def clearActive_def)

lemma interrupt_targets_keeps:
  "interrupt_targets app e ts db = Inr (db', ids) \<Longrightarrow> db_ok db \<Longrightarrow> keeps db db'"
proof (induction ts arbitrary: db ids)
  case Nil
  then show ?case by (simp add: keeps_refl)
next
  case (Cons t ts)
  show ?case
  proof (cases "interrupt_target e t")
    case None
    with Cons show ?thesis by auto
  next
    case (Some t1)
    with Cons.prems obtain db1 f ids1 where u: "upsertTarget t1 db = Inr db1"
      and rest: "interrupt_targets app e ts (snd (history app e f db1)) = Inr (db', ids1)"
      by (auto simp: Let_def prod.case_eq_if)
    have k1: "keeps db db1" by (rule keeps_upsert [OF Cons.prems(2) u])
    then have k2: "keeps db1 (snd (history app e f db1))" by (intro keeps_history) (simp add: keeps_def)
    then have "keeps (snd (history app e f db1)) db'" using Cons.IH [OF rest] by (simp add: keeps_def)
    with k1 k2 show ?thesis using keeps_trans by blast
  qed
qed

lemma interruptActiveOperations_keeps:
  assumes "interruptActiveOperations i e db = Inr (db', r)" and ok: "db_ok db"
  shows "keeps db db'"
proof -
  obtain app0 db1 ids where app0: "getApplication db i = Some app0"
    and db1: "db1 = db \<or> (\<exists>f. db1 = snd (history (interrupt_app e app0) e f (writeApplication (interrupt_app e app0) db)))"
    and rest: "interrupt_targets (interrupt_app e app0) e (listTargets db1 i) db1 = Inr (db', ids)"
    using assms(1)
    by (auto simp: interruptActiveOperations_def requireApp_def Let_def prod.case_eq_if split: option.splits if_splits)
  have "keeps db (writeApplication (interrupt_app e app0) db)"
    using keeps_write [OF ok app0 _ keeps_refl [OF ok] interrupt_app_row [OF getApplication_ok [OF ok app0]]]
    by (simp add: interrupt_app_def Let_def clearActive_def)
  then have "keeps db (snd (history a e f (writeApplication (interrupt_app e app0) db)))" for a f
    by (rule keeps_chain) (rule keeps_history)
  then have k1: "keeps db db1" using db1 keeps_refl [OF ok] by auto
  then show ?thesis by (rule keeps_chain) (rule interrupt_targets_keeps [OF rest])
qed

lemma sourceSuspended_keeps: "sourceSuspended i w e db = Inr (db', r) \<Longrightarrow> db_ok db \<Longrightarrow> keeps db db'"
  unfolding sourceSuspended_def
proof (erule mutateApp_keepsE, assumption, rule app_mutation_okI, goal_cases)
  case (1 app app1 db1 ids)
  have "keeps db db1"
    using 1(1,3) interruptActiveOperations_keeps keeps_refl by (auto split: if_splits)
  moreover have "app_ok db app1"
    using 1(2,3) by (auto simp: app_ok_def clearActive_def split: if_splits)
  moreover have "same_row app app1" using 1(3) by (auto simp: clearActive_def split: if_splits)
  ultimately show ?case by (intro mutation_step)
qed

section \<open>Activation\<close>

text \<open>An application comes into the model without pointers.\<close>

definition fresh_application :: "gitops_application_row \<Rightarrow> bool" where
  "fresh_application app \<longleftrightarrow>
     app_candidate_generation_id app = None \<and> app_accepted_generation_id app = None
     \<and> app_active_operation_stage app = None \<and> app_active_operation_id app = None
     \<and> app_placement_approval_ref app = None \<and> app_rollout_authorization_ref app = None"

text \<open>A new row is the one thing a step adds to the application table.\<close>

definition grows :: "gitops_db \<Rightarrow> gitops_db \<Rightarrow> bool" where
  "grows d e \<longleftrightarrow> db_ok e \<and> db_le d e"

lemma keeps_grows: "keeps d e \<Longrightarrow> grows d e"
  by (simp add: keeps_def grows_def)

lemma grows_chain: "grows a b \<Longrightarrow> (db_ok b \<Longrightarrow> keeps b c) \<Longrightarrow> grows a c"
  using db_le_trans by (auto simp: grows_def keeps_def)

lemma insertApplication_grows:
  assumes "db_ok db" and "insertApplication app db = Inr db1" and "fresh_application app"
  shows "grows db db1"
proof -
  have db1: "db1 = db\<lparr>db_applications := db_applications db @ [app]\<rparr>" and new: "getApplication db (app_id app) = None"
    using assms(2) by (auto simp: insertApplication_def)
  have le: "db_le db db1" unfolding db1 by (rule db_le_tables) simp_all
  have "app_ok db1 app" using assms(3) by (simp add: fresh_application_def app_ok_def)
  moreover have "app_id app \<notin> app_id ` set (db_applications db)"
    using new by (auto simp: getApplication_def find_None_all)
  ultimately have "db_ok db1"
    using assms(1) app_ok_mono [OF le] target_ok_mono [OF le] audit_ok_cong [of db db1]
    by (auto simp: db_ok_def db1)
  then show ?thesis using le by (simp add: grows_def)
qed

lemma keeps_adopt: "db_ok d \<Longrightarrow> keeps d (adoptStackScopedIdentities i s d)"
proof -
  assume ok: "db_ok d"
  have le: "db_le d (adoptStackScopedIdentities i s d)"
    by (rule db_le_tables) (simp_all add: adoptStackScopedIdentities_def)
  then show ?thesis
    using db_ok_cong [OF ok le] by (simp add: keeps_def bindings_kept_tables adoptStackScopedIdentities_def)
qed

lemma insertGeneration_keeps:
  assumes "insertGeneration row db = Inr db'" and "db_ok db"
  shows "keeps db db'"
proof -
  have "db_applications db' = db_applications db" "db_targets db' = db_targets db"
    "db_history db' = db_history db" "db_outbox db' = db_outbox db"
    using assms(1) by (auto simp: insertGeneration_def)
  then show ?thesis
    using db_ok_cong [OF assms(2) insertGeneration_le [OF assms(1)]] insertGeneration_le [OF assms(1)]
    by (simp add: keeps_def bindings_kept_tables)
qed

end
