(* ===== verification/Outcomes.thy ===== *)
theory Outcomes
  imports Notifications
begin

text \<open>
  The normalized result of a reconcile attempt and the validation of a stored one (\<^verbatim>\<open>gitops/outcomes.ts\<close>).
\<close>

datatype reconcile_outcome =
    Ro_converged | Ro_no_source_change | Ro_candidate_already_fetched | Ro_pending_review | Ro_suspended
  | Ro_retry_scheduled | Ro_blocked | Ro_superseded | Ro_failed_previous_intact | Ro_recovery_required
  | Ro_unknown

datatype next_action =
    Na_none | Na_review | Na_resume | Na_retry | Na_resolve_conflict | Na_configure_credentials
  | Na_view_target_results

record reconcile_result =
  rr_outcome :: reconcile_outcome
  rr_reason :: string
  rr_nextAction :: next_action
  rr_retryAt :: "js_number option"
  rr_nextPollAt :: "js_number option"
  rr_commitSha :: "string option"
  rr_deployGitopsOperationId :: "string option"

definition RECONCILE_OUTCOMES :: "(string \<times> reconcile_outcome) list" where
  "RECONCILE_OUTCOMES =
     [(''converged'', Ro_converged), (''no_source_change'', Ro_no_source_change),
      (''candidate_already_fetched'', Ro_candidate_already_fetched),
      (''pending_review'', Ro_pending_review), (''suspended'', Ro_suspended),
      (''retry_scheduled'', Ro_retry_scheduled), (''blocked'', Ro_blocked),
      (''superseded'', Ro_superseded), (''failed_previous_intact'', Ro_failed_previous_intact),
      (''recovery_required'', Ro_recovery_required), (''unknown'', Ro_unknown)]"

definition NEXT_ACTIONS :: "(string \<times> next_action) list" where
  "NEXT_ACTIONS =
     [(''none'', Na_none), (''review'', Na_review), (''resume'', Na_resume), (''retry'', Na_retry),
      (''resolve_conflict'', Na_resolve_conflict), (''configure_credentials'', Na_configure_credentials),
      (''view_target_results'', Na_view_target_results)]"

fun reconcile_outcome_text :: "reconcile_outcome \<Rightarrow> string" where
  "reconcile_outcome_text Ro_converged = ''converged''"
| "reconcile_outcome_text Ro_no_source_change = ''no_source_change''"
| "reconcile_outcome_text Ro_candidate_already_fetched = ''candidate_already_fetched''"
| "reconcile_outcome_text Ro_pending_review = ''pending_review''"
| "reconcile_outcome_text Ro_suspended = ''suspended''"
| "reconcile_outcome_text Ro_retry_scheduled = ''retry_scheduled''"
| "reconcile_outcome_text Ro_blocked = ''blocked''"
| "reconcile_outcome_text Ro_superseded = ''superseded''"
| "reconcile_outcome_text Ro_failed_previous_intact = ''failed_previous_intact''"
| "reconcile_outcome_text Ro_recovery_required = ''recovery_required''"
| "reconcile_outcome_text Ro_unknown = ''unknown''"

fun next_action_text :: "next_action \<Rightarrow> string" where
  "next_action_text Na_none = ''none''"
| "next_action_text Na_review = ''review''"
| "next_action_text Na_resume = ''resume''"
| "next_action_text Na_retry = ''retry''"
| "next_action_text Na_resolve_conflict = ''resolve_conflict''"
| "next_action_text Na_configure_credentials = ''configure_credentials''"
| "next_action_text Na_view_target_results = ''view_target_results''"

definition isReconcileOutcome :: "json option \<Rightarrow> reconcile_outcome option" where
  "isReconcileOutcome v = Option.bind (Option.bind v as_string) (map_of RECONCILE_OUTCOMES)"

definition isNextAction :: "json option \<Rightarrow> next_action option" where
  "isNextAction v = Option.bind (Option.bind v as_string) (map_of NEXT_ACTIONS)"

text \<open>The own properties of a result object: an absent field is no property.\<close>

definition opt_prop :: "string \<Rightarrow> ('a \<Rightarrow> json) \<Rightarrow> 'a option \<Rightarrow> (string \<times> json) list" where
  "opt_prop k f x = (case x of None \<Rightarrow> [] | Some v \<Rightarrow> [(k, f v)])"

definition result_fields :: "reconcile_result \<Rightarrow> (string \<times> json) list" where
  "result_fields r =
     [(''outcome'', JStr (reconcile_outcome_text (rr_outcome r))), (''reason'', JStr (rr_reason r)),
      (''nextAction'', JStr (next_action_text (rr_nextAction r)))]
     @ opt_prop ''retryAt'' JNum (rr_retryAt r) @ opt_prop ''nextPollAt'' JNum (rr_nextPollAt r)
     @ opt_prop ''commitSha'' JStr (rr_commitSha r)
     @ opt_prop ''deployGitopsOperationId'' JStr (rr_deployGitopsOperationId r)"

definition parseReconcileResultPayload :: "json \<Rightarrow> reconcile_result option" where
  "parseReconcileResultPayload v =
     (case as_record v of
        None \<Rightarrow> None
      | Some obj \<Rightarrow>
          (case (isReconcileOutcome (prop_of obj ''outcome''), Option.bind (prop_of obj ''reason'') as_string,
                 isNextAction (prop_of obj ''nextAction'')) of
             (Some outcome, Some reason, Some nextAction) \<Rightarrow>
               Some \<lparr>rr_outcome = outcome, rr_reason = reason, rr_nextAction = nextAction,
                     rr_retryAt = Option.bind (prop_of obj ''retryAt'') as_number,
                     rr_nextPollAt = Option.bind (prop_of obj ''nextPollAt'') as_number,
                     rr_commitSha = Option.bind (prop_of obj ''commitSha'') as_string,
                     rr_deployGitopsOperationId =
                       Option.bind (prop_of obj ''deployGitopsOperationId'') as_string\<rparr>
           | _ \<Rightarrow> None))"

lemma outcome_text_roundtrip [simp]:
  "isReconcileOutcome (Some (JStr (reconcile_outcome_text o1))) = Some o1"
  "isNextAction (Some (JStr (next_action_text n))) = Some n"
  subgoal by (cases o1) (simp_all add: isReconcileOutcome_def RECONCILE_OUTCOMES_def)
  subgoal by (cases n) (simp_all add: isNextAction_def NEXT_ACTIONS_def)
  done

lemma opt_prop_nil [simp]: "opt_prop k f None = []" "opt_prop k f (Some v) = [(k, f v)]"
  by (simp_all add: opt_prop_def)

text \<open>A recorded result is read back as recorded, when its times are finite.\<close>

lemma parse_printed_result:
  assumes "rr_retryAt r \<noteq> Some NInf" and "rr_nextPollAt r \<noteq> Some NInf"
  shows "parseReconcileResultPayload (printed (JObj (result_fields r))) = Some r"
  using assms
  by (cases r; cases "rr_retryAt r"; cases "rr_nextPollAt r"; cases "rr_commitSha r";
      cases "rr_deployGitopsOperationId r")
    (simp_all add: parseReconcileResultPayload_def result_fields_def prop_of_def as_number_def)

end
