(* ===== verification/Health_Policy.thy ===== *)
theory Health_Policy
  imports Rows Json_Codec
begin

text \<open>
  How a rollout reacts to a health verdict (\<^verbatim>\<open>gitops/healthPolicy.ts\<close>): the five policies, the two
  envelopes a policy is stored in, and the decision. An error message that quotes the offending
  value is kept without the quotation.
\<close>

section \<open>Policies\<close>

datatype health_rollout_policy = Hp_observe | Hp_pause | Hp_retry_once | Hp_stop | Hp_rollback

definition HEALTH_ROLLOUT_POLICIES :: "(string \<times> health_rollout_policy) list" where
  "HEALTH_ROLLOUT_POLICIES =
     [(''observe'', Hp_observe), (''pause'', Hp_pause), (''retry_once'', Hp_retry_once),
      (''stop'', Hp_stop), (''rollback'', Hp_rollback)]"

definition DEFAULT_HEALTH_ROLLOUT_POLICY :: health_rollout_policy where
  "DEFAULT_HEALTH_ROLLOUT_POLICY = Hp_observe"

definition health_policy_text :: "health_rollout_policy \<Rightarrow> string" where
  "health_policy_text p =
     (case p of Hp_observe \<Rightarrow> ''observe'' | Hp_pause \<Rightarrow> ''pause'' | Hp_retry_once \<Rightarrow> ''retry_once''
      | Hp_stop \<Rightarrow> ''stop'' | Hp_rollback \<Rightarrow> ''rollback'')"

definition gatesAdvancement :: "health_rollout_policy \<Rightarrow> bool" where
  "gatesAdvancement policy = (policy \<noteq> Hp_observe)"

definition isHealthRolloutPolicy :: "json \<Rightarrow> health_rollout_policy option" where
  "isHealthRolloutPolicy v =
     (case as_string v of None \<Rightarrow> None | Some s \<Rightarrow> map_of HEALTH_ROLLOUT_POLICIES s)"

lemma isHealthRolloutPolicy_text [simp]: "isHealthRolloutPolicy (JStr (health_policy_text p)) = Some p"
  by (cases p) (simp_all add: isHealthRolloutPolicy_def HEALTH_ROLLOUT_POLICIES_def health_policy_text_def)

section \<open>Stored envelopes\<close>

record frozen_rollout_strategy =
  frs_healthPolicy :: health_rollout_policy
  frs_driftMode :: "string option"
  frs_enabled :: "bool option"

definition decodeFrozenRolloutStrategy :: "raw_json option \<Rightarrow> frozen_rollout_strategy res" where
  "decodeFrozenRolloutStrategy raw =
     (case raw of
        None \<Rightarrow> Inr \<lparr>frs_healthPolicy = DEFAULT_HEALTH_ROLLOUT_POLICY, frs_driftMode = None,
                      frs_enabled = None\<rparr>
      | Some r \<Rightarrow>
          if raw_is_blank r then
            Inr \<lparr>frs_healthPolicy = DEFAULT_HEALTH_ROLLOUT_POLICY, frs_driftMode = None,
                  frs_enabled = None\<rparr>
          else bind_res (decodeGitOpsJson r) (\<lambda>decoded.
            case as_record decoded of
              None \<Rightarrow> Inl (PlainError ''The rollout strategy is not a JSON object.'')
            | Some obj \<Rightarrow>
                (let driftMode = Option.bind (prop_of obj ''driftMode'') as_string;
                     enabled = Option.bind (prop_of obj ''enabled'') as_bool
                 in case prop_of obj ''healthPolicy'' of
                      None \<Rightarrow> Inr \<lparr>frs_healthPolicy = DEFAULT_HEALTH_ROLLOUT_POLICY,
                                    frs_driftMode = driftMode, frs_enabled = enabled\<rparr>
                    | Some JNull \<Rightarrow> Inl (PlainError
                        ''The rollout strategy names a health policy that is null.'')
                    | Some policy \<Rightarrow>
                        (case isHealthRolloutPolicy policy of
                           None \<Rightarrow> Inl (PlainError
                             ''The rollout strategy names an unknown health policy'')
                         | Some p \<Rightarrow> Inr \<lparr>frs_healthPolicy = p, frs_driftMode = driftMode,
                                           frs_enabled = enabled\<rparr>))))"

definition encodeFrozenRolloutStrategy :: "frozen_rollout_strategy \<Rightarrow> raw_json" where
  "encodeFrozenRolloutStrategy input =
     encodeGitOpsJson (JObj
       [(''healthPolicy'', JStr (health_policy_text (frs_healthPolicy input))),
        (''driftMode'', nullable_json JStr (frs_driftMode input)),
        (''enabled'', nullable_json JBool (frs_enabled input))])"

definition decodeIntentHealthPolicy :: "raw_json option \<Rightarrow> health_rollout_policy res" where
  "decodeIntentHealthPolicy raw =
     (case raw of
        None \<Rightarrow> Inr DEFAULT_HEALTH_ROLLOUT_POLICY
      | Some r \<Rightarrow>
          if raw_is_blank r then Inr DEFAULT_HEALTH_ROLLOUT_POLICY
          else bind_res (decodeGitOpsJson r) (\<lambda>decoded.
            case as_record decoded of
              None \<Rightarrow> Inl (PlainError ''The health policy is not a JSON object.'')
            | Some obj \<Rightarrow>
                (case prop_of obj ''policy'' of
                   None \<Rightarrow> Inr DEFAULT_HEALTH_ROLLOUT_POLICY
                 | Some JNull \<Rightarrow> Inr DEFAULT_HEALTH_ROLLOUT_POLICY
                 | Some policy \<Rightarrow>
                     (case isHealthRolloutPolicy policy of
                        None \<Rightarrow> Inl (PlainError ''The health policy names an unknown mode'')
                      | Some p \<Rightarrow> Inr p))))"

definition encodeIntentHealthPolicy :: "health_rollout_policy \<Rightarrow> raw_json" where
  "encodeIntentHealthPolicy policy = encodeGitOpsJson (JObj [(''policy'', JStr (health_policy_text policy))])"

definition carriedHealthPolicyJson :: "gitops_intent_revision_row option \<Rightarrow> raw_json option" where
  "carriedHealthPolicyJson previous = Option.bind previous intent_health_failure_rollback_policy_json"

lemma strategy_roundtrip:
  "decodeFrozenRolloutStrategy (Some (encodeFrozenRolloutStrategy s)) = Inr s"
  by (cases "frs_driftMode s"; cases "frs_enabled s")
    (simp_all add: decodeFrozenRolloutStrategy_def encodeFrozenRolloutStrategy_def encodeGitOpsJson_def
      raw_is_blank_def prop_of_def nullable_json_def)

lemma intent_policy_roundtrip:
  "decodeIntentHealthPolicy (Some (encodeIntentHealthPolicy p)) = Inr p"
  by (simp add: decodeIntentHealthPolicy_def encodeIntentHealthPolicy_def encodeGitOpsJson_def
      raw_is_blank_def prop_of_def)

interpretation frozen_strategy:
  column_codec "\<lambda>s. Inr (encodeFrozenRolloutStrategy s)" "\<lambda>r. decodeFrozenRolloutStrategy (Some r)"
  by unfold_locales (auto simp: strategy_roundtrip)

interpretation intent_policy:
  column_codec "\<lambda>p. Inr (encodeIntentHealthPolicy p)" "\<lambda>r. decodeIntentHealthPolicy (Some r)"
  by unfold_locales (auto simp: intent_policy_roundtrip)

section \<open>The decision\<close>

datatype health_rollout_action = Ha_none | Ha_advance | Ha_retry | Ha_pause | Ha_stop | Ha_rollback

datatype health_decision_reason =
    Hd_fence health_stop_reason
  | Hd_policy_observe

type_synonym health_policy_decision = "health_rollout_action \<times> health_decision_reason"

definition healthHoldReason :: "string \<Rightarrow> string" where
  "healthHoldReason reason =
     ''Held by the health rollout policy ('' @ map (\<lambda>c. if c = CHR ''_'' then CHR '' '' else c) reason @ '').''"

definition decideHealthRolloutAction ::
    "health_rollout_policy \<Rightarrow> health_verdict \<Rightarrow> int \<Rightarrow> bool \<Rightarrow> health_policy_decision" where
  "decideHealthRolloutAction policy verdict attemptsUsed recoveryAvailable =
     (if \<not> gatesAdvancement policy then (Ha_none, Hd_policy_observe)
      else if verdict = Hv_passed then (Ha_advance, Hd_fence Hs_health_passed)
      else if verdict = Hv_unknown then (Ha_pause, Hd_fence Hs_health_unknown)
      else
        (case policy of
           Hp_pause \<Rightarrow> (Ha_pause, Hd_fence Hs_health_failed)
         | Hp_retry_once \<Rightarrow>
             (if attemptsUsed < 1 then (Ha_retry, Hd_fence Hs_health_retried)
              else (Ha_pause, Hd_fence Hs_health_retry_exhausted))
         | Hp_stop \<Rightarrow> (Ha_stop, Hd_fence Hs_rollout_stopped)
         | Hp_rollback \<Rightarrow>
             (if \<not> recoveryAvailable then (Ha_pause, Hd_fence Hs_rollback_unavailable)
              else (Ha_rollback, Hd_fence Hs_health_failed))
         | Hp_observe \<Rightarrow> (Ha_none, Hd_policy_observe)))"

lemma decision_action:
  "fst (decideHealthRolloutAction p v n r) = Ha_retry \<longleftrightarrow> p = Hp_retry_once \<and> v = Hv_failed \<and> n < 1"
  "fst (decideHealthRolloutAction p v n r) = Ha_stop \<longleftrightarrow> p = Hp_stop \<and> v = Hv_failed"
  "fst (decideHealthRolloutAction p v n r) = Ha_rollback \<longleftrightarrow> p = Hp_rollback \<and> v = Hv_failed \<and> r"
  "fst (decideHealthRolloutAction p v n r) = Ha_advance \<longleftrightarrow> p \<noteq> Hp_observe \<and> v = Hv_passed"
  "fst (decideHealthRolloutAction p v n r) = Ha_none \<longleftrightarrow> p = Hp_observe"
  by (cases p; cases v; simp add: decideHealthRolloutAction_def gatesAdvancement_def)+

text \<open>A target's life under one frozen policy: each verdict is decided with the attempts used so far,
  and a retry uses one. \<open>Ha_pause\<close>, \<open>Ha_stop\<close> and \<open>Ha_rollback\<close> end the attempt.\<close>

fun health_run ::
    "health_rollout_policy \<Rightarrow> int \<Rightarrow> (health_verdict \<times> bool) list \<Rightarrow> health_rollout_action list" where
  "health_run policy attempts [] = []"
| "health_run policy attempts ((v, recovery) # rest) =
     (let a = fst (decideHealthRolloutAction policy v attempts recovery)
      in a # health_run policy (if a = Ha_retry then attempts + 1 else attempts) rest)"

lemma no_retry_after_attempt:
  "1 \<le> attempts \<Longrightarrow> Ha_retry \<notin> set (health_run policy attempts vs)"
proof (induction policy attempts vs rule: health_run.induct)
  case (2 policy attempts v recovery rest)
  have "fst (decideHealthRolloutAction policy v attempts recovery) \<noteq> Ha_retry"
    using 2(2) by (simp add: decision_action)
  with 2 show ?case by (auto simp: Let_def)
qed simp

lemma retry_count:
  "count_list (health_run policy attempts vs) Ha_retry \<le> 1" if "0 \<le> attempts"
  using that
proof (induction policy attempts vs rule: health_run.induct)
  case (1 policy attempts)
  then show ?case by simp
next
  case (2 policy attempts v recovery rest)
  let ?a = "fst (decideHealthRolloutAction policy v attempts recovery)"
  show ?case
  proof (cases "?a = Ha_retry")
    case True
    with 2 no_retry_after_attempt [of "attempts + 1" policy rest] show ?thesis
      by (simp add: Let_def count_list_0_iff)
  next
    case False
    with 2 show ?thesis by (simp add: Let_def)
  qed
qed

end
