(* ===== verification/Rollout_Transitions.thy ===== *)
theory Rollout_Transitions
  imports Deploy_Transitions Outcomes Policy_Composition Health_Policy
begin

text \<open>
  The transitions between an accepted source and a rollout (\<^verbatim>\<open>gitops/transitions.ts\<close>): reconcile attempts,
  the policy edits, pausing, intents, candidates, placement approval and rollout authorization.
\<close>

section \<open>Reconcile attempts\<close>

text \<open>A bare audit row in its own transaction; the boolean says whether it was appended.\<close>

definition append_only ::
    "string \<Rightarrow> event_envelope \<Rightarrow> history_fields \<Rightarrow> gitops_db \<Rightarrow> (gitops_db \<times> bool) res" where
  "append_only applicationId envelope fs db =
     bind_res (requireApp db applicationId) (\<lambda>app.
       let (h, db1) = history app envelope fs db in Inr (db1, h \<noteq> None))"

text \<open>A delivery that does not apply does not deploy either.\<close>

datatype reconcile_delivery_intent = Di_fetch_only | Di_auto_apply bool

definition delivery_intent_json :: "reconcile_delivery_intent \<Rightarrow> json" where
  "delivery_intent_json d =
     (case d of
        Di_fetch_only \<Rightarrow> JObj [(''autoApply'', JBool False), (''deploy'', JBool False)]
      | Di_auto_apply deploy \<Rightarrow> JObj [(''autoApply'', JBool True), (''deploy'', JBool deploy)])"

definition reservation_fields ::
    "string option \<Rightarrow> reconcile_delivery_intent option \<Rightarrow> string option \<Rightarrow> bool \<Rightarrow> history_fields" where
  "reservation_fields followerOf deliveryIntent dispatchGenerationId dispatchDeployRequested =
     history_fields0 ''source_reconcile_started'' Ho_committed []
       ((if truthy_str followerOf then [(''followerOf'', JStr (the followerOf))] else [])
        @ opt_prop ''deliveryIntent'' delivery_intent_json deliveryIntent
        @ (if truthy_str dispatchGenerationId
           then [(''dispatchGenerationId'', JStr (the dispatchGenerationId))] else [])
        @ (if dispatchDeployRequested then [(''dispatchDeployRequested'', JBool True)] else []))"

definition insertReconcileReservation ::
    "gitops_application_row \<Rightarrow> event_envelope \<Rightarrow> string option \<Rightarrow> reconcile_delivery_intent option
      \<Rightarrow> string option \<Rightarrow> bool \<Rightarrow> gitops_db \<Rightarrow> gitops_db \<times> bool" where
  "insertReconcileReservation app envelope followerOf deliveryIntent dispatchGenerationId
      dispatchDeployRequested db =
     (let (h, db1) = history app envelope
            (reservation_fields followerOf deliveryIntent dispatchGenerationId dispatchDeployRequested) db
      in (db1, h \<noteq> None))"

definition reserveReconcileAttempt ::
    "string \<Rightarrow> event_envelope \<Rightarrow> string option \<Rightarrow> reconcile_delivery_intent option \<Rightarrow> gitops_db
      \<Rightarrow> (gitops_db \<times> bool) res" where
  "reserveReconcileAttempt applicationId envelope followerOf deliveryIntent db =
     bind_res (requireApp db applicationId) (\<lambda>app.
       Inr (insertReconcileReservation app envelope followerOf deliveryIntent None False db))"

definition set_attempt_seq :: "string \<Rightarrow> int \<Rightarrow> gitops_db \<Rightarrow> gitops_db" where
  "set_attempt_seq applicationId seq db =
     db\<lparr>db_applications := map (\<lambda>r. if app_id r = applicationId then r\<lparr>app_attempt_seq := seq\<rparr> else r)
        (db_applications db)\<rparr>"

definition allocateReconcileAttempt ::
    "string \<Rightarrow> string option \<Rightarrow> string \<Rightarrow> int \<Rightarrow> string option \<Rightarrow> string option \<Rightarrow> bool \<Rightarrow> gitops_db
      \<Rightarrow> (gitops_db \<times> string \<times> bool) res" where
  "allocateReconcileAttempt applicationId actor trigger time followerOf dispatchGenerationId
      dispatchDeployRequested db =
     bind_res (requireApp db applicationId) (\<lambda>app.
       let seq = app_attempt_seq app + 1;
           operationId = applicationId @ '':attempt:'' @ show_int seq;
           envelope = \<lparr>ev_operationId = operationId, ev_actor = actor, ev_trigger = trigger, ev_at = time\<rparr>;
           (db1, reserved) = insertReconcileReservation app envelope followerOf None dispatchGenerationId
             dispatchDeployRequested (set_attempt_seq applicationId seq db)
       in Inr (db1, operationId, reserved))"

definition settleReconcileAttempt ::
    "string \<Rightarrow> event_envelope \<Rightarrow> reconcile_result \<Rightarrow> gitops_db \<Rightarrow> (gitops_db \<times> bool) res" where
  "settleReconcileAttempt applicationId envelope result =
     append_only applicationId envelope
       (history_fields0 ''source_reconcile_settled'' Ho_committed [] (result_fields result))"

definition promotionCommitted ::
    "string \<Rightarrow> event_envelope \<Rightarrow> string \<Rightarrow> string \<Rightarrow> string \<Rightarrow> gitops_db \<Rightarrow> (gitops_db \<times> bool) res" where
  "promotionCommitted applicationId envelope generationId commitSha planFingerprint =
     append_only applicationId envelope
       ((history_fields0 ''promotion_committed'' Ho_committed []
          [(''generationId'', JStr generationId), (''commitSha'', JStr commitSha),
           (''planFingerprint'', JStr planFingerprint)])
        \<lparr>hf_generationId := Some generationId, hf_commitSha := Some commitSha\<rparr>)"

definition deployDispatched ::
    "string \<Rightarrow> event_envelope \<Rightarrow> string \<Rightarrow> string \<Rightarrow> string \<Rightarrow> gitops_db \<Rightarrow> (gitops_db \<times> bool) res" where
  "deployDispatched applicationId envelope generationId commitSha deployOperationId =
     append_only applicationId envelope
       ((history_fields0 ''deploy_dispatched'' Ho_committed []
          [(''generationId'', JStr generationId), (''commitSha'', JStr commitSha),
           (''deployOperationId'', JStr deployOperationId)])
        \<lparr>hf_generationId := Some generationId, hf_commitSha := Some commitSha\<rparr>)"

definition deployIntentRefused ::
    "string \<Rightarrow> event_envelope \<Rightarrow> string \<Rightarrow> string \<Rightarrow> gitops_db \<Rightarrow> (gitops_db \<times> bool) res" where
  "deployIntentRefused applicationId envelope generationId commitSha =
     append_only applicationId envelope
       ((history_fields0 ''deploy_intent_refused'' Ho_committed []
          [(''generationId'', JStr generationId), (''commitSha'', JStr commitSha)])
        \<lparr>hf_generationId := Some generationId, hf_commitSha := Some commitSha\<rparr>)"

section \<open>Policies\<close>

definition withdrawPolicyAuthority :: "gitops_db \<Rightarrow> gitops_application_row \<Rightarrow> gitops_application_row" where
  "withdrawPolicyAuthority db app =
     (case app_placement_approval_ref app of
        None \<Rightarrow> app
      | Some ref \<Rightarrow>
          (if map_option apv_authority (getApproval db ref) \<noteq> Some Au_configured_policy then app
           else app\<lparr>app_placement_approval_ref := None, app_rollout_authorization_ref := None\<rparr>))"

definition placementPolicyChanged ::
    "string \<Rightarrow> placement_policy \<Rightarrow> event_envelope \<Rightarrow> gitops_db \<Rightarrow> (gitops_db \<times> transition_result) res" where
  "placementPolicyChanged applicationId placementPolicy envelope =
     mutateApp applicationId envelope ''placement_policy_changed'' Ho_committed (\<lambda>app db.
       require_res (app_lifecycle_status app = Lc_active) (terr ''application is not live'')
        (require_res (app_active_operation_stage app = None)
          (terr ''cannot change the placement policy while an operation is in flight'')
         (require_res (app_placement_policy app \<noteq> placementPolicy)
           (terr ''the placement policy is already set to that value'')
           (let app1 = app\<lparr>app_placement_policy := placementPolicy,
                  app_placement_policy_refusal_reason := None, app_placement_policy_refused_at := None\<rparr>
            in Inr (if placementPolicy = Pp_bounded_auto then withdrawPolicyAuthority db app1 else app1,
                    db, []))))) no_extra"

definition rolloutAuthorizationPolicyChanged ::
    "string \<Rightarrow> rollout_authorization_policy \<Rightarrow> event_envelope \<Rightarrow> gitops_db
      \<Rightarrow> (gitops_db \<times> transition_result) res" where
  "rolloutAuthorizationPolicyChanged applicationId policy envelope =
     mutateApp applicationId envelope ''rollout_authorization_policy_changed'' Ho_committed (\<lambda>app db.
       require_res (app_lifecycle_status app = Lc_active) (terr ''application is not live'')
        (require_res (app_active_operation_stage app = None)
          (terr ''cannot change the rollout authorization policy while an operation is in flight'')
         (require_res (app_rollout_authorization_policy app \<noteq> policy)
           (terr ''the rollout authorization policy is already set to that value'')
           (let app1 = app\<lparr>app_rollout_authorization_policy := policy\<rparr>
            in Inr (if policy = Ra_automatic then withdrawPolicyAuthority db app1 else app1, db, []))))) no_extra"

text \<open>The mutation returns the policies before and after, which \<^verbatim>\<open>mutateApp\<close> does not read; the stored
  policy still has to decode.\<close>

definition healthRolloutPolicySet ::
    "string \<Rightarrow> health_rollout_policy \<Rightarrow> event_envelope \<Rightarrow> gitops_db \<Rightarrow> (gitops_db \<times> transition_result) res" where
  "healthRolloutPolicySet applicationId policy envelope =
     mutateApp applicationId envelope ''health_rollout_policy_set'' Ho_committed (\<lambda>app db.
       require_res (app_lifecycle_status app = Lc_active) (terr ''application is not live'')
        (require_res (truthy_str (app_intent_revision_id app))
          (terr ''the application has no intent revision to carry the policy'')
          (case getIntentRevision db (the (app_intent_revision_id app)) of
             None \<Rightarrow> Inl (terr ''the current intent revision could not be read'')
           | Some intent \<Rightarrow>
               bind_res (decodeIntentHealthPolicy (intent_health_failure_rollback_policy_json intent)) (\<lambda>_.
               bind_res (updateIntentHealthPolicy (intent_id intent) (encodeIntentHealthPolicy policy) db)
                 (\<lambda>db1. Inr (app, db1, [])))))) no_extra"

definition placementPolicyRefused ::
    "string \<Rightarrow> placement_policy_reason \<Rightarrow> int \<Rightarrow> gitops_db \<Rightarrow> gitops_db res" where
  "placementPolicyRefused applicationId reason time db =
     (case getApplication db applicationId of
        None \<Rightarrow> Inl (terr ''application not found'')
      | Some app \<Rightarrow> Inr (writeApplication
          (app\<lparr>app_placement_policy_refusal_reason := Some reason,
               app_placement_policy_refused_at := Some time\<rparr>) db))"

section \<open>Pausing\<close>

definition rolloutPaused ::
    "string \<Rightarrow> int option \<Rightarrow> string \<Rightarrow> event_envelope \<Rightarrow> pause_origin \<Rightarrow> gitops_db
      \<Rightarrow> (gitops_db \<times> transition_result) res" where
  "rolloutPaused applicationId nodeId reason envelope origin =
     (case nodeId of
        None \<Rightarrow>
          mutateApp applicationId envelope ''rollout_paused'' Ho_committed (\<lambda>app db.
            require_res (app_lifecycle_status app = Lc_active) (terr ''application is not live'')
              (Inr (app\<lparr>app_pause_at := Some (ev_at envelope), app_pause_reason := Some reason,
                       app_pause_origin := origin\<rparr>, db, [])))
            (no_extra\<lparr>xh_historyAfter := [(''pauseReason'', JStr reason),
               (''pauseOrigin'', JStr (pause_origin_text origin))]\<rparr>)
      | Some n \<Rightarrow>
          mutateTarget applicationId n envelope ''rollout_paused'' None (\<lambda>target app db.
            require_res (tgt_target_status target = Ts_active) (terr ''target is tombstoned'')
              (Inr (target\<lparr>tgt_pause_at := Some (ev_at envelope), tgt_pause_reason := Some reason\<rparr>, db,
                    [(''pauseAt'', nullable_json (\<lambda>t. JNum (NInt t)) (tgt_pause_at target))],
                    [(''pauseAt'', JNum (NInt (ev_at envelope))), (''pauseReason'', JStr reason)])))
            Ho_committed no_options)"

definition ACKNOWLEDGED_HEALTH_FENCES :: "health_stop_reason list" where
  "ACKNOWLEDGED_HEALTH_FENCES = [Hs_rollout_stopped, Hs_rollback_completed]"

definition RESUMABLE_HEALTH_FENCES :: "health_stop_reason list" where
  "RESUMABLE_HEALTH_FENCES =
     [Hs_health_failed, Hs_health_unknown, Hs_health_retry_exhausted, Hs_rollback_unavailable]"

text \<open>What an application-wide resume writes for one target: the row to upsert, if any.\<close>

definition resumed_fence ::
    "gitops_application_row \<Rightarrow> gitops_target_current_row \<Rightarrow> gitops_target_current_row option" where
  "resumed_fence app target =
     (case tgt_health_stop_reason target of
        None \<Rightarrow> None
      | Some fence \<Rightarrow>
          (if fence \<in> set RESUMABLE_HEALTH_FENCES then Some (target\<lparr>tgt_health_stop_reason := None\<rparr>)
           else if fence \<in> set ACKNOWLEDGED_HEALTH_FENCES
             \<and> tgt_rollout_generation_id target = app_rollout_generation_id app
           then Some (target\<lparr>tgt_health_stop_reason := Some Hs_stop_acknowledged\<rparr>)
           else None))"

definition rolloutUnpaused ::
    "string \<Rightarrow> int option \<Rightarrow> event_envelope \<Rightarrow> gitops_db \<Rightarrow> (gitops_db \<times> transition_result) res" where
  "rolloutUnpaused applicationId nodeId envelope =
     (case nodeId of
        None \<Rightarrow>
          mutateApp applicationId envelope ''rollout_unpaused'' Ho_committed (\<lambda>app0 db.
            require_res (truthy_num (app_pause_at app0)) (terr ''application is not paused'')
             (let app = app0\<lparr>app_pause_at := None, app_pause_reason := None, app_pause_origin := Po_operator\<rparr>;
                  db1 = snd (releaseConfirmedPlacement applicationId db)
              in bind_res (upsert_each
                    (List.map_filter (resumed_fence app) (listTargets db1 applicationId)) db1)
                   (\<lambda>db2. Inr (app, db2, [])))) no_extra
      | Some n \<Rightarrow>
          mutateTarget applicationId n envelope ''rollout_unpaused'' None (\<lambda>target app db.
            require_res (truthy_num (tgt_pause_at target)) (terr ''target is not paused'')
              (Inr (target\<lparr>tgt_pause_at := None, tgt_pause_reason := None\<rparr>, db,
                    [(''pauseAt'', nullable_json (\<lambda>t. JNum (NInt t)) (tgt_pause_at target))],
                    [(''pauseAt'', JNull)])))
            Ho_committed no_options)"

definition partiallyRolledOut ::
    "string \<Rightarrow> int option \<Rightarrow> raw_json \<Rightarrow> event_envelope \<Rightarrow> gitops_db \<Rightarrow> (gitops_db \<times> transition_result) res" where
  "partiallyRolledOut applicationId nodeId partialJson envelope db =
     bind_res (decodeGitOpsJson partialJson) (\<lambda>_.
       case nodeId of
         None \<Rightarrow>
           mutateApp applicationId envelope ''partially_rolled_out'' Ho_committed
             (\<lambda>app d. Inr (app\<lparr>app_partial_json := Some partialJson\<rparr>, d, [])) no_extra db
       | Some n \<Rightarrow>
           mutateTarget applicationId n envelope ''partially_rolled_out'' None (\<lambda>target app d.
             Inr (target\<lparr>tgt_partial_json := Some partialJson\<rparr>, d,
                  [(''partial'', JBool (tgt_partial_json target \<noteq> None))], [(''partial'', JBool True)]))
             Ho_committed no_options db)"

definition partialCleared ::
    "string \<Rightarrow> int option \<Rightarrow> event_envelope \<Rightarrow> gitops_db \<Rightarrow> (gitops_db \<times> transition_result) res" where
  "partialCleared applicationId nodeId envelope =
     (case nodeId of
        None \<Rightarrow>
          mutateApp applicationId envelope ''partial_cleared'' Ho_committed (\<lambda>app db.
            require_res (truthy_raw (app_partial_json app)) (terr ''application has no partial state'')
              (Inr (app\<lparr>app_partial_json := None\<rparr>, db, []))) no_extra
      | Some n \<Rightarrow>
          mutateTarget applicationId n envelope ''partial_cleared'' None (\<lambda>target app db.
            require_res (truthy_raw (tgt_partial_json target)) (terr ''target has no partial state'')
              (Inr (target\<lparr>tgt_partial_json := None\<rparr>, db,
                    [(''partial'', JBool True)], [(''partial'', JBool False)])))
            Ho_committed no_options)"

section \<open>Intents and candidates\<close>

definition unfrozen_target :: "gitops_target_current_row \<Rightarrow> gitops_target_current_row option" where
  "unfrozen_target target =
     (if tgt_target_status target \<noteq> Ts_active then None
      else Some (target\<lparr>tgt_desired_generation_id := None, tgt_expected_artifact_set_id := None,
                        tgt_latest_artifact_set_id := None\<rparr>))"

definition clearInlineFreezePointers ::
    "gitops_application_row \<Rightarrow> gitops_db \<Rightarrow> (gitops_application_row \<times> gitops_db) res" where
  "clearInlineFreezePointers app db =
     bind_res (upsert_each (List.map_filter unfrozen_target (listTargets db (app_id app))) db) (\<lambda>db1.
       Inr (app\<lparr>app_accepted_generation_id := None, app_artifact_set_id := None,
                app_latest_artifact_set_id := None\<rparr>, db1))"

definition intentRevised ::
    "string \<Rightarrow> gitops_intent_revision_row \<Rightarrow> event_envelope \<Rightarrow> gitops_db \<Rightarrow> (gitops_db \<times> transition_result) res" where
  "intentRevised applicationId intent envelope =
     mutateApp applicationId envelope ''intent_revised'' Ho_committed (\<lambda>app db.
       require_res (app_lifecycle_status app = Lc_active) (terr ''application is not live'')
        (require_res (intent_application_id intent = applicationId)
          (terr ''intent belongs to another application'')
          (let previousIntent = Option.bind (app_intent_revision_id app) (getIntentRevision db);
               composeChanged = (case previousIntent of
                   None \<Rightarrow> True
                 | Some p \<Rightarrow> intent_compose_content_sha256 p \<noteq> intent_compose_content_sha256 intent)
           in bind_res (insertIntentRevision intent db) (\<lambda>db1.
              let app1 = app\<lparr>app_intent_revision_id := Some (intent_id intent)\<rparr>
              in bind_res (if app_target_mode app1 = Inline_blueprint \<and> composeChanged
                           then clearInlineFreezePointers app1 db1 else Inr (app1, db1))
                   (\<lambda>(app2, db2). Inr (invalidatePlacementOnMaterialChange app2 envelope db2)))))) no_extra"

definition rolloutCandidateOpened ::
    "string \<Rightarrow> gitops_rollout_candidate_row \<Rightarrow> event_envelope \<Rightarrow> gitops_db
      \<Rightarrow> (gitops_db \<times> transition_result) res" where
  "rolloutCandidateOpened applicationId candidate envelope =
     mutateApp applicationId envelope ''rollout_candidate_opened'' Ho_committed (\<lambda>app db.
       require_res (app_lifecycle_status app = Lc_active) (terr ''application is not live'')
        (require_res (cand_application_id candidate = applicationId)
          (terr ''candidate belongs to another application'')
         (require_res (Some (cand_intent_revision_id candidate) = app_intent_revision_id app)
           (terr ''candidate does not name the current intent'')
           (bind_res (insertRolloutCandidate candidate db) (\<lambda>db1.
             Inr (invalidatePlacementOnMaterialChange
               (app\<lparr>app_rollout_candidate_id := Some (cand_id candidate)\<rparr>) envelope db1)))))) no_extra"

definition legacyCombinedAppended ::
    "string \<Rightarrow> string \<Rightarrow> event_envelope \<Rightarrow> gitops_db \<Rightarrow> (gitops_db \<times> transition_result) res" where
  "legacyCombinedAppended applicationId approvalId envelope =
     mutateApp applicationId envelope ''legacy_combined_appended'' Ho_committed (\<lambda>app db.
       require_res (app_lifecycle_status app = Lc_active) (terr ''application is not live'')
         (bind_res (insertApproval
             \<lparr>apv_id = approvalId, apv_kind = Ak_legacy_combined, apv_authority = Au_legacy_combined,
              apv_authoritative = 0, apv_application_id = applicationId, apv_generation_id = None,
              apv_intent_revision_id = None, apv_artifact_set_id = None,
              apv_rollout_candidate_id = None, apv_rollout_generation_id = None,
              apv_source_acceptance_ref = None, apv_placement_approval_ref = None,
              apv_required_targets_json = None, apv_preflight_fingerprint = None,
              apv_fingerprint = None, apv_blast_json = None, apv_policy_provenance_json = None,
              apv_source_confirmation_json = None, apv_actor = ev_actor envelope,
              apv_created_at = ev_at envelope\<rparr> db) (\<lambda>db1.
           Inr (app\<lparr>app_legacy_combined_approval_ref := Some approvalId\<rparr>, db1, [])))) no_extra"

end
