(* ===== verification/Rollout_Authority.thy ===== *)
theory Rollout_Authority
  imports Rollout_Transitions
begin

text \<open>
  The transitions that create and withdraw rollout authority (\<^verbatim>\<open>gitops/transitions.ts\<close>): placement approval,
  rollout authorization, their withdrawal, and the preflight evidence they rest on.
\<close>

section \<open>The policy behind an automatic decision\<close>

text \<open>The checks both mints make on a decision: a policy decision carries the snapshot that made it, that
  snapshot is the one configured now, and the policy of the domain allows it.\<close>

definition check_policy_decision ::
    "decided_authority \<Rightarrow> raw_json option \<Rightarrow> gitops_application_row \<Rightarrow> string \<Rightarrow> string \<Rightarrow> string
      \<Rightarrow> bool \<Rightarrow> string \<Rightarrow> unit res" where
  "check_policy_decision authority policyProvenanceJson app noSnapshot operatorSnapshot changed allowed refused =
     require_res (\<not> (authority = By_configured_policy \<and> policyProvenanceJson = None)) (terr noSnapshot)
      (require_res (\<not> (authority = By_operator \<and> policyProvenanceJson \<noteq> None)) (terr operatorSnapshot)
       (bind_res (if authority = By_configured_policy \<and> policyProvenanceJson \<noteq> None
                  then bind_res (decodePolicySnapshot policyProvenanceJson) (\<lambda>authorizing.
                    require_res (policyValuesEqual authorizing (configuredSnapshotFor app)) (terr changed) (Inr ()))
                  else Inr ()) (\<lambda>_.
        require_res (\<not> (authority = By_configured_policy \<and> \<not> allowed)) (terr refused) (Inr ()))))"

section \<open>Placement approval\<close>

record placement_approval_args =
  pa_applicationId :: string
  pa_approvalId :: string
  pa_intentRevisionId :: string
  pa_blastJson :: raw_json
  pa_requiredNodeIds :: "int list"
  pa_fingerprint :: "string option"
  pa_actor :: "string option"
  pa_envelope :: event_envelope
  pa_rolloutGenerationId :: string
  pa_candidateId :: string
  pa_authority :: decided_authority
  pa_policyProvenanceJson :: "raw_json option"
  pa_strategyJson :: "raw_json option"
  pa_provenance :: "rollout_generation_provenance option"

definition placement_approval_row :: "placement_approval_args \<Rightarrow> raw_json \<Rightarrow> raw_json \<Rightarrow> gitops_approval_row" where
  "placement_approval_row args requiredTargetsJson blastJson =
     \<lparr>apv_id = pa_approvalId args, apv_kind = Ak_placement_approval,
      apv_authority = authority_of (pa_authority args), apv_authoritative = 1,
      apv_application_id = pa_applicationId args, apv_generation_id = None,
      apv_intent_revision_id = Some (pa_intentRevisionId args), apv_artifact_set_id = None,
      apv_rollout_candidate_id = Some (pa_candidateId args), apv_rollout_generation_id = None,
      apv_source_acceptance_ref = None, apv_placement_approval_ref = None,
      apv_required_targets_json = Some requiredTargetsJson, apv_preflight_fingerprint = None,
      apv_fingerprint = pa_fingerprint args, apv_blast_json = Some blastJson,
      apv_policy_provenance_json = pa_policyProvenanceJson args, apv_source_confirmation_json = None,
      apv_actor = pa_actor args, apv_created_at = ev_at (pa_envelope args)\<rparr>"

definition placement_generation_row ::
    "placement_approval_args \<Rightarrow> gitops_application_row \<Rightarrow> raw_json \<Rightarrow> gitops_rollout_generation_row" where
  "placement_generation_row args app requiredTargetsJson =
     \<lparr>rgen_id = pa_rolloutGenerationId args, rgen_application_id = pa_applicationId args,
      rgen_intent_revision_id = pa_intentRevisionId args,
      rgen_rollout_candidate_id = pa_candidateId args, rgen_accepted_generation_id = None,
      rgen_artifact_set_id = None, rgen_placement_approval_ref = Some (pa_approvalId args),
      rgen_source_acceptance_ref = None, rgen_rollout_authorization_ref = None,
      rgen_required_targets_json = requiredTargetsJson, rgen_preflight_fingerprint = None,
      rgen_preflight_evidence_json = None,
      rgen_rollout_strategy_json = nullish (pa_strategyJson args) (Parsed (JObj [])),
      rgen_policy_snapshot_json = Some (encodePolicySnapshot (configuredSnapshotFor app)),
      rgen_provenance = nullish (pa_provenance args) Rg_legacy_inline,
      rgen_supersedes_generation_id = app_rollout_generation_id app, rgen_superseded_at = None,
      rgen_withdrawn_at = None, rgen_operation_id = ev_operationId (pa_envelope args),
      rgen_actor = pa_actor args, rgen_trigger = ev_trigger (pa_envelope args),
      rgen_created_at = ev_at (pa_envelope args)\<rparr>"

text \<open>The prior generation is superseded only when the pointer names one.\<close>

definition supersede_previous ::
    "gitops_application_row \<Rightarrow> string \<Rightarrow> event_envelope \<Rightarrow> gitops_db \<Rightarrow> string list \<times> gitops_db" where
  "supersede_previous app nextGenerationId envelope db =
     (if truthy_str (app_rollout_generation_id app)
      then recordRolloutGenerationSuperseded app (the (app_rollout_generation_id app))
             (Some nextGenerationId) envelope db
      else ([], db))"

definition placed_row :: "placement_approval_args \<Rightarrow> gitops_application_row \<Rightarrow> gitops_application_row" where
  "placed_row args app =
     app\<lparr>app_rollout_authorization_ref := None, app_placement_approval_ref := Some (pa_approvalId args),
         app_legacy_combined_approval_ref := None,
         app_rollout_generation_id := Some (pa_rolloutGenerationId args),
         app_placement_policy_refusal_reason := None, app_placement_policy_refused_at := None\<rparr>"

definition check_placement_candidate :: "placement_approval_args \<Rightarrow> gitops_application_row \<Rightarrow> gitops_db \<Rightarrow> unit res" where
  "check_placement_candidate args app db =
     require_res (app_intent_revision_id app = Some (pa_intentRevisionId args)) (terr ''intent revision is not current'')
      (require_res (app_rollout_candidate_id app = Some (pa_candidateId args))
        (terr ''rollout candidate is not current'')
       (case getRolloutCandidate db (pa_candidateId args) of
          None \<Rightarrow> Inl (terr ''rollout candidate not found'')
        | Some candidate \<Rightarrow>
            require_res (cand_application_id candidate = pa_applicationId args) (terr ''rollout candidate not found'')
             (require_res (cand_intent_revision_id candidate = pa_intentRevisionId args)
               (terr ''rollout candidate does not match intent'')
               (require_res (\<not> (pa_authority args = By_configured_policy
                   \<and> hasPlacementApprovalFor db (pa_applicationId args) (pa_intentRevisionId args)
                        (pa_candidateId args)))
                 (terr ''placement approval already recorded for this intent and candidate'') (Inr ())))))"

definition placementApproved ::
    "placement_approval_args \<Rightarrow> gitops_db \<Rightarrow> (gitops_db \<times> transition_result) res" where
  "placementApproved args =
     mutateApp (pa_applicationId args) (pa_envelope args) ''rollout_generation_opened'' Ho_committed (\<lambda>app db.
       require_res (app_lifecycle_status app = Lc_active) (terr ''application is not live'')
        (bind_res (check_policy_decision (pa_authority args) (pa_policyProvenanceJson args) app
            ''a policy-authorized approval must record its policy snapshot''
            ''an operator approval records no policy snapshot''
            ''the placement policy changed while the decision was being applied''
            (app_placement_policy app = Pp_bounded_auto)
            ''the placement policy requires an operator to approve'') (\<lambda>_.
         bind_res (check_placement_candidate args app db) (\<lambda>_.
         bind_res (encodeGitOpsRequiredTargetsJson (canonicalizeNodeIds (pa_requiredNodeIds args))) (\<lambda>requiredTargetsJson.
         bind_res (decodeGitOpsApprovedTargetEffectJson (pa_blastJson args)) (\<lambda>effect.
         bind_res (encodeGitOpsApprovedTargetEffectJson effect) (\<lambda>blastJson.
         bind_res (insertApproval (placement_approval_row args requiredTargetsJson blastJson) db) (\<lambda>db1.
         let (ids, db2) = supersede_previous app (pa_rolloutGenerationId args) (pa_envelope args) db1
         in bind_res (insertRolloutGeneration (placement_generation_row args app requiredTargetsJson) db2) (\<lambda>db3.
            let app1 = placed_row args app;
                (h, db4) = history app1 (pa_envelope args)
                  ((history_fields0 ''placement_approved'' Ho_committed
                     [(''placementApprovalRef'', JNull)]
                     [(''placementApprovalRef'', JStr (pa_approvalId args)),
                      (''rolloutGenerationId'', JStr (pa_rolloutGenerationId args))])
                   \<lparr>hf_placementApprovalRef := Some (pa_approvalId args),
                    hf_rolloutGenerationId := Some (pa_rolloutGenerationId args)\<rparr>) db3
            in Inr (app1, db4, ids @ opt_list h)))))))))) no_extra"

section \<open>Rollout authorization\<close>

record rollout_authorization_args =
  ra_applicationId :: string
  ra_approvalId :: string
  ra_rolloutGenerationId :: string
  ra_preflightFingerprint :: string
  ra_preflightEvidenceJson :: raw_json
  ra_actor :: "string option"
  ra_envelope :: event_envelope
  ra_strategyJson :: "raw_json option"
  ra_authority :: decided_authority
  ra_policyProvenanceJson :: "raw_json option"

definition authorization_row ::
    "rollout_authorization_args \<Rightarrow> future_rollout_authorization_binding \<Rightarrow> raw_json \<Rightarrow> gitops_approval_row" where
  "authorization_row args ingredients requiredTargetsJson =
     \<lparr>apv_id = ra_approvalId args, apv_kind = Ak_rollout_authorization,
      apv_authority = authority_of (ra_authority args), apv_authoritative = 1,
      apv_application_id = ra_applicationId args,
      apv_generation_id = Some (bnd_acceptedGenerationId ingredients),
      apv_intent_revision_id = Some (bnd_intentRevisionId ingredients),
      apv_artifact_set_id = Some (bnd_artifactSetId ingredients),
      apv_rollout_candidate_id = Some (bnd_rolloutCandidateId ingredients),
      apv_rollout_generation_id = Some (ra_rolloutGenerationId args),
      apv_source_acceptance_ref = Some (bnd_sourceAcceptanceRef ingredients),
      apv_placement_approval_ref = Some (bnd_placementApprovalRef ingredients),
      apv_required_targets_json = Some requiredTargetsJson,
      apv_preflight_fingerprint = Some (ra_preflightFingerprint args), apv_fingerprint = None,
      apv_blast_json = None, apv_policy_provenance_json = ra_policyProvenanceJson args,
      apv_source_confirmation_json = None, apv_actor = ra_actor args,
      apv_created_at = ev_at (ra_envelope args)\<rparr>"

definition authorized_generation_row ::
    "rollout_authorization_args \<Rightarrow> gitops_application_row \<Rightarrow> future_rollout_authorization_binding \<Rightarrow> raw_json
      \<Rightarrow> gitops_rollout_generation_row" where
  "authorized_generation_row args app ingredients requiredTargetsJson =
     \<lparr>rgen_id = ra_rolloutGenerationId args, rgen_application_id = ra_applicationId args,
      rgen_intent_revision_id = bnd_intentRevisionId ingredients,
      rgen_rollout_candidate_id = bnd_rolloutCandidateId ingredients,
      rgen_accepted_generation_id = Some (bnd_acceptedGenerationId ingredients),
      rgen_artifact_set_id = Some (bnd_artifactSetId ingredients),
      rgen_placement_approval_ref = Some (bnd_placementApprovalRef ingredients),
      rgen_source_acceptance_ref = Some (bnd_sourceAcceptanceRef ingredients),
      rgen_rollout_authorization_ref = Some (ra_approvalId args),
      rgen_required_targets_json = requiredTargetsJson,
      rgen_preflight_fingerprint = Some (ra_preflightFingerprint args),
      rgen_preflight_evidence_json = Some (ra_preflightEvidenceJson args),
      rgen_rollout_strategy_json = nullish (ra_strategyJson args) (Parsed (JObj [])),
      rgen_policy_snapshot_json = Some (encodePolicySnapshot (configuredSnapshotFor app)),
      rgen_provenance = Rg_rollout_authorization,
      rgen_supersedes_generation_id = app_rollout_generation_id app, rgen_superseded_at = None,
      rgen_withdrawn_at = None, rgen_operation_id = ev_operationId (ra_envelope args),
      rgen_actor = ra_actor args, rgen_trigger = ev_trigger (ra_envelope args),
      rgen_created_at = ev_at (ra_envelope args)\<rparr>"

definition clearGitManagedRolloutLimitation :: "gitops_application_row \<Rightarrow> gitops_application_row res" where
  "clearGitManagedRolloutLimitation app =
     bind_res (decodeGitOpsEvidenceLimitations (app_evidence_limitations_json app)) (\<lambda>existing.
     bind_res (encodeGitOpsEvidenceLimitations existing ''git_managed_rollout_not_enabled'' None) (\<lambda>encoded.
       Inr (app\<lparr>app_evidence_limitations_json := encoded\<rparr>)))"

definition authorization_live :: "gitops_db \<Rightarrow> gitops_application_row \<Rightarrow> bool" where
  "authorization_live db app =
     (truthy_str (app_rollout_authorization_ref app)
      \<and> (case currentAuthorizationBinding db app of
           None \<Rightarrow> False
         | Some live \<Rightarrow> resolveApprovalRef db (the (app_rollout_authorization_ref app))
             (Expect_rollout_authorization (app_id app) live) \<noteq> None))"

definition authorized_row :: "rollout_authorization_args \<Rightarrow> gitops_application_row \<Rightarrow> gitops_application_row" where
  "authorized_row args app =
     app\<lparr>app_rollout_authorization_ref := Some (ra_approvalId args),
         app_preflight_fingerprint := Some (ra_preflightFingerprint args),
         app_rollout_generation_id := Some (ra_rolloutGenerationId args)\<rparr>"

text \<open>The part after the guards: everything the mint writes.\<close>

definition mint_authorization ::
    "rollout_authorization_args \<Rightarrow> gitops_application_row \<Rightarrow> future_rollout_authorization_binding \<Rightarrow> gitops_db
      \<Rightarrow> (gitops_application_row \<times> gitops_db \<times> string list) res" where
  "mint_authorization args app ingredients db =
     bind_res (bindRolloutCandidateSource (bnd_rolloutCandidateId ingredients)
         (bnd_acceptedGenerationId ingredients) (bnd_artifactSetId ingredients) db) (\<lambda>db1.
     bind_res (encodeGitOpsRequiredTargetsJson (bnd_requiredNodeIds ingredients)) (\<lambda>requiredTargetsJson.
     let db2 = (if ra_authority args = By_operator
                then snd (recordConfirmedPlacement (ra_applicationId args)
                       (Some (bnd_placementApprovalRef ingredients)) db1)
                else db1)
     in bind_res (insertApproval (authorization_row args ingredients requiredTargetsJson) db2) (\<lambda>db3.
        let (ids, db4) = supersede_previous app (ra_rolloutGenerationId args) (ra_envelope args) db3
        in bind_res (insertRolloutGeneration
               (authorized_generation_row args app ingredients requiredTargetsJson) db4) (\<lambda>db5.
           bind_res (clearGitManagedRolloutLimitation (authorized_row args app)) (\<lambda>app1.
           let (h, db6) = history app1 (ra_envelope args)
                 ((history_fields0 ''rollout_authorized'' Ho_committed
                    [(''rolloutAuthorizationRef'', nullable_json JStr (app_rollout_authorization_ref app))]
                    [(''rolloutAuthorizationRef'', JStr (ra_approvalId args)),
                     (''rolloutGenerationId'', JStr (ra_rolloutGenerationId args)),
                     (''preflightFingerprint'', JStr (ra_preflightFingerprint args))])
                  \<lparr>hf_rolloutAuthorizationRef := Some (ra_approvalId args),
                   hf_rolloutGenerationId := Some (ra_rolloutGenerationId args),
                   hf_generationId := Some (bnd_acceptedGenerationId ingredients),
                   hf_artifactSetId := Some (bnd_artifactSetId ingredients),
                   hf_sourceAcceptanceRef := Some (bnd_sourceAcceptanceRef ingredients),
                   hf_placementApprovalRef := Some (bnd_placementApprovalRef ingredients)\<rparr>) db5
           in Inr (app1, db6, ids @ opt_list h))))))"

definition rolloutAuthorized ::
    "rollout_authorization_args \<Rightarrow> gitops_db \<Rightarrow> (gitops_db \<times> transition_result) res" where
  "rolloutAuthorized args =
     mutateApp (ra_applicationId args) (ra_envelope args) ''rollout_generation_opened'' Ho_committed (\<lambda>app db.
       require_res (app_lifecycle_status app = Lc_active) (terr ''application is not live'')
        (require_res (app_target_mode app = Blueprint)
          (terr ''rollout authorization is only for Blueprint target mode'')
         (bind_res (check_policy_decision (ra_authority args) (ra_policyProvenanceJson args) app
             ''a policy-authorized rollout must record its policy snapshot''
             ''an operator rollout authorization records no policy snapshot''
             ''the configured policy changed while the decision was being applied''
             (app_rollout_authorization_policy app = Ra_automatic)
             ''the rollout authorization policy requires an operator to authorize'') (\<lambda>_.
          require_res (app_active_operation_stage app = None)
            (terr ''an operation is already in flight for this application'')
           (require_res (\<not> authorization_live db app) (terr ''rollout authorization already live'')
             (case authorizationIngredients db app of
                None \<Rightarrow> Inl (terr ''authorization binding is incomplete'')
              | Some ingredients \<Rightarrow>
                  require_res (getArtifactSet db (bnd_artifactSetId ingredients) \<noteq> None)
                    (terr ''artifact set not found'') (mint_authorization args app ingredients db))))))) no_extra"

text \<open>The authorization an operator withdraws: the one the pointer names, or the newest recorded for the
  accepted source.\<close>

definition withdrawable_generation ::
    "gitops_db \<Rightarrow> gitops_application_row \<Rightarrow> gitops_rollout_generation_row option" where
  "withdrawable_generation db app =
     (let namedRow = (if truthy_str (app_rollout_generation_id app)
            then getRolloutGeneration db (the (app_rollout_generation_id app)) else None);
          latest = (if truthy_str (app_accepted_generation_id app)
            then latestRolloutAuthorizationForAcceptedGeneration db (app_id app)
                   (the (app_accepted_generation_id app)) else None)
      in case namedRow of
           Some r \<Rightarrow> (if rgen_provenance r = Rg_rollout_authorization then Some r else latest)
         | None \<Rightarrow> latest)"

text \<open>The id annotated on the audit row is read before the transaction; for a named authorization it is the
  pointer itself.\<close>

definition superseded_annotation :: "gitops_db \<Rightarrow> string \<Rightarrow> string option" where
  "superseded_annotation db applicationId =
     (case getApplication db applicationId of
        None \<Rightarrow> None
      | Some app \<Rightarrow> map_option rgen_id (withdrawable_generation db app))"

definition rolloutSuperseded ::
    "string \<Rightarrow> event_envelope \<Rightarrow> gitops_db \<Rightarrow> (gitops_db \<times> transition_result) res" where
  "rolloutSuperseded applicationId envelope db =
     (let annotation = superseded_annotation db applicationId
      in mutateApp applicationId envelope ''rollout_generation_superseded'' Ho_superseded (\<lambda>app d.
           require_res (app_lifecycle_status app = Lc_active) (terr ''application is not live'')
             (case withdrawable_generation d app of
                None \<Rightarrow> Inl (terr ''there is no live rollout generation to supersede'')
              | Some target \<Rightarrow>
                  require_res (rgen_application_id target = app_id app)
                    (terr ''there is no live rollout generation to supersede'')
                    (Inr (app\<lparr>app_rollout_authorization_ref := None, app_preflight_fingerprint := None\<rparr>,
                          markRolloutGenerationWithdrawn (rgen_id target) (ev_at envelope)
                            (markRolloutGenerationSuperseded (rgen_id target) (ev_at envelope) d), []))))
           (if truthy_str annotation then no_extra\<lparr>xh_rolloutGenerationId := annotation\<rparr> else no_extra) db)"

section \<open>Preflight evidence and limitations\<close>

definition recordPreflightEvaluation :: "string \<Rightarrow> raw_json \<Rightarrow> int \<Rightarrow> gitops_db \<Rightarrow> gitops_db res" where
  "recordPreflightEvaluation applicationId evidenceJson time db =
     (case getApplication db applicationId of
        None \<Rightarrow> Inl (terr ''application not found'')
      | Some app \<Rightarrow>
          (if app_target_mode app = Inline_blueprint then Inr db
           else Inr (writeApplication
             (app\<lparr>app_latest_preflight_evidence_json := Some evidenceJson, app_updated_at := time\<rparr>) db)))"

definition set_limitation :: "string \<Rightarrow> string \<Rightarrow> string option \<Rightarrow> int \<Rightarrow> gitops_db \<Rightarrow> gitops_db res" where
  "set_limitation code applicationId detail time db =
     (case getApplication db applicationId of
        None \<Rightarrow> Inl (terr ''application not found'')
      | Some app \<Rightarrow>
          bind_res (decodeGitOpsEvidenceLimitations (app_evidence_limitations_json app)) (\<lambda>existing.
          bind_res (encodeGitOpsEvidenceLimitations existing code
              (case detail of None \<Rightarrow> None | Some d \<Rightarrow> Some (code, Some d))) (\<lambda>encoded.
            Inr (writeApplication
              (app\<lparr>app_evidence_limitations_json := encoded, app_updated_at := time\<rparr>) db))))"

definition setRegistryPreflightBlockedLimitation ::
    "string \<Rightarrow> string option \<Rightarrow> int \<Rightarrow> gitops_db \<Rightarrow> gitops_db res" where
  "setRegistryPreflightBlockedLimitation = set_limitation ''registry_preflight_blocked''"

definition setGitManagedArtifactLimitation ::
    "string \<Rightarrow> string option \<Rightarrow> int \<Rightarrow> gitops_db \<Rightarrow> gitops_db res" where
  "setGitManagedArtifactLimitation = set_limitation ''git_managed_artifact_unmodellable''"

definition invalidateAuthorizationOnPreflightDrift ::
    "string \<Rightarrow> event_envelope \<Rightarrow> gitops_db \<Rightarrow> (gitops_db \<times> transition_result) res" where
  "invalidateAuthorizationOnPreflightDrift applicationId envelope db =
     (case getApplication db applicationId of
        None \<Rightarrow> Inl (terr ''application not found'')
      | Some app0 \<Rightarrow>
          require_res (app_target_mode app0 = Blueprint)
            (terr ''preflight drift invalidation is only for Blueprint target mode'')
            (if \<not> truthy_str (app_rollout_authorization_ref app0)
                \<and> \<not> truthy_str (app_preflight_fingerprint app0) then Inr (db, result_of [])
             else
               (let app = app0\<lparr>app_rollout_authorization_ref := None, app_preflight_fingerprint := None\<rparr>;
                    (app1, ids, db1) =
                      (if \<not> truthy_str (app_rollout_generation_id app) then (app, [], db)
                       else
                         (let (ids, d) =
                            (case getRolloutGeneration db (the (app_rollout_generation_id app)) of
                               None \<Rightarrow> ([], db)
                             | Some live \<Rightarrow>
                                 (if rgen_provenance live = Rg_rollout_authorization
                                  then recordRolloutGenerationSuperseded app
                                         (the (app_rollout_generation_id app)) None envelope db
                                  else ([], db)))
                          in (app\<lparr>app_rollout_generation_id := None\<rparr>, ids, d)))
                in Inr (writeApplication (stamp_app envelope app1) db1, result_of ids))))"

end
