(* ===== verification/Rollout_Invariants.thy ===== *)
theory Rollout_Invariants
  imports Acceptance_Invariants Rollout_Authority
begin

text \<open>
  The transitions of \<^verbatim>\<open>Rollout_Transitions\<close> and \<^verbatim>\<open>Rollout_Authority\<close> keep the invariant and lose no
  evidence.
\<close>

section \<open>Store writes\<close>

text \<open>A write that leaves the rows the invariant reads alone.\<close>

lemma keeps_tables:
  assumes "db_ok d" and "db_applications e = db_applications d" and "db_targets e = db_targets d"
    and "db_history e = db_history d" and "db_outbox e = db_outbox d"
    and "db_generations e = db_generations d" and "db_artifact_sets e = db_artifact_sets d"
    and "db_approvals e = db_approvals d"
  shows "keeps d e"
proof -
  have le: "db_le d e" by (rule db_le_tables) (simp_all add: assms)
  then show ?thesis using db_ok_cong [OF assms(1) le] assms by (simp add: keeps_def bindings_kept_tables)
qed

lemma keeps_insertApproval: "db_ok d \<Longrightarrow> insertApproval row d = Inr e \<Longrightarrow> keeps d e"
  using db_ok_cong [OF _ insertApproval_le] insertApproval_le
  by (auto simp: keeps_def insertApproval_def bindings_kept_tables)

lemma keeps_insertIntent: "db_ok d \<Longrightarrow> insertIntentRevision row d = Inr e \<Longrightarrow> keeps d e"
  by (rule keeps_tables) (auto simp: insertIntentRevision_def)

lemma keeps_updateIntent: "db_ok d \<Longrightarrow> updateIntentHealthPolicy i p d = Inr e \<Longrightarrow> keeps d e"
  by (rule keeps_tables) (auto simp: updateIntentHealthPolicy_def)

lemma keeps_insertCandidate: "db_ok d \<Longrightarrow> insertRolloutCandidate row d = Inr e \<Longrightarrow> keeps d e"
  by (rule keeps_tables) (auto simp: insertRolloutCandidate_def)

lemma keeps_insertRolloutGeneration: "db_ok d \<Longrightarrow> insertRolloutGeneration row d = Inr e \<Longrightarrow> keeps d e"
  by (rule keeps_tables) (auto simp: insertRolloutGeneration_def)

lemma keeps_bindCandidate: "db_ok d \<Longrightarrow> bindRolloutCandidateSource c g a d = Inr e \<Longrightarrow> keeps d e"
  by (rule keeps_tables) (auto simp: bindRolloutCandidateSource_def split: option.splits)

lemma keeps_markWithdrawn: "db_ok d \<Longrightarrow> keeps d (markRolloutGenerationWithdrawn i t d)"
  by (rule keeps_tables) (auto simp: markRolloutGenerationWithdrawn_def)

lemma keeps_markSuperseded: "db_ok d \<Longrightarrow> keeps d (markRolloutGenerationSuperseded i t d)"
  by (rule keeps_tables) (auto simp: markRolloutGenerationSuperseded_def)

text \<open>A confirmation rewrites two columns of one acceptance row.\<close>

lemma find_confirmation:
  assumes "\<And>r. apv_id (f r) = apv_id r"
  shows "find (\<lambda>r. apv_id r = i) (map f rows) = map_option f (find (\<lambda>r. apv_id r = i) rows)"
  using assms by (induction rows) auto

lemma confirmation_le:
  "db_le d (d\<lparr>db_approvals := map (\<lambda>r. if apv_id r = k \<and> apv_kind r = Ak_source_acceptance
     then r\<lparr>apv_placement_approval_ref := x, apv_source_confirmation_json := j\<rparr> else r) (db_approvals d)\<rparr>)"
  unfolding db_le_def
proof (intro conjI allI impI)
  let ?f = "\<lambda>r. if apv_id r = k \<and> apv_kind r = Ak_source_acceptance
     then r\<lparr>apv_placement_approval_ref := x, apv_source_confirmation_json := j\<rparr> else r"
  let ?d = "d\<lparr>db_approvals := map ?f (db_approvals d)\<rparr>"
  fix i p assume p: "getApproval d i = Some p"
  have "getApproval ?d i = map_option ?f (getApproval d i)"
    unfolding getApproval_def by (simp add: find_confirmation)
  then show "\<exists>q. getApproval ?d i = Some q \<and> approval_kept p q"
    using p approval_keptI [of p] by auto
qed (simp_all add: getGeneration_def getArtifactSet_def)

lemma keeps_confirmation: "db_ok d \<Longrightarrow> keeps d (snd (writeSourceConfirmation i c d))"
proof -
  assume ok: "db_ok d"
  have "keeps d (d\<lparr>db_approvals := map (\<lambda>r. if apv_id r = k \<and> apv_kind r = Ak_source_acceptance
     then r\<lparr>apv_placement_approval_ref := x, apv_source_confirmation_json := j\<rparr> else r) (db_approvals d)\<rparr>)" for k x j
    using db_ok_cong [OF ok confirmation_le] confirmation_le by (simp add: keeps_def bindings_kept_tables)
  then show ?thesis
    by (auto simp: writeSourceConfirmation_def Let_def keeps_refl ok split: option.split)
qed

lemma keeps_release: "db_ok d \<Longrightarrow> keeps d (snd (releaseConfirmedPlacement i d))"
  unfolding releaseConfirmedPlacement_def by (rule keeps_confirmation)

lemma keeps_record: "db_ok d \<Longrightarrow> keeps d (snd (recordConfirmedPlacement i r d))"
  unfolding recordConfirmedPlacement_def by (rule keeps_confirmation)

lemma keeps_supersede_previous: "db_ok d \<Longrightarrow> keeps d (snd (supersede_previous app g e d))"
  by (simp add: supersede_previous_def keeps_superseded keeps_refl)

section \<open>Reconcile attempts\<close>

lemma append_only_keeps: "append_only i e f db = Inr (db', b) \<Longrightarrow> db_ok db \<Longrightarrow> keeps db db'"
  using keeps_history by (auto simp: append_only_def prod.case_eq_if Let_def)

lemma reservation_keeps:
  "insertReconcileReservation app e fo di g dr db = (db', b) \<Longrightarrow> db_ok db \<Longrightarrow> keeps db db'"
  using keeps_history by (auto simp: insertReconcileReservation_def prod.case_eq_if Let_def)

lemma reserveReconcileAttempt_keeps:
  "reserveReconcileAttempt i e fo di db = Inr (db', b) \<Longrightarrow> db_ok db \<Longrightarrow> keeps db db'"
  using reservation_keeps by (auto simp: reserveReconcileAttempt_def)

lemma attempt_seq_keeps: "db_ok db \<Longrightarrow> keeps db (set_attempt_seq i n db)"
proof -
  assume ok: "db_ok db"
  have le: "db_le db (set_attempt_seq i n db)" by (rule db_le_tables) (simp_all add: set_attempt_seq_def)
  have modes: "bindings_kept db (set_attempt_seq i n db)"
    by (rule bindings_kept_map [where f = "\<lambda>r. if app_id r = i then r\<lparr>app_attempt_seq := n\<rparr> else r"])
      (auto simp: set_attempt_seq_def)
  have "app_ok db (a\<lparr>app_attempt_seq := n\<rparr>)" if "app_ok db a" for a
    using that by (rule app_ok_same) (simp_all add: same_pointers_def same_active_def)
  then have "\<forall>a \<in> set (db_applications (set_attempt_seq i n db)). app_ok (set_attempt_seq i n db) a"
    using ok app_ok_mono [OF le] by (auto simp: db_ok_def set_attempt_seq_def)
  moreover have "distinct (map app_id (db_applications (set_attempt_seq i n db)))"
    unfolding set_attempt_seq_def using ok
    by (simp, intro distinct_map_replace [unfolded map_map]) (auto simp: db_ok_def)
  moreover have "audit_ok (set_attempt_seq i n db)"
    using ok audit_ok_cong [of db] by (simp add: db_ok_def set_attempt_seq_def)
  ultimately show ?thesis
    using ok le target_ok_mono [OF le] modes
    by (auto simp: keeps_def db_ok_def set_attempt_seq_def)
qed

lemma settleReconcileAttempt_keeps: "settleReconcileAttempt i e x db = Inr (db', b) \<Longrightarrow> db_ok db \<Longrightarrow> keeps db db'"
  unfolding settleReconcileAttempt_def by (rule append_only_keeps)

lemma promotionCommitted_keeps: "promotionCommitted i e g c p db = Inr (db', b) \<Longrightarrow> db_ok db \<Longrightarrow> keeps db db'"
  unfolding promotionCommitted_def by (rule append_only_keeps)

lemma deployDispatched_keeps: "deployDispatched i e g c p db = Inr (db', b) \<Longrightarrow> db_ok db \<Longrightarrow> keeps db db'"
  unfolding deployDispatched_def by (rule append_only_keeps)

lemma deployIntentRefused_keeps: "deployIntentRefused i e g c db = Inr (db', b) \<Longrightarrow> db_ok db \<Longrightarrow> keeps db db'"
  unfolding deployIntentRefused_def by (rule append_only_keeps)

lemma allocateReconcileAttempt_keeps:
  assumes "allocateReconcileAttempt i actor trig t fo g dr db = Inr (db', op, b)" and "db_ok db"
  shows "keeps db db'"
proof -
  obtain app e n where "db' = fst (insertReconcileReservation app e fo None g dr (set_attempt_seq i n db))"
    using assms(1) by (auto simp: allocateReconcileAttempt_def Let_def prod.case_eq_if)
  then have r: "insertReconcileReservation app e fo None g dr (set_attempt_seq i n db) =
      (db', snd (insertReconcileReservation app e fo None g dr (set_attempt_seq i n db)))" by simp
  show ?thesis by (rule keeps_chain [OF attempt_seq_keeps [OF assms(2)] reservation_keeps [OF r]])
qed

section \<open>Policies and pausing\<close>

lemma withdrawPolicyAuthority_row [simp]:
  "app_id (withdrawPolicyAuthority db b) = app_id b"
  "app_target_mode (withdrawPolicyAuthority db b) = app_target_mode b"
  "app_stack_name (withdrawPolicyAuthority db b) = app_stack_name b"
  "app_blueprint_id (withdrawPolicyAuthority db b) = app_blueprint_id b"
  "app_configured_repo_url (withdrawPolicyAuthority db b) = app_configured_repo_url b"
  "app_lifecycle_status (withdrawPolicyAuthority db b) = app_lifecycle_status b"
  by (simp_all add: withdrawPolicyAuthority_def split: option.split)

lemma withdrawPolicyAuthority_ok [intro]: "app_ok d b \<Longrightarrow> app_ok d (withdrawPolicyAuthority db b)"
proof -
  assume ok: "app_ok d b"
  then have "app_ok d (b\<lparr>app_placement_approval_ref := None, app_rollout_authorization_ref := None\<rparr>)"
    by (simp add: app_ok_def)
  with ok show ?thesis by (simp add: withdrawPolicyAuthority_def split: option.split)
qed

lemma placementPolicyChanged_keeps:
  "placementPolicyChanged i p e db = Inr (db', r) \<Longrightarrow> db_ok db \<Longrightarrow> keeps db db'"
  unfolding placementPolicyChanged_def
  by (erule mutateApp_keepsE, assumption, erule pure_mutation_ok)
    (auto simp: Let_def intro!: withdrawPolicyAuthority_ok; simp add: app_ok_def)

lemma rolloutAuthorizationPolicyChanged_keeps:
  "rolloutAuthorizationPolicyChanged i p e db = Inr (db', r) \<Longrightarrow> db_ok db \<Longrightarrow> keeps db db'"
  unfolding rolloutAuthorizationPolicyChanged_def
  by (erule mutateApp_keepsE, assumption, erule pure_mutation_ok)
    (auto simp: Let_def intro!: withdrawPolicyAuthority_ok; simp add: app_ok_def)

lemma healthRolloutPolicySet_keeps:
  "healthRolloutPolicySet i p e db = Inr (db', r) \<Longrightarrow> db_ok db \<Longrightarrow> keeps db db'"
  unfolding healthRolloutPolicySet_def
proof (erule mutateApp_keepsE, assumption, rule app_mutation_okI, goal_cases)
  case (1 app app1 db1 ids)
  then have "\<exists>j p. updateIntentHealthPolicy j p db = Inr db1" and "app1 = app"
    by (auto split: option.splits)
  then show ?case using keeps_updateIntent [OF 1(1)] 1(2) app_ok_keeps by blast
qed

lemma keeps_app_write:
  assumes "db_ok db" and "getApplication db i = Some app" and "same_pointers app app1" and "same_active app app1"
  shows "keeps db (writeApplication app1 db)"
proof -
  have "same_row app app1" using assms(3) by (simp add: same_pointers_def)
  then show ?thesis
    using keeps_write [OF assms(1,2) _ keeps_refl [OF assms(1)]
      app_ok_same [OF getApplication_ok [OF assms(1,2)] assms(3,4)]] by simp
qed

lemma placementPolicyRefused_keeps:
  "placementPolicyRefused i w t db = Inr db' \<Longrightarrow> db_ok db \<Longrightarrow> keeps db db'"
  by (auto simp: placementPolicyRefused_def same_pointers_def same_active_def split: option.splits
      intro: keeps_app_write)

lemma rolloutPaused_keeps: "rolloutPaused i n w e po db = Inr (db', r) \<Longrightarrow> db_ok db \<Longrightarrow> keeps db db'"
  unfolding rolloutPaused_def
proof (cases n, goal_cases)
  case 1
  then show ?case
    by (simp, elim mutateApp_keepsE, simp, intro pure_mutation_ok)
      (auto simp: same_pointers_def same_active_def elim!: app_ok_same)
next
  case (2 m)
  then show ?case by (simp, elim mutateTarget_keepsE) (auto simp: keeps_refl)
qed

lemma rolloutUnpaused_keeps: "rolloutUnpaused i n e db = Inr (db', r) \<Longrightarrow> db_ok db \<Longrightarrow> keeps db db'"
  unfolding rolloutUnpaused_def
proof (cases n, goal_cases)
  case 1
  show ?case
  proof (rule mutateApp_keepsE [OF _ 1(2) app_mutation_okI], use 1 in simp, goal_cases)
    case (1 app app1 db2 ids)
    let ?db1 = "snd (releaseConfirmedPlacement i db)"
    have k1: "keeps db ?db1" using \<open>db_ok db\<close> by (rule keeps_release)
    obtain ts where "upsert_each ts ?db1 = Inr db2"
      and app1: "app1 = app\<lparr>app_pause_at := None, app_pause_reason := None, app_pause_origin := Po_operator\<rparr>"
      using 1(2) by (auto simp: Let_def)
    then have "keeps ?db1 db2" using k1 keeps_upsert_each by (auto simp: keeps_def)
    then have "keeps db db2" using k1 keeps_trans by blast
    moreover have "app_ok db app1" using 1(1) by (rule app_ok_same) (simp_all add: app1 same_pointers_def same_active_def)
    ultimately show ?case using app_ok_keeps app1 by auto
  qed
next
  case (2 m)
  then show ?case by (simp, elim mutateTarget_keepsE) (auto simp: keeps_refl)
qed

lemma partiallyRolledOut_keeps:
  "partiallyRolledOut i n j e db = Inr (db', r) \<Longrightarrow> db_ok db \<Longrightarrow> keeps db db'"
proof (cases n, goal_cases)
  case 1
  then have "mutateApp i e ''partially_rolled_out'' Ho_committed
      (\<lambda>app d. Inr (app\<lparr>app_partial_json := Some j\<rparr>, d, [])) no_extra db = Inr (db', r)"
    by (simp add: partiallyRolledOut_def)
  then show ?case using 1(2)
    by (elim mutateApp_keepsE) (auto simp: same_pointers_def same_active_def intro!: pure_mutation_ok elim!: app_ok_same)
next
  case (2 m)
  then show ?case by (clarsimp simp: partiallyRolledOut_def, elim mutateTarget_keepsE) (auto simp: keeps_refl)
qed

lemma partialCleared_keeps: "partialCleared i n e db = Inr (db', r) \<Longrightarrow> db_ok db \<Longrightarrow> keeps db db'"
  unfolding partialCleared_def
proof (cases n, goal_cases)
  case 1
  then show ?case
    by (simp, elim mutateApp_keepsE, simp, intro pure_mutation_ok)
      (auto simp: same_pointers_def same_active_def elim!: app_ok_same)
next
  case (2 m)
  then show ?case by (simp, elim mutateTarget_keepsE) (auto simp: keeps_refl)
qed

section \<open>Intents and candidates\<close>

text \<open>A new intent or candidate makes the authority pointers stale until they are cleared.\<close>

abbreviation unplaced :: "gitops_application_row \<Rightarrow> gitops_application_row" where
  "unplaced app \<equiv> app\<lparr>app_placement_approval_ref := None, app_rollout_authorization_ref := None\<rparr>"

lemma clearInlineFreeze_keeps:
  assumes "db_ok db" and "app_ok db (unplaced app)" and "clearInlineFreezePointers app db = Inr (app1, db1)"
  shows "keeps db db1 \<and> same_row app app1 \<and> app_ok db1 (unplaced app1)"
proof -
  obtain ts where u: "upsert_each ts db = Inr db1"
    and app1: "app1 = app\<lparr>app_accepted_generation_id := None, app_artifact_set_id := None,
                app_latest_artifact_set_id := None\<rparr>"
    using assms(3) by (auto simp: clearInlineFreezePointers_def)
  have k: "keeps db db1" by (rule keeps_upsert_each [OF assms(1) u])
  have "app_ok db (unplaced app1)" using assms(2) by (simp add: app1 app_ok_def)
  then show ?thesis using k app_ok_keeps app1 by auto
qed

lemma invalidatePlacement_step:
  assumes "db_ok db" and "app_ok db (unplaced app)"
    and "invalidatePlacementOnMaterialChange app e db = (app1, db1, ids)"
  shows "keeps db db1 \<and> same_row app app1 \<and> app_ok db1 app1"
proof -
  note k = invalidatePlacement_db [OF assms(1,3)]
  obtain rg where app1: "app1 = app\<lparr>app_placement_approval_ref := None, app_rollout_authorization_ref := None,
      app_preflight_fingerprint := None, app_rollout_generation_id := rg\<rparr>"
    using assms(3) by (rule invalidatePlacement_row)
  have "app_ok db app1" using assms(2) by (simp add: app1 app_ok_def)
  then show ?thesis using k app_ok_keeps by (auto simp: app1)
qed

lemma intentRevised_keeps: "intentRevised i intent e db = Inr (db', r) \<Longrightarrow> db_ok db \<Longrightarrow> keeps db db'"
  unfolding intentRevised_def
proof (erule mutateApp_keepsE, assumption, rule app_mutation_okI, goal_cases)
  case (1 app app3 db3 ids)
  let ?app = "app\<lparr>app_intent_revision_id := Some (intent_id intent)\<rparr>"
  obtain db1 app2 db2 c where ins: "insertIntentRevision intent db = Inr db1"
    and fr: "(if app_target_mode ?app = Inline_blueprint \<and> c then clearInlineFreezePointers ?app db1
              else Inr (?app, db1)) = Inr (app2, db2)"
    and inv: "invalidatePlacementOnMaterialChange app2 e db2 = (app3, db3, ids)"
    using 1(3) by (auto simp: Let_def split: prod.splits)
  have k1: "keeps db db1" by (rule keeps_insertIntent [OF 1(1) ins])
  then have ok1: "db_ok db1" by (simp add: keeps_def)
  have "app_ok db (unplaced ?app)" using 1(2) by (simp add: app_ok_def)
  then have a1: "app_ok db1 (unplaced ?app)" using k1 by (rule app_ok_keeps)
  have k2: "keeps db1 db2 \<and> same_row app app2 \<and> app_ok db2 (unplaced app2)"
    using fr clearInlineFreeze_keeps [OF ok1 a1, of app2 db2] a1 keeps_refl [OF ok1] by (auto split: if_splits)
  then have "keeps db2 db3 \<and> same_row app2 app3 \<and> app_ok db3 app3"
    using inv by (intro invalidatePlacement_step) (auto simp: keeps_def)
  then show ?case using k1 k2 keeps_trans by metis
qed

lemma rolloutCandidateOpened_keeps:
  "rolloutCandidateOpened i c e db = Inr (db', r) \<Longrightarrow> db_ok db \<Longrightarrow> keeps db db'"
  unfolding rolloutCandidateOpened_def
proof (erule mutateApp_keepsE, assumption, rule app_mutation_okI, goal_cases)
  case (1 app app1 db2 ids)
  let ?app = "app\<lparr>app_rollout_candidate_id := Some (cand_id c)\<rparr>"
  obtain db1 where ins: "insertRolloutCandidate c db = Inr db1"
    and inv: "invalidatePlacementOnMaterialChange ?app e db1 = (app1, db2, ids)"
    using 1(3) by auto
  have k1: "keeps db db1" by (rule keeps_insertCandidate [OF 1(1) ins])
  have "app_ok db (unplaced ?app)" using 1(2) by (simp add: app_ok_def)
  then have "app_ok db1 (unplaced ?app)" using k1 by (rule app_ok_keeps)
  then have "keeps db1 db2 \<and> same_row ?app app1 \<and> app_ok db2 app1"
    using inv k1 by (intro invalidatePlacement_step) (auto simp: keeps_def)
  then show ?case using k1 keeps_trans by auto
qed

lemma legacyCombinedAppended_keeps:
  "legacyCombinedAppended i a e db = Inr (db', r) \<Longrightarrow> db_ok db \<Longrightarrow> keeps db db'"
  unfolding legacyCombinedAppended_def
proof (erule mutateApp_keepsE, assumption, rule app_mutation_okI, goal_cases)
  case (1 app app1 db1 ids)
  obtain row where ins: "insertApproval row db = Inr db1"
    and app1: "app1 = app\<lparr>app_legacy_combined_approval_ref := Some a\<rparr>"
    using 1(3) by auto
  have "app_ok db app1" using 1(2) by (rule app_ok_same) (simp_all add: app1 same_pointers_def same_active_def)
  then show ?case using keeps_insertApproval [OF 1(1) ins] app_ok_keeps app1 by auto
qed

section \<open>Approval and authorization\<close>

lemma check_candidate_pointers:
  assumes "check_placement_candidate args app db = Inr ()"
  shows "app_intent_revision_id app = Some (pa_intentRevisionId args)"
    and "app_rollout_candidate_id app = Some (pa_candidateId args)"
  using assms by (simp_all add: check_placement_candidate_def)

lemma placementApproved_keeps: "placementApproved args db = Inr (db', r) \<Longrightarrow> db_ok db \<Longrightarrow> keeps db db'"
  unfolding placementApproved_def
proof (erule mutateApp_keepsE, assumption, rule app_mutation_ok_rowI, goal_cases)
  case (1 app app1 db4 ids)
  obtain j b db1 db2 gen db3 f where check: "check_placement_candidate args app db = Inr ()"
    and ins: "insertApproval (placement_approval_row args j b) db = Inr db1"
    and sup: "db2 = snd (supersede_previous app (pa_rolloutGenerationId args) (pa_envelope args) db1)"
    and gen: "insertRolloutGeneration gen db2 = Inr db3" and app1: "app1 = placed_row args app"
    and h: "db4 = snd (history app1 (pa_envelope args) f db3)"
    using 1(4) by (auto simp: Let_def prod.case_eq_if)
  have k1: "keeps db db1" by (rule keeps_insertApproval [OF 1(1) ins])
  have "keeps db1 db2" unfolding sup using k1 by (intro keeps_supersede_previous) (simp add: keeps_def)
  then have "keeps db1 db3" by (rule keeps_chain) (rule keeps_insertRolloutGeneration [OF _ gen])
  then have k14: "keeps db1 db4" unfolding h by (rule keeps_chain) (rule keeps_history)
  then have le: "db_le db1 db4" by (simp add: keeps_def)
  have k: "keeps db db4" by (rule keeps_trans [OF k1 k14])
  have "placed_by db1 (app_id app) (app_intent_revision_id app) (app_rollout_candidate_id app) (pa_approvalId args)"
    using insertApproval_get [OF ins] check_candidate_pointers [OF check] 1(2)
    by (auto simp: placed_by_def placement_approval_row_def authority_of_def split: decided_authority.split)
  note placed_by_mono [OF le this]
  moreover have "app_ok db4 app" using 1(3) k by (rule app_ok_keeps)
  ultimately have "app_ok db4 app1" by (simp add: app1 placed_row_def app_ok_def authority_ok_def)
  then show ?case using k by (auto simp: app1 placed_row_def)
qed

lemma authorizationIngredients_pointers:
  assumes "authorizationIngredients db app = Some b"
  shows "app_intent_revision_id app = Some (bnd_intentRevisionId b)"
    and "app_rollout_candidate_id app = Some (bnd_rolloutCandidateId b)"
    and "app_placement_approval_ref app = Some (bnd_placementApprovalRef b)"
    and "app_accepted_generation_id app = Some (bnd_acceptedGenerationId b)"
    and "app_artifact_set_id app = Some (bnd_artifactSetId b)"
    and "app_source_acceptance_ref app = Some (bnd_sourceAcceptanceRef b)"
  using assms
  by (auto simp: authorizationIngredients_def truthy_str_def split: if_splits option.splits sum.splits)

lemma mint_keeps:
  assumes ok: "db_ok db" and a: "app_ok db app" and m: "mint_authorization args app b db = Inr (app1, db6, ids)"
    and ing: "authorizationIngredients db app = Some b" and i: "app_id app = ra_applicationId args"
  shows "keeps db db6 \<and> same_row app app1 \<and> app_ok db6 app1"
proof -
  obtain db1 db2 j db3 db4 gen db5 lim f where bind: "bindRolloutCandidateSource (bnd_rolloutCandidateId b)
         (bnd_acceptedGenerationId b) (bnd_artifactSetId b) db = Inr db1"
    and db2: "db2 = (if ra_authority args = By_operator
                then snd (recordConfirmedPlacement (ra_applicationId args) (Some (bnd_placementApprovalRef b)) db1)
                else db1)"
    and ins: "insertApproval (authorization_row args b j) db2 = Inr db3"
    and sup: "db4 = snd (supersede_previous app (ra_rolloutGenerationId args) (ra_envelope args) db3)"
    and gen: "insertRolloutGeneration gen db4 = Inr db5"
    and app1: "app1 = (authorized_row args app)\<lparr>app_evidence_limitations_json := lim\<rparr>"
    and h: "db6 = snd (history app1 (ra_envelope args) f db5)"
    using m by (auto simp: mint_authorization_def clearGitManagedRolloutLimitation_def Let_def prod.case_eq_if)
  have "keeps db db1" by (rule keeps_bindCandidate [OF ok bind])
  then have "keeps db db2" unfolding db2 by (rule keeps_chain) (simp add: keeps_record keeps_refl)
  then have k3: "keeps db db3" by (rule keeps_chain) (rule keeps_insertApproval [OF _ ins])
  then have "keeps db3 db4" unfolding sup by (intro keeps_supersede_previous) (simp add: keeps_def)
  then have "keeps db3 db5" by (rule keeps_chain) (rule keeps_insertRolloutGeneration [OF _ gen])
  then have k36: "keeps db3 db6" unfolding h by (rule keeps_chain) (rule keeps_history)
  then have le: "db_le db3 db6" by (simp add: keeps_def)
  have k: "keeps db db6" by (rule keeps_trans [OF k3 k36])
  have "authorized_by db3 (app_id app) (app_intent_revision_id app) (app_rollout_candidate_id app)
      (Some (ra_rolloutGenerationId args)) (app_placement_approval_ref app) (ra_approvalId args)"
    using insertApproval_get [OF ins] authorizationIngredients_pointers [OF ing] i
    by (auto simp: authorized_by_def authorization_row_def authority_of_def split: decided_authority.split)
  note authorized_by_mono [OF le this]
  moreover have "app_ok db6 app" using a k by (rule app_ok_keeps)
  ultimately have "app_ok db6 app1" by (simp add: app1 authorized_row_def app_ok_def authority_ok_def)
  then show ?thesis using k by (auto simp: app1 authorized_row_def)
qed

lemma rolloutAuthorized_keeps: "rolloutAuthorized args db = Inr (db', r) \<Longrightarrow> db_ok db \<Longrightarrow> keeps db db'"
  unfolding rolloutAuthorized_def
proof (erule mutateApp_keepsE, assumption, rule app_mutation_ok_rowI, goal_cases)
  case (1 app app1 db1 ids)
  then obtain b where "authorizationIngredients db app = Some b"
    and "mint_authorization args app b db = Inr (app1, db1, ids)"
    by (auto split: option.splits)
  then show ?case using mint_keeps 1 by blast
qed

lemma rolloutSuperseded_keeps: "rolloutSuperseded i e db = Inr (db', r) \<Longrightarrow> db_ok db \<Longrightarrow> keeps db db'"
  unfolding rolloutSuperseded_def Let_def
proof (erule mutateApp_keepsE, assumption, rule app_mutation_okI, goal_cases)
  case (1 app app1 db1 ids)
  obtain g where db1: "db1 = markRolloutGenerationWithdrawn g (ev_at e)
        (markRolloutGenerationSuperseded g (ev_at e) db)"
    and app1: "app1 = app\<lparr>app_rollout_authorization_ref := None, app_preflight_fingerprint := None\<rparr>"
    using 1(3) by (auto split: option.splits)
  have k: "keeps db db1" unfolding db1
    by (rule keeps_chain [OF keeps_markSuperseded [OF 1(1)] keeps_markWithdrawn])
  have "app_ok db app1" using 1(2) by (rule app_ok_same) (simp_all add: app1 same_pointers_def same_active_def)
  then show ?case using k app_ok_keeps by (auto simp: app1)
qed

lemma recordPreflightEvaluation_keeps:
  "recordPreflightEvaluation i j t db = Inr db' \<Longrightarrow> db_ok db \<Longrightarrow> keeps db db'"
  by (auto simp: recordPreflightEvaluation_def same_pointers_def same_active_def keeps_refl
      split: option.splits if_splits intro: keeps_app_write)

lemma set_limitation_keeps: "set_limitation c i d t db = Inr db' \<Longrightarrow> db_ok db \<Longrightarrow> keeps db db'"
  by (auto simp: set_limitation_def same_pointers_def same_active_def split: option.splits
      intro: keeps_app_write)

lemma invalidateAuthorizationOnPreflightDrift_keeps:
  assumes run: "invalidateAuthorizationOnPreflightDrift i e db = Inr (db', r)" and ok: "db_ok db"
  shows "keeps db db'"
proof -
  obtain app0 where app0: "getApplication db i = Some app0"
    using run by (auto simp: invalidateAuthorizationOnPreflightDrift_def split: option.splits)
  obtain app1 db1 where db': "db' = db \<or> db' = writeApplication (stamp_app e app1) db1"
    and k1: "keeps db db1" and row: "same_pointers app0 app1 \<and> same_active app0 app1"
  proof -
    let ?a = "app0\<lparr>app_rollout_authorization_ref := None, app_preflight_fingerprint := None\<rparr>"
    have k: "keeps db (snd (recordRolloutGenerationSuperseded ?a g None e db))" for g
      using keeps_superseded [OF ok] .
    have s: "same_pointers app0 ?a \<and> same_active app0 ?a"
      "same_pointers app0 (?a\<lparr>app_rollout_generation_id := None\<rparr>) \<and> same_active app0 (?a\<lparr>app_rollout_generation_id := None\<rparr>)"
      by (simp_all add: same_pointers_def same_active_def)
    have "\<exists>app1 db1. (db' = db \<or> db' = writeApplication (stamp_app e app1) db1) \<and> keeps db db1
        \<and> same_pointers app0 app1 \<and> same_active app0 app1"
      using run app0
      by (simp add: invalidateAuthorizationOnPreflightDrift_def Let_def prod.case_eq_if
          split: option.splits if_splits) (use s k keeps_refl [OF ok] in blast)+
    then show ?thesis using that by blast
  qed
  have "app_ok db app1" using getApplication_ok [OF ok app0] row by (blast intro: app_ok_same)
  then have "app_ok db1 (stamp_app e app1)" using k1 app_ok_keeps by simp
  moreover have "same_row app0 (stamp_app e app1)" using row by (simp add: same_pointers_def)
  ultimately have "keeps db (writeApplication (stamp_app e app1) db1)"
    by (intro keeps_write [OF ok app0 _ k1])
  then show ?thesis using db' keeps_refl [OF ok] by blast
qed

end
