(* ===== verification/Recovery_Transitions.thy ===== *)
theory Recovery_Transitions
  imports Rollout_Transitions
begin

text \<open>
  Restoring a workload (\<^verbatim>\<open>gitops/transitions.ts\<close>): the rollout rollbacks, the Direct recoveries, and the
  application-wide recovery stamp they derive from the live targets.
\<close>

section \<open>The application-wide stamp\<close>

text \<open>The rows a caller mutated and has not written yet override the stored ones.\<close>

definition live_targets ::
    "gitops_db \<Rightarrow> string \<Rightarrow> gitops_target_current_row list \<Rightarrow> gitops_target_current_row list" where
  "live_targets db applicationId overrides =
     filter (\<lambda>row. tgt_target_status row \<noteq> Ts_tombstoned
         \<and> tgt_node_id row \<notin> set (map tgt_node_id overrides)) (listTargets db applicationId)
       @ filter (\<lambda>row. tgt_target_status row \<noteq> Ts_tombstoned) overrides"

definition deriveApplicationRecovery ::
    "gitops_db \<Rightarrow> int \<Rightarrow> gitops_target_current_row list \<Rightarrow> gitops_application_row \<Rightarrow> gitops_application_row" where
  "deriveApplicationRecovery db now overrides app =
     (let live = live_targets db (app_id app) overrides
      in if \<exists>row \<in> set live. targetRestoreInFlight row then app
         else
           (case find recoveryClaimMoved live of
              Some surviving \<Rightarrow>
                app\<lparr>app_recovery_phase := Some Rp_failed,
                    app_recovery_ref := nullish_opt (tgt_recovery_ref surviving) (app_recovery_ref app),
                    app_failure_stage := Some Af_recovery,
                    app_failure_class := Some (nullish (recoveryFailureClaimClass surviving) ''partial''),
                    app_failure_at := Some (nullish (recoveryFailureClaimAt surviving) now)\<rparr>
            | None \<Rightarrow>
                clearAppFailure [Af_recovery]
                  (if \<exists>row \<in> set live. tgt_recovery_phase row = Some Rp_complete
                   then app\<lparr>app_recovery_phase := Some Rp_complete\<rparr>
                   else app\<lparr>app_recovery_phase := None, app_recovery_ref := None\<rparr>)))"

definition settleRefusedRollback ::
    "string \<Rightarrow> gitops_target_current_row list \<Rightarrow> event_envelope \<Rightarrow> gitops_db \<Rightarrow> gitops_db res" where
  "settleRefusedRollback applicationId overrides envelope db =
     withApplication applicationId envelope (deriveApplicationRecovery db (ev_at envelope) overrides) db"

definition reviveTarget ::
    "string \<Rightarrow> event_envelope \<Rightarrow> gitops_target_current_row \<Rightarrow> gitops_db
      \<Rightarrow> (gitops_target_current_row \<times> gitops_db) res" where
  "reviveTarget applicationId envelope target db =
     bind_res (retireNonMovingRecoveryClaim applicationId envelope
         (target\<lparr>tgt_target_status := Ts_active\<rparr>) db) (\<lambda>(target1, db1).
       if recoveryClaimMoved target1
       then bind_res (settleRefusedRollback applicationId [target1] envelope db1) (\<lambda>db2. Inr (target1, db2))
       else Inr (target1, db1))"

section \<open>Rollout rollbacks\<close>

definition recovery_phase_text :: "recovery_phase \<Rightarrow> string" where
  "recovery_phase_text p =
     (case p of Rp_capturing \<Rightarrow> ''capturing'' | Rp_restoring \<Rightarrow> ''restoring''
      | Rp_compensating \<Rightarrow> ''compensating'' | Rp_complete \<Rightarrow> ''complete'' | Rp_failed \<Rightarrow> ''failed'')"

definition target_failure_text :: "target_failure_stage \<Rightarrow> string" where
  "target_failure_text s =
     (case s of Tf_deploy \<Rightarrow> ''deploy'' | Tf_recovery \<Rightarrow> ''recovery''
      | Tf_blueprint_deploy \<Rightarrow> ''blueprint_deploy'' | Tf_blueprint_withdraw \<Rightarrow> ''blueprint_withdraw'')"

definition opt_str :: "string option \<Rightarrow> json" where
  "opt_str = nullable_json JStr"

definition restoring_app :: "string \<Rightarrow> gitops_application_row \<Rightarrow> gitops_application_row" where
  "restoring_app recoveryRef app =
     app\<lparr>app_recovery_phase := Some Rp_restoring, app_recovery_ref := Some recoveryRef\<rparr>"

definition open_restore ::
    "string \<Rightarrow> string option \<Rightarrow> gitops_target_current_row \<Rightarrow> gitops_target_current_row" where
  "open_restore recoveryRef recoveryGenerationId target =
     target\<lparr>tgt_recovery_phase := Some Rp_restoring, tgt_recovery_ref := Some recoveryRef,
            tgt_recovery_generation_id := recoveryGenerationId\<rparr>"

definition mark_restore ::
    "event_envelope \<Rightarrow> string option \<Rightarrow> gitops_target_current_row \<Rightarrow> gitops_target_current_row" where
  "mark_restore envelope recoveryGenerationId target =
     target\<lparr>tgt_active_operation_id := Some (ev_operationId envelope),
            tgt_active_operation_stage := Some Tst_recovery_started,
            tgt_active_operation_at := Some (ev_at envelope),
            tgt_active_generation_id := recoveryGenerationId\<rparr>"

definition rollbackInProgress ::
    "string \<Rightarrow> int option \<Rightarrow> string \<Rightarrow> string option \<Rightarrow> event_envelope \<Rightarrow> gitops_db
      \<Rightarrow> (gitops_db \<times> transition_result) res" where
  "rollbackInProgress applicationId nodeId recoveryRef recoveryGenerationId envelope =
     (case nodeId of
        None \<Rightarrow>
          mutateApp applicationId envelope ''rollback_in_progress'' Ho_committed (\<lambda>app db.
            require_res (app_lifecycle_status app = Lc_active) (terr ''application is not live'')
              (Inr (restoring_app recoveryRef app, db, []))) no_extra
      | Some n \<Rightarrow>
          mutateTarget applicationId n envelope ''rollback_in_progress'' recoveryGenerationId (\<lambda>target _ db.
            require_res (tgt_target_status target = Ts_active) (terr ''cannot roll back a tombstoned target'')
             (require_res (\<not> targetRestoreInFlight target)
               (terr ''a rollback is already in progress on this target'')
               (let target1 = open_restore recoveryRef recoveryGenerationId target;
                    target2 = (if tgt_active_operation_stage target1 = None
                               then mark_restore envelope recoveryGenerationId target1 else target1)
                in bind_res (withApplication applicationId envelope (restoring_app recoveryRef) db) (\<lambda>db1.
                     Inr (target2, db1,
                       [(''recoveryPhase'', nullable_json (\<lambda>p. JStr (recovery_phase_text p))
                           (tgt_recovery_phase target))],
                       [(''recoveryPhase'', JStr ''restoring''), (''recoveryRef'', JStr recoveryRef)])))))
            Ho_committed no_options)"

datatype rollback_failure_class = Rf_pre_mutation | Rf_post_mutation | Rf_partial

definition rollback_failure_text :: "rollback_failure_class \<Rightarrow> string" where
  "rollback_failure_text c =
     (case c of Rf_pre_mutation \<Rightarrow> ''pre_mutation'' | Rf_post_mutation \<Rightarrow> ''post_mutation''
      | Rf_partial \<Rightarrow> ''partial'')"

definition applyFailure ::
    "string \<Rightarrow> string \<Rightarrow> int \<Rightarrow> gitops_target_current_row \<Rightarrow> gitops_target_current_row" where
  "applyFailure recoveryRef failureClass now row =
     row\<lparr>tgt_recovery_phase := Some Rp_failed, tgt_recovery_ref := Some recoveryRef,
         tgt_failure_stage := Some Tf_recovery, tgt_failure_class := Some failureClass,
         tgt_failure_at := Some now, tgt_recovery_failure_class := Some failureClass,
         tgt_recovery_failure_at := Some now\<rparr>"

definition failed_rollback_row ::
    "string \<Rightarrow> rollback_failure_class \<Rightarrow> int \<Rightarrow> gitops_target_current_row \<Rightarrow> gitops_target_current_row" where
  "failed_rollback_row recoveryRef failureClass now target =
     (let target1 = (if failureClass = Rf_pre_mutation \<and> recoveryClaimMoved target
                     then target\<lparr>tgt_recovery_phase := Some Rp_failed\<rparr>
                     else applyFailure recoveryRef (rollback_failure_text failureClass) now target);
          target2 = (if tgt_active_operation_stage target1 = Some Tst_recovery_started
                     then clearTargetActive target1 else target1)
      in clearTargetInterruption (Some Tst_recovery_started) target2)"

text \<open>After the target's transaction the application is derived again from the row it wrote; a refusal
  derives inside the transaction instead.\<close>

definition fail_rollback ::
    "string \<Rightarrow> string \<Rightarrow> rollback_failure_class \<Rightarrow> event_envelope \<Rightarrow> target_mutation" where
  "fail_rollback applicationId recoveryRef failureClass envelope target app db =
     (let target1 = failed_rollback_row recoveryRef failureClass (ev_at envelope) target
      in bind_res (if failureClass = Rf_pre_mutation
                   then settleRefusedRollback applicationId [target1] envelope db else Inr db) (\<lambda>db1.
           Inr (target1, db1,
             [(''recoveryPhase'', nullable_json (\<lambda>p. JStr (recovery_phase_text p)) (tgt_recovery_phase target)),
              (''failureStage'', nullable_json (\<lambda>s. JStr (target_failure_text s)) (tgt_failure_stage target)),
              (''recoveryFailureClass'', opt_str (tgt_recovery_failure_class target))],
             [(''recoveryPhase'', JStr ''failed''),
              (''failureClass'', opt_str (tgt_failure_class target1))])))"

definition rollbackPartialFailed ::
    "string \<Rightarrow> int option \<Rightarrow> string \<Rightarrow> rollback_failure_class \<Rightarrow> event_envelope \<Rightarrow> gitops_db
      \<Rightarrow> (gitops_db \<times> transition_result) res" where
  "rollbackPartialFailed applicationId nodeId recoveryRef failureClass envelope db =
     (case nodeId of
        None \<Rightarrow>
          mutateApp applicationId envelope ''rollback_partial_failed'' Ho_failed (\<lambda>app d.
            Inr (deriveApplicationRecovery d (ev_at envelope) [] app, d, [])) no_extra db
      | Some n \<Rightarrow>
          bind_res (mutateTarget applicationId n envelope ''rollback_partial_failed'' None
            (fail_rollback applicationId recoveryRef failureClass envelope)
            Ho_failed no_options db) (\<lambda>(db1, result).
          if failureClass = Rf_pre_mutation then Inr (db1, result)
          else
            (case getTarget db1 applicationId n of
               None \<Rightarrow> Inr (db1, result)
             | Some failedRow \<Rightarrow>
                 bind_res (settleRefusedRollback applicationId [failedRow] envelope db1)
                   (\<lambda>db2. Inr (db2, result)))))"

text \<open>The retries of a settlement: one that throws is logged and leaves its target as it was.\<close>

fun retry_failures ::
    "string \<Rightarrow> string \<Rightarrow> event_envelope \<Rightarrow> (int \<times> rollback_failure_class) list \<Rightarrow> gitops_db \<Rightarrow> gitops_db" where
  "retry_failures applicationId recoveryRef envelope [] db = db"
| "retry_failures applicationId recoveryRef envelope ((n, c) # targets) db =
     retry_failures applicationId recoveryRef envelope targets
       (case rollbackPartialFailed applicationId (Some n) recoveryRef c envelope db of
          Inr (db1, _) \<Rightarrow> db1
        | Inl _ \<Rightarrow> db)"

definition intended_row ::
    "string \<Rightarrow> string \<Rightarrow> int \<Rightarrow> gitops_db \<Rightarrow> int \<times> rollback_failure_class \<Rightarrow> gitops_target_current_row option" where
  "intended_row applicationId recoveryRef now db target =
     map_option (\<lambda>row.
         if snd target = Rf_pre_mutation \<and> recoveryClaimMoved row
         then row\<lparr>tgt_recovery_phase := Some Rp_failed\<rparr>
         else applyFailure recoveryRef (rollback_failure_text (snd target)) now row)
       (getTarget db applicationId (fst target))"

definition rollbackRefusalSettled ::
    "string \<Rightarrow> (int \<times> rollback_failure_class) list \<Rightarrow> string \<Rightarrow> event_envelope \<Rightarrow> gitops_db
      \<Rightarrow> (gitops_db \<times> transition_result) res" where
  "rollbackRefusalSettled applicationId targets recoveryRef envelope db =
     (let db1 = retry_failures applicationId recoveryRef envelope targets db;
          intended = List.map_filter (intended_row applicationId recoveryRef (ev_at envelope) db1) targets
      in mutateApp applicationId envelope ''rollback_refusal_settled'' Ho_committed (\<lambda>app d.
           Inr (deriveApplicationRecovery d (ev_at envelope) intended app, d, [])) no_extra db1)"

section \<open>What a restore puts back\<close>

definition noteTargetLimitation ::
    "string \<Rightarrow> string option \<Rightarrow> gitops_target_current_row \<Rightarrow> gitops_target_current_row res" where
  "noteTargetLimitation code detail target =
     bind_res (decodeGitOpsEvidenceLimitations (tgt_evidence_limitations_json target)) (\<lambda>existing.
     bind_res (encodeGitOpsEvidenceLimitations existing code
         (map_option (\<lambda>d. (code, Some d)) detail)) (\<lambda>encoded.
       Inr (target\<lparr>tgt_evidence_limitations_json := encoded\<rparr>)))"

definition restoreArtifactPointers ::
    "gitops_db \<Rightarrow> string \<Rightarrow> string option \<Rightarrow> gitops_target_current_row \<Rightarrow> gitops_target_current_row res" where
  "restoreArtifactPointers db generationId capturedArtifactSetId target =
     (let captured = (if truthy_str capturedArtifactSetId
                      then getArtifactSet db (the capturedArtifactSetId) else None);
          usable = (case captured of None \<Rightarrow> False | Some a \<Rightarrow> art_generation_id a = generationId);
          expected = (if usable then map_option art_id captured else None)
      in bind_res (noteTargetLimitation ''artifact_expectation_unprovable''
            (if truthy_str capturedArtifactSetId \<and> \<not> usable then capturedArtifactSetId else None)
            (target\<lparr>tgt_expected_artifact_set_id := expected\<rparr>)) (\<lambda>target1.
          Inr (target1\<lparr>tgt_latest_artifact_set_id :=
            nullish_opt (newestArtifactSetIdForGeneration db generationId)
              (tgt_expected_artifact_set_id target1)\<rparr>)))"

definition restoreLastKnownGood ::
    "gitops_db \<Rightarrow> string \<Rightarrow> int \<Rightarrow> gitops_target_current_row \<Rightarrow> gitops_target_current_row res" where
  "restoreLastKnownGood db applicationId now target =
     (if \<not> truthy_str (tgt_lkg_generation_id target) then Inr target
      else
        (let reason = (case getGeneration db (the (tgt_lkg_generation_id target)) of
               None \<Rightarrow> Some Lu_generation_missing
             | Some lkg \<Rightarrow> (if gen_application_id lkg \<noteq> applicationId
                             then Some Lu_recovery_unretainable else None))
         in if reason \<noteq> None
            then Inr (target\<lparr>tgt_lkg_generation_id := None, tgt_lkg_artifact_set_id := None,
                             tgt_lkg_unavailable_at := Some now, tgt_lkg_unavailable_reason := reason\<rparr>)
            else if \<not> truthy_str (tgt_lkg_artifact_set_id target) then Inr target
            else
              (case getArtifactSet db (the (tgt_lkg_artifact_set_id target)) of
                 Some artifact \<Rightarrow>
                   (if Some (art_generation_id artifact) = tgt_lkg_generation_id target then Inr target
                    else bind_res (noteTargetLimitation ''lkg_artifact_unprovable''
                           (tgt_lkg_artifact_set_id target) target) (\<lambda>target1.
                         Inr (target1\<lparr>tgt_lkg_artifact_set_id := None\<rparr>)))
               | None \<Rightarrow>
                   bind_res (noteTargetLimitation ''lkg_artifact_unprovable''
                       (tgt_lkg_artifact_set_id target) target) (\<lambda>target1.
                     Inr (target1\<lparr>tgt_lkg_artifact_set_id := None\<rparr>)))))"

definition restoreSourceAcceptance ::
    "gitops_db \<Rightarrow> string \<Rightarrow> string \<Rightarrow> string option \<Rightarrow> gitops_target_current_row \<Rightarrow> gitops_target_current_row res" where
  "restoreSourceAcceptance db applicationId generationId capturedRef target =
     (if \<not> truthy_str capturedRef
      then noteTargetLimitation ''source_acceptance_unprovable'' None (target\<lparr>tgt_source_acceptance_ref := None\<rparr>)
      else
        (let resolved = resolveApprovalRef db (the capturedRef)
               (Expect_source_acceptance applicationId generationId) \<noteq> None
         in noteTargetLimitation ''source_acceptance_unprovable'' (if resolved then None else capturedRef)
              (target\<lparr>tgt_source_acceptance_ref := (if resolved then capturedRef else None)\<rparr>)))"

definition restore_pointers ::
    "gitops_db \<Rightarrow> string \<Rightarrow> string \<Rightarrow> string option \<Rightarrow> string option \<Rightarrow> int \<Rightarrow> gitops_target_current_row
      \<Rightarrow> gitops_target_current_row res" where
  "restore_pointers db applicationId restored capturedArtifactSetId capturedSourceAcceptanceRef now target =
     bind_res (restoreArtifactPointers db restored capturedArtifactSetId target) (\<lambda>target1.
     bind_res (restoreLastKnownGood db applicationId now target1)
       (restoreSourceAcceptance db applicationId restored capturedSourceAcceptanceRef))"

section \<open>Completion\<close>

definition complete_restore :: "gitops_target_current_row \<Rightarrow> gitops_target_current_row" where
  "complete_restore target =
     (let target1 = (clearTargetInterruption (Some Tst_recovery_started) (clearTargetActive target))
            \<lparr>tgt_recovery_phase := Some Rp_complete, tgt_recovery_failure_class := None,
             tgt_recovery_failure_at := None\<rparr>
      in if tgt_failure_stage target1 = Some Tf_recovery then clear_failure_slot target1 else target1)"

definition restored_before :: "gitops_target_current_row \<Rightarrow> (string \<times> json) list" where
  "restored_before target =
     [(''desiredGenerationId'', opt_str (tgt_desired_generation_id target)),
      (''deployedGenerationId'', opt_str (tgt_deployed_generation_id target)),
      (''healthyGenerationId'', opt_str (tgt_healthy_generation_id target))]"

definition rollbackCompleted ::
    "string \<Rightarrow> int \<Rightarrow> string \<Rightarrow> string \<Rightarrow> string option \<Rightarrow> string option \<Rightarrow> event_envelope \<Rightarrow> gitops_db
      \<Rightarrow> (gitops_db \<times> transition_result) res" where
  "rollbackCompleted applicationId nodeId recoveryRef recoveryGenerationId capturedArtifactSetId
      capturedSourceAcceptanceRef envelope =
     mutateTarget applicationId nodeId envelope ''rollback_completed'' (Some recoveryGenerationId) (\<lambda>target _ db.
       require_res (truthy_str (tgt_recovery_generation_id target))
         (terr ''rollback_completed requires a bound recovery generation'')
        (let restored = the (tgt_recovery_generation_id target)
         in require_res (case getGeneration db restored of
                None \<Rightarrow> False | Some g \<Rightarrow> gen_application_id g = applicationId)
              (terr ''rollback_completed names a generation this application does not own'')
             (let target1 = (complete_restore target)\<lparr>tgt_recovery_ref := Some recoveryRef\<rparr>
              in bind_res (settleRefusedRollback applicationId [target1] envelope db) (\<lambda>db1.
                 bind_res (restore_pointers db1 applicationId restored capturedArtifactSetId
                     capturedSourceAcceptanceRef (ev_at envelope)
                     (target1\<lparr>tgt_desired_generation_id := Some restored,
                              tgt_applied_generation_id := Some restored,
                              tgt_healthy_generation_id := None,
                              tgt_health_stop_reason := Some Hs_rollback_completed\<rparr>)) (\<lambda>target2.
                   Inr (target2, db1, restored_before target,
                     [(''desiredGenerationId'', JStr restored),
                      (''deployedGenerationId'', opt_str (tgt_deployed_generation_id target2)),
                      (''healthyGenerationId'', JNull)]))))))
       Ho_recovered no_options"

section \<open>Direct recovery\<close>

definition recoveryStarted ::
    "string \<Rightarrow> int \<Rightarrow> string \<Rightarrow> string option \<Rightarrow> event_envelope \<Rightarrow> gitops_db
      \<Rightarrow> (gitops_db \<times> transition_result) res" where
  "recoveryStarted applicationId nodeId recoveryRef recoveryGenerationId envelope =
     mutateTarget applicationId nodeId envelope ''recovery_started'' recoveryGenerationId (\<lambda>target _ db.
       require_res (tgt_target_status target = Ts_active) (terr ''cannot recover a tombstoned target'')
        (require_res (\<not> targetRestoreInFlight target)
          (terr ''a recovery is already in progress on this target'')
          (bind_res (withApplication applicationId envelope (restoring_app recoveryRef) db) (\<lambda>db1.
             Inr (mark_restore envelope recoveryGenerationId
                    (open_restore recoveryRef recoveryGenerationId target), db1,
               [(''recoveryPhase'', nullable_json (\<lambda>p. JStr (recovery_phase_text p)) (tgt_recovery_phase target))],
               [(''recoveryPhase'', JStr ''restoring''), (''recoveryRef'', JStr recoveryRef)])))))
       Ho_committed no_options"

datatype gitops_binding = Gb_bound | Gb_unbound | Gb_not_applicable | Gb_service_only

text \<open>Reserving a health run is the health gate's; it reads and writes the run table only.\<close>

datatype reservation_outcome = Ro_reserved | Ro_replayed | Ro_disabled

type_synonym health_run_reservation = "reservation_outcome \<times> string option"

type_synonym reserve_health_run =
  "string \<Rightarrow> health_gate_run_row list \<Rightarrow> health_run_reservation \<times> health_gate_run_row list"

record recovery_success_args =
  rs_applicationId :: string
  rs_nodeId :: int
  rs_recoveryRef :: string
  rs_recoveryGenerationId :: "string option"
  rs_proven :: bool
  rs_gitopsBinding :: gitops_binding
  rs_capturedArtifactSetId :: "string option"
  rs_capturedSourceAcceptanceRef :: "string option"
  rs_envelope :: event_envelope

definition recovery_provable :: "recovery_success_args \<Rightarrow> gitops_db \<Rightarrow> bool" where
  "recovery_provable args db =
     (rs_proven args \<and> truthy_str (rs_recoveryGenerationId args)
      \<and> (case getGeneration db (the (rs_recoveryGenerationId args)) of
           None \<Rightarrow> False | Some g \<Rightarrow> gen_application_id g = rs_applicationId args))"

definition reserve_run :: "reserve_health_run option \<Rightarrow> string \<Rightarrow> gitops_db \<Rightarrow> gitops_db" where
  "reserve_run reserveHealthRun g db =
     (case reserveHealthRun of
        None \<Rightarrow> db
      | Some f \<Rightarrow> db\<lparr>db_health_runs := snd (f g (db_health_runs db))\<rparr>)"

definition recoverySucceeded ::
    "recovery_success_args \<Rightarrow> reserve_health_run option \<Rightarrow> gitops_db \<Rightarrow> (gitops_db \<times> transition_result) res" where
  "recoverySucceeded args reserveHealthRun =
     mutateTarget (rs_applicationId args) (rs_nodeId args) (rs_envelope args) ''recovery_succeeded''
       (rs_recoveryGenerationId args) (\<lambda>target _ db.
       let target1 = complete_restore target
       in bind_res (settleRefusedRollback (rs_applicationId args) [target1] (rs_envelope args) db) (\<lambda>db1.
          if \<not> recovery_provable args db1
          then bind_res (noteTargetLimitation ''recovery_unproven''
                   (Some (nullish (rs_recoveryGenerationId args) (rs_recoveryRef args))) target1) (\<lambda>target2.
                 Inr (target2, db1, restored_before target,
                   restored_before target @ [(''proven'', JBool False)]))
          else
            (let restored = the (rs_recoveryGenerationId args)
             in bind_res (noteTargetLimitation ''recovery_unproven'' None target1) (\<lambda>target2.
                let target3 = target2\<lparr>tgt_desired_generation_id := Some restored,
                        tgt_applied_generation_id := Some restored,
                        tgt_deployed_generation_id :=
                          (if rs_gitopsBinding args = Gb_bound then Some restored
                           else tgt_deployed_generation_id target2),
                        tgt_healthy_generation_id := None\<rparr>
                in bind_res (restore_pointers db1 (rs_applicationId args) restored
                     (rs_capturedArtifactSetId args) (rs_capturedSourceAcceptanceRef args)
                     (ev_at (rs_envelope args)) target3) (\<lambda>target4.
                   Inr (target4,
                     if rs_gitopsBinding args = Gb_bound then reserve_run reserveHealthRun restored db1 else db1,
                     restored_before target,
                     [(''desiredGenerationId'', JStr restored),
                      (''deployedGenerationId'', opt_str (tgt_deployed_generation_id target4)),
                      (''healthyGenerationId'', JNull), (''proven'', JBool True)]))))))
       Ho_recovered no_options"

text \<open>The reservation reported beside the result.\<close>

definition recovery_reservation ::
    "recovery_success_args \<Rightarrow> reserve_health_run option \<Rightarrow> gitops_db \<Rightarrow> health_run_reservation option" where
  "recovery_reservation args reserveHealthRun db =
     (if recovery_provable args db \<and> rs_gitopsBinding args = Gb_bound
      then map_option (\<lambda>f. fst (f (the (rs_recoveryGenerationId args)) (db_health_runs db))) reserveHealthRun
      else None)"

definition failed_recovery_app :: "string \<Rightarrow> string \<Rightarrow> int \<Rightarrow> gitops_application_row \<Rightarrow> gitops_application_row" where
  "failed_recovery_app recoveryRef failureClass now app =
     app\<lparr>app_recovery_phase := Some Rp_failed, app_recovery_ref := Some recoveryRef,
         app_failure_stage := Some Af_recovery, app_failure_class := Some failureClass,
         app_failure_at := Some now\<rparr>"

definition recoveryFailed ::
    "string \<Rightarrow> int \<Rightarrow> string \<Rightarrow> deploy_failure_class \<Rightarrow> event_envelope \<Rightarrow> gitops_db
      \<Rightarrow> (gitops_db \<times> transition_result) res" where
  "recoveryFailed applicationId nodeId recoveryRef failureClass envelope =
     mutateTarget applicationId nodeId envelope ''recovery_failed'' None (\<lambda>target _ db.
       let target1 = applyFailure recoveryRef (deploy_failure_text failureClass) (ev_at envelope)
             (clearTargetInterruption (Some Tst_recovery_started) (clearTargetActive target))
       in bind_res (withApplication applicationId envelope
             (failed_recovery_app recoveryRef (deploy_failure_text failureClass) (ev_at envelope)) db) (\<lambda>db1.
            Inr (target1, db1,
              [(''recoveryPhase'', nullable_json (\<lambda>p. JStr (recovery_phase_text p)) (tgt_recovery_phase target))],
              [(''recoveryPhase'', JStr ''failed''), (''failureClass'', JStr (deploy_failure_text failureClass))])))
       Ho_failed no_options"

end
