(* ===== verification/Blueprint_Transitions.thy ===== *)
theory Blueprint_Transitions
  imports Recovery_Transitions
begin

text \<open>
  Deploying a Blueprint to its nodes (\<^verbatim>\<open>gitops/transitions.ts\<close>): start, acknowledgement, failure, withdrawal,
  the reconciler's observations, and the freeze of an Inline Blueprint's revision.
\<close>

section \<open>Starting a deploy\<close>

text \<open>\<open>pendingHealthRunId\<close> is \<open>None\<close> when the caller did not reserve a run, \<open>Some None\<close> for the deliberate
  clear.\<close>

definition blueprintDeployStarted ::
    "string \<Rightarrow> int \<Rightarrow> string \<Rightarrow> string option \<Rightarrow> string option option \<Rightarrow> event_envelope \<Rightarrow> gitops_db
      \<Rightarrow> (gitops_db \<times> transition_result) res" where
  "blueprintDeployStarted applicationId nodeId intentRevisionId rolloutCandidateId pendingHealthRunId envelope =
     mutateTarget applicationId nodeId envelope ''blueprint_deploy_started'' None (\<lambda>target0 _ db0.
       bind_res (if tgt_target_status target0 \<noteq> Ts_active
                 then reviveTarget applicationId envelope target0 db0 else Inr (target0, db0)) (\<lambda>(target, db).
       require_res (\<not> (tgt_active_operation_stage target \<noteq> None
           \<and> tgt_active_operation_stage target \<noteq> Some Tst_blueprint_deploy_started
           \<and> tgt_active_operation_id target \<noteq> Some (ev_operationId envelope)))
         (terr ''conflicting target operation'')
         (let target1 = clearTargetInterruption (Some Tst_blueprint_deploy_started)
                (target\<lparr>tgt_active_operation_id := Some (ev_operationId envelope),
                        tgt_active_operation_stage := Some Tst_blueprint_deploy_started,
                        tgt_active_operation_at := Some (ev_at envelope),
                        tgt_active_intent_revision_id := Some intentRevisionId,
                        tgt_active_rollout_candidate_id := rolloutCandidateId\<rparr>);
              target2 = (case pendingHealthRunId of
                  None \<Rightarrow> target1 | Some run \<Rightarrow> target1\<lparr>tgt_pending_health_run_id := run\<rparr>)
          in Inr (target2, db,
               [(''activeStage'', nullable_json (\<lambda>s. JStr (target_stage_text s))
                   (tgt_active_operation_stage target0)),
                (''targetStatus'', JStr (target_status_text (tgt_target_status target0)))],
               [(''activeStage'', JStr ''blueprint_deploy_started''),
                (''intentRevisionId'', JStr intentRevisionId), (''targetStatus'', JStr ''active''),
                (''pendingHealthRunId'', opt_str (tgt_pending_health_run_id target2))]))))
       Ho_committed no_options"

section \<open>Acknowledgement\<close>

definition alreadyAckedForThisRollout ::
    "gitops_application_row \<Rightarrow> gitops_target_current_row \<Rightarrow> string \<Rightarrow> string option \<Rightarrow> bool" where
  "alreadyAckedForThisRollout app target intentRevisionId rolloutCandidateId =
     (if app_intent_revision_id app \<noteq> Some intentRevisionId then False
      else if app_rollout_candidate_id app \<noteq> rolloutCandidateId then False
      else
        (let deployStillMarked = tgt_active_operation_stage target \<noteq> None
               \<and> tgt_active_operation_stage target \<noteq> Some Tst_recovery_started
         in app_accepted_generation_id app \<noteq> None
            \<and> tgt_applied_generation_id target = app_accepted_generation_id app
            \<and> tgt_rollout_authorization_ref target = app_rollout_authorization_ref app
            \<and> tgt_rollout_generation_id target = app_rollout_generation_id app
            \<and> \<not> deployStillMarked))"

text \<open>The candidate of the request the terminal event answers, live or interrupted.\<close>

definition matchBlueprintRequest ::
    "gitops_target_current_row \<Rightarrow> target_active_stage \<Rightarrow> string \<Rightarrow> string \<Rightarrow> string option res" where
  "matchBlueprintRequest target expectedStage intentRevisionId what =
     (if tgt_active_operation_stage target = Some expectedStage
         \<and> tgt_active_intent_revision_id target = Some intentRevisionId
      then Inr (tgt_active_rollout_candidate_id target)
      else if tgt_interruption_stage target = Some expectedStage
         \<and> tgt_interruption_intent_revision_id target = Some intentRevisionId
      then Inr (tgt_interruption_rollout_candidate_id target)
      else Inl (terr (''cannot '' @ what @ '' an intent this target was not asked to run'')))"

definition note_recovery_generation ::
    "string option \<Rightarrow> gitops_target_current_row \<Rightarrow> gitops_target_current_row" where
  "note_recovery_generation recoveryGenerationId target =
     (if truthy_str recoveryGenerationId
      then target\<lparr>tgt_recovery_generation_id := recoveryGenerationId\<rparr> else target)"

text \<open>What the acknowledged target takes over from the application.\<close>

definition bind_to_rollout ::
    "gitops_application_row \<Rightarrow> string \<Rightarrow> string option \<Rightarrow> int option \<Rightarrow> gitops_target_current_row
      \<Rightarrow> gitops_target_current_row" where
  "bind_to_rollout app intentRevisionId rolloutCandidateId legacyAppliedRevision target =
     (let target1 = target\<lparr>tgt_intent_revision_id := Some intentRevisionId,
              tgt_rollout_candidate_id := rolloutCandidateId,
              tgt_legacy_applied_revision := legacyAppliedRevision,
              tgt_desired_generation_id := app_accepted_generation_id app,
              tgt_applied_generation_id := app_accepted_generation_id app\<rparr>;
          target2 = (if tgt_expected_artifact_set_id target1 \<noteq> None
                        \<and> tgt_expected_artifact_set_id target1 \<noteq> app_artifact_set_id app
                     then target1\<lparr>tgt_observed_artifact_identity_json := None\<rparr> else target1);
          target3 = target2\<lparr>tgt_expected_artifact_set_id := app_artifact_set_id app,
              tgt_latest_artifact_set_id := app_artifact_set_id app,
              tgt_source_acceptance_ref := app_source_acceptance_ref app,
              tgt_placement_approval_ref := app_placement_approval_ref app,
              tgt_rollout_authorization_ref := app_rollout_authorization_ref app\<rparr>;
          target4 = (if tgt_rollout_generation_id target3 \<noteq> app_rollout_generation_id app
                     then target3\<lparr>tgt_health_attempts := 0, tgt_health_stop_reason := None\<rparr> else target3);
          target5 = target4\<lparr>tgt_rollout_generation_id := app_rollout_generation_id app\<rparr>
      in if tgt_failure_stage target5 = Some Tf_blueprint_deploy
            \<or> tgt_failure_stage target5 = Some Tf_blueprint_withdraw
         then clear_failure_slot target5 else target5)"

definition blueprintAckRecorded ::
    "string \<Rightarrow> int \<Rightarrow> string \<Rightarrow> string option \<Rightarrow> int option \<Rightarrow> string option \<Rightarrow> event_envelope \<Rightarrow> gitops_db
      \<Rightarrow> (gitops_db \<times> transition_result) res" where
  "blueprintAckRecorded applicationId nodeId intentRevisionId rolloutCandidateId legacyAppliedRevision
      recoveryGenerationId envelope =
     mutateTarget applicationId nodeId envelope ''blueprint_ack_recorded'' None (\<lambda>target _ db.
       bind_res (requireApp db applicationId) (\<lambda>app.
       if alreadyAckedForThisRollout app target intentRevisionId rolloutCandidateId
       then Inr (note_recovery_generation recoveryGenerationId target, db, [], [(''alreadyAcked'', JBool True)])
       else
         bind_res (matchBlueprintRequest target Tst_blueprint_deploy_started intentRevisionId ''acknowledge'')
           (\<lambda>requestCandidate.
         require_res (rolloutCandidateId = requestCandidate)
           (terr ''acknowledged candidate is not the one deployed'')
          (let before = [(''intentRevisionId'', opt_str (tgt_intent_revision_id target))];
               target1 = clearTargetInterruption (Some Tst_blueprint_deploy_started)
                 (note_recovery_generation recoveryGenerationId (clearTargetActive target))
           in if app_intent_revision_id app \<noteq> Some intentRevisionId
              then Inr (markInFlightRestore (ev_at envelope)
                      (target1\<lparr>tgt_legacy_applied_revision := legacyAppliedRevision\<rparr>), db,
                    before, [(''supersededAck'', JBool True)])
              else
                bind_res (retireRecoveryClaimOnSuccess applicationId envelope
                    (clearTargetInterruption (Some Tst_recovery_started)
                      (bind_to_rollout app intentRevisionId requestCandidate legacyAppliedRevision target1)) db)
                  (\<lambda>(target2, db1).
                bind_res (clearApplicationRecoveryWhenNoTargetFails applicationId nodeId envelope db1) (\<lambda>db2.
                  Inr (markInFlightRestore (ev_at envelope) target2, db2, before,
                    [(''intentRevisionId'', JStr intentRevisionId)])))))))
       Ho_committed no_options"

section \<open>Freezing an Inline Blueprint\<close>

definition frozen_target ::
    "string \<Rightarrow> string \<Rightarrow> gitops_target_current_row \<Rightarrow> gitops_target_current_row" where
  "frozen_target generationId artifactSetId target =
     target\<lparr>tgt_desired_generation_id := nullish_opt (tgt_desired_generation_id target) (Some generationId),
            tgt_expected_artifact_set_id :=
              nullish_opt (tgt_expected_artifact_set_id target) (Some artifactSetId),
            tgt_latest_artifact_set_id :=
              nullish_opt (tgt_latest_artifact_set_id target) (Some artifactSetId)\<rparr>"

fun freeze_targets ::
    "string \<Rightarrow> string \<Rightarrow> gitops_target_current_row list \<Rightarrow> gitops_db \<Rightarrow> gitops_db res" where
  "freeze_targets generationId artifactSetId [] db = Inr db"
| "freeze_targets generationId artifactSetId (target # targets) db =
     (if tgt_target_status target \<noteq> Ts_active
         \<or> tgt_desired_generation_id target \<noteq> None \<and> tgt_expected_artifact_set_id target \<noteq> None
      then freeze_targets generationId artifactSetId targets db
      else
        (let target1 = frozen_target generationId artifactSetId target
         in require_res (tgt_desired_generation_id target1 = Some generationId)
              (terr ''target desired generation does not match the frozen generation'')
              (bind_res (upsertTarget target1 db) (freeze_targets generationId artifactSetId targets))))"

definition frozen_artifact_set :: "string \<Rightarrow> string \<Rightarrow> raw_json \<Rightarrow> int \<Rightarrow> gitops_artifact_set_row" where
  "frozen_artifact_set artifactSetId generationId evidence now =
     \<lparr>art_id = artifactSetId, art_generation_id = generationId, art_evidence_version = 1,
      art_authoritative = 0, art_qualification = Q_unresolved, art_evidence_json = evidence,
      art_created_at = now\<rparr>"

definition already_frozen :: "gitops_application_row \<Rightarrow> bool" where
  "already_frozen app = (truthy_str (app_accepted_generation_id app) \<and> truthy_str (app_artifact_set_id app))"

definition freeze_revision ::
    "(string \<Rightarrow> string \<Rightarrow> int) \<Rightarrow> gitops_generation_row \<Rightarrow> string \<Rightarrow> event_envelope \<Rightarrow> app_mutation" where
  "freeze_revision lc generation artifactSetId envelope app db =
     (if already_frozen app then Inr (app, db, [])
      else
        require_res (gen_application_id generation = app_id app)
          (terr ''generation does not belong to the application'')
         (require_res (getGeneration db (gen_id generation) = None) (terr ''generation already exists'')
          (require_res (getArtifactSet db artifactSetId = None) (terr ''artifact set already exists'')
            (bind_res (insertGeneration generation db) (\<lambda>db1.
             bind_res (encodeArtifactEvidenceJson lc (AE_unresolved None)) (\<lambda>evidence.
             bind_res (insertArtifactSet lc
                 (frozen_artifact_set artifactSetId (gen_id generation) evidence (ev_at envelope)) db1) (\<lambda>db2.
             bind_res (freeze_targets (gen_id generation) artifactSetId
                 (listTargets db2 (app_id app)) db2) (\<lambda>db3.
               Inr (app\<lparr>app_accepted_generation_id := Some (gen_id generation),
                        app_artifact_set_id := Some artifactSetId,
                        app_latest_artifact_set_id := Some artifactSetId\<rparr>, db3, [])))))))))"

definition inlineRevisionFrozen ::
    "(string \<Rightarrow> string \<Rightarrow> int) \<Rightarrow> string \<Rightarrow> gitops_generation_row \<Rightarrow> string \<Rightarrow> event_envelope \<Rightarrow> gitops_db
      \<Rightarrow> (gitops_db \<times> transition_result) res" where
  "inlineRevisionFrozen lc applicationId generation artifactSetId envelope db =
     (case getApplication db applicationId of
        None \<Rightarrow> Inl (terr ''application not found'')
      | Some existingApp \<Rightarrow>
          require_res (app_target_mode existingApp = Inline_blueprint)
            (terr ''inline freeze requires an inline_blueprint application'')
            (if already_frozen existingApp then Inr (db, result_of [])
             else
               mutateApp applicationId envelope ''inline_revision_frozen'' Ho_committed
                 (freeze_revision lc generation artifactSetId envelope)
                 (no_extra\<lparr>xh_generationId := Some (gen_id generation),
                           xh_artifactSetId := Some artifactSetId\<rparr>) db))"

section \<open>Failure and withdrawal\<close>

definition blueprintDeployFailed ::
    "string \<Rightarrow> int \<Rightarrow> string \<Rightarrow> event_envelope \<Rightarrow> gitops_db \<Rightarrow> (gitops_db \<times> transition_result) res" where
  "blueprintDeployFailed applicationId nodeId failureClass envelope =
     mutateTarget applicationId nodeId envelope ''blueprint_deploy_failed'' None (\<lambda>target _ db.
       bind_res (retireNonMovingRecoveryClaim applicationId envelope
           (clearTargetInterruption (Some Tst_blueprint_deploy_started) (clearTargetActive target)) db)
         (\<lambda>(target1, db1).
           Inr ((markInFlightRestore (ev_at envelope) target1)
                  \<lparr>tgt_failure_stage := Some Tf_blueprint_deploy, tgt_failure_class := Some failureClass,
                   tgt_failure_at := Some (ev_at envelope), tgt_pending_health_run_id := None\<rparr>, db1,
             [(''failureStage'', nullable_json (\<lambda>s. JStr (target_failure_text s)) (tgt_failure_stage target)),
              (''pendingHealthRunId'', opt_str (tgt_pending_health_run_id target))],
             [(''failureStage'', JStr ''blueprint_deploy''), (''failureClass'', JStr failureClass),
              (''pendingHealthRunId'', JNull)])))
       Ho_failed no_options"

definition blueprintWithdrawStarted ::
    "string \<Rightarrow> int \<Rightarrow> string \<Rightarrow> event_envelope \<Rightarrow> gitops_db \<Rightarrow> (gitops_db \<times> transition_result) res" where
  "blueprintWithdrawStarted applicationId nodeId intentRevisionId envelope =
     mutateTarget applicationId nodeId envelope ''blueprint_withdraw_started'' None (\<lambda>target _ db.
       require_res (tgt_target_status target = Ts_active) (terr ''cannot withdraw from a tombstoned target'')
        (require_res (\<not> (tgt_active_operation_stage target \<noteq> None
            \<and> tgt_active_operation_id target \<noteq> Some (ev_operationId envelope)))
          (terr ''conflicting target operation'')
          (Inr (clearTargetInterruption (Some Tst_blueprint_withdraw_started)
                  (target\<lparr>tgt_active_operation_id := Some (ev_operationId envelope),
                          tgt_active_operation_stage := Some Tst_blueprint_withdraw_started,
                          tgt_active_operation_at := Some (ev_at envelope),
                          tgt_active_intent_revision_id := Some intentRevisionId\<rparr>), db,
             [(''activeStage'', nullable_json (\<lambda>s. JStr (target_stage_text s)) (tgt_active_operation_stage target))],
             [(''activeStage'', JStr ''blueprint_withdraw_started'')]))))
       Ho_committed no_options"

definition blueprintWithdrawn ::
    "string \<Rightarrow> int \<Rightarrow> string \<Rightarrow> event_envelope \<Rightarrow> gitops_db \<Rightarrow> (gitops_db \<times> transition_result) res" where
  "blueprintWithdrawn applicationId nodeId intentRevisionId envelope =
     mutateTarget applicationId nodeId envelope ''blueprint_withdrawn'' None (\<lambda>target _ db.
       bind_res (matchBlueprintRequest target Tst_blueprint_withdraw_started intentRevisionId ''withdraw'') (\<lambda>_.
       let target1 = clear_failure_slot ((clearTargetInterruption (Some Tst_blueprint_withdraw_started)
             (clearTargetActive target))\<lparr>tgt_target_status := Ts_tombstoned\<rparr>)
       in bind_res (clearApplicationRecoveryWhenNoTargetFails applicationId nodeId envelope db) (\<lambda>db1.
            Inr (markInFlightRestore (ev_at envelope) target1, db1,
              [(''targetStatus'', JStr (target_status_text (tgt_target_status target)))],
              [(''targetStatus'', JStr ''tombstoned'')]))))
       Ho_committed no_options"

definition blueprintWithdrawFailed ::
    "string \<Rightarrow> int \<Rightarrow> string \<Rightarrow> event_envelope \<Rightarrow> gitops_db \<Rightarrow> (gitops_db \<times> transition_result) res" where
  "blueprintWithdrawFailed applicationId nodeId failureClass envelope =
     mutateTarget applicationId nodeId envelope ''blueprint_withdraw_failed'' None (\<lambda>target _ db.
       bind_res (retireNonMovingRecoveryClaim applicationId envelope
           (clearTargetInterruption (Some Tst_blueprint_withdraw_started) (clearTargetActive target)) db)
         (\<lambda>(target1, db1).
           Inr ((markInFlightRestore (ev_at envelope) target1)
                  \<lparr>tgt_failure_stage := Some Tf_blueprint_withdraw, tgt_failure_class := Some failureClass,
                   tgt_failure_at := Some (ev_at envelope)\<rparr>, db1,
             [(''failureStage'', nullable_json (\<lambda>s. JStr (target_failure_text s)) (tgt_failure_stage target))],
             [(''failureStage'', JStr ''blueprint_withdraw''), (''failureClass'', JStr failureClass)])))
       Ho_failed no_options"

section \<open>Observations\<close>

datatype blueprint_observation_stage =
    Bo_state_review | Bo_evict_blocked | Bo_drifted | Bo_correcting | Bo_repair_held | Bo_drift_cleared

definition observation_text :: "blueprint_observation_stage \<Rightarrow> string" where
  "observation_text s =
     (case s of Bo_state_review \<Rightarrow> ''blueprint_state_review'' | Bo_evict_blocked \<Rightarrow> ''blueprint_evict_blocked''
      | Bo_drifted \<Rightarrow> ''blueprint_drifted'' | Bo_correcting \<Rightarrow> ''blueprint_correcting''
      | Bo_repair_held \<Rightarrow> ''blueprint_repair_held'' | Bo_drift_cleared \<Rightarrow> ''blueprint_drift_cleared'')"

definition blueprintObservation ::
    "string \<Rightarrow> int \<Rightarrow> blueprint_observation_stage \<Rightarrow> event_envelope \<Rightarrow> gitops_db
      \<Rightarrow> (gitops_db \<times> transition_result) res" where
  "blueprintObservation applicationId nodeId stage envelope =
     mutateTarget applicationId nodeId envelope (observation_text stage) None (\<lambda>target _ db.
       bind_res (if tgt_target_status target \<noteq> Ts_active
                 then require_res (stage = Bo_state_review) (terr ''cannot observe a tombstoned target'')
                   (bind_res (reviveTarget applicationId envelope target db) (\<lambda>(target1, db1).
                     Inr (clearTargetInterruption (tgt_interruption_stage target1) target1, db1)))
                 else Inr (target, db)) (\<lambda>(target2, db2).
         Inr (target2, db2,
           [(''latestStage'', opt_str (tgt_latest_stage target)),
            (''targetStatus'', JStr (target_status_text (tgt_target_status target)))],
           [(''observed'', JStr (observation_text stage))])))
       Ho_committed no_options"

end
