(* ===== verification/Health_Transitions.thy ===== *)
theory Health_Transitions
  imports Rollout_Transitions
begin

text \<open>
  Health verdicts on a deployed generation (\<^verbatim>\<open>gitops/transitions.ts\<close>): promotion, demotion, and what a verdict
  of a health-gated rollout does to the queue.
\<close>

section \<open>The gated decision\<close>

definition health_stop_text :: "health_stop_reason \<Rightarrow> string" where
  "health_stop_text r =
     (case r of Hs_health_passed \<Rightarrow> ''health_passed'' | Hs_health_failed \<Rightarrow> ''health_failed''
      | Hs_health_unknown \<Rightarrow> ''health_unknown'' | Hs_health_retried \<Rightarrow> ''health_retried''
      | Hs_health_retry_exhausted \<Rightarrow> ''health_retry_exhausted'' | Hs_rollout_stopped \<Rightarrow> ''rollout_stopped''
      | Hs_rollback_completed \<Rightarrow> ''rollback_completed'' | Hs_rollback_pending \<Rightarrow> ''rollback_pending''
      | Hs_stop_acknowledged \<Rightarrow> ''stop_acknowledged'' | Hs_rollback_unavailable \<Rightarrow> ''rollback_unavailable'')"

definition decision_reason_text :: "health_decision_reason \<Rightarrow> string" where
  "decision_reason_text r = (case r of Hd_fence f \<Rightarrow> health_stop_text f | Hd_policy_observe \<Rightarrow> ''health_policy_observe'')"

definition HOLDS_ROLLOUT :: "health_rollout_action list" where
  "HOLDS_ROLLOUT = [Ha_pause, Ha_stop, Ha_rollback]"

definition hasNotAckedRollout :: "gitops_target_current_row \<Rightarrow> gitops_application_row \<Rightarrow> bool" where
  "hasNotAckedRollout target app = (tgt_rollout_generation_id target \<noteq> app_rollout_generation_id app)"

definition applyHealthGatedDecision ::
    "gitops_target_current_row \<Rightarrow> health_rollout_policy \<Rightarrow> health_verdict
      \<Rightarrow> gitops_target_current_row \<times> health_policy_decision" where
  "applyHealthGatedDecision target0 policy verdict =
     (let decision = decideHealthRolloutAction policy verdict (tgt_health_attempts target0)
            (tgt_recovery_generation_id target0 \<noteq> None);
          target = target0\<lparr>tgt_pending_health_run_id := None\<rparr>
      in if fst decision = Ha_none then (target, decision)
         else
           (let target1 = (if fst decision = Ha_retry
                           then target\<lparr>tgt_health_attempts := tgt_health_attempts target + 1\<rparr> else target);
                target2 = (if fst decision = Ha_advance then target1\<lparr>tgt_health_stop_reason := None\<rparr>
                           else target1\<lparr>tgt_health_stop_reason :=
                             (if fst decision = Ha_rollback then Some Hs_rollback_pending
                              else (case snd decision of Hd_fence f \<Rightarrow> Some f | Hd_policy_observe \<Rightarrow> None))\<rparr>)
            in (target2, decision)))"

section \<open>A verdict\<close>

record health_final_args =
  hz_applicationId :: string
  hz_nodeId :: int
  hz_healthRunId :: string
  hz_healthStatus :: health_verdict
  hz_deployedGenerationId :: "string option"
  hz_targetScope :: health_run_scope
  hz_rollout :: "(string \<times> health_rollout_policy) option"
  hz_envelope :: event_envelope

definition verdict_text :: "health_verdict \<Rightarrow> string" where
  "verdict_text v = (case v of Hv_passed \<Rightarrow> ''passed'' | Hv_failed \<Rightarrow> ''failed'' | Hv_unknown \<Rightarrow> ''unknown'')"

definition unacked_attempt ::
    "health_final_args \<Rightarrow> gitops_target_current_row \<Rightarrow> gitops_application_row \<Rightarrow> bool" where
  "unacked_attempt args target app =
     (case hz_rollout args of
        None \<Rightarrow> False
      | Some (g, _) \<Rightarrow> hasNotAckedRollout target app \<and> app_rollout_generation_id app = Some g)"

definition verdict_attributable ::
    "health_final_args \<Rightarrow> gitops_target_current_row \<Rightarrow> gitops_application_row \<Rightarrow> bool" where
  "verdict_attributable args target app =
     (tgt_target_status target = Ts_active \<and> hz_targetScope args = Hsc_stack
      \<and> truthy_str (hz_deployedGenerationId args)
      \<and> (if unacked_attempt args target app then hz_healthStatus args = Hv_unknown
         else runningGenerationForTarget app (Some target) = hz_deployedGenerationId args))"

text \<open>What becomes of a report: which of the exits of the callback it takes.\<close>

datatype verdict_exit =
    Vr_stale | Vr_superseded_rollout | Vr_superseded_application | Vr_unattributable | Vr_recorded

definition verdict_route ::
    "health_final_args \<Rightarrow> gitops_target_current_row \<Rightarrow> gitops_application_row \<Rightarrow> verdict_exit" where
  "verdict_route args target app =
     (case hz_rollout args of
        None \<Rightarrow> Vr_recorded
      | Some (g, _) \<Rightarrow>
          (if tgt_pending_health_run_id target \<noteq> Some (hz_healthRunId args) then Vr_stale
           else if tgt_rollout_generation_id target \<noteq> Some g \<and> \<not> unacked_attempt args target app
           then Vr_superseded_rollout
           else if app_rollout_generation_id app \<noteq> Some g then Vr_superseded_application
           else if \<not> verdict_attributable args target app then Vr_unattributable
           else Vr_recorded))"

definition releaseSupersededVerdict ::
    "health_final_args \<Rightarrow> gitops_target_current_row \<Rightarrow> bool \<times> gitops_target_current_row" where
  "releaseSupersededVerdict args target =
     (if tgt_pending_health_run_id target \<noteq> Some (hz_healthRunId args) then (False, target)
      else (True, target\<lparr>tgt_pending_health_run_id := None\<rparr>))"

text \<open>An unacked target's hold is written on the application in the same transaction; a refusal of that
  write is dropped.\<close>

definition hold_unacked ::
    "health_final_args \<Rightarrow> health_policy_decision \<Rightarrow> gitops_application_row \<Rightarrow> bool \<Rightarrow> gitops_db \<Rightarrow> gitops_db res" where
  "hold_unacked args decision app unacked db =
     (if unacked \<and> fst decision \<in> set HOLDS_ROLLOUT \<and> app_pause_at app = None
      then (case rolloutPaused (hz_applicationId args) None
                (healthHoldReason (decision_reason_text (snd decision))) (hz_envelope args) Po_health db of
              Inr (db1, _) \<Rightarrow> Inr db1
            | Inl (GitOpsTransitionError _ _) \<Rightarrow> Inr db
            | Inl e \<Rightarrow> Inl e)
      else Inr db)"

definition record_verdict ::
    "health_final_args \<Rightarrow> gitops_target_current_row \<Rightarrow> gitops_target_current_row" where
  "record_verdict args target =
     (if hz_healthStatus args \<noteq> Hv_unknown \<or> tgt_last_health_status target = None
      then target\<lparr>tgt_last_health_status := Some (hz_healthStatus args),
                  tgt_last_health_generation_id := hz_deployedGenerationId args,
                  tgt_last_health_run_id := Some (hz_healthRunId args)\<rparr>
      else target)"

definition promote ::
    "gitops_db \<Rightarrow> string \<Rightarrow> gitops_target_current_row \<Rightarrow> gitops_target_current_row" where
  "promote db generationId target =
     target\<lparr>tgt_healthy_generation_id := Some generationId, tgt_lkg_generation_id := Some generationId,
            tgt_lkg_artifact_set_id :=
              (if truthy_str (tgt_expected_artifact_set_id target)
               then (case getArtifactSet db (the (tgt_expected_artifact_set_id target)) of
                       None \<Rightarrow> None
                     | Some expected \<Rightarrow> (if art_generation_id expected = generationId
                                          then Some (art_id expected) else None))
               else None),
            tgt_lkg_unavailable_at := None, tgt_lkg_unavailable_reason := None\<rparr>"

definition health_before :: "gitops_target_current_row \<Rightarrow> (string \<times> json) list" where
  "health_before target =
     [(''healthyGenerationId'', nullable_json JStr (tgt_healthy_generation_id target)),
      (''lkgGenerationId'', nullable_json JStr (tgt_lkg_generation_id target))]"

text \<open>Recording, then promoting or demoting, once the queue part is done.\<close>

definition settle_verdict ::
    "health_final_args \<Rightarrow> bool \<Rightarrow> (string \<times> json) list \<Rightarrow> gitops_target_current_row \<Rightarrow> gitops_db
      \<Rightarrow> gitops_target_current_row \<times> gitops_db \<times> (string \<times> json) list \<times> (string \<times> json) list" where
  "settle_verdict args attributable before target0 db =
     (let target = (if attributable then record_verdict args target0 else target0)
      in if hz_healthStatus args = Hv_passed \<and> attributable
         then
           (let g = the (hz_deployedGenerationId args);
                target1 = promote db g target
            in (target1, db, before,
                [(''healthyGenerationId'', JStr g), (''lkgGenerationId'', JStr g),
                 (''lkgArtifactSetId'', nullable_json JStr (tgt_lkg_artifact_set_id target1)),
                 (''promoted'', JBool True)]))
         else
           (let demotes = hz_healthStatus args = Hv_failed \<and> attributable
                  \<and> tgt_healthy_generation_id target = hz_deployedGenerationId args;
                target1 = (if demotes then target\<lparr>tgt_healthy_generation_id := None\<rparr> else target)
            in (target1, db, before,
                [(''healthyGenerationId'', nullable_json JStr (tgt_healthy_generation_id target1)),
                 (''lkgGenerationId'', the (map_of before ''lkgGenerationId'')),
                 (''promoted'', JBool False), (''demoted'', JBool demotes),
                 (''healthStatus'', JStr (verdict_text (hz_healthStatus args)))])))"

definition health_finalize :: "health_final_args \<Rightarrow> target_mutation" where
  "health_finalize args target app db =
     (case verdict_route args target app of
        Vr_stale \<Rightarrow>
          Inr (target, db, [], [(''healthRunId'', JStr (hz_healthRunId args)), (''healthStale'', JBool True)])
      | Vr_superseded_rollout \<Rightarrow>
          Inr (snd (releaseSupersededVerdict args target), db, [], [(''healthSupersededRollout'', JBool True)])
      | Vr_superseded_application \<Rightarrow>
          Inr (snd (releaseSupersededVerdict args target), db, [], [(''healthSupersededApplication'', JBool True)])
      | Vr_unattributable \<Rightarrow>
          Inr (target\<lparr>tgt_pending_health_run_id := None\<rparr>, db,
               [(''pendingHealthRunId'', JStr (hz_healthRunId args))],
               [(''pendingHealthRunId'', JNull), (''healthUnattributable'', JBool True)])
      | Vr_recorded \<Rightarrow>
          (let attributable = verdict_attributable args target app
           in case hz_rollout args of
                Some (_, policy) \<Rightarrow>
                  (let (target1, decision) = applyHealthGatedDecision target policy (hz_healthStatus args)
                   in bind_res (hold_unacked args decision app (unacked_attempt args target app) db) (\<lambda>db1.
                        Inr (settle_verdict args attributable (health_before target) target1 db1)))
              | None \<Rightarrow> Inr (settle_verdict args attributable (health_before target) target db)))"

definition healthFinalized ::
    "health_final_args \<Rightarrow> gitops_db \<Rightarrow> (gitops_db \<times> transition_result) res" where
  "healthFinalized args =
     mutateTarget (hz_applicationId args) (hz_nodeId args) (hz_envelope args) ''health_finalized''
       (hz_deployedGenerationId args) (health_finalize args)
       (if hz_healthStatus args = Hv_unknown then Ho_unknown else Ho_committed) no_options"

text \<open>What the caller acts on after the commit: the decision, or that the queue was released without one.\<close>

definition health_decision ::
    "health_final_args \<Rightarrow> gitops_target_current_row \<Rightarrow> gitops_application_row \<Rightarrow> health_policy_decision option" where
  "health_decision args target app =
     (if verdict_route args target app = Vr_recorded
      then map_option (\<lambda>r. snd (applyHealthGatedDecision target (snd r) (hz_healthStatus args))) (hz_rollout args)
      else None)"

definition health_unattributable ::
    "health_final_args \<Rightarrow> gitops_target_current_row \<Rightarrow> gitops_application_row \<Rightarrow> bool" where
  "health_unattributable args target app =
     (verdict_route args target app \<in> {Vr_superseded_rollout, Vr_superseded_application, Vr_unattributable})"

definition healthRunReleased ::
    "string \<Rightarrow> int \<Rightarrow> string \<Rightarrow> event_envelope \<Rightarrow> gitops_db \<Rightarrow> (gitops_db \<times> transition_result) res" where
  "healthRunReleased applicationId nodeId healthRunId envelope =
     mutateTarget applicationId nodeId envelope ''health_run_released'' None (\<lambda>target _ db.
       require_res (tgt_pending_health_run_id target = Some healthRunId)
         (terr ''the target is no longer awaiting that health run'')
         (Inr (target\<lparr>tgt_pending_health_run_id := None\<rparr>, db,
            [(''pendingHealthRunId'', nullable_json JStr (tgt_pending_health_run_id target))],
            [(''pendingHealthRunId'', JNull)])))
       Ho_committed no_options"

end
