(* ===== verification/Recovery_Invariants.thy ===== *)
theory Recovery_Invariants
  imports Rollout_Invariants Blueprint_Transitions Health_Transitions
begin

text \<open>
  The recovery, Blueprint and health transitions keep the invariant and lose no evidence.
\<close>

section \<open>The application-wide stamp\<close>

lemma derive_row:
  "same_pointers a (deriveApplicationRecovery db now ov a) \<and> same_active a (deriveApplicationRecovery db now ov a)"
  by (simp add: deriveApplicationRecovery_def Let_def clearAppFailure_def same_pointers_def same_active_def
      split: option.split)

lemma keeps_settle: "db_ok db \<Longrightarrow> settleRefusedRollback i ov e db = Inr db1 \<Longrightarrow> keeps db db1"
  unfolding settleRefusedRollback_def by (rule keeps_withApplication) (assumption, assumption, rule derive_row)

lemma derive_mutation_ok:
  "db_ok db \<Longrightarrow> app_mutation_ok i db (\<lambda>app d. Inr (deriveApplicationRecovery d now ov app, d, []))"
  using derive_row
  by (intro pure_mutation_ok) (auto simp: same_pointers_def intro: app_ok_same [OF _ conjunct1 conjunct2])

lemma restoring_row: "same_pointers a (restoring_app r a) \<and> same_active a (restoring_app r a)"
  by (simp add: restoring_app_def same_pointers_def same_active_def)

lemma keeps_restoring: "db_ok db \<Longrightarrow> withApplication i e (restoring_app r) db = Inr db1 \<Longrightarrow> keeps db db1"
  by (erule keeps_withApplication, assumption) (rule restoring_row)

lemma keeps_failed_recovery:
  "db_ok db \<Longrightarrow> withApplication i e (failed_recovery_app r c t) db = Inr db1 \<Longrightarrow> keeps db db1"
  by (erule keeps_withApplication, assumption)
    (simp add: failed_recovery_app_def same_pointers_def same_active_def)

lemma keeps_revive:
  assumes "db_ok db" and "reviveTarget i e t db = Inr (t1, db1)"
  shows "keeps db db1"
proof -
  obtain d t2 where r: "retireNonMovingRecoveryClaim i e (t\<lparr>tgt_target_status := Ts_active\<rparr>) db = Inr (t2, d)"
    and s: "db1 = d \<or> settleRefusedRollback i [t2] e d = Inr db1"
    using assms(2) by (auto simp: reviveTarget_def split: if_splits)
  show ?thesis by (rule keeps_chain [OF keeps_retireNonMoving [OF assms(1) r]])
      (use s keeps_settle keeps_refl in auto)
qed

section \<open>Recovery\<close>

lemma rollbackInProgress_keeps: "rollbackInProgress i n rr g e db = Inr (db', r) \<Longrightarrow> db_ok db \<Longrightarrow> keeps db db'"
proof (cases n)
  case None
  assume run: "rollbackInProgress i n rr g e db = Inr (db', r)" and ok: "db_ok db"
  have "app_ok db a \<Longrightarrow> app_ok db (restoring_app rr a)" for a
    using restoring_row app_ok_same by blast
  then have mut: "app_mutation_ok i db (\<lambda>app d. require_res (app_lifecycle_status app = Lc_active)
      (terr ''application is not live'') (Inr (restoring_app rr app, d, [])))"
    using ok by (intro pure_mutation_ok) (auto simp: restoring_app_def)
  from run show ?thesis unfolding rollbackInProgress_def None option.case by (rule mutateApp_keepsE [OF _ ok mut])
next
  case (Some k)
  assume run: "rollbackInProgress i n rr g e db = Inr (db', r)" and ok: "db_ok db"
  from run show ?thesis
    unfolding rollbackInProgress_def Some option.case
    by (rule mutateTarget_keepsE [OF _ ok]) (auto simp: Let_def dest: keeps_restoring [OF ok])
qed

lemma rollbackPartialFailed_keeps:
  assumes run: "rollbackPartialFailed i n rr c e db = Inr (db', r)" and ok: "db_ok db"
  shows "keeps db db'"
proof (cases n)
  case None
  with run show ?thesis
    unfolding rollbackPartialFailed_def by (auto elim!: mutateApp_keepsE simp: ok intro!: derive_mutation_ok)
next
  case (Some k)
  have mut: "target_mutation_ok db (fail_rollback i rr c e)"
    using keeps_settle [OF ok] keeps_refl [OF ok]
    by (auto simp: target_mutation_ok_def fail_rollback_def Let_def split: if_splits)
  obtain d r1 where m: "mutateTarget i k e ''rollback_partial_failed'' None (fail_rollback i rr c e)
      Ho_failed no_options db = Inr (d, r1)"
    and rest: "db' = d \<or> (\<exists>row. settleRefusedRollback i [row] e d = Inr db')"
    using run Some by (auto simp: rollbackPartialFailed_def split: if_splits option.splits)
  show ?thesis
    by (rule keeps_chain [OF mutateTarget_keeps [OF ok mut m]]) (use rest keeps_settle keeps_refl in auto)
qed

lemma retry_failures_keeps: "db_ok db \<Longrightarrow> keeps db (retry_failures i rr e ts db)"
proof (induction ts arbitrary: db)
  case Nil
  then show ?case by (simp add: keeps_refl)
next
  case (Cons t ts)
  obtain n c where t: "t = (n, c)" by (cases t)
  define d where "d = (case rollbackPartialFailed i (Some n) rr c e db of Inr (db1, _) \<Rightarrow> db1 | Inl _ \<Rightarrow> db)"
  have "keeps db d"
    using rollbackPartialFailed_keeps Cons.prems unfolding d_def
    by (auto simp: keeps_refl split: sum.split prod.split)
  then show ?case by (rule keeps_chain) (simp add: t flip: d_def, rule Cons.IH)
qed

lemma rollbackRefusalSettled_keeps:
  "rollbackRefusalSettled i ts rr e db = Inr (db', r) \<Longrightarrow> db_ok db \<Longrightarrow> keeps db db'"
  unfolding rollbackRefusalSettled_def Let_def
  by (rule keeps_chain [OF retry_failures_keeps]) (assumption, erule mutateApp_keepsE, assumption, rule derive_mutation_ok)

lemma rollbackCompleted_keeps:
  "rollbackCompleted i n rr g a s e db = Inr (db', r) \<Longrightarrow> db_ok db \<Longrightarrow> keeps db db'"
  unfolding rollbackCompleted_def
  by (erule mutateTarget_keepsE, assumption) (auto simp: Let_def dest: keeps_settle)

lemma recoveryStarted_keeps: "recoveryStarted i n rr g e db = Inr (db', r) \<Longrightarrow> db_ok db \<Longrightarrow> keeps db db'"
  unfolding recoveryStarted_def
  by (erule mutateTarget_keepsE, assumption) (auto dest: keeps_restoring)

lemma keeps_reserve: "db_ok db \<Longrightarrow> keeps db (reserve_run f g db)"
  by (rule keeps_tables) (auto simp: reserve_run_def split: option.split)

lemma recoverySucceeded_keeps: "recoverySucceeded args f db = Inr (db', r) \<Longrightarrow> db_ok db \<Longrightarrow> keeps db db'"
  unfolding recoverySucceeded_def
proof (erule mutateTarget_keepsE, assumption, goal_cases)
  case (1 t app t1 db1 b a)
  then obtain d where s: "\<exists>ov. settleRefusedRollback (rs_applicationId args) ov (rs_envelope args) db = Inr d"
    and d: "db1 = d \<or> (\<exists>g. db1 = reserve_run f g d)"
    by (auto simp: Let_def split: if_splits)
  from s obtain ov where "settleRefusedRollback (rs_applicationId args) ov (rs_envelope args) db = Inr d" ..
  then show ?case by (rule keeps_chain [OF keeps_settle [OF 1(1)]]) (use d keeps_reserve keeps_refl in auto)
qed

lemma recoveryFailed_keeps: "recoveryFailed i n rr c e db = Inr (db', r) \<Longrightarrow> db_ok db \<Longrightarrow> keeps db db'"
  unfolding recoveryFailed_def
  by (erule mutateTarget_keepsE, assumption) (auto simp: Let_def dest: keeps_failed_recovery)

section \<open>Blueprint deploys\<close>

lemma blueprintDeployStarted_keeps:
  "blueprintDeployStarted i n rv c h e db = Inr (db', r) \<Longrightarrow> db_ok db \<Longrightarrow> keeps db db'"
  unfolding blueprintDeployStarted_def
  by (erule mutateTarget_keepsE, assumption)
    (auto simp: Let_def keeps_refl dest: keeps_revive split: if_splits)

lemma blueprintAckRecorded_keeps:
  "blueprintAckRecorded i n rv c lr g e db = Inr (db', r) \<Longrightarrow> db_ok db \<Longrightarrow> keeps db db'"
  unfolding blueprintAckRecorded_def
proof (erule mutateTarget_keepsE, assumption, goal_cases)
  case (1 t app t1 db2 b a)
  then consider "db2 = db" | t2 t3 db1 where "retireRecoveryClaimOnSuccess i e t2 db = Inr (t3, db1)"
      "clearApplicationRecoveryWhenNoTargetFails i n e db1 = Inr db2"
    by (auto simp: Let_def split: if_splits)
  then show ?case
  proof cases
    case 1
    then show ?thesis using \<open>db_ok db\<close> by (simp add: keeps_refl)
  next
    case 2
    show ?thesis
      by (rule keeps_chain [OF keeps_retireOnSuccess [OF \<open>db_ok db\<close> 2(1)] keeps_clearRecovery [OF _ 2(2)]])
  qed
qed

lemma blueprintDeployFailed_keeps:
  "blueprintDeployFailed i n c e db = Inr (db', r) \<Longrightarrow> db_ok db \<Longrightarrow> keeps db db'"
  unfolding blueprintDeployFailed_def
  by (erule mutateTarget_keepsE, assumption) (auto dest: keeps_retireNonMoving)

lemma blueprintWithdrawStarted_keeps:
  "blueprintWithdrawStarted i n rv e db = Inr (db', r) \<Longrightarrow> db_ok db \<Longrightarrow> keeps db db'"
  unfolding blueprintWithdrawStarted_def by (erule mutateTarget_keepsE, assumption) (auto simp: keeps_refl)

lemma blueprintWithdrawn_keeps:
  "blueprintWithdrawn i n rv e db = Inr (db', r) \<Longrightarrow> db_ok db \<Longrightarrow> keeps db db'"
  unfolding blueprintWithdrawn_def
  by (erule mutateTarget_keepsE, assumption) (auto simp: Let_def dest: keeps_clearRecovery)

lemma blueprintWithdrawFailed_keeps:
  "blueprintWithdrawFailed i n c e db = Inr (db', r) \<Longrightarrow> db_ok db \<Longrightarrow> keeps db db'"
  unfolding blueprintWithdrawFailed_def
  by (erule mutateTarget_keepsE, assumption) (auto dest: keeps_retireNonMoving)

lemma blueprintObservation_keeps:
  "blueprintObservation i n s e db = Inr (db', r) \<Longrightarrow> db_ok db \<Longrightarrow> keeps db db'"
  unfolding blueprintObservation_def
  by (erule mutateTarget_keepsE, assumption) (auto simp: keeps_refl dest: keeps_revive split: if_splits)

lemma freeze_targets_keeps: "freeze_targets g a ts db = Inr db' \<Longrightarrow> db_ok db \<Longrightarrow> keeps db db'"
proof (induction ts arbitrary: db)
  case Nil
  then show ?case by (simp add: keeps_refl)
next
  case (Cons t ts)
  show ?case
  proof (cases "tgt_target_status t \<noteq> Ts_active
      \<or> tgt_desired_generation_id t \<noteq> None \<and> tgt_expected_artifact_set_id t \<noteq> None")
    case True
    with Cons show ?thesis by simp
  next
    case False
    with Cons.prems(1) obtain d where "upsertTarget (frozen_target g a t) db = Inr d" "freeze_targets g a ts d = Inr db'"
      by (auto simp: Let_def)
    then show ?thesis using keeps_chain [OF keeps_upsert [OF Cons.prems(2)]] Cons.IH by blast
  qed
qed

lemma keeps_insertArtifactSet:
  assumes "db_ok d" and "insertArtifactSet lc row d = Inr e"
  shows "keeps d e"
proof -
  have "db_applications e = db_applications d" "db_targets e = db_targets d"
    "db_history e = db_history d" "db_outbox e = db_outbox d"
    using assms(2) by (auto simp: insertArtifactSet_def)
  then show ?thesis
    using db_ok_cong [OF assms(1) insertArtifactSet_le [OF assms(2)]] insertArtifactSet_le [OF assms(2)]
    by (simp add: keeps_def bindings_kept_tables)
qed

lemma insertGeneration_get: "insertGeneration row db = Inr db' \<Longrightarrow> getGeneration db' (gen_id row) = Some row"
  by (auto simp: insertGeneration_def getGeneration_def find_snoc)

text \<open>The frozen generation and its evidence are rows the transaction just inserted.\<close>

lemma freeze_revision_ok:
  assumes ok: "db_ok db" and app: "app_ok db app" and inl: "app_target_mode app = Inline_blueprint"
    and run: "freeze_revision lc gen s e app db = Inr (app1, db3, ids)"
  shows "keeps db db3 \<and> same_row app app1 \<and> app_ok db3 app1"
proof (cases "already_frozen app")
  case True
  with run app ok show ?thesis by (simp add: freeze_revision_def keeps_refl)
next
  case False
  then obtain db1 db2 ev where g: "gen_application_id gen = app_id app"
    and i1: "insertGeneration gen db = Inr db1"
    and i2: "insertArtifactSet lc (frozen_artifact_set s (gen_id gen) ev (ev_at e)) db1 = Inr db2"
    and f: "freeze_targets (gen_id gen) s (listTargets db2 (app_id app)) db2 = Inr db3"
    and app1: "app1 = app\<lparr>app_accepted_generation_id := Some (gen_id gen), app_artifact_set_id := Some s,
        app_latest_artifact_set_id := Some s\<rparr>"
    using run by (auto simp: freeze_revision_def)
  have k1: "keeps db db1" by (rule insertGeneration_keeps [OF i1 ok])
  have k2: "keeps db1 db2" using k1 i2 keeps_insertArtifactSet by (auto simp: keeps_def)
  have k3: "keeps db2 db3" using k2 f freeze_targets_keeps by (auto simp: keeps_def)
  have k: "keeps db db3" using k1 k2 k3 keeps_trans by blast
  have "owned db1 (app_id app) (gen_id gen)" using insertGeneration_get [OF i1] g by (simp add: owned_def)
  moreover have "db_le db1 db3" using k2 k3 keeps_trans keeps_def by metis
  ultimately have o: "owned db3 (app_id app) (gen_id gen)" using owned_mono by blast
  have "evidence_of db2 (gen_id gen) s"
    using insertArtifactSet_get [OF i2] by (simp add: evidence_of_def frozen_artifact_set_def)
  then have v: "evidence_of db3 (gen_id gen) s" using k3 evidence_of_mono by (auto simp: keeps_def)
  have "app_ok db3 app" using app k by (rule app_ok_keeps)
  with o v inl have "app_ok db3 app1" unfolding app1 by (simp add: app_ok_def)
  with k show ?thesis by (simp add: app1)
qed

lemma inlineRevisionFrozen_keeps:
  assumes run: "inlineRevisionFrozen lc i gen s e db = Inr (db', r)" and ok: "db_ok db"
  shows "keeps db db'"
proof -
  obtain app0 where app0: "getApplication db i = Some app0" and inl: "app_target_mode app0 = Inline_blueprint"
    and rest: "db' = db \<or> (\<exists>x. mutateApp i e ''inline_revision_frozen'' Ho_committed
        (freeze_revision lc gen s e) x db = Inr (db', r))"
    using run by (auto simp: inlineRevisionFrozen_def split: option.splits if_splits)
  have mut: "app_mutation_ok i db (freeze_revision lc gen s e)"
  proof (rule app_mutation_ok_storedI)
    fix app app1 db1 ids
    assume "getApplication db i = Some app" "app_ok db app" and m: "freeze_revision lc gen s e app db = Inr (app1, db1, ids)"
    then show "keeps db db1 \<and> same_row app app1 \<and> app_ok db1 app1"
      using app0 inl by (intro freeze_revision_ok [OF ok _ _ m]) simp_all
  qed
  from rest show ?thesis
  proof
    assume "db' = db"
    then show ?thesis using ok by (simp add: keeps_refl)
  next
    assume "\<exists>x. mutateApp i e ''inline_revision_frozen'' Ho_committed
        (freeze_revision lc gen s e) x db = Inr (db', r)"
    then show ?thesis
      by (elim exE mutateApp_keepsE [OF _ ok]) (rule mut)
  qed
qed

section \<open>Health\<close>

lemma hold_unacked_keeps: "db_ok db \<Longrightarrow> hold_unacked args d app u db = Inr db1 \<Longrightarrow> keeps db db1"
  by (auto simp: hold_unacked_def keeps_refl dest: rolloutPaused_keeps split: if_splits sum.splits js_error.splits)

lemma settle_verdict_db [simp]: "fst (snd (settle_verdict args attr b t db)) = db"
  by (simp add: settle_verdict_def Let_def)

lemma healthFinalized_keeps: "healthFinalized args db = Inr (db', r) \<Longrightarrow> db_ok db \<Longrightarrow> keeps db db'"
  unfolding healthFinalized_def
proof (erule mutateTarget_keepsE, assumption, goal_cases)
  case (1 t app t1 db1 b a)
  have settled: "db2 = d" if "settle_verdict args attr bf t2 d = (t1, db2, b, a)" for attr bf t2 d db2
    using that settle_verdict_db [of args attr bf t2 d] by simp
  from 1 show ?case
    by (auto simp: health_finalize_def Let_def prod.case_eq_if keeps_refl
        split: verdict_exit.splits option.splits dest!: settled dest: hold_unacked_keeps [OF 1(1)])
qed

lemma healthRunReleased_keeps: "healthRunReleased i n h e db = Inr (db', r) \<Longrightarrow> db_ok db \<Longrightarrow> keeps db db'"
  unfolding healthRunReleased_def by (erule mutateTarget_keepsE, assumption) (auto simp: keeps_refl)

end
