(* ===== verification/Repo_Identity.thy ===== *)
theory Repo_Identity
  imports Prelude
begin

text \<open>
  Which repository a configured URL names (\<^verbatim>\<open>gitops/repoIdentity.ts\<close>, \<^verbatim>\<open>git/sshTrust.ts\<close>). The URL parser of the
  platform (\<^verbatim>\<open>new URL\<close>) is an argument, \<open>new_URL\<close>: the parts of a parsed URL, or \<open>None\<close> when it throws.
\<close>

record js_url =
  url_protocol :: string
  url_username :: string
  url_password :: string
  url_host :: string
  url_hostname :: string
  url_port :: string
  url_pathname :: string
  url_search :: string
  url_hash :: string

type_synonym url_parser = "string \<Rightarrow> js_url option"

section \<open>SSH URLs\<close>

record parsed_ssh_repo_url =
  ssh_href :: string
  ssh_host :: string
  ssh_port :: int
  ssh_pathname :: string

fun has_dotdot :: "string \<Rightarrow> bool" where
  "has_dotdot (a # b # s) = (a = CHR ''.'' \<and> b = CHR ''.'' \<or> has_dotdot (b # s))"
| "has_dotdot s = False"

definition normalizePathname :: "string \<Rightarrow> string" where
  "normalizePathname pathname =
     (let trimmed = js_trim pathname
      in case trimmed of [] \<Rightarrow> ''/'' | c # _ \<Rightarrow> (if c = CHR ''/'' then trimmed else CHR ''/'' # trimmed))"

text \<open>The groups of \<^verbatim>\<open>/^([^@\s/]+)@([^:\s]+):(.+)$/\<close>. Each group excludes the separator after it, so the
  match is unique, and the host group holds no colon: the port branch of the source never runs.\<close>

definition scp_groups :: "string \<Rightarrow> (string \<times> string \<times> string) option" where
  "scp_groups s =
     (let user = takeWhile (\<lambda>c. c \<noteq> CHR ''@'') s;
          rest = drop (Suc (length user)) s;
          host = takeWhile (\<lambda>c. c \<noteq> CHR '':'') rest;
          path = drop (Suc (length host)) rest
      in if length user < length s \<and> user \<noteq> [] \<and> (\<forall>c \<in> set user. \<not> is_space c \<and> c \<noteq> CHR ''/'')
            \<and> length host < length rest \<and> host \<noteq> [] \<and> (\<forall>c \<in> set host. \<not> is_space c)
            \<and> path \<noteq> [] \<and> (\<forall>c \<in> set path. (of_char c :: nat) \<notin> {10, 13})
         then Some (user, host, path) else None)"

definition parseSshScpUrl :: "string \<Rightarrow> parsed_ssh_repo_url option" where
  "parseSshScpUrl raw =
     (case scp_groups (js_trim raw) of
        None \<Rightarrow> None
      | Some (user, host, path) \<Rightarrow>
          (let repoPath = js_trim path
           in if repoPath = [] \<or> has_dotdot repoPath then None
              else Some \<lparr>ssh_href = user @ ''@'' @ host @ '':'' @ repoPath, ssh_host = host, ssh_port = 22,
                         ssh_pathname = normalizePathname repoPath\<rparr>))"

definition is_digit :: "char \<Rightarrow> bool" where
  "is_digit c \<longleftrightarrow> 48 \<le> (of_char c :: nat) \<and> (of_char c :: nat) \<le> 57"

text \<open>\<^verbatim>\<open>Number.parseInt(s, 10)\<close> on a port: the digits it starts with, \<open>None\<close> for \<open>NaN\<close>.\<close>

definition parse_port :: "string \<Rightarrow> int option" where
  "parse_port s =
     (let ds = takeWhile is_digit s
      in if ds = [] then None
         else Some (foldl (\<lambda>n c. 10 * n + (int (of_char c) - 48)) 0 ds))"

definition parseSshUrl :: "url_parser \<Rightarrow> string \<Rightarrow> parsed_ssh_repo_url option" where
  "parseSshUrl new_URL raw =
     (let trimmed = js_trim raw
      in case new_URL trimmed of
           None \<Rightarrow> parseSshScpUrl trimmed
         | Some url \<Rightarrow>
             (if url_protocol url \<noteq> ''ssh:'' then None
              else if url_hostname url = [] \<or> url_username url = [] \<or> url_password url \<noteq> [] then None
              else if url_search url \<noteq> [] \<or> url_hash url \<noteq> [] then None
              else
                (case (if url_port url \<noteq> [] then parse_port (url_port url) else Some 22) of
                   None \<Rightarrow> None
                 | Some port \<Rightarrow>
                     (if port < 1 \<or> port > 65535 then None
                      else
                        (let pathname = normalizePathname (url_pathname url)
                         in if pathname = ''/'' \<or> has_dotdot pathname then None
                            else Some
                              \<lparr>ssh_href = (if port = 22
                                  then url_username url @ ''@'' @ url_hostname url @ '':'' @ pathname
                                  else ''ssh://'' @ url_username url @ ''@'' @ url_hostname url @ '':''
                                    @ show_int port @ pathname),
                               ssh_host = url_hostname url, ssh_port = port, ssh_pathname = pathname\<rparr>)))))"

section \<open>Storable URLs\<close>

definition MAX_REPO_URL_LENGTH :: nat where
  "MAX_REPO_URL_LENGTH = 2048"

record repo_identity =
  rid_host :: string
  rid_pathname :: string

datatype url_refusal =
    Ur_not_https | Ur_userinfo | Ur_query | Ur_fragment | Ur_too_long | Ur_invalid | Ur_not_supported

definition parseHttpsRepoUrl :: "url_parser \<Rightarrow> string \<Rightarrow> url_refusal + js_url" where
  "parseHttpsRepoUrl new_URL raw =
     (let trimmed = js_trim raw
      in if trimmed = [] then Inl Ur_invalid
         else if length trimmed > MAX_REPO_URL_LENGTH then Inl Ur_too_long
         else
           (case new_URL trimmed of
              None \<Rightarrow> Inl Ur_invalid
            | Some url \<Rightarrow>
                (if url_protocol url \<noteq> ''https:'' then Inl Ur_not_https
                 else if url_username url \<noteq> [] \<or> url_password url \<noteq> [] then Inl Ur_userinfo
                 else if url_search url \<noteq> [] then Inl Ur_query
                 else if url_hash url \<noteq> [] then Inl Ur_fragment
                 else Inr url)))"

definition serializeRepoIdentity :: "js_url \<Rightarrow> repo_identity" where
  "serializeRepoIdentity url = \<lparr>rid_host = url_host url, rid_pathname = url_pathname url\<rparr>"

text \<open>A legacy URL keeps its transport parts; only what names the repository is read.\<close>

definition parseLegacyRepoUrl :: "url_parser \<Rightarrow> string \<Rightarrow> url_refusal + js_url" where
  "parseLegacyRepoUrl new_URL raw =
     (let trimmed = js_trim raw
      in if trimmed = [] then Inl Ur_invalid
         else if length trimmed > MAX_REPO_URL_LENGTH then Inl Ur_too_long
         else
           (case new_URL trimmed of
              None \<Rightarrow> Inl Ur_invalid
            | Some url \<Rightarrow>
                (if url_protocol url \<noteq> ''https:'' then Inl Ur_not_https
                 else Inr (url\<lparr>url_username := [], url_password := [], url_search := [], url_hash := []\<rparr>))))"

definition secretFreeRepoUrl :: "repo_identity \<Rightarrow> string" where
  "secretFreeRepoUrl identity = ''https://'' @ rid_host identity @ rid_pathname identity"

datatype storable_repo_url = St_https js_url | St_ssh parsed_ssh_repo_url

definition parseStorableRepoUrl :: "url_parser \<Rightarrow> string \<Rightarrow> url_refusal + storable_repo_url" where
  "parseStorableRepoUrl new_URL raw =
     (let trimmed = js_trim raw
      in if trimmed = [] then Inl Ur_invalid
         else if length trimmed > MAX_REPO_URL_LENGTH then Inl Ur_too_long
         else
           (case parseHttpsRepoUrl new_URL trimmed of
              Inr url \<Rightarrow> Inr (St_https url)
            | Inl reason \<Rightarrow>
                (case parseSshUrl new_URL trimmed of
                   Some ssh \<Rightarrow> Inr (St_ssh ssh)
                 | None \<Rightarrow> Inl (if reason \<noteq> Ur_not_https then reason else Ur_not_supported))))"

definition serializeRepoIdentityFromStorable :: "storable_repo_url \<Rightarrow> repo_identity" where
  "serializeRepoIdentityFromStorable parsed =
     (case parsed of
        St_https url \<Rightarrow> serializeRepoIdentity url
      | St_ssh ssh \<Rightarrow>
          \<lparr>rid_host = (if ssh_port ssh = 22 then ssh_host ssh
                       else ssh_host ssh @ '':'' @ show_int (ssh_port ssh)),
           rid_pathname = ssh_pathname ssh\<rparr>)"

definition secretFreeRepoUrlFromStorable :: "storable_repo_url \<Rightarrow> string" where
  "secretFreeRepoUrlFromStorable parsed =
     (case parsed of
        St_https url \<Rightarrow> secretFreeRepoUrl (serializeRepoIdentity url)
      | St_ssh ssh \<Rightarrow>
          ''ssh://git@'' @ ssh_host ssh
            @ (if ssh_port ssh = 22 then [] else CHR '':'' # show_int (ssh_port ssh)) @ ssh_pathname ssh)"

section \<open>The canonical key\<close>

text \<open>The segments are handled last one first, which is where the loop pops.\<close>

fun pop_blank :: "string list \<Rightarrow> string list" where
  "pop_blank (s # t # ss) = (if s = [] then pop_blank (t # ss) else s # t # ss)"
| "pop_blank ss = ss"

definition ends_with :: "string \<Rightarrow> string \<Rightarrow> bool" where
  "ends_with s suffix \<longleftrightarrow> length suffix \<le> length s \<and> drop (length s - length suffix) s = suffix"

definition strip_git :: "string \<Rightarrow> string" where
  "strip_git last1 = (if ends_with last1 ''.git'' \<and> last1 \<noteq> ''.git'' then take (length last1 - 4) last1 else last1)"

definition canonical_path :: "string \<Rightarrow> string" where
  "canonical_path pathname =
     (case pop_blank (rev (split_on (CHR ''/'') pathname)) of
        [] \<Rightarrow> []
      | last1 # rest \<Rightarrow> join_with ''/'' (rev (strip_git last1 # rest)))"

definition canonical_host :: "string \<Rightarrow> string" where
  "canonical_host host =
     (if CHR '']'' \<in> set host then takeWhile (\<lambda>c. c \<noteq> CHR '']'') host @ '']''
      else takeWhile (\<lambda>c. c \<noteq> CHR '':'') host)"

definition canonicalRepoKey :: "repo_identity \<Rightarrow> string option" where
  "canonicalRepoKey identity =
     (let host = lower (js_trim (rid_host identity))
      in if host = [] \<or> CHR ''/'' \<in> set host then None
         else
           (let hostname = canonical_host host
            in if hostname = [] \<or> hostname = ''[]'' then None
               else if ''..'' \<in> set (split_on (CHR ''/'') (rid_pathname identity)) then None
               else
                 (let pathname = canonical_path (rid_pathname identity)
                  in if pathname = [] \<or> pathname = ''/'' then None else Some (hostname @ pathname))))"

definition canonicalRepoKeyFromUrl :: "url_parser \<Rightarrow> string \<Rightarrow> string option" where
  "canonicalRepoKeyFromUrl new_URL raw =
     (case parseStorableRepoUrl new_URL raw of
        Inl _ \<Rightarrow> None
      | Inr parsed \<Rightarrow> canonicalRepoKey (serializeRepoIdentityFromStorable parsed))"

definition refusal_message :: "url_refusal \<Rightarrow> string" where
  "refusal_message r =
     (case r of
        Ur_too_long \<Rightarrow> ''repo_url is too long''
      | Ur_not_supported \<Rightarrow> ''Use an https:// URL or an SSH URL (git@host:org/repo.git or ssh://)''
      | Ur_userinfo \<Rightarrow> ''Repository URL must not include userinfo''
      | Ur_query \<Rightarrow> ''Repository URL must not include a query string''
      | Ur_fragment \<Rightarrow> ''Repository URL must not include a fragment''
      | _ \<Rightarrow> ''Repository URL is invalid'')"

definition repoUrlRejectionMessage :: "url_parser \<Rightarrow> string \<Rightarrow> string option" where
  "repoUrlRejectionMessage new_URL raw =
     (case parseStorableRepoUrl new_URL raw of
        Inl reason \<Rightarrow> Some (refusal_message reason)
      | Inr parsed \<Rightarrow>
          (let submittedKey = canonicalRepoKey (serializeRepoIdentityFromStorable parsed);
               storedKey = canonicalRepoKeyFromUrl new_URL (secretFreeRepoUrlFromStorable parsed)
           in if submittedKey = None \<or> storedKey = None \<or> submittedKey \<noteq> storedKey
              then Some ''Repository URL must identify one repository'' else None))"

section \<open>Spellings of one repository\<close>

lemma scp_host_colon_free: "scp_groups s = Some (u, h, p) \<Longrightarrow> CHR '':'' \<notin> set h"
  by (auto simp: scp_groups_def Let_def dest: set_takeWhileD split: if_splits)

text \<open>What is stored in place of an accepted URL names the same repository.\<close>

lemma accepted_url_key:
  assumes "repoUrlRejectionMessage new_URL raw = None"
  obtains parsed where "parseStorableRepoUrl new_URL raw = Inr parsed"
    and "canonicalRepoKeyFromUrl new_URL (secretFreeRepoUrlFromStorable parsed) = canonicalRepoKeyFromUrl new_URL raw"
    and "canonicalRepoKeyFromUrl new_URL raw \<noteq> None"
proof (cases "parseStorableRepoUrl new_URL raw")
  case (Inl reason)
  with assms show thesis by (simp add: repoUrlRejectionMessage_def)
next
  case (Inr parsed)
  with assms show thesis
    by (intro that [of parsed]) (auto simp: repoUrlRejectionMessage_def canonicalRepoKeyFromUrl_def Let_def
        split: if_splits)
qed

lemma split_on_snoc_sep: "split_on c (s @ [c]) = split_on c s @ [[]]"
  by (induction s) (auto split: list.splits)

lemma split_on_slashes: "split_on c (s @ replicate n c) = split_on c s @ replicate n []"
proof (induction n)
  case (Suc n)
  have "split_on c (s @ replicate (Suc n) c) = split_on c ((s @ replicate n c) @ [c])"
    by (simp add: replicate_append_same)
  then show ?case using Suc by (simp only: split_on_snoc_sep) (simp add: replicate_append_same)
qed simp

lemma pop_blank_Nil [simp]: "xs \<noteq> [] \<Longrightarrow> pop_blank ([] # xs) = pop_blank xs"
  by (cases xs) auto

lemma pop_blank_replicate: "pop_blank (replicate n [] @ s # ss) = pop_blank (s # ss)"
  by (induction n) auto

lemma pop_blank_keep: "s \<noteq> [] \<Longrightarrow> pop_blank (s # ss) = s # ss"
  by (cases ss) auto

lemma split_on_last:
  "c \<notin> set t \<Longrightarrow> split_on c (s @ t) = butlast (split_on c s) @ [last (split_on c s) @ t]"
proof (induction s)
  case Nil
  then show ?case by (simp add: split_on_no_sep)
next
  case (Cons x s)
  obtain y ys where "split_on c s = y # ys" by (cases "split_on c s") auto
  with Cons show ?case by (auto split: list.splits)
qed

text \<open>Trailing slashes and one \<^verbatim>\<open>.git\<close> suffix do not change the path of the key.\<close>

lemma canonical_path_slashes:
  assumes "last (split_on (CHR ''/'') p) \<noteq> []"
  shows "canonical_path (p @ replicate n (CHR ''/'')) = canonical_path p"
proof -
  obtain l r where r: "rev (split_on (CHR ''/'') p) = l # r"
    by (cases "rev (split_on (CHR ''/'') p)") auto
  then have "l \<noteq> []" using assms by (metis hd_rev list.sel(1))
  then show ?thesis
    by (simp add: canonical_path_def split_on_slashes r pop_blank_replicate)
qed

lemma strip_git_suffix: "last1 \<noteq> [] \<Longrightarrow> strip_git (last1 @ ''.git'') = last1"
  by (simp add: strip_git_def ends_with_def)

lemma canonical_path_git:
  assumes l: "last (split_on (CHR ''/'') p) \<noteq> []" and plain: "\<not> ends_with (last (split_on (CHR ''/'') p)) ''.git''"
  shows "canonical_path (p @ ''.git'') = canonical_path p"
proof -
  let ?l = "last (split_on (CHR ''/'') p)"
  have p: "split_on (CHR ''/'') p = butlast (split_on (CHR ''/'') p) @ [?l]" by simp
  have git: "split_on (CHR ''/'') (p @ ''.git'') = butlast (split_on (CHR ''/'') p) @ [?l @ ''.git'']"
    by (rule split_on_last) simp
  have "strip_git ?l = ?l" using plain by (simp add: strip_git_def)
  then show ?thesis
    unfolding canonical_path_def git
    by (subst (2) p) (use l in \<open>simp add: pop_blank_keep strip_git_suffix del: append_butlast_last_id\<close>)
qed

lemma canonical_host_port:
  assumes "CHR '']'' \<notin> set (h @ CHR '':'' # port)" and colon: "CHR '':'' \<notin> set h"
  shows "canonical_host (h @ CHR '':'' # port) = canonical_host h"
proof -
  have all: "\<forall>x \<in> set h. x \<noteq> CHR '':''" using colon by auto
  then have "h = takeWhile (\<lambda>c. c \<noteq> CHR '':'') h" by (subst eq_commute) (simp add: takeWhile_eq_all_conv)
  then show ?thesis using assms all by (auto simp: canonical_host_def takeWhile_append2)
qed

end
