(* ===== verification/Binding_Transitions.thy ===== *)
theory Binding_Transitions
  imports Deploy_Transitions Repo_Identity
begin

text \<open>
  What an application is bound to (\<^verbatim>\<open>gitops/transitions.ts\<close>): bringing an Inline Blueprint or a create-from-Git
  into the model, and moving an application between the Direct, Blueprint and Inline Blueprint modes.
\<close>

section \<open>Activation\<close>

definition mode_text :: "target_mode \<Rightarrow> string" where
  "mode_text m =
     (case m of Direct \<Rightarrow> ''direct'' | Inline_blueprint \<Rightarrow> ''inline_blueprint'' | Blueprint \<Rightarrow> ''blueprint'')"

definition activateInlineBlueprint ::
    "gitops_application_row \<Rightarrow> event_envelope \<Rightarrow> gitops_db \<Rightarrow> (gitops_db \<times> transition_result) res" where
  "activateInlineBlueprint application envelope db =
     (case app_blueprint_id application of
        None \<Rightarrow> Inl (terr ''an inline blueprint application needs a blueprint id'')
      | Some blueprintId \<Rightarrow>
          require_res (getLiveBlueprintApplication db blueprintId = None)
            (terr ''live blueprint application already exists'')
            (bind_res (insertApplication application db) (\<lambda>db1.
             let (h, db2) = history application envelope
                   (history_fields0 ''application_activated'' Ho_committed [(''lifecycleStatus'', JNull)]
                      [(''lifecycleStatus'', JStr (lifecycle_text (app_lifecycle_status application))),
                       (''targetMode'', JStr ''inline_blueprint'')]) db1
             in Inr (db2, result_of (opt_list h)))))"

definition create_guard ::
    "gitops_application_row \<Rightarrow> gitops_generation_row \<Rightarrow> gitops_db \<Rightarrow> unit res" where
  "create_guard application generation db =
     require_res (getLiveDirectApplication db (nullish (app_stack_name application) []) = None)
       (terr ''live direct application already exists'')
      (require_res (app_lifecycle_status application = Lc_creating)
        (terr ''create activation requires a creating application'')
       (require_res (gen_application_id generation = app_id application)
         (terr ''generation does not belong to the application'')
        (require_res (Some (gen_materialization_fingerprint generation) = app_materialization_fingerprint application)
          (terr ''generation fingerprint does not match the application'')
          (require_res (gen_validation_ok generation = 1 \<and> gen_plan_blocked generation = 0)
            (terr ''create cannot persist an invalid or blocked candidate'') (Inr ())))))"

definition created_row ::
    "string \<Rightarrow> gitops_generation_row \<Rightarrow> event_envelope \<Rightarrow> gitops_application_row \<Rightarrow> gitops_application_row" where
  "created_row commitSha generation envelope app =
     app\<lparr>app_desired_commit_sha := Some commitSha, app_fetched_commit_sha := Some commitSha,
         app_fetched_resolved_ref_kind := gen_resolved_ref_kind generation, app_retry_count := 0,
         app_candidate_generation_id := Some (gen_id generation), app_candidate_plan_blocked := 0,
         app_review_required := 0, app_review_block_reason := None,
         app_latest_operation_id := Some (ev_operationId envelope), app_updated_at := ev_at envelope\<rparr>"

definition activateCreateFromGit ::
    "gitops_application_row \<Rightarrow> int \<Rightarrow> string \<Rightarrow> gitops_generation_row \<Rightarrow> gitops_create_checkpoint_row
      \<Rightarrow> event_envelope \<Rightarrow> gitops_db \<Rightarrow> (gitops_db \<times> transition_result) res" where
  "activateCreateFromGit application nodeId commitSha generation checkpoint envelope db =
     bind_res (create_guard application generation db) (\<lambda>_.
     bind_res (insertApplication application db) (\<lambda>db0.
     let db1 = (if truthy_str (app_stack_name application)
                then adoptStackScopedIdentities (app_id application) (the (app_stack_name application)) db0
                else db0);
         target = emptyTargetRow (app_id application) nodeId (ev_at envelope)
     in bind_res (upsertTarget target db1) (\<lambda>db2.
        let (h1, db3) = history application envelope
              (history_fields0 ''application_activated'' Ho_committed [(''lifecycleStatus'', JNull)]
                 [(''lifecycleStatus'', JStr ''creating''),
                  (''targetMode'', JStr (mode_text (app_target_mode application)))]) db2;
            fetchedApp = application\<lparr>app_desired_commit_sha := Some commitSha,
                app_fetched_commit_sha := Some commitSha,
                app_fetched_resolved_ref_kind := gen_resolved_ref_kind generation, app_retry_count := 0\<rparr>;
            (h2, db4) = history fetchedApp envelope
              (history_fields0 ''fetched'' Ho_committed [(''desiredCommitSha'', JNull)]
                 [(''desiredCommitSha'', JStr commitSha)]) db3
        in bind_res (insertGeneration generation db4) (\<lambda>db5.
           bind_res (insertCreateCheckpoint (checkpoint\<lparr>ck_generation_id := Some (gen_id generation)\<rparr>) db5) (\<lambda>db6.
           let app = created_row commitSha generation envelope application;
               db7 = writeApplication app db6
           in bind_res (upsertTarget (target\<lparr>tgt_candidate_generation_id := Some (gen_id generation),
                  tgt_updated_at := ev_at envelope\<rparr>) db7) (\<lambda>db8.
              let (h3, db9) = history app envelope
                    ((history_fields0 ''candidate_ready'' Ho_committed [(''candidateGenerationId'', JNull)]
                       [(''candidateGenerationId'', JStr (gen_id generation)), (''reviewRequired'', JBool False)])
                     \<lparr>hf_generationId := Some (gen_id generation)\<rparr>) db8
              in Inr (db9, result_of (opt_list h1 @ opt_list h2 @ opt_list h3))))))))"

definition failed_create_target :: "event_envelope \<Rightarrow> gitops_target_current_row \<Rightarrow> gitops_target_current_row" where
  "failed_create_target envelope target =
     (clear_lkg (clear_failure_slot (clearTargetActive (target\<lparr>tgt_target_status := Ts_tombstoned\<rparr>))))
       \<lparr>tgt_updated_at := ev_at envelope\<rparr>"

definition failed_create_row :: "string \<Rightarrow> event_envelope \<Rightarrow> gitops_application_row \<Rightarrow> gitops_application_row" where
  "failed_create_row failureClass envelope app =
     (clearActive (app\<lparr>app_failure_stage := Some Af_create, app_failure_class := Some failureClass,
          app_failure_at := Some (ev_at envelope), app_lifecycle_status := Lc_deleted\<rparr>))
       \<lparr>app_latest_operation_id := Some (ev_operationId envelope), app_updated_at := ev_at envelope\<rparr>"

definition createFailed ::
    "string \<Rightarrow> string \<Rightarrow> event_envelope \<Rightarrow> gitops_db \<Rightarrow> (gitops_db \<times> transition_result) res" where
  "createFailed applicationId failureClass envelope db =
     bind_res (requireApp db applicationId) (\<lambda>app0.
       require_res (app_lifecycle_status app0 = Lc_creating) (terr ''create_failed requires a creating application'')
         (let app = failed_create_row failureClass envelope app0;
              db1 = writeApplication app db
          in bind_res (upsert_each (map (failed_create_target envelope) (listTargets db1 (app_id app))) db1) (\<lambda>db2.
             let (h, db3) = history app envelope
                   (history_fields0 ''create_failed'' Ho_failed [(''lifecycleStatus'', JStr ''creating'')]
                      [(''lifecycleStatus'', JStr ''deleted''), (''failureClass'', JStr failureClass)])
                   (deleteCreateCheckpoint (app_id app) db2)
             in Inr (db3, result_of (opt_list h)))))"

section \<open>Retargeting\<close>

text \<open>The edits a retarget makes on the reloaded row beside the mode, and what the history row says of them.\<close>

type_synonym retarget_edit = "gitops_application_row \<Rightarrow> gitops_application_row \<times> (string \<times> json) list"

definition retarget_history ::
    "target_mode \<Rightarrow> target_mode \<Rightarrow> (string \<times> json) list \<Rightarrow> history_fields" where
  "retarget_history expectedMode targetMode extra =
     history_fields0 ''application_retargeted'' Ho_committed
       [(''targetMode'', JStr (mode_text expectedMode))] ((''targetMode'', JStr (mode_text targetMode)) # extra)"

definition apply_retarget ::
    "retarget_edit option \<Rightarrow> gitops_application_row \<Rightarrow> gitops_db
      \<Rightarrow> gitops_application_row \<times> (string \<times> json) list \<times> gitops_db" where
  "apply_retarget onRetarget reloaded db =
     (case onRetarget of
        None \<Rightarrow> (reloaded, [], db)
      | Some edit \<Rightarrow> (let (updated, extra) = edit reloaded in (updated, extra, writeApplication updated db)))"

definition commitTargetBinding ::
    "string \<Rightarrow> event_envelope \<Rightarrow> target_mode \<Rightarrow> (gitops_application_row \<Rightarrow> target_binding res)
      \<Rightarrow> (gitops_application_row \<Rightarrow> bool) \<Rightarrow> (gitops_application_row \<Rightarrow> gitops_db \<Rightarrow> unit res)
      \<Rightarrow> retarget_edit option \<Rightarrow> gitops_db \<Rightarrow> (gitops_db \<times> transition_result) res" where
  "commitTargetBinding applicationId envelope expectedMode next matchesDestination assertReady onRetarget db =
     (case getApplication db applicationId of
        None \<Rightarrow> Inl (terr ''application not found'')
      | Some app \<Rightarrow>
          (if matchesDestination app
           then (let (h, db1) = history app envelope
                       (retarget_history expectedMode (app_target_mode app) []) db
                 in Inr (db1, result_of (opt_list h)))
           else
             require_res (app_target_mode app = expectedMode)
               (terr (''current mode must be '' @ mode_text expectedMode))
               (bind_res (assertReady app db) (\<lambda>_.
                bind_res (next app) (\<lambda>binding.
                bind_res (updateApplicationTargetBinding (app_id app) expectedMode binding (ev_at envelope) db)
                  (\<lambda>(changes, db1).
                require_res (changes = 1) (terr ''application target binding changed concurrently'')
                 (case getApplication db1 (app_id app) of
                    None \<Rightarrow> Inl (terr ''application not found'')
                  | Some reloaded \<Rightarrow>
                      (let (updated, extra, db2) = apply_retarget onRetarget reloaded db1;
                           (h, db3) = history updated envelope
                             (retarget_history expectedMode (tb_targetMode binding) extra) db2
                       in Inr (db3, result_of (opt_list h))))))))))"

text \<open>Whether a repository is free to be claimed by an application entering Blueprint mode.\<close>

fun check_claims :: "url_parser \<Rightarrow> string \<Rightarrow> string \<Rightarrow> gitops_application_row list \<Rightarrow> unit res" where
  "check_claims new_URL i key [] = Inr ()"
| "check_claims new_URL i key (other # others) =
     (if app_id other = i then check_claims new_URL i key others
      else
        (case canonicalRepoKeyFromUrl new_URL (nullish (app_configured_repo_url other) []) of
           None \<Rightarrow> Inl (GitOpsTransitionError (''blueprint ''
               @ (case app_blueprint_id other of None \<Rightarrow> ''null'' | Some b \<Rightarrow> show_int b)
               @ '' claims a repository that cannot be identified; retire or detach it to continue'')
               (Some ''live_blueprint_repo''))
         | Some otherKey \<Rightarrow>
             require_res (otherKey \<noteq> key)
               (GitOpsTransitionError ''live blueprint application already claims this repo''
                 (Some ''live_blueprint_repo''))
               (check_claims new_URL i key others)))"

definition assertRepoClaimFree :: "url_parser \<Rightarrow> gitops_application_row \<Rightarrow> gitops_db \<Rightarrow> unit res" where
  "assertRepoClaimFree new_URL app db =
     (case canonicalRepoKeyFromUrl new_URL (nullish (app_configured_repo_url app) []) of
        None \<Rightarrow> Inl (GitOpsTransitionError
          ''this git source has no repository path to identify; set a repository URL on the git source first''
          (Some ''live_blueprint_repo''))
      | Some key \<Rightarrow> check_claims new_URL (app_id app) key (listLiveBlueprintModeApplications db))"

definition convertDirectToBlueprint ::
    "url_parser \<Rightarrow> string \<Rightarrow> int \<Rightarrow> event_envelope \<Rightarrow> gitops_db \<Rightarrow> (gitops_db \<times> transition_result) res" where
  "convertDirectToBlueprint new_URL applicationId blueprintId envelope =
     commitTargetBinding applicationId envelope Direct
       (\<lambda>app.
         require_res (truthy_str (app_stack_name app)) (terr ''direct application is missing a stack name'')
          (require_res (truthy_str (app_configured_repo_url app))
            (terr ''blueprint mode requires a configured repo url'')
            (Inr \<lparr>tb_targetMode = Blueprint, tb_stackName = None, tb_blueprintId = Some blueprintId,
                  tb_configuredSourceStackName = app_stack_name app,
                  tb_configuredRepoUrl = app_configured_repo_url app\<rparr>)))
       (\<lambda>app. app_target_mode app = Blueprint \<and> app_blueprint_id app = Some blueprintId)
       (\<lambda>app db.
         require_res (case getLiveBlueprintApplication db blueprintId of
             None \<Rightarrow> True | Some live \<Rightarrow> app_id live = app_id app)
           (GitOpsTransitionError ''live blueprint application already exists'' (Some ''live_blueprint_application''))
           (assertRepoClaimFree new_URL app db))
       None"

definition end_pause :: retarget_edit where
  "end_pause app =
     (if app_pause_at app = None then (app, [])
      else (app\<lparr>app_pause_at := None, app_pause_reason := None, app_pause_origin := Po_operator\<rparr>,
            [(''pauseAt'', JNull)]))"

definition convertBlueprintToDirect ::
    "string \<Rightarrow> string \<Rightarrow> event_envelope \<Rightarrow> gitops_db \<Rightarrow> (gitops_db \<times> transition_result) res" where
  "convertBlueprintToDirect applicationId stackName envelope =
     commitTargetBinding applicationId envelope Blueprint
       (\<lambda>app. Inr \<lparr>tb_targetMode = Direct, tb_stackName = Some stackName, tb_blueprintId = None,
                  tb_configuredSourceStackName = None, tb_configuredRepoUrl = app_configured_repo_url app\<rparr>)
       (\<lambda>app. app_target_mode app = Direct \<and> app_stack_name app = Some stackName)
       (\<lambda>app db. require_res (case getLiveDirectApplication db stackName of
             None \<Rightarrow> True | Some live \<Rightarrow> app_id live = app_id app)
           (terr ''live direct application already exists'') (Inr ()))
       (Some end_pause)"

definition withdraw_git_authority :: retarget_edit where
  "withdraw_git_authority app =
     (if app_placement_approval_ref app = None \<and> app_rollout_authorization_ref app = None
         \<and> app_rollout_authorization_policy app = Ra_manual \<and> app_latest_preflight_evidence_json app = None
         \<and> app_preflight_fingerprint app = None \<and> app_pause_at app = None
      then (app, [])
      else (app\<lparr>app_placement_approval_ref := None, app_rollout_authorization_ref := None,
                app_rollout_authorization_policy := Ra_manual, app_latest_preflight_evidence_json := None,
                app_preflight_fingerprint := None, app_pause_at := None, app_pause_reason := None,
                app_pause_origin := Po_operator\<rparr>,
            [(''placementApprovalRef'', JNull), (''rolloutAuthorizationRef'', JNull),
             (''rolloutAuthorizationPolicy'', JStr ''manual''), (''latestPreflightEvidenceJson'', JNull),
             (''preflightFingerprint'', JNull), (''pauseAt'', JNull)]))"

definition blueprintModeDemoted ::
    "string \<Rightarrow> event_envelope \<Rightarrow> gitops_db \<Rightarrow> (gitops_db \<times> transition_result) res" where
  "blueprintModeDemoted applicationId envelope =
     commitTargetBinding applicationId envelope Blueprint
       (\<lambda>app. require_res (app_blueprint_id app \<noteq> None)
           (terr ''an inline blueprint application needs a blueprint id'')
           (Inr \<lparr>tb_targetMode = Inline_blueprint, tb_stackName = None, tb_blueprintId = app_blueprint_id app,
                 tb_configuredSourceStackName = None, tb_configuredRepoUrl = None\<rparr>))
       (\<lambda>app. app_target_mode app = Inline_blueprint)
       (\<lambda>app db. Inr ())
       (Some withdraw_git_authority)"

end
