(* ===== verification/Binding_Invariants.thy ===== *)
theory Binding_Invariants
  imports Recovery_Invariants Binding_Transitions
begin

text \<open>
  What an application is bound to: a stack or a Blueprint belongs to at most one live application, and a
  repository to at most one live application in Blueprint mode. The transitions that bind or retarget keep
  this, together with the invariant of the other transitions.
\<close>

section \<open>Exclusive bindings\<close>

definition repo_key :: "url_parser \<Rightarrow> gitops_application_row \<Rightarrow> string option" where
  "repo_key new_URL r = canonicalRepoKeyFromUrl new_URL (nullish (app_configured_repo_url r) [])"

definition claims_repo :: "gitops_application_row \<Rightarrow> bool" where
  "claims_repo r \<longleftrightarrow> app_target_mode r = Blueprint \<and> live_lifecycle r"

definition repo_conflict :: "url_parser \<Rightarrow> gitops_application_row \<Rightarrow> gitops_application_row \<Rightarrow> bool" where
  "repo_conflict new_URL a b \<longleftrightarrow> claims_repo a \<and> claims_repo b \<and> repo_key new_URL a = repo_key new_URL b"

text \<open>Two rows that may stand beside each other.\<close>

definition apart :: "url_parser \<Rightarrow> gitops_application_row \<Rightarrow> gitops_application_row \<Rightarrow> bool" where
  "apart new_URL a b \<longleftrightarrow> \<not> live_conflict a b \<and> \<not> repo_conflict new_URL a b"

definition row_bound_ok :: "url_parser \<Rightarrow> gitops_application_row \<Rightarrow> bool" where
  "row_bound_ok new_URL r \<longleftrightarrow> application_check r \<and> (claims_repo r \<longrightarrow> repo_key new_URL r \<noteq> None)"

definition exclusive :: "url_parser \<Rightarrow> gitops_db \<Rightarrow> bool" where
  "exclusive new_URL db \<longleftrightarrow>
     (\<forall>r \<in> set (db_applications db). row_bound_ok new_URL r)
     \<and> (\<forall>a \<in> set (db_applications db). \<forall>b \<in> set (db_applications db).
          app_id a \<noteq> app_id b \<longrightarrow> apart new_URL a b)"

lemma apart_sym: "apart u a b = apart u b a"
  by (auto simp: apart_def live_conflict_def repo_conflict_def)

lemmas binding_defs = apart_def live_conflict_def repo_conflict_def claims_repo_def repo_key_def
  live_lifecycle_status blueprint_modes_def

lemma row_bound_ok_same: "row_bound_ok u a \<Longrightarrow> same_row a b \<Longrightarrow> row_bound_ok u b"
  by (cases "app_target_mode a") (auto simp: row_bound_ok_def application_check_def binding_defs)

lemma live_conflict_same:
  assumes "same_row a a1" and "same_row b b1" and "live_conflict a1 b1"
  shows "live_conflict a b"
proof -
  have eqs: "app_target_mode a1 = app_target_mode a" "app_stack_name a1 = app_stack_name a"
    "app_blueprint_id a1 = app_blueprint_id a" "app_target_mode b1 = app_target_mode b"
    "app_stack_name b1 = app_stack_name b" "app_blueprint_id b1 = app_blueprint_id b"
    using assms(1,2) by blast+
  have "live_lifecycle a" "live_lifecycle b"
    using assms unfolding live_conflict_def live_lifecycle_status by blast+
  then show ?thesis using assms(3) unfolding live_conflict_def blueprint_modes_def eqs by blast
qed

lemma repo_conflict_same:
  assumes "same_row a a1" and "same_row b b1" and "repo_conflict u a1 b1"
  shows "repo_conflict u a b"
proof -
  have m: "app_target_mode a = Blueprint" "app_target_mode b = Blueprint"
    using assms unfolding repo_conflict_def claims_repo_def by auto
  then have "app_configured_repo_url a1 = app_configured_repo_url a" "app_configured_repo_url b1 = app_configured_repo_url b"
    using assms(1,2) by auto
  moreover have "live_lifecycle a" "live_lifecycle b"
    using assms unfolding repo_conflict_def claims_repo_def live_lifecycle_status by blast+
  ultimately show ?thesis using assms(3) m unfolding repo_conflict_def claims_repo_def repo_key_def by simp
qed

lemma apart_same: "apart u a b \<Longrightarrow> same_row a a1 \<Longrightarrow> same_row b b1 \<Longrightarrow> apart u a1 b1"
  unfolding apart_def using live_conflict_same repo_conflict_same by blast

lemma bindings_kept_source:
  assumes "bindings_kept d e" and "b \<in> set (db_applications e)"
  obtains a where "a \<in> set (db_applications d)" and "same_row a b"
proof -
  have "list_all2 same_row xs ys \<Longrightarrow> b \<in> set ys \<Longrightarrow> \<exists>a \<in> set xs. same_row a b" for xs ys
    by (induction rule: list_all2_induct) auto
  with assms show ?thesis using that unfolding bindings_kept_def by blast
qed

lemma exclusive_kept: "bindings_kept d e \<Longrightarrow> exclusive u d \<Longrightarrow> exclusive u e"
  unfolding exclusive_def
proof (intro conjI ballI impI, goal_cases)
  case (1 b)
  obtain a where a: "a \<in> set (db_applications d)" "same_row a b" by (rule bindings_kept_source [OF 1(1,3)])
  then have "row_bound_ok u a" using 1(2) by blast
  then show ?case using a(2) by (rule row_bound_ok_same)
next
  case (2 b1 b2)
  obtain a1 where a1: "a1 \<in> set (db_applications d)" "same_row a1 b1" by (rule bindings_kept_source [OF 2(1,3)])
  obtain a2 where a2: "a2 \<in> set (db_applications d)" "same_row a2 b2" by (rule bindings_kept_source [OF 2(1,4)])
  have "app_id a1 \<noteq> app_id a2" using 2(5) a1(2) a2(2) by simp
  then have "apart u a1 a2" using 2(2) a1(1) a2(1) by blast
  then show ?case using a1(2) a2(2) by (rule apart_same)
qed

lemma exclusive_insert:
  assumes "exclusive u db" and "insertApplication app db = Inr db1" and "app_target_mode app \<noteq> Blueprint"
  shows "exclusive u db1"
proof -
  have db1: "db1 = db\<lparr>db_applications := db_applications db @ [app]\<rparr>" and chk: "application_check app"
    and new: "\<forall>r \<in> set (db_applications db). \<not> live_conflict r app"
    using assms(2) by (auto simp: insertApplication_def list_ex_iff)
  have "apart u r app" if "r \<in> set (db_applications db)" for r
    using new that assms(3) by (simp add: apart_def repo_conflict_def claims_repo_def)
  moreover then have "apart u app r" if "r \<in> set (db_applications db)" for r
    using that apart_sym by blast
  ultimately show ?thesis
    using assms(1,3) chk by (auto simp: exclusive_def db1 row_bound_ok_def claims_repo_def)
qed

section \<open>Activation\<close>

text \<open>An activation inserts one row and goes on from there as a transition does.\<close>

definition inserts :: "gitops_application_row \<Rightarrow> gitops_db \<Rightarrow> gitops_db \<Rightarrow> bool" where
  "inserts app db db' \<longleftrightarrow> (\<exists>db0. insertApplication app db = Inr db0 \<and> keeps db0 db')"

lemma inserts_grows: "inserts app db db' \<Longrightarrow> db_ok db \<Longrightarrow> fresh_application app \<Longrightarrow> grows db db'"
  by (auto simp: inserts_def intro: grows_chain insertApplication_grows)

lemma inserts_exclusive:
  "inserts app db db' \<Longrightarrow> exclusive u db \<Longrightarrow> app_target_mode app \<noteq> Blueprint \<Longrightarrow> exclusive u db'"
  by (auto simp: inserts_def keeps_def intro: exclusive_kept exclusive_insert)

lemma insertApplication_ok: "insertApplication app db = Inr db0 \<Longrightarrow> db_ok db \<Longrightarrow> fresh_application app \<Longrightarrow> db_ok db0"
  using insertApplication_grows by (auto simp: grows_def)

lemma insertApplication_get: "insertApplication app db = Inr db0 \<Longrightarrow> getApplication db0 (app_id app) = Some app"
  by (auto simp: insertApplication_def getApplication_def find_snoc)

text \<open>The identities of the stack follow the new application.\<close>

lemma keeps_adopt_if: "db_ok d \<Longrightarrow> keeps d (if b then adoptStackScopedIdentities i s d else d)"
  by (simp add: keeps_adopt keeps_refl)

lemma activateDirect_inserts:
  assumes run: "activateDirect app n e db = Inr (db', r)" and ok: "db_ok db" and fresh: "fresh_application app"
  shows "inserts app db db'"
proof -
  define adopt where "adopt d = (if truthy_str (app_stack_name app)
      then adoptStackScopedIdentities (app_id app) (the (app_stack_name app)) d else d)" for d
  obtain db0 db2 f where ins: "insertApplication app db = Inr db0"
    and ups: "upsertTarget (emptyTargetRow (app_id app) n (ev_at e)) (adopt db0) = Inr db2"
    and db': "db' = snd (history app e f db2)"
    using run by (auto simp: activateDirect_def adopt_def Let_def prod.case_eq_if)
  have "keeps db0 (adopt db0)" unfolding adopt_def by (rule keeps_adopt_if [OF insertApplication_ok [OF ins ok fresh]])
  then have "keeps db0 db2" by (rule keeps_chain) (rule keeps_upsert [OF _ ups])
  then have "keeps db0 db'" unfolding db' by (rule keeps_chain) (rule keeps_history)
  with ins show ?thesis by (auto simp: inserts_def)
qed

lemma activateInlineBlueprint_inserts:
  assumes run: "activateInlineBlueprint app e db = Inr (db', r)" and ok: "db_ok db" and fresh: "fresh_application app"
  shows "inserts app db db'"
proof -
  obtain db0 f where ins: "insertApplication app db = Inr db0" and db': "db' = snd (history app e f db0)"
    using run by (auto simp: activateInlineBlueprint_def Let_def prod.case_eq_if split: option.splits)
  then show ?thesis
    using keeps_history [OF insertApplication_ok [OF ins ok fresh]] by (auto simp: inserts_def)
qed

text \<open>A create puts the fetched generation in as the candidate, validated.\<close>

lemma created_row_ok:
  assumes "fresh_application app" and "validated db (app_id app) (gen_id gen)"
  shows "app_ok db (created_row c gen e app)"
  using assms validated_owned by (simp add: app_ok_def created_row_def fresh_application_def)

lemma keeps_checkpoint: "db_ok d \<Longrightarrow> insertCreateCheckpoint row d = Inr d1 \<Longrightarrow> keeps d d1"
  by (rule keeps_tables) (auto simp: insertCreateCheckpoint_def)

lemma keeps_deleteCheckpoint: "db_ok d \<Longrightarrow> keeps d (deleteCreateCheckpoint i d)"
  by (rule keeps_tables) (auto simp: deleteCreateCheckpoint_def)

lemma activateCreateFromGit_inserts:
  assumes run: "activateCreateFromGit app n c gen ck e db = Inr (db', r)" and ok: "db_ok db"
    and fresh: "fresh_application app"
  shows "inserts app db db'"
proof -
  define adopt where "adopt d = (if truthy_str (app_stack_name app)
      then adoptStackScopedIdentities (app_id app) (the (app_stack_name app)) d else d)" for d
  obtain db0 db2 db5 db6 db8 a1 a2 f1 f2 f3 t1 t2 ck1 where guard: "create_guard app gen db = Inr ()"
    and ins: "insertApplication app db = Inr db0" and u1: "upsertTarget t1 (adopt db0) = Inr db2"
    and g: "insertGeneration gen (snd (history a2 e f2 (snd (history a1 e f1 db2)))) = Inr db5"
    and k: "insertCreateCheckpoint ck1 db5 = Inr db6"
    and u2: "upsertTarget t2 (writeApplication (created_row c gen e app) db6) = Inr db8"
    and db': "db' = snd (history (created_row c gen e app) e f3 db8)"
    using run by (auto simp: activateCreateFromGit_def adopt_def Let_def prod.case_eq_if)
  have ok0: "db_ok db0" by (rule insertApplication_ok [OF ins ok fresh])
  have "keeps db0 (adopt db0)" unfolding adopt_def by (rule keeps_adopt_if [OF ok0])
  then have "keeps db0 db2" by (rule keeps_chain) (rule keeps_upsert [OF _ u1])
  then have "keeps db0 (snd (history a1 e f1 db2))" by (rule keeps_chain) (rule keeps_history)
  then have "keeps db0 (snd (history a2 e f2 (snd (history a1 e f1 db2))))" by (rule keeps_chain) (rule keeps_history)
  then have k5: "keeps db0 db5" by (rule keeps_chain) (rule insertGeneration_keeps [OF g])
  then have k6: "keeps db0 db6" by (rule keeps_chain) (rule keeps_checkpoint [OF _ k])
  have "validated db5 (app_id app) (gen_id gen)"
    using insertGeneration_get [OF g] guard by (auto simp: validated_def create_guard_def)
  moreover have "db_le db5 db6" using k5 keeps_checkpoint [OF _ k] by (auto simp: keeps_def)
  ultimately have "app_ok db6 (created_row c gen e app)"
    using created_row_ok [OF fresh] validated_mono by blast
  then have "keeps db0 (writeApplication (created_row c gen e app) db6)"
    by (intro keeps_write [OF ok0 insertApplication_get [OF ins] _ k6]) (simp_all add: created_row_def)
  then have "keeps db0 db8" by (rule keeps_chain) (rule keeps_upsert [OF _ u2])
  then have "keeps db0 db'" unfolding db' by (rule keeps_chain) (rule keeps_history)
  with ins show ?thesis by (auto simp: inserts_def)
qed

lemma createFailed_keeps:
  assumes run: "createFailed i c e db = Inr (db', r)" and ok: "db_ok db"
  shows "keeps db db'"
proof -
  obtain app db2 ts f where app: "getApplication db i = Some app"
    and u: "upsert_each ts (writeApplication (failed_create_row c e app) db) = Inr db2"
    and db': "db' = snd (history (failed_create_row c e app) e f
        (deleteCreateCheckpoint (app_id (failed_create_row c e app)) db2))"
    using run by (auto simp: createFailed_def requireApp_def Let_def prod.case_eq_if split: option.splits)
  have "app_ok db (failed_create_row c e app)"
    using getApplication_ok [OF ok app] by (simp add: failed_create_row_def app_ok_def clearActive_def)
  then have "keeps db (writeApplication (failed_create_row c e app) db)"
    by (intro keeps_write [OF ok app _ keeps_refl [OF ok]]) (simp_all add: failed_create_row_def clearActive_def)
  then have "keeps db db2" by (rule keeps_chain) (rule keeps_upsert_each [OF _ u])
  then have "keeps db (deleteCreateCheckpoint (app_id (failed_create_row c e app)) db2)"
    by (rule keeps_chain) (rule keeps_deleteCheckpoint)
  then show ?thesis unfolding db' by (rule keeps_chain) (rule keeps_history)
qed

section \<open>Retargeting\<close>

lemma bound_row_ok:
  "app_ok db r \<Longrightarrow> app_target_mode r \<noteq> Inline_blueprint \<Longrightarrow> app_ok db (bound_row b now r)"
  by (simp add: app_ok_def bound_row_def)

text \<open>The one write that rebinds a row: every other row stays, the invariant holds, and so does exclusivity
  when the new binding is free.\<close>

lemma updateBinding_map:
  assumes "updateApplicationTargetBinding i m b now db = Inr (1, db1)" and "getApplication db i = Some app"
  shows "db1 = db\<lparr>db_applications := map (\<lambda>a. if app_id a = i then bound_row b now a else a) (db_applications db)\<rparr>"
    and "application_check (bound_row b now app)"
    and "\<forall>r \<in> set (db_applications db). app_id r \<noteq> i \<longrightarrow> \<not> live_conflict r (bound_row b now app)"
  using assms by (auto simp: updateApplicationTargetBinding_def Let_def list_ex_iff split: if_splits)

lemma stored_unique:
  "db_ok db \<Longrightarrow> getApplication db i = Some app \<Longrightarrow> r \<in> set (db_applications db) \<Longrightarrow> app_id r = i \<Longrightarrow> r = app"
  using distinct_getApplication by (auto simp: db_ok_def)

lemma updateBinding_grows:
  assumes ok: "db_ok db" and app: "getApplication db i = Some app" and m: "app_target_mode app \<noteq> Inline_blueprint"
    and up: "updateApplicationTargetBinding i mode b now db = Inr (1, db1)"
  shows "grows db db1" and "getApplication db1 i = Some (bound_row b now app)"
proof -
  note db1 = updateBinding_map(1) [OF up app]
  have stored: "find (\<lambda>r. app_id r = i) rs = Some a
      \<Longrightarrow> find (\<lambda>r. app_id r = i) (map (\<lambda>r. if app_id r = i then bound_row b now r else r) rs) = Some (bound_row b now a)"
    for rs a by (induction rs) (auto simp: bound_row_def split: if_splits)
  have le: "db_le db db1" unfolding db1 by (rule db_le_tables) simp_all
  have rows: "app_ok db a" if a1: "a \<in> set (db_applications db1)" for a
  proof -
    obtain r where r: "r \<in> set (db_applications db)" and a: "a = (if app_id r = i then bound_row b now r else r)"
      using a1 by (auto simp: db1)
    then show ?thesis
      using ok m stored_unique [OF ok app r] bound_row_ok by (auto simp: db_ok_def)
  qed
  moreover have "distinct (map app_id (db_applications db1))"
    unfolding db1 by (simp, rule distinct_map_replace [simplified])
      (use ok in \<open>auto simp: db_ok_def bound_row_def comp_def\<close>)
  ultimately have "db_ok db1"
    using ok le app_ok_mono [OF le] target_ok_mono [OF le] audit_ok_cong [of db db1] by (auto simp: db_ok_def db1)
  then show "grows db db1" using le by (simp add: grows_def)
  show "getApplication db1 i = Some (bound_row b now app)"
    using app stored by (simp add: db1 getApplication_def)
qed

lemma updateBinding_exclusive:
  assumes ok: "db_ok db" and ex: "exclusive u db" and app: "getApplication db i = Some app"
    and up: "updateApplicationTargetBinding i mode b now db = Inr (1, db1)"
    and claim: "claims_repo (bound_row b now app) \<Longrightarrow> repo_key u (bound_row b now app) \<noteq> None
      \<and> (\<forall>r \<in> set (db_applications db). app_id r \<noteq> i \<longrightarrow> claims_repo r
            \<longrightarrow> repo_key u r \<noteq> repo_key u (bound_row b now app))"
  shows "exclusive u db1"
proof -
  note db1 = updateBinding_map(1) [OF up app] and chk = updateBinding_map(2,3) [OF up app]
  let ?new = "bound_row b now app"
  have new: "apart u r ?new" if "r \<in> set (db_applications db)" "app_id r \<noteq> i" for r
    using that chk(2) claim by (auto simp: apart_def repo_conflict_def)
  have src: "a = ?new \<and> app_id a = i \<or> a \<in> set (db_applications db) \<and> app_id a \<noteq> i"
    if "a \<in> set (db_applications db1)" for a
    using that stored_unique [OF ok app] getApplication_id [OF app] by (auto simp: db1 bound_row_def)
  have "apart u a c" if ac: "a \<in> set (db_applications db1)" "c \<in> set (db_applications db1)" "app_id a \<noteq> app_id c" for a c
    using src [OF ac(1)] src [OF ac(2)] ac(3) new apart_sym ex unfolding exclusive_def by metis
  moreover have "row_bound_ok u a" if "a \<in> set (db_applications db1)" for a
    using src [OF that] ex chk(1) claim by (auto simp: exclusive_def row_bound_ok_def)
  ultimately show ?thesis by (simp add: exclusive_def)
qed

text \<open>A retarget, taken apart: a replay that only appends history, or the rebinding followed by the edit.\<close>

definition edit_ok :: "retarget_edit \<Rightarrow> bool" where
  "edit_ok edit \<longleftrightarrow> (\<forall>a. same_row a (fst (edit a)) \<and> (\<forall>db. app_ok db a \<longrightarrow> app_ok db (fst (edit a))))"

lemma commitTargetBinding_cases:
  assumes run: "commitTargetBinding i e m nxt match ready edit db = Inr (db', r)" and ok: "db_ok db"
    and m: "m \<noteq> Inline_blueprint" and edit: "\<And>f. edit = Some f \<Longrightarrow> edit_ok f"
  obtains "keeps db db'"
  | app b db1 where "getApplication db i = Some app" "app_target_mode app = m" "ready app db = Inr ()"
      "nxt app = Inr b" "updateApplicationTargetBinding i m b (ev_at e) db = Inr (1, db1)" "keeps db1 db'"
proof -
  obtain app where app: "getApplication db i = Some app"
    using run by (auto simp: commitTargetBinding_def split: option.splits)
  have i: "app_id app = i" using getApplication_id [OF app] by simp
  show ?thesis
  proof (cases "match app")
    case True
    then have "\<exists>f. db' = snd (history app e f db)"
      using run app by (auto simp: commitTargetBinding_def Let_def prod.case_eq_if)
    then show ?thesis using keeps_history [OF ok] that(1) by auto
  next
    case False
    then obtain b db1 row a f where mode: "app_target_mode app = m" and ready: "ready app db = Inr ()"
      and b: "nxt app = Inr b" and up: "updateApplicationTargetBinding i m b (ev_at e) db = Inr (1, db1)"
      and row: "getApplication db1 i = Some row"
      and db': "db' = snd (history a e f (snd (snd (apply_retarget edit row db1))))"
      using run app by (auto simp: commitTargetBinding_def i Let_def prod.case_eq_if split: option.splits)
    have ok1: "db_ok db1" using updateBinding_grows(1) [OF ok app _ up] m mode by (simp add: grows_def)
    have "keeps db1 (snd (snd (apply_retarget edit row db1)))"
    proof (cases edit)
      case None
      then show ?thesis using ok1 by (simp add: keeps_refl apply_retarget_def)
    next
      case (Some g)
      have "keeps db1 (writeApplication (fst (g row)) db1)"
        using edit [OF Some] getApplication_ok [OF ok1 row]
        by (intro keeps_write [OF ok1 row _ keeps_refl [OF ok1]]) (simp_all add: edit_ok_def)
      then show ?thesis by (simp add: apply_retarget_def Some prod.case_eq_if Let_def)
    qed
    then have "keeps db1 db'" using db' by (auto elim!: keeps_chain intro: keeps_history)
    then show ?thesis using that(2) app mode ready b up by blast
  qed
qed

lemma end_pause_ok: "edit_ok end_pause"
  by (auto simp: edit_ok_def end_pause_def app_ok_def)

lemma withdraw_git_authority_ok: "edit_ok withdraw_git_authority"
  by (auto simp: edit_ok_def withdraw_git_authority_def app_ok_def)

text \<open>The two halves of a retarget together: what follows for any of the three conversions.\<close>

lemma commit_keeps_binding:
  assumes run: "commitTargetBinding i e m nxt match ready edit db = Inr (db', r)" and ok: "db_ok db"
    and ex: "exclusive u db" and m: "m \<noteq> Inline_blueprint" and edit: "\<And>f. edit = Some f \<Longrightarrow> edit_ok f"
    and claim: "\<And>app b. getApplication db i = Some app \<Longrightarrow> ready app db = Inr () \<Longrightarrow> nxt app = Inr b
      \<Longrightarrow> claims_repo (bound_row b (ev_at e) app)
      \<Longrightarrow> repo_key u (bound_row b (ev_at e) app) \<noteq> None
        \<and> (\<forall>r \<in> set (db_applications db). app_id r \<noteq> i \<longrightarrow> claims_repo r
              \<longrightarrow> repo_key u r \<noteq> repo_key u (bound_row b (ev_at e) app))"
  shows "grows db db' \<and> exclusive u db'"
proof (rule commitTargetBinding_cases [OF run ok m edit], assumption, goal_cases)
  case 1
  then show ?thesis using ex by (auto simp: keeps_def grows_def intro: exclusive_kept)
next
  case (2 app b db1)
  have "exclusive u db1" by (rule updateBinding_exclusive [OF ok ex 2(1,5)]) (rule claim [OF 2(1,3,4)])
  then have "exclusive u db'" using 2(6) by (auto simp: keeps_def intro: exclusive_kept)
  moreover have "grows db db'"
    using updateBinding_grows(1) [OF ok 2(1) _ 2(5)] 2(2,6) m by (auto intro: grows_chain)
  ultimately show ?thesis by simp
qed

lemma check_claims_free:
  "check_claims u i key rows = Inr () \<Longrightarrow> r \<in> set rows \<Longrightarrow> app_id r \<noteq> i \<Longrightarrow> repo_key u r \<noteq> Some key"
  by (induction rows) (auto simp: repo_key_def split: if_splits option.splits)

lemma assertRepoClaimFree_free:
  assumes "assertRepoClaimFree u app db = Inr ()"
  shows "repo_key u app \<noteq> None"
    and "r \<in> set (db_applications db) \<Longrightarrow> claims_repo r \<Longrightarrow> app_id r \<noteq> app_id app \<Longrightarrow> repo_key u r \<noteq> repo_key u app"
proof -
  obtain key where key: "repo_key u app = Some key"
    and chk: "check_claims u (app_id app) key (listLiveBlueprintModeApplications db) = Inr ()"
    using assms by (auto simp: assertRepoClaimFree_def repo_key_def split: option.splits)
  show "repo_key u app \<noteq> None" using key by simp
  assume "r \<in> set (db_applications db)" "claims_repo r" "app_id r \<noteq> app_id app"
  then show "repo_key u r \<noteq> repo_key u app"
    using check_claims_free [OF chk, of r] key by (simp add: listLiveBlueprintModeApplications_def claims_repo_def)
qed

lemma convertDirectToBlueprint_binds:
  assumes "convertDirectToBlueprint u i b e db = Inr (db', r)" and ok: "db_ok db" and ex: "exclusive u db"
  shows "grows db db' \<and> exclusive u db'"
  using assms(1) unfolding convertDirectToBlueprint_def
proof (rule commit_keeps_binding [OF _ ok ex], goal_cases)
  case (3 app bd)
  then have free: "assertRepoClaimFree u app db = Inr ()" and url: "repo_key u (bound_row bd (ev_at e) app) = repo_key u app"
    by (auto simp: repo_key_def bound_row_def)
  show ?case
    using assertRepoClaimFree_free [OF free] getApplication_id [OF 3(1)] unfolding url by simp
qed simp_all

lemma convertBlueprintToDirect_binds:
  assumes "convertBlueprintToDirect i s e db = Inr (db', r)" and ok: "db_ok db" and ex: "exclusive u db"
  shows "grows db db' \<and> exclusive u db'"
  using assms(1) unfolding convertBlueprintToDirect_def
  by (rule commit_keeps_binding [OF _ ok ex]) (auto simp: end_pause_ok claims_repo_def bound_row_def)

lemma blueprintModeDemoted_binds:
  assumes "blueprintModeDemoted i e db = Inr (db', r)" and ok: "db_ok db" and ex: "exclusive u db"
  shows "grows db db' \<and> exclusive u db'"
  using assms(1) unfolding blueprintModeDemoted_def
  by (rule commit_keeps_binding [OF _ ok ex]) (auto simp: withdraw_git_authority_ok claims_repo_def bound_row_def)

end
