(* ===== verification/Outbox_Laws.thy ===== *)
theory Outbox_Laws
  imports Audit_Laws
begin

text \<open>
  What draining the outbox does: it touches the outbox and the notification history only, it never
  changes which rows the outbox holds, a row it drained is left alone afterwards, and a pass over the
  undrained rows leaves nothing behind that can be announced.
\<close>

section \<open>Frames\<close>

lemma addNotificationHistory_frame:
  "addNotificationHistory row db = db\<lparr>db_notifications := db_notifications (addNotificationHistory row db)\<rparr>"
  by (simp add: addNotificationHistory_def)

lemma fanout_frame:
  "fanoutSettledNotification dn p db = db\<lparr>db_notifications := db_notifications (fanoutSettledNotification dn p db)\<rparr>"
  "fanoutGitOpsEvent dn q db = db\<lparr>db_notifications := db_notifications (fanoutGitOpsEvent dn q db)\<rparr>"
  unfolding fanoutSettledNotification_def fanoutGitOpsEvent_def
  by (auto simp: prod.case_eq_if Let_def intro: addNotificationHistory_frame)

lemma fanout_outbox [simp]:
  "db_outbox (fanoutSettledNotification dn p db) = db_outbox db"
  "db_outbox (fanoutGitOpsEvent dn q db) = db_outbox db"
  by (subst fanout_frame, simp)+

text \<open>The payload of an outbox row as the drain reads it, and whether the drain can announce it.\<close>

definition announceable :: "outbox_row \<Rightarrow> bool" where
  "announceable r \<longleftrightarrow>
     (if obx_payload_version r = GITOPS_EVENT_PAYLOAD_VERSION
      then \<not> isl (decodeGitOpsEventPayload (obx_payload_json r) (obx_payload_version r))
      else obx_payload_version r = SETTLED_ATTEMPT_PAYLOAD_VERSION
        \<and> \<not> isl (decodeSettledAttemptPayload (obx_payload_json r) (obx_payload_version r)))"

text \<open>A drain either leaves the database alone or marks its row and adds at most one notification.\<close>

lemma drain_cases:
  "drainGitOpsOutboxRow dn now i db = db
   \<or> (\<exists>n. drainGitOpsOutboxRow dn now i db = markDrained i now (db\<lparr>db_notifications := n\<rparr>))"
  unfolding drainGitOpsOutboxRow_def drainDecodedRow_def
  by (auto split: option.split sum.split simp: Let_def) (metis fanout_frame)+

lemma drain_frame:
  "drainGitOpsOutboxRow dn now i db = db\<lparr>db_outbox := db_outbox (drainGitOpsOutboxRow dn now i db),
     db_notifications := db_notifications (drainGitOpsOutboxRow dn now i db)\<rparr>"
  using drain_cases [of dn now i db] by (auto simp: markDrained_def)

lemma drain_tables [simp]:
  "db_applications (drainGitOpsOutboxRow dn now i db) = db_applications db"
  "db_targets (drainGitOpsOutboxRow dn now i db) = db_targets db"
  "db_generations (drainGitOpsOutboxRow dn now i db) = db_generations db"
  "db_artifact_sets (drainGitOpsOutboxRow dn now i db) = db_artifact_sets db"
  "db_approvals (drainGitOpsOutboxRow dn now i db) = db_approvals db"
  "db_history (drainGitOpsOutboxRow dn now i db) = db_history db"
  "db_blueprint_names (drainGitOpsOutboxRow dn now i db) = db_blueprint_names db"
  by (subst drain_frame, simp)+

section \<open>Which rows the outbox holds\<close>

lemma markDrained_ids [simp]:
  "map obx_settled_history_id (db_outbox (markDrained i t db)) = map obx_settled_history_id (db_outbox db)"
  by (simp add: markDrained_def comp_def if_distrib [of obx_settled_history_id] cong: if_cong)

lemma drain_ids [simp]:
  "map obx_settled_history_id (db_outbox (drainGitOpsOutboxRow dn now i db)) =
     map obx_settled_history_id (db_outbox db)"
  using drain_cases [of dn now i db] by auto

lemma drain_audit: "audit_ok db \<Longrightarrow> audit_ok (drainGitOpsOutboxRow dn now i db)"
  by (simp add: audit_ok_def)

section \<open>A pass over the undrained rows\<close>

definition pending :: "outbox_row \<Rightarrow> bool" where
  "pending r \<longleftrightarrow> obx_drained_at r = None \<and> announceable r"

definition mark :: "js_number \<Rightarrow> outbox_row \<Rightarrow> outbox_row" where
  "mark now r = r\<lparr>obx_drained_at := Some now, obx_updated_at := now\<rparr>"

lemma mark_id [simp]: "obx_settled_history_id (mark now r) = obx_settled_history_id r"
  by (simp add: mark_def)

lemma not_pending_mark [simp]: "\<not> pending (mark now r)"
  by (simp add: mark_def pending_def)

text \<open>The notification a row turns into.\<close>

definition fanout_row :: "js_number \<Rightarrow> outbox_row \<Rightarrow> gitops_db \<Rightarrow> gitops_db" where
  "fanout_row dn r db =
     (if obx_payload_version r = GITOPS_EVENT_PAYLOAD_VERSION
      then (case decodeGitOpsEventPayload (obx_payload_json r) (obx_payload_version r) of
              Inr p \<Rightarrow> fanoutGitOpsEvent dn p db | Inl _ \<Rightarrow> db)
      else (case decodeSettledAttemptPayload (obx_payload_json r) (obx_payload_version r) of
              Inr p \<Rightarrow> fanoutSettledNotification dn p db | Inl _ \<Rightarrow> db))"

lemma fanout_row_outbox [simp]: "db_outbox (fanout_row dn r db) = db_outbox db"
  by (simp add: fanout_row_def split: sum.split)

lemma drain_found:
  assumes "find (\<lambda>r. obx_settled_history_id r = i) (db_outbox db) = Some r"
  shows "drainGitOpsOutboxRow dn now i db =
     (if pending r then markDrained i now (fanout_row dn r db) else db)"
  using assms
  by (auto simp: drainGitOpsOutboxRow_def drainDecodedRow_def pending_def announceable_def fanout_row_def
      isl_def split: sum.split)

lemma drain_outbox:
  assumes "distinct (map obx_settled_history_id (db_outbox db))"
  shows "db_outbox (drainGitOpsOutboxRow dn now i db) =
     map (\<lambda>r. if obx_settled_history_id r = i \<and> pending r then mark now r else r) (db_outbox db)"
proof (cases "find (\<lambda>r. obx_settled_history_id r = i) (db_outbox db)")
  case None
  then have "\<forall>r \<in> set (db_outbox db). obx_settled_history_id r \<noteq> i" by (simp add: find_None_all)
  then show ?thesis by (auto simp: drainGitOpsOutboxRow_def None intro!: map_idI [symmetric])
next
  case (Some r0)
  then have r0: "r0 \<in> set (db_outbox db)" "obx_settled_history_id r0 = i" by (auto dest: find_Some_set)
  have uniq: "r = r0" if "r \<in> set (db_outbox db)" "obx_settled_history_id r = i" for r
    using assms that r0 by (auto simp: distinct_map inj_on_def)
  show ?thesis
  proof (cases "pending r0")
    case True
    then have "obx_drained_at r0 = None" by (simp add: pending_def)
    then show ?thesis using uniq True
      by (auto simp: drain_found [OF Some] markDrained_def mark_def)
  next
    case False
    then show ?thesis using uniq by (auto simp: drain_found [OF Some] intro!: map_idI [symmetric])
  qed
qed

lemma fold_drain_outbox:
  assumes "distinct (map obx_settled_history_id (db_outbox db))"
  shows "db_outbox (fold (drainGitOpsOutboxRow dn now) is db) =
     map (\<lambda>r. if obx_settled_history_id r \<in> set is \<and> pending r then mark now r else r) (db_outbox db)"
  using assms
proof (induction "is" arbitrary: db)
  case Nil
  then show ?case by simp
next
  case (Cons i "is")
  have "distinct (map obx_settled_history_id (db_outbox (drainGitOpsOutboxRow dn now i db)))"
    using Cons.prems by (simp only: drain_ids)
  from Cons.IH [OF this] show ?case by (auto simp: drain_outbox [OF Cons.prems])
qed

lemma repair_fold:
  "repairGitOpsOutbox dn now db =
     fold (drainGitOpsOutboxRow dn now) (map obx_settled_history_id (listUndrained db)) db"
  by (simp add: repairGitOpsOutbox_def fold_map comp_def)

lemma set_listUndrained: "set (listUndrained db) = {r \<in> set (db_outbox db). obx_drained_at r = None}"
  by (auto simp: listUndrained_def)

lemma repair_outbox:
  assumes "distinct (map obx_settled_history_id (db_outbox db))"
  shows "db_outbox (repairGitOpsOutbox dn now db) =
     map (\<lambda>r. if pending r then mark now r else r) (db_outbox db)"
  unfolding repair_fold fold_drain_outbox [OF assms]
  by (auto simp: set_listUndrained pending_def)

lemma drain_not_pending:
  assumes "\<forall>r \<in> set (db_outbox db). \<not> pending r"
  shows "drainGitOpsOutboxRow dn now i db = db"
proof (cases "find (\<lambda>r. obx_settled_history_id r = i) (db_outbox db)")
  case None
  then show ?thesis by (simp add: drainGitOpsOutboxRow_def)
next
  case (Some r)
  then show ?thesis using assms by (auto simp: drain_found dest: find_Some_set)
qed

lemma repair_nothing_pending:
  assumes "\<forall>r \<in> set (db_outbox db). \<not> pending r"
  shows "repairGitOpsOutbox dn now db = db"
proof -
  have "fold (drainGitOpsOutboxRow dn now) is db = db" for "is"
    by (induction "is") (simp_all add: drain_not_pending [OF assms])
  then show ?thesis by (simp add: repair_fold)
qed

lemma repair_twice:
  assumes "distinct (map obx_settled_history_id (db_outbox db))"
  shows "repairGitOpsOutbox dn' now' (repairGitOpsOutbox dn now db) = repairGitOpsOutbox dn now db"
  by (rule repair_nothing_pending) (auto simp: repair_outbox [OF assms])

section \<open>Delivery\<close>

text \<open>The dedupe key of the notification a row turns into; none when its outcome carries no news.\<close>

definition row_key :: "outbox_row \<Rightarrow> string option" where
  "row_key r =
     (if obx_payload_version r = GITOPS_EVENT_PAYLOAD_VERSION
      then (case decodeGitOpsEventPayload (obx_payload_json r) (obx_payload_version r) of
              Inr p \<Rightarrow> Some (gitOpsEventNotificationDedupeKey (ep_historyId p)) | Inl _ \<Rightarrow> None)
      else (case decodeSettledAttemptPayload (obx_payload_json r) (obx_payload_version r) of
              Inr p \<Rightarrow> (if settledOutcomeCarriesNews (sp_outcome p)
                 then Some (gitOpsAttemptNotificationKey (sp_operationId p) (settled_candidate p)) else None)
            | Inl _ \<Rightarrow> None))"

definition notified :: "gitops_db \<Rightarrow> string \<Rightarrow> bool" where
  "notified db k \<longleftrightarrow> (\<exists>n \<in> set (db_notifications db). ntf_dedupe_key n = Some k)"

definition deduped :: "gitops_db \<Rightarrow> bool" where
  "deduped db \<longleftrightarrow> distinct (filter (\<lambda>k. k \<noteq> None) (map ntf_dedupe_key (db_notifications db)))"

lemma addNotificationHistory_notified:
  "ntf_dedupe_key row = Some k \<Longrightarrow> notified (addNotificationHistory row db) k"
  "notified db j \<Longrightarrow> notified (addNotificationHistory row db) j"
  by (auto simp: addNotificationHistory_def notified_def)

lemma addNotificationHistory_deduped: "deduped db \<Longrightarrow> deduped (addNotificationHistory row db)"
  by (auto simp: addNotificationHistory_def deduped_def)

lemma fanout_row_notified:
  "row_key r = Some k \<Longrightarrow> notified (fanout_row dn r db) k"
  "notified db j \<Longrightarrow> notified (fanout_row dn r db) j"
  by (auto simp: row_key_def fanout_row_def fanoutGitOpsEvent_def fanoutSettledNotification_def Let_def
      prod.case_eq_if intro: addNotificationHistory_notified split: sum.splits if_splits)

lemma fanout_row_deduped: "deduped db \<Longrightarrow> deduped (fanout_row dn r db)"
  by (auto simp: fanout_row_def fanoutGitOpsEvent_def fanoutSettledNotification_def Let_def
      prod.case_eq_if intro: addNotificationHistory_deduped split: sum.splits)

lemma markDrained_notifications [simp]: "db_notifications (markDrained i t db) = db_notifications db"
  by (simp add: markDrained_def)

lemma drain_notified: "notified db k \<Longrightarrow> notified (drainGitOpsOutboxRow dn now i db) k"
proof (cases "find (\<lambda>r. obx_settled_history_id r = i) (db_outbox db)")
  case (Some r)
  assume "notified db k"
  then have "notified (fanout_row dn r db) k" by (rule fanout_row_notified)
  then show ?thesis using \<open>notified db k\<close> by (simp add: drain_found [OF Some] notified_def)
qed (simp add: drainGitOpsOutboxRow_def)

lemma drain_deduped: "deduped db \<Longrightarrow> deduped (drainGitOpsOutboxRow dn now i db)"
proof (cases "find (\<lambda>r. obx_settled_history_id r = i) (db_outbox db)")
  case (Some r)
  assume "deduped db"
  moreover then have "deduped (fanout_row dn r db)" by (rule fanout_row_deduped)
  ultimately show ?thesis by (simp add: drain_found [OF Some] deduped_def)
qed (simp add: drainGitOpsOutboxRow_def)

lemma fold_drain_notified: "notified db k \<Longrightarrow> notified (fold (drainGitOpsOutboxRow dn now) is db) k"
  by (induction "is" arbitrary: db) (simp_all add: drain_notified)

lemma repair_deduped: "deduped db \<Longrightarrow> deduped (repairGitOpsOutbox dn now db)"
proof -
  have "deduped d \<Longrightarrow> deduped (fold (drainGitOpsOutboxRow dn now) is d)" for "is" d
    by (induction "is" arbitrary: d) (simp_all add: drain_deduped)
  then show "deduped db \<Longrightarrow> ?thesis" by (simp add: repair_fold)
qed

lemma fold_drain_delivers:
  assumes "distinct (map obx_settled_history_id (db_outbox db))" and "r \<in> set (db_outbox db)"
    and "pending r" and "row_key r = Some k" and "obx_settled_history_id r \<in> set is"
  shows "notified (fold (drainGitOpsOutboxRow dn now) is db) k"
  using assms
proof (induction "is" arbitrary: db)
  case Nil
  then show ?case by simp
next
  case (Cons i "is")
  show ?case
  proof (cases "obx_settled_history_id r = i")
    case True
    have "find (\<lambda>s. obx_settled_history_id s = obx_settled_history_id r) (db_outbox db) = Some r"
      using Cons.prems(1,2) by (rule find_distinct_key)
    then have "drainGitOpsOutboxRow dn now i db = markDrained i now (fanout_row dn r db)"
      using True Cons.prems(3) by (simp add: drain_found)
    moreover have "notified (fanout_row dn r db) k" using Cons.prems(4) by (rule fanout_row_notified)
    ultimately have "notified (drainGitOpsOutboxRow dn now i db) k" by (simp add: notified_def)
    then show ?thesis by (simp add: fold_drain_notified)
  next
    case False
    have "distinct (map obx_settled_history_id (db_outbox (drainGitOpsOutboxRow dn now i db)))"
      using Cons.prems(1) by (simp only: drain_ids)
    moreover have "r \<in> set (db_outbox (drainGitOpsOutboxRow dn now i db))"
      using Cons.prems(2) False by (force simp: drain_outbox [OF Cons.prems(1)])
    ultimately have "notified (fold (drainGitOpsOutboxRow dn now) is (drainGitOpsOutboxRow dn now i db)) k"
      using Cons.IH Cons.prems(3,4,5) False by auto
    then show ?thesis by simp
  qed
qed

lemma repair_delivers:
  assumes "distinct (map obx_settled_history_id (db_outbox db))" and "r \<in> set (db_outbox db)"
    and "pending r" and "row_key r = Some k"
  shows "notified (repairGitOpsOutbox dn now db) k"
  unfolding repair_fold using assms
  by (intro fold_drain_delivers) (auto simp: set_listUndrained pending_def)

end
