(* ===== verification/Lifecycle.thy ===== *)
theory Lifecycle
  imports Binding_Invariants Outbox_Laws
begin

text \<open>
  The transitions as one state machine: an event per transition, the databases reachable from the empty
  one, and what holds in every one of them and along every run. The invariants are those of
  \<^verbatim>\<open>Transition_Invariants\<close>; the properties here span the store, the transitions and the scans.
\<close>

section \<open>Events\<close>

text \<open>What the transitions take from the JavaScript platform: \<^verbatim>\<open>String.prototype.localeCompare\<close> and \<^verbatim>\<open>new URL\<close>.\<close>

record platform =
  localeCompare :: "string \<Rightarrow> string \<Rightarrow> int"
  newURL :: url_parser

text \<open>Events on a node's workload: rollbacks and recoveries, Blueprint deploys, health verdicts.\<close>

datatype (plugins only: code) workload_event =
    Ev_rollbackInProgress string "int option" string "string option" event_envelope
  | Ev_rollbackPartialFailed string "int option" string rollback_failure_class event_envelope
  | Ev_rollbackRefusalSettled string "(int \<times> rollback_failure_class) list" string event_envelope
  | Ev_rollbackCompleted string int string string "string option" "string option" event_envelope
  | Ev_recoveryStarted string int string "string option" event_envelope
  | Ev_recoverySucceeded recovery_success_args "reserve_health_run option"
  | Ev_recoveryFailed string int string deploy_failure_class event_envelope
  | Ev_blueprintDeployStarted string int string "string option" "string option option" event_envelope
  | Ev_blueprintAckRecorded string int string "string option" "int option" "string option" event_envelope
  | Ev_inlineRevisionFrozen string gitops_generation_row string event_envelope
  | Ev_blueprintDeployFailed string int string event_envelope
  | Ev_blueprintWithdrawStarted string int string event_envelope
  | Ev_blueprintWithdrawn string int string event_envelope
  | Ev_blueprintWithdrawFailed string int string event_envelope
  | Ev_blueprintObservation string int blueprint_observation_stage event_envelope
  | Ev_healthFinalized health_final_args
  | Ev_healthRunReleased string int string event_envelope

text \<open>Events that change what an application is bound to.\<close>

datatype (plugins only: code) binding_event =
    Ev_activateDirect gitops_application_row int event_envelope
  | Ev_activateInlineBlueprint gitops_application_row event_envelope
  | Ev_activateCreateFromGit gitops_application_row int string gitops_generation_row
      gitops_create_checkpoint_row event_envelope
  | Ev_createFailed string string event_envelope
  | Ev_convertDirectToBlueprint string int event_envelope
  | Ev_convertBlueprintToDirect string string event_envelope
  | Ev_blueprintModeDemoted string event_envelope

datatype (plugins only: code) gitops_event =
    Ev_binding binding_event
  | Ev_workload workload_event
  | Ev_insertGeneration gitops_generation_row
  | Ev_fetchStarted string event_envelope
  | Ev_fetched string string event_envelope "ref_kind option"
  | Ev_fetchFailed string event_envelope "string option"
  | Ev_fetchedInvalid string string event_envelope "ref_kind option"
  | Ev_sourceConflictBlocker string string event_envelope
  | Ev_candidateReady string string bool event_envelope
  | Ev_sourceReviewBlocked string string string event_envelope
  | Ev_dismissed string event_envelope
  | Ev_configChanged string material_change event_envelope
  | Ev_applyStarted string string event_envelope
  | Ev_applyFailed string string event_envelope
  | Ev_applied applied_args
  | Ev_sourceAccepted applied_args
  | Ev_targetApplied int applied_args
  | Ev_deployStarted string int string event_envelope
  | Ev_deployBound string int string event_envelope
  | Ev_deployUnbound string int string event_envelope
  | Ev_deployFailed string int deploy_failure_class event_envelope
  | Ev_observedArtifact string int observed_artifact_identity event_envelope
  | Ev_observedInvocation string int observed_invocation_identity event_envelope
  | Ev_artifactEvidence string gitops_artifact_set_row event_envelope
  | Ev_acceptExpectation string string string event_envelope
  | Ev_retryScheduled string int int event_envelope
  | Ev_pollScheduled string int event_envelope
  | Ev_policyChanged string source_policy event_envelope
  | Ev_suspended string string event_envelope
  | Ev_unsuspended string event_envelope
  | Ev_interrupted string event_envelope
  | Ev_placementInvalidated string event_envelope
  | Ev_applicationTombstoned string tombstone_status event_envelope
  | Ev_targetTombstoned string int event_envelope
  | Ev_nodeTombstoned int event_envelope
  | Ev_attemptReserved string event_envelope "string option" "reconcile_delivery_intent option"
  | Ev_attemptAllocated string "string option" string int "string option" "string option" bool
  | Ev_attemptSettled string event_envelope reconcile_result
  | Ev_promotionCommitted string event_envelope string string string
  | Ev_deployDispatched string event_envelope string string string
  | Ev_deployIntentRefused string event_envelope string string
  | Ev_placementPolicyChanged string placement_policy event_envelope
  | Ev_authorizationPolicyChanged string rollout_authorization_policy event_envelope
  | Ev_healthPolicySet string health_rollout_policy event_envelope
  | Ev_placementPolicyRefused string placement_policy_reason int
  | Ev_rolloutPaused string "int option" string event_envelope pause_origin
  | Ev_rolloutUnpaused string "int option" event_envelope
  | Ev_partiallyRolledOut string "int option" raw_json event_envelope
  | Ev_partialCleared string "int option" event_envelope
  | Ev_intentRevised string gitops_intent_revision_row event_envelope
  | Ev_candidateOpened string gitops_rollout_candidate_row event_envelope
  | Ev_legacyCombined string string event_envelope
  | Ev_placementApproved placement_approval_args
  | Ev_rolloutAuthorized rollout_authorization_args
  | Ev_rolloutSuperseded string event_envelope
  | Ev_preflightEvaluated string raw_json int
  | Ev_limitationSet string string "string option" int
  | Ev_preflightDrift string event_envelope

text \<open>An operation that reports no transition result.\<close>

definition quiet :: "('a \<Rightarrow> gitops_db) \<Rightarrow> 'a res \<Rightarrow> (gitops_db \<times> transition_result) res" where
  "quiet f m = bind_res m (\<lambda>x. Inr (f x, result_of []))"

lemma quiet_Inr [simp]: "quiet f m = Inr (db, r) \<longleftrightarrow> (\<exists>x. m = Inr x \<and> db = f x) \<and> r = result_of []"
  by (auto simp: quiet_def)

primrec run_workload ::
    "platform \<Rightarrow> workload_event \<Rightarrow> gitops_db \<Rightarrow> (gitops_db \<times> transition_result) res" where
  "run_workload P (Ev_rollbackInProgress i n rr g e) db = rollbackInProgress i n rr g e db"
| "run_workload P (Ev_rollbackPartialFailed i n rr c e) db = rollbackPartialFailed i n rr c e db"
| "run_workload P (Ev_rollbackRefusalSettled i ts rr e) db = rollbackRefusalSettled i ts rr e db"
| "run_workload P (Ev_rollbackCompleted i n rr g a s e) db = rollbackCompleted i n rr g a s e db"
| "run_workload P (Ev_recoveryStarted i n rr g e) db = recoveryStarted i n rr g e db"
| "run_workload P (Ev_recoverySucceeded rsargs f) db = recoverySucceeded rsargs f db"
| "run_workload P (Ev_recoveryFailed i n rr c e) db = recoveryFailed i n rr c e db"
| "run_workload P (Ev_blueprintDeployStarted i n rv c h e) db = blueprintDeployStarted i n rv c h e db"
| "run_workload P (Ev_blueprintAckRecorded i n rv c l g e) db = blueprintAckRecorded i n rv c l g e db"
| "run_workload P (Ev_inlineRevisionFrozen i g s e) db = inlineRevisionFrozen (localeCompare P) i g s e db"
| "run_workload P (Ev_blueprintDeployFailed i n c e) db = blueprintDeployFailed i n c e db"
| "run_workload P (Ev_blueprintWithdrawStarted i n rv e) db = blueprintWithdrawStarted i n rv e db"
| "run_workload P (Ev_blueprintWithdrawn i n rv e) db = blueprintWithdrawn i n rv e db"
| "run_workload P (Ev_blueprintWithdrawFailed i n c e) db = blueprintWithdrawFailed i n c e db"
| "run_workload P (Ev_blueprintObservation i n s e) db = blueprintObservation i n s e db"
| "run_workload P (Ev_healthFinalized hargs) db = healthFinalized hargs db"
| "run_workload P (Ev_healthRunReleased i n h e) db = healthRunReleased i n h e db"

primrec run_binding ::
    "platform \<Rightarrow> binding_event \<Rightarrow> gitops_db \<Rightarrow> (gitops_db \<times> transition_result) res" where
  "run_binding P (Ev_activateDirect app n e) db = activateDirect app n e db"
| "run_binding P (Ev_activateInlineBlueprint app e) db = activateInlineBlueprint app e db"
| "run_binding P (Ev_activateCreateFromGit app n c g ck e) db = activateCreateFromGit app n c g ck e db"
| "run_binding P (Ev_createFailed i c e) db = createFailed i c e db"
| "run_binding P (Ev_convertDirectToBlueprint i b e) db = convertDirectToBlueprint (newURL P) i b e db"
| "run_binding P (Ev_convertBlueprintToDirect i s e) db = convertBlueprintToDirect i s e db"
| "run_binding P (Ev_blueprintModeDemoted i e) db = blueprintModeDemoted i e db"

primrec run_event ::
    "platform \<Rightarrow> gitops_event \<Rightarrow> gitops_db \<Rightarrow> (gitops_db \<times> transition_result) res" where
  "run_event P (Ev_binding b) db = run_binding P b db"
| "run_event P (Ev_workload w) db = run_workload P w db"
| "run_event P (Ev_insertGeneration row) db =
     quiet (\<lambda>d. d) (insertGeneration row db)"
| "run_event P (Ev_fetchStarted i e) db = fetchStarted i e db"
| "run_event P (Ev_fetched i c e k) db = fetched i c e k db"
| "run_event P (Ev_fetchFailed i e c) db = fetchFailed i e c db"
| "run_event P (Ev_fetchedInvalid i c e k) db = fetchedInvalid i c e k db"
| "run_event P (Ev_sourceConflictBlocker i g e) db = sourceConflictBlocker i g e db"
| "run_event P (Ev_candidateReady i g w e) db = candidateReady i g w e db"
| "run_event P (Ev_sourceReviewBlocked i g w e) db = sourceReviewBlocked i g w e db"
| "run_event P (Ev_dismissed i e) db = dismissed i e db"
| "run_event P (Ev_configChanged i m e) db = configChangedPendingCleared i m e db"
| "run_event P (Ev_applyStarted i g e) db = applyStarted i g e db"
| "run_event P (Ev_applyFailed i c e) db = applyFailed i c e db"
| "run_event P (Ev_applied args) db = applied (localeCompare P) args db"
| "run_event P (Ev_sourceAccepted args) db = sourceAccepted (localeCompare P) args db"
| "run_event P (Ev_targetApplied n args) db = targetApplied n args db"
| "run_event P (Ev_deployStarted i n g e) db = deployStarted i n g e db"
| "run_event P (Ev_deployBound i n g e) db = deployBound i n g e db"
| "run_event P (Ev_deployUnbound i n g e) db = deployUnbound i n g e db"
| "run_event P (Ev_deployFailed i n c e) db = deployFailed i n c e db"
| "run_event P (Ev_observedArtifact i n ob e) db = recordObservedRuntimeArtifact (localeCompare P) i n ob e db"
| "run_event P (Ev_observedInvocation i n ob e) db = recordObservedInvocation i n ob e db"
| "run_event P (Ev_artifactEvidence i row e) db = recordArtifactEvidence (localeCompare P) i row e db"
| "run_event P (Ev_acceptExpectation i g s e) db = acceptArtifactExpectation i g s e db"
| "run_event P (Ev_retryScheduled i t n e) db = sourceRetryScheduled i t n e db"
| "run_event P (Ev_pollScheduled i t e) db = sourcePollScheduled i t e db"
| "run_event P (Ev_policyChanged i p e) db = sourcePolicyChanged i p e db"
| "run_event P (Ev_suspended i w e) db = sourceSuspended i w e db"
| "run_event P (Ev_unsuspended i e) db = sourceUnsuspended i e db"
| "run_event P (Ev_interrupted i e) db = interruptActiveOperations i e db"
| "run_event P (Ev_placementInvalidated i e) db = placementInvalidated i e db"
| "run_event P (Ev_applicationTombstoned i s e) db = applicationTombstoned i s e db"
| "run_event P (Ev_targetTombstoned i n e) db = targetTombstoned i n e db"
| "run_event P (Ev_nodeTombstoned n e) db = tombstoneNodeTargets n e db"
| "run_event P (Ev_attemptReserved i e f d) db = quiet fst (reserveReconcileAttempt i e f d db)"
| "run_event P (Ev_attemptAllocated i a t tm f g d) db =
     quiet fst (allocateReconcileAttempt i a t tm f g d db)"
| "run_event P (Ev_attemptSettled i e x) db = quiet fst (settleReconcileAttempt i e x db)"
| "run_event P (Ev_promotionCommitted i e g c p) db = quiet fst (promotionCommitted i e g c p db)"
| "run_event P (Ev_deployDispatched i e g c d) db = quiet fst (deployDispatched i e g c d db)"
| "run_event P (Ev_deployIntentRefused i e g c) db = quiet fst (deployIntentRefused i e g c db)"
| "run_event P (Ev_placementPolicyChanged i p e) db = placementPolicyChanged i p e db"
| "run_event P (Ev_authorizationPolicyChanged i p e) db = rolloutAuthorizationPolicyChanged i p e db"
| "run_event P (Ev_healthPolicySet i p e) db = healthRolloutPolicySet i p e db"
| "run_event P (Ev_placementPolicyRefused i w t) db = quiet (\<lambda>d. d) (placementPolicyRefused i w t db)"
| "run_event P (Ev_rolloutPaused i n w e po) db = rolloutPaused i n w e po db"
| "run_event P (Ev_rolloutUnpaused i n e) db = rolloutUnpaused i n e db"
| "run_event P (Ev_partiallyRolledOut i n j e) db = partiallyRolledOut i n j e db"
| "run_event P (Ev_partialCleared i n e) db = partialCleared i n e db"
| "run_event P (Ev_intentRevised i row e) db = intentRevised i row e db"
| "run_event P (Ev_candidateOpened i row e) db = rolloutCandidateOpened i row e db"
| "run_event P (Ev_legacyCombined i a e) db = legacyCombinedAppended i a e db"
| "run_event P (Ev_placementApproved pargs) db = placementApproved pargs db"
| "run_event P (Ev_rolloutAuthorized rargs) db = rolloutAuthorized rargs db"
| "run_event P (Ev_rolloutSuperseded i e) db = rolloutSuperseded i e db"
| "run_event P (Ev_preflightEvaluated i j t) db = quiet (\<lambda>d. d) (recordPreflightEvaluation i j t db)"
| "run_event P (Ev_limitationSet c i d t) db = quiet (\<lambda>d. d) (set_limitation c i d t db)"
| "run_event P (Ev_preflightDrift i e) db = invalidateAuthorizationOnPreflightDrift i e db"

text \<open>Activation inserts the row its caller built; the callers build it without pointers, in the mode they
  activate.\<close>

primrec admissible_binding :: "binding_event \<Rightarrow> bool" where
  "admissible_binding (Ev_activateDirect app n e) = (fresh_application app \<and> app_target_mode app = Direct)"
| "admissible_binding (Ev_activateInlineBlueprint app e) =
     (fresh_application app \<and> app_target_mode app = Inline_blueprint)"
| "admissible_binding (Ev_activateCreateFromGit app n c g ck e) =
     (fresh_application app \<and> app_target_mode app = Direct)"
| "admissible_binding (Ev_createFailed i c e) = True"
| "admissible_binding (Ev_convertDirectToBlueprint i b e) = True"
| "admissible_binding (Ev_convertBlueprintToDirect i s e) = True"
| "admissible_binding (Ev_blueprintModeDemoted i e) = True"

definition admissible :: "gitops_event \<Rightarrow> bool" where
  "admissible ev = (case ev of Ev_binding b \<Rightarrow> admissible_binding b | _ \<Rightarrow> True)"

definition empty_db :: gitops_db where
  "empty_db = \<lparr>db_applications = [], db_generations = [], db_artifact_sets = [], db_intents = [],
     db_candidates = [], db_rollout_generations = [], db_approvals = [], db_targets = [],
     db_history = [], db_outbox = [], db_notifications = [], db_sops_identities = [],
     db_blueprint_names = [], db_git_sources = [], db_health_runs = [], db_create_checkpoints = []\<rparr>"

text \<open>Beside the transitions, the outbox is drained, and the rows of other subsystems change on their
  own.\<close>

inductive gitops_step :: "platform \<Rightarrow> gitops_db \<Rightarrow> gitops_db \<Rightarrow> bool" for P where
  transition: "admissible ev \<Longrightarrow> run_event P ev db = Inr (db', r) \<Longrightarrow> gitops_step P db db'"
| drain: "gitops_step P db (drainGitOpsOutboxRow default_node now historyId db)"
| outside: "gitops_step P db (db\<lparr>db_notifications := n, db_sops_identities := k, db_blueprint_names := b,
     db_git_sources := s, db_health_runs := h\<rparr>)"

inductive_cases gitops_stepE: "gitops_step P db db'"

inductive gitops_run :: "platform \<Rightarrow> gitops_db \<Rightarrow> gitops_db \<Rightarrow> bool" for P where
  run_refl: "gitops_run P db db"
| run_step: "gitops_run P db db1 \<Longrightarrow> gitops_step P db1 db2 \<Longrightarrow> gitops_run P db db2"

definition reachable :: "platform \<Rightarrow> gitops_db \<Rightarrow> bool" where
  "reachable P db = gitops_run P empty_db db"

text \<open>A run given by its events, for concrete traces.\<close>

fun run_events :: "platform \<Rightarrow> gitops_event list \<Rightarrow> gitops_db \<Rightarrow> gitops_db res" where
  "run_events P [] db = Inr db"
| "run_events P (ev # evs) db = bind_res (run_event P ev db) (\<lambda>(db1, _). run_events P evs db1)"

section \<open>Every step keeps the invariant and the evidence\<close>

lemmas transition_keeps =
  fetchStarted_keeps fetched_keeps fetchFailed_keeps fetchedInvalid_keeps sourceConflictBlocker_keeps
  candidateReady_keeps sourceReviewBlocked_keeps dismissed_keeps configChangedPendingCleared_keeps
  applyStarted_keeps applyFailed_keeps applied_keeps sourceAccepted_keeps targetApplied_keeps
  deployStarted_keeps deployBound_keeps deployUnbound_keeps deployFailed_keeps
  recordObservedRuntimeArtifact_keeps recordObservedInvocation_keeps recordArtifactEvidence_keeps
  acceptArtifactExpectation_keeps sourceRetryScheduled_keeps sourcePollScheduled_keeps
  sourcePolicyChanged_keeps sourceSuspended_keeps sourceUnsuspended_keeps
  interruptActiveOperations_keeps placementInvalidated_keeps applicationTombstoned_keeps
  targetTombstoned_keeps tombstoneNodeTargets_keeps
  placementPolicyChanged_keeps rolloutAuthorizationPolicyChanged_keeps healthRolloutPolicySet_keeps
  placementPolicyRefused_keeps rolloutPaused_keeps rolloutUnpaused_keeps partiallyRolledOut_keeps
  partialCleared_keeps intentRevised_keeps rolloutCandidateOpened_keeps legacyCombinedAppended_keeps
  placementApproved_keeps rolloutAuthorized_keeps rolloutSuperseded_keeps recordPreflightEvaluation_keeps
  set_limitation_keeps invalidateAuthorizationOnPreflightDrift_keeps
  reserveReconcileAttempt_keeps allocateReconcileAttempt_keeps settleReconcileAttempt_keeps
  promotionCommitted_keeps deployDispatched_keeps deployIntentRefused_keeps

lemmas workload_keeps =
  rollbackInProgress_keeps rollbackPartialFailed_keeps rollbackRefusalSettled_keeps rollbackCompleted_keeps
  recoveryStarted_keeps recoverySucceeded_keeps recoveryFailed_keeps blueprintDeployStarted_keeps
  blueprintAckRecorded_keeps inlineRevisionFrozen_keeps blueprintDeployFailed_keeps
  blueprintWithdrawStarted_keeps blueprintWithdrawn_keeps blueprintWithdrawFailed_keeps
  blueprintObservation_keeps healthFinalized_keeps healthRunReleased_keeps

text \<open>The invariant of the machine, and what a step does: keep it and lose no evidence.\<close>

definition state_ok :: "platform \<Rightarrow> gitops_db \<Rightarrow> bool" where
  "state_ok P db \<longleftrightarrow> db_ok db \<and> exclusive (newURL P) db"

definition advances :: "platform \<Rightarrow> gitops_db \<Rightarrow> gitops_db \<Rightarrow> bool" where
  "advances P db db' \<longleftrightarrow> state_ok P db' \<and> db_le db db'"

lemma keeps_advances: "keeps db db' \<Longrightarrow> state_ok P db \<Longrightarrow> advances P db db'"
  by (auto simp: keeps_def advances_def state_ok_def intro: exclusive_kept)

lemma inserts_advances:
  "inserts app db db' \<Longrightarrow> state_ok P db \<Longrightarrow> fresh_application app \<Longrightarrow> app_target_mode app \<noteq> Blueprint
   \<Longrightarrow> advances P db db'"
  using inserts_grows inserts_exclusive by (auto simp: advances_def state_ok_def grows_def)

lemma run_workload_keeps: "run_workload P w db = Inr (db', r) \<Longrightarrow> db_ok db \<Longrightarrow> keeps db db'"
  by (cases w) (auto intro: workload_keeps)

lemma run_binding_advances:
  assumes "run_binding P b db = Inr (db', r)" and "admissible_binding b" and "state_ok P db"
  shows "advances P db db'"
proof (cases b)
  case (Ev_activateDirect app n e)
  with assms show ?thesis
    by (intro inserts_advances [OF activateDirect_inserts]) (auto simp: state_ok_def)
next
  case (Ev_activateInlineBlueprint app e)
  with assms show ?thesis
    by (intro inserts_advances [OF activateInlineBlueprint_inserts]) (auto simp: state_ok_def)
next
  case (Ev_activateCreateFromGit app n c g ck e)
  with assms show ?thesis
    by (intro inserts_advances [OF activateCreateFromGit_inserts]) (auto simp: state_ok_def)
next
  case (Ev_createFailed i c e)
  with assms show ?thesis
    by (intro keeps_advances [OF createFailed_keeps]) (auto simp: state_ok_def)
next
  case (Ev_convertDirectToBlueprint i b e)
  with assms show ?thesis
    using convertDirectToBlueprint_binds by (fastforce simp: advances_def state_ok_def grows_def)
next
  case (Ev_convertBlueprintToDirect i s e)
  with assms show ?thesis
    using convertBlueprintToDirect_binds by (fastforce simp: advances_def state_ok_def grows_def)
next
  case (Ev_blueprintModeDemoted i e)
  with assms show ?thesis
    using blueprintModeDemoted_binds by (fastforce simp: advances_def state_ok_def grows_def)
qed

lemma run_event_advances:
  assumes "run_event P ev db = Inr (db', r)" and "admissible ev" and "state_ok P db"
  shows "advances P db db'"
proof (cases ev)
  case (Ev_binding b)
  with assms show ?thesis using run_binding_advances by (auto simp: admissible_def)
next
  case (Ev_workload w)
  with assms show ?thesis using run_workload_keeps keeps_advances by (auto simp: state_ok_def)
next
  case (Ev_insertGeneration row)
  with assms show ?thesis by (auto intro: keeps_advances insertGeneration_keeps simp: state_ok_def)
qed (rule keeps_advances; use assms in \<open>auto simp: state_ok_def intro: transition_keeps\<close>)+

lemma outside_keeps:
  assumes "db_ok db"
  shows "keeps db (db\<lparr>db_notifications := n, db_sops_identities := k, db_blueprint_names := b,
     db_git_sources := s, db_health_runs := h\<rparr>)" (is "keeps db ?d")
proof -
  have le: "db_le db ?d" by (rule db_le_tables) simp_all
  then show ?thesis using db_ok_cong [OF assms le] by (simp add: keeps_def bindings_kept_tables)
qed

lemma drain_keeps:
  assumes "db_ok db"
  shows "keeps db (drainGitOpsOutboxRow dn now i db)" (is "keeps db ?d")
proof -
  have le: "db_le db ?d" by (rule db_le_tables) simp_all
  then show ?thesis using assms app_ok_mono [OF le] target_ok_mono [OF le]
    by (simp add: keeps_def db_ok_def drain_audit bindings_kept_tables)
qed

lemma step_advances: "gitops_step P db db' \<Longrightarrow> state_ok P db \<Longrightarrow> advances P db db'"
  by (erule gitops_stepE)
    (auto intro: run_event_advances keeps_advances outside_keeps drain_keeps simp: state_ok_def)

lemma run_advances: "gitops_run P db db' \<Longrightarrow> state_ok P db \<Longrightarrow> advances P db db'"
proof (induction rule: gitops_run.induct)
  case (run_refl db)
  then show ?case by (simp add: advances_def)
next
  case (run_step db db1 db2)
  then have "advances P db db1" by simp
  moreover then have "advances P db1 db2" using run_step.hyps step_advances by (auto simp: advances_def)
  ultimately show ?case using db_le_trans by (auto simp: advances_def)
qed

lemma empty_db_ok: "state_ok P empty_db"
  by (simp add: state_ok_def db_ok_def empty_db_def audit_ok_def exclusive_def)

lemma reachable_state_ok: "reachable P db \<Longrightarrow> state_ok P db"
  using run_advances [OF _ empty_db_ok] by (auto simp: reachable_def advances_def)

lemma reachable_ok: "reachable P db \<Longrightarrow> db_ok db"
  using reachable_state_ok by (auto simp: state_ok_def)

lemma run_events_run:
  "run_events P evs db = Inr db' \<Longrightarrow> list_all admissible evs \<Longrightarrow> gitops_run P db db'"
proof (induction evs arbitrary: db' rule: rev_induct)
  case Nil
  then show ?case by (simp add: run_refl)
next
  case (snoc ev evs)
  have split: "run_events P (evs @ [ev]) db = bind_res (run_events P evs db) (run_events P [ev])" for db
    by (induction evs arbitrary: db) (auto simp: bind_res_def split: sum.splits prod.splits)
  obtain db1 r where "run_events P evs db = Inr db1" and "run_event P ev db1 = Inr (db', r)"
    using snoc.prems(1) by (auto simp: split)
  with snoc show ?case by (auto intro: run_step transition)
qed

end
