(* ===== verification/Lifecycle_Lemmas.thy ===== *)
theory Lifecycle_Lemmas
  imports Lifecycle
begin

text \<open>
  Functional lemmas of the transactions: what a run of \<^verbatim>\<open>mutateApp\<close> or \<^verbatim>\<open>mutateTarget\<close> leaves in the
  database, and the replay of an operation.
\<close>

section \<open>The application transaction\<close>

definition same_identity :: "gitops_application_row \<Rightarrow> gitops_application_row \<Rightarrow> bool" where
  "same_identity a b \<longleftrightarrow>
     app_id b = app_id a \<and> app_lifecycle_key b = app_lifecycle_key a
     \<and> app_target_mode b = app_target_mode a \<and> app_stack_name b = app_stack_name a
     \<and> app_configured_source_stack_name b = app_configured_source_stack_name a
     \<and> app_blueprint_id b = app_blueprint_id a \<and> app_created_at b = app_created_at a"

lemma keep_identity_same: "same_identity r app \<Longrightarrow> keep_identity r app = app"
  by (cases app) (simp add: same_identity_def keep_identity_def)

lemma keep_identity_idem: "keep_identity (keep_identity r app) app = keep_identity r app"
  by (simp add: keep_identity_def)

lemma same_identity_stamp [simp]: "same_identity a (stamp_app e b) = same_identity a b"
  by (simp add: same_identity_def stamp_app_def)

lemma same_identity_clear [simp]:
  "same_identity a (clearInterruption s b) = same_identity a b"
  "same_identity a (clearAppFailure ss b) = same_identity a b"
  "same_identity a (clearActive b) = same_identity a b"
  by (simp_all add: same_identity_def clearInterruption_def clearAppFailure_def clearActive_def split: option.split)

lemma mutateAppE:
  assumes "mutateApp i e stage outcome mutate x db = Inr (db', r)"
  obtains app0 app1 db1 ids f where "getApplication db i = Some app0"
    and "mutate app0 db = Inr (app1, db1, ids)" and "hf_stage f = stage" and "hf_nodeId f = None"
    and "db' = snd (history (stamp_app e app1) e f (writeApplication (stamp_app e app1) db1))"
    and "r = result_of (ids @ opt_list (fst (history (stamp_app e app1) e f
           (writeApplication (stamp_app e app1) db1))))"
proof -
  obtain app0 app1 db1 ids where 1: "getApplication db i = Some app0" "mutate app0 db = Inr (app1, db1, ids)"
    using assms by (auto simp: mutateApp_def split: option.splits)
  let ?app = "stamp_app e app1"
  let ?f = "(history_fields0 stage outcome (snapshotApp app0) (obj_spread (xh_historyAfter x) (snapshotApp ?app)))
     \<lparr>hf_generationId := xh_generationId x, hf_artifactSetId := xh_artifactSetId x,
      hf_sourceAcceptanceRef := xh_sourceAcceptanceRef x, hf_rolloutGenerationId := xh_rolloutGenerationId x\<rparr>"
  have "db' = snd (history ?app e ?f (writeApplication ?app db1))"
    and "r = result_of (ids @ opt_list (fst (history ?app e ?f (writeApplication ?app db1))))"
    using assms 1 by (auto simp: mutateApp_def Let_def prod.case_eq_if)
  with 1 show thesis by (intro that [of app0 app1 db1 ids ?f]) (auto simp: history_fields0_def)
qed

lemma history_lookups [simp]:
  "getApplication (snd (history app e f db)) = getApplication db"
  "getTarget (snd (history app e f db)) = getTarget db"
  "getGeneration (snd (history app e f db)) = getGeneration db"
  by (rule lookups_by_table, simp)+

text \<open>The row a pure mutation leaves behind is the one it returned.\<close>

lemma mutateApp_row:
  assumes "mutateApp i e stage outcome mutate x db = Inr (db', r)"
    and "\<And>app app1 db1 ids. getApplication db i = Some app \<Longrightarrow> mutate app db = Inr (app1, db1, ids) \<Longrightarrow>
       same_identity app app1 \<and> db_applications db1 = db_applications db"
  obtains app app1 db1 ids where "getApplication db i = Some app" and "mutate app db = Inr (app1, db1, ids)"
    and "getApplication db' i = Some (stamp_app e app1)"
  using assms(1)
proof (rule mutateAppE)
  fix app0 app1 db1 ids f
  assume a: "getApplication db i = Some app0" "mutate app0 db = Inr (app1, db1, ids)"
    "db' = snd (history (stamp_app e app1) e f (writeApplication (stamp_app e app1) db1))"
  have s: "same_identity app0 app1" and d: "db_applications db1 = db_applications db"
    using assms(2) [OF a(1,2)] by auto
  have "app_id app1 = i" using s getApplication_id [OF a(1)] by (simp add: same_identity_def)
  moreover have "getApplication db1 i = Some app0" using a(1) lookups_by_table(4) [OF d] by simp
  ultimately have "getApplication db' i = Some (stamp_app e app1)"
    using a(3) s by (simp add: getApplication_write keep_identity_same)
  with a show thesis by (intro that)
qed

section \<open>Replay\<close>

lemma write_write: "writeApplication app (writeApplication app db) = writeApplication app db"
proof -
  have "(\<lambda>r. if app_id r = app_id app then keep_identity r app else r)
      \<circ> (\<lambda>r. if app_id r = app_id app then keep_identity r app else r) =
      (\<lambda>r. if app_id r = app_id app then keep_identity r app else r)"
    by (rule ext) (simp add: keep_identity_idem)
  then show ?thesis
    unfolding writeApplication_def keep_identity_def [symmetric] by simp
qed

lemma write_announce:
  "writeApplication app (announce_history a after row db) = announce_history a after row (writeApplication app db)"
  by (simp add: announce_history_def insertSettledOutbox_def insertGitOpsEventOutbox_def
      insertOutboxRow_def writeApplication_def split: option.split gitops_outbox_plan.split)

lemma write_insertHistory:
  "writeApplication app (snd (insertHistory a after row db)) =
     snd (insertHistory a after row (writeApplication app db))"
proof -
  have "writeApplication app (db\<lparr>db_history := h\<rparr>) = (writeApplication app db)\<lparr>db_history := h\<rparr>" for h
    by (simp add: writeApplication_def)
  then show ?thesis by (simp add: insertHistory_def write_announce)
qed

lemma history_uuid_write [simp]: "history_uuid (writeApplication app db) = history_uuid db"
  by (simp add: history_uuid_def)

lemma write_history: "writeApplication app (snd (history a e f db)) = snd (history a e f (writeApplication app db))"
  unfolding history_def by (simp add: write_insertHistory)

lemma insertHistory_again:
  assumes "dedupe_of row2 = dedupe_of row"
  shows "insertHistory b after2 row2 (snd (insertHistory a after row db)) =
     (None, snd (insertHistory a after row db))"
proof -
  have "db_history (announce_history a after row d) = db_history d" for d
    by (subst announce_outbox_only) simp
  then show ?thesis using assms by (auto simp: insertHistory_def)
qed

lemma history_again:
  assumes "hf_stage f = hf_stage f2" and "hf_nodeId f = hf_nodeId f2" and "app_id a = app_id b"
  shows "history b e f2 (snd (history a e f db)) = (None, snd (history a e f db))"
  unfolding history_def by (rule insertHistory_again) (simp add: dedupe_of_def assms)

lemma mutateApp_replay:
  assumes run: "mutateApp i e stage outcome mutate x db = Inr (db', r)"
    and pure: "\<And>app app1 db1 ids. getApplication db i = Some app \<Longrightarrow> mutate app db = Inr (app1, db1, ids) \<Longrightarrow>
       same_identity app app1 \<and> db1 = db
       \<and> (\<forall>d. db_generations d = db_generations db \<longrightarrow>
             mutate (stamp_app e app1) d = Inr (stamp_app e app1, d, []))"
  shows "mutateApp i e stage outcome mutate x db' = Inr (db', result_of [])"
  using run
proof (rule mutateAppE)
  fix app0 app1 db1 ids f
  let ?app = "stamp_app e app1"
  assume a: "getApplication db i = Some app0" "mutate app0 db = Inr (app1, db1, ids)"
    and f: "hf_stage f = stage" "hf_nodeId f = None"
    and db': "db' = snd (history ?app e f (writeApplication ?app db1))"
  note p = pure [OF a]
  have i: "app_id ?app = i" using p getApplication_id [OF a(1)] by (simp add: same_identity_def)
  have got: "getApplication db' i = Some ?app"
    using a(1) p i db' by (simp add: getApplication_write keep_identity_same)
  have again: "mutate ?app db' = Inr (?app, db', [])" using p db' by simp
  have w: "writeApplication ?app db' = db'"
    unfolding db' by (simp add: write_history write_write)
  have "history ?app e f2 db' = (None, db')" if "hf_stage f2 = stage" "hf_nodeId f2 = None" for f2
    unfolding db' using that f by (intro history_again) auto
  then show ?thesis
    using got again w
    by (simp add: mutateApp_def Let_def stamp_app_def prod.case_eq_if history_fields0_def opt_list_def)
qed

section \<open>The target transaction\<close>

lemma stamp_target_columns [simp]:
  "tgt_application_id (stamp_target opts s e t) = tgt_application_id t"
  "tgt_node_id (stamp_target opts s e t) = tgt_node_id t"
  "tgt_target_status (stamp_target opts s e t) = tgt_target_status t"
  "tgt_desired_generation_id (stamp_target opts s e t) = tgt_desired_generation_id t"
  "tgt_candidate_generation_id (stamp_target opts s e t) = tgt_candidate_generation_id t"
  "tgt_applied_generation_id (stamp_target opts s e t) = tgt_applied_generation_id t"
  "tgt_deployed_generation_id (stamp_target opts s e t) = tgt_deployed_generation_id t"
  "tgt_active_operation_stage (stamp_target opts s e t) = tgt_active_operation_stage t"
  "tgt_active_operation_id (stamp_target opts s e t) = tgt_active_operation_id t"
  "tgt_active_generation_id (stamp_target opts s e t) = tgt_active_generation_id t"
  "tgt_failure_stage (stamp_target opts s e t) = tgt_failure_stage t"
  "tgt_failure_class (stamp_target opts s e t) = tgt_failure_class t"
  "tgt_healthy_generation_id (stamp_target opts s e t) = tgt_healthy_generation_id t"
  "tgt_recovery_phase (stamp_target opts s e t) = tgt_recovery_phase t"
  "tgt_recovery_failure_class (stamp_target opts s e t) = tgt_recovery_failure_class t"
  "tgt_interruption_stage (stamp_target opts s e t) = tgt_interruption_stage t"
  by (simp_all add: stamp_target_def)

lemma mutateTarget_row:
  assumes "mutateTarget i n e stage g mutate outcome opts db = Inr (db', r)"
    and "\<And>t app t1 db1 b a. mutate t app db = Inr (t1, db1, b, a) \<Longrightarrow>
       target_key t1 = target_key t \<and> db_targets db1 = db_targets db"
  obtains app t t1 db1 b a where "getApplication db i = Some app" and "getTarget db i n = Some t"
    and "mutate t app db = Inr (t1, db1, b, a)"
    and "\<And>j m. getTarget db' j m = (if (j, m) = (i, n) then Some (stamp_target opts stage e t1) else getTarget db j m)"
  using assms(1)
proof (rule mutateTargetE)
  fix app t t1 db1 b a
  assume r: "requireApp db i = Inr app" "getTarget db i n = Some t" "mutate t app db = Inr (t1, db1, b, a)"
    and db': "db' = snd (history app e ((history_fields0 stage outcome b a)
           \<lparr>hf_nodeId := Some n, hf_generationId := g,
            hf_invocationObservedJson := mo_invocationObservedJson opts\<rparr>)
           (put_target (stamp_target opts stage e t1) db1))"
  have app: "getApplication db i = Some app" using r(1) by (auto simp: requireApp_def split: option.splits)
  have k: "target_key t1 = (i, n)" and d: "db_targets db1 = db_targets db"
    using assms(2) [OF r(3)] getTarget_ids [OF r(2)] by (auto simp: target_key_def)
  have "getTarget db1 = getTarget db" using d by (rule lookups_by_table)
  then have "getTarget db' j m = (if (j, m) = (i, n) then Some (stamp_target opts stage e t1) else getTarget db j m)" for j m
    using k unfolding db' by (simp add: getTarget_put target_key_def)
  with app r show thesis by (intro that)
qed

section \<open>Batches of targets\<close>

lemma upsert_each_fold: "upsert_each ts db = Inr db' \<Longrightarrow> db' = fold put_target ts db"
  by (induction ts arbitrary: db) (auto simp: upsertTarget_Inr)

lemma distinct_map_js_insert: "distinct (map f (js_insert cmp x ys)) \<longleftrightarrow> f x \<notin> f ` set ys \<and> distinct (map f ys)"
  by (induction ys) auto

lemma distinct_map_js_sort [simp]: "distinct (map f (js_sort cmp xs)) = distinct (map f xs)"
  by (induction xs) (auto simp: distinct_map_js_insert)

lemma getTarget_of_member:
  assumes "db_ok db" and "t \<in> set (db_targets db)"
  shows "getTarget db (tgt_application_id t) (tgt_node_id t) = Some t"
  using find_distinct_key [of target_key "db_targets db" t] assms
  by (simp add: db_ok_def getTarget_key target_key_def)

lemma forEach_targets:
  assumes ok: "db_ok db" and key: "\<And>t. target_key (f t) = target_key t"
    and run: "forEachLiveDirectTarget app (\<lambda>t. Some (f t)) db = Inr db'"
  shows "getTarget db' j n =
     (if app_target_mode app = Direct \<and> j = app_id app
      then map_option (\<lambda>t. if tgt_target_status t = Ts_active then f t else t) (getTarget db j n)
      else getTarget db j n)"
proof (cases "app_target_mode app = Direct")
  case False
  then show ?thesis using run by (simp add: forEachLiveDirectTarget_def)
next
  case direct: True
  let ?ts = "filter (\<lambda>t. tgt_target_status t = Ts_active) (listTargets db (app_id app))"
  have db': "db' = fold put_target (map f ?ts) db"
    using run direct upsert_each_fold
    by (simp add: forEachLiveDirectTarget_def map_filter_def comp_def)
  have set_ts: "set ?ts = {t \<in> set (db_targets db). tgt_application_id t = app_id app \<and> tgt_target_status t = Ts_active}"
    by (auto simp: set_listTargets)
  have dist: "distinct (map target_key (map f ?ts))"
  proof -
    have "distinct (map target_key (db_targets db))" using ok by (simp add: db_ok_def)
    then have "distinct (map target_key ?ts)"
      by (simp add: listTargets_def distinct_map_filter)
    then show ?thesis using key by (simp add: comp_def)
  qed
  have step: "getTarget db' j n = (case find (\<lambda>r. target_key r = (j, n)) (rev (map f ?ts)) of
      Some r \<Rightarrow> Some r | None \<Rightarrow> getTarget db j n)"
    using targets.get_fold_put [of "map f ?ts" db "(j, n)"] unfolding db' by (simp only: fst_conv snd_conv)
  show ?thesis
  proof (cases "\<exists>t \<in> set ?ts. target_key t = (j, n)")
    case True
    then obtain t where t: "t \<in> set ?ts" "target_key t = (j, n)" by blast
    have "distinct (map target_key (rev (map f ?ts)))" using dist by (metis distinct_rev rev_map)
    moreover have "f t \<in> set (rev (map f ?ts))" using t(1) by simp
    ultimately have "find (\<lambda>r. target_key r = target_key (f t)) (rev (map f ?ts)) = Some (f t)"
      by (rule find_distinct_key)
    then have "find (\<lambda>r. target_key r = (j, n)) (rev (map f ?ts)) = Some (f t)"
      using t(2) key by simp
    moreover have "getTarget db j n = Some t" "tgt_target_status t = Ts_active" "j = app_id app"
      using t set_ts getTarget_of_member [OF ok, of t] by (auto simp: target_key_def)
    ultimately show ?thesis using step direct by simp
  next
    case False
    then have none: "find (\<lambda>r. target_key r = (j, n)) (rev (map f ?ts)) = None"
      using key by (auto simp: find_None_all)
    have "tgt_target_status t \<noteq> Ts_active" if "getTarget db j n = Some t" "j = app_id app" for t
      using False that getTarget_ids [OF that(1)] set_ts by (auto simp: target_key_def)
    then show ?thesis using step none direct by (cases "getTarget db j n") auto
  qed
qed

end
