(* ===== verification/Transition_Effects.thy ===== *)
theory Transition_Effects
  imports Lifecycle_Lemmas
begin

text \<open>
  What single transitions leave behind: the rows after a suspension and the interruption it performs, and
  the target row after a deploy has settled.
\<close>

section \<open>Rows of an application\<close>

text \<open>Every row with the application's id is left satisfying what the mutation established.\<close>

lemma mutateApp_rows:
  assumes run: "mutateApp i e stage outcome mutate x db = Inr (db', r)"
    and mut: "\<And>app app1 db1 ids. getApplication db i = Some app \<Longrightarrow> mutate app db = Inr (app1, db1, ids) \<Longrightarrow>
       app_id app1 = i \<and> Q app1"
    and stable: "\<And>r a. Q a \<Longrightarrow> Q (keep_identity r (stamp_app e a))"
    and a: "a \<in> set (db_applications db')" "app_id a = i"
  shows "Q a"
  using run
proof (rule mutateAppE)
  fix app0 app1 db1 ids f
  assume "getApplication db i = Some app0" "mutate app0 db = Inr (app1, db1, ids)"
    and db': "db' = snd (history (stamp_app e app1) e f (writeApplication (stamp_app e app1) db1))"
  from mut [OF this(1,2)] show "Q a"
    using a stable unfolding db' by (auto simp: writeApplication_map stamp_app_def)
qed

section \<open>Suspension\<close>

lemma suspendedE:
  assumes "sourceSuspended i reason e db = Inr (db', r)" and "getApplication db i = Some app"
  obtains row and reloaded :: gitops_application_row and db1 r1 where
    "getApplication db' i = Some (keep_identity row (stamp_app e
       ((if app_active_operation_stage app = None then app else clearActive
          (app\<lparr>app_interruption_stage := app_interruption_stage reloaded,
               app_interruption_at := app_interruption_at reloaded,
               app_interruption_operation_id := app_interruption_operation_id reloaded,
               app_interruption_generation_id := app_interruption_generation_id reloaded\<rparr>))
        \<lparr>app_suspended_at := Some (ev_at e), app_source_suspended_reason := Some reason\<rparr>)))"
    and "app_active_operation_stage app \<noteq> None \<Longrightarrow> interruptActiveOperations i e db = Inr (db1, r1)"
    and "app_active_operation_stage app \<noteq> None \<Longrightarrow> getApplication db1 i = Some reloaded \<and> row = reloaded"
  using assms(1) unfolding sourceSuspended_def
proof (rule mutateAppE)
  fix app0 app1 db1 ids f
  assume g: "getApplication db i = Some app0"
    and m: "require_res (app_lifecycle_status app0 = Lc_active) (terr ''source is not live'')
         (bind_res
           (if app_active_operation_stage app0 = None then Inr (app0, db, [])
            else bind_res (interruptActiveOperations i e db) (\<lambda>(db1, r).
                 bind_res (requireApp db1 i) (\<lambda>reloaded.
                 Inr (clearActive
                        (app0\<lparr>app_interruption_stage := app_interruption_stage reloaded,
                             app_interruption_at := app_interruption_at reloaded,
                             app_interruption_operation_id := app_interruption_operation_id reloaded,
                             app_interruption_generation_id := app_interruption_generation_id reloaded\<rparr>),
                      db1, tr_historyIds r))))
           (\<lambda>(app1, db1, ids).
             Inr (app1\<lparr>app_suspended_at := Some (ev_at e),
                       app_source_suspended_reason := Some reason\<rparr>, db1, ids))) = Inr (app1, db1, ids)"
    and db': "db' = snd (history (stamp_app e app1) e f (writeApplication (stamp_app e app1) db1))"
  have app0: "app0 = app" using g assms(2) by simp
  have "app_id app = i" using getApplication_id [OF assms(2)] by simp
  show thesis
  proof (cases "app_active_operation_stage app = None")
    case True
    have "db1 = db" and "app1 = app\<lparr>app_suspended_at := Some (ev_at e), app_source_suspended_reason := Some reason\<rparr>"
      using m True unfolding app0 by (simp_all split: if_splits)
    then show thesis using True db' assms(2) \<open>app_id app = i\<close>
      by (intro that [of app]) (simp_all add: getApplication_write stamp_app_def)
  next
    case False
    obtain d q where int: "interruptActiveOperations i e db = Inr (d, q)"
      using m False app0 by (cases "interruptActiveOperations i e db") auto
    obtain reloaded where req: "requireApp d i = Inr reloaded"
      using m False app0 int by (cases "requireApp d i") auto
    have "db1 = d" and "app1 = (clearActive (app\<lparr>app_interruption_stage := app_interruption_stage reloaded,
               app_interruption_at := app_interruption_at reloaded,
               app_interruption_operation_id := app_interruption_operation_id reloaded,
               app_interruption_generation_id := app_interruption_generation_id reloaded\<rparr>))
           \<lparr>app_suspended_at := Some (ev_at e), app_source_suspended_reason := Some reason\<rparr>"
      using m False unfolding app0 int by (auto simp: req)
    moreover have "getApplication d i = Some reloaded" using req by (simp add: requireApp_def split: option.splits)
    ultimately show thesis using False db' int \<open>app_id app = i\<close>
      by (intro that [of reloaded reloaded d q])
        (simp_all only: if_False getApplication_write history_lookups, simp_all add: stamp_app_def clearActive_def)
  qed
qed

lemma suspended_row:
  assumes "sourceSuspended i reason e db = Inr (db', r)"
  shows "\<exists>app. getApplication db' i = Some app \<and> app_suspended_at app = Some (ev_at e)"
proof -
  obtain app where "getApplication db i = Some app"
    using assms by (auto simp: sourceSuspended_def mutateApp_def split: option.splits)
  with assms show ?thesis by (rule suspendedE) (auto simp: keep_identity_def stamp_app_def)
qed

lemma suspended_columns:
  assumes "sourceSuspended i reason e db = Inr (db', r)" and "getApplication db i = Some app"
  shows "\<exists>app'. getApplication db' i = Some app' \<and> app_recovery_phase app' = app_recovery_phase app
     \<and> app_failure_stage app' = app_failure_stage app"
  using assms by (rule suspendedE) (auto simp: keep_identity_def stamp_app_def clearActive_def)

lemma suspension_interrupts:
  assumes "sourceSuspended i reason e db = Inr (db', r)" and "getApplication db i = Some app"
    and "app_active_operation_stage app \<noteq> None"
  shows "\<exists>db1 r1. interruptActiveOperations i e db = Inr (db1, r1)"
  using assms(1,2) by (rule suspendedE) (use assms(3) in blast)

lemma interrupt_targets_applications:
  "interrupt_targets app e ts db = Inr (db', ids) \<Longrightarrow> db_applications db' = db_applications db"
proof (induction ts arbitrary: db ids)
  case (Cons t ts)
  show ?case
  proof (cases "interrupt_target e t")
    case None
    with Cons show ?thesis by simp
  next
    case (Some t1)
    then obtain d k where "interrupt_targets app e ts d = Inr (db', k)" "db_applications d = db_applications db"
      using Cons(2) by (auto simp: upsertTarget_Inr prod.case_eq_if Let_def)
    with Cons(1) show ?thesis by simp
  qed
qed simp

lemma interrupted_columns:
  assumes "interruptActiveOperations i e db = Inr (db2, r2)" and "getApplication db i = Some app"
    and "app_active_operation_stage app \<noteq> None"
  shows "getApplication db2 i = Some (keep_identity app (interrupt_app e app))"
proof -
  have id: "app_id (interrupt_app e app) = i"
    using getApplication_id [OF assms(2)] by (simp add: interrupt_app_def clearActive_def Let_def)
  show ?thesis
    using assms id
    by (auto simp: interruptActiveOperations_def requireApp_def Let_def prod.case_eq_if getApplication_write
        dest!: interrupt_targets_applications lookups_by_table(4) split: if_splits)
qed

section \<open>Dismissal\<close>

lemma upsert_each_frame:
  "upsert_each ts db = Inr db' \<Longrightarrow>
     db_applications db' = db_applications db \<and> db_generations db' = db_generations db"
  by (induction ts arbitrary: db) (auto simp: upsertTarget_Inr)

lemma forEach_frame:
  "forEachLiveDirectTarget app f db = Inr db' \<Longrightarrow>
     db_applications db' = db_applications db \<and> db_generations db' = db_generations db"
  by (auto simp: forEachLiveDirectTarget_def dest: upsert_each_frame split: if_splits)

lemma dismissed_effect:
  assumes "dismissed i e db = Inr (db', r)" and ok: "db_ok db"
  obtains app where "getApplication db i = Some app"
    and "getApplication db' i = Some (stamp_app e (app\<lparr>app_candidate_generation_id := None,
           app_candidate_plan_blocked := 0, app_review_required := 0, app_review_block_reason := None\<rparr>))"
    and "\<And>j n. getTarget db' j n =
           (if app_target_mode app = Direct \<and> j = i
            then map_option (\<lambda>t. if tgt_target_status t = Ts_active
                                then t\<lparr>tgt_candidate_generation_id := None\<rparr> else t) (getTarget db j n)
            else getTarget db j n)"
    and "db_generations db' = db_generations db"
  using assms(1) unfolding dismissed_def
proof (rule mutateAppE)
  fix app app1 :: gitops_application_row and db1 ids f
  let ?app = "app\<lparr>app_candidate_generation_id := None, app_candidate_plan_blocked := 0,
       app_review_required := 0, app_review_block_reason := None\<rparr>"
  assume g: "getApplication db i = Some app"
    and m: "require_res (truthy_str (app_candidate_generation_id app)) (terr ''no candidate to dismiss'')
         (require_res (app_active_operation_stage app = None)
           (terr ''cannot dismiss while an operation is in flight'')
           (let app1 = ?app in bind_res (forEachLiveDirectTarget app1 (set_target_candidate None) db)
                 (\<lambda>db1. Inr (app1, db1, [])))) = Inr (app1, db1, ids)"
    and db': "db' = snd (history (stamp_app e app1) e f (writeApplication (stamp_app e app1) db1))"
  have app1: "app1 = ?app" and each: "forEachLiveDirectTarget ?app (set_target_candidate None) db = Inr db1"
    using m by (auto simp: Let_def)
  have i: "app_id app = i" using getApplication_id [OF g] by simp
  have d: "db_applications db1 = db_applications db" "db_generations db1 = db_generations db"
    using forEach_frame [OF each] by auto
  have "getApplication db1 i = Some app" using g lookups_by_table(4) [OF d(1)] by simp
  then have 1: "getApplication db' i = Some (stamp_app e ?app)"
    using i unfolding db' app1 by (simp add: getApplication_write keep_identity_same same_identity_def stamp_app_def)
  have 2: "getTarget db1 j n =
      (if app_target_mode app = Direct \<and> j = i
       then map_option (\<lambda>t. if tgt_target_status t = Ts_active
                           then t\<lparr>tgt_candidate_generation_id := None\<rparr> else t) (getTarget db j n)
       else getTarget db j n)" for j n
    using forEach_targets [OF ok _ each [unfolded set_target_candidate_def], of j n] i by (simp add: target_key_def)
  show thesis
    by (rule that [OF g 1]) (use 2 d in \<open>simp_all add: db'\<close>)
qed

section \<open>Settling a deploy\<close>

lemma clearApplicationRecovery_targets:
  "clearApplicationRecoveryWhenNoTargetFails i n e db = Inr db' \<Longrightarrow> db_targets db' = db_targets db"
  by (auto simp: clearApplicationRecoveryWhenNoTargetFails_def withApplication_def split: if_splits)

lemma retire_targets:
  "retireRecoveryClaimOnSuccess i e t db = Inr (t', db') \<Longrightarrow>
     db_targets db' = db_targets db \<and> (t' = t \<or> t' = clear_recovery_slot t)"
  "retireNonMovingRecoveryClaim i e t db = Inr (t', db') \<Longrightarrow>
     db_targets db' = db_targets db \<and> (t' = t \<or> t' = clear_recovery_slot t)"
  by (auto simp: retireRecoveryClaimOnSuccess_def retireNonMovingRecoveryClaim_def clearRecoveryClaim_def
      dest: clearApplicationRecovery_targets split: if_splits)

lemma settle_key [simp]:
  "target_key (markInFlightRestore a t) = target_key t"
  "target_key (clearTargetInterruption st t) = target_key t"
  "target_key (clear_recovery_slot t) = target_key t"
  "target_key (clearTargetActive t) = target_key t"
  "target_key (clear_failure_slot t) = target_key t"
  by (simp_all add: target_key_def markInFlightRestore_def clearTargetInterruption_def clear_recovery_slot_def
      clearTargetActive_def clear_failure_slot_def Let_def)

definition same_pointers :: "gitops_target_current_row \<Rightarrow> gitops_target_current_row \<Rightarrow> bool" where
  "same_pointers a b \<longleftrightarrow>
     tgt_desired_generation_id b = tgt_desired_generation_id a
     \<and> tgt_candidate_generation_id b = tgt_candidate_generation_id a
     \<and> tgt_applied_generation_id b = tgt_applied_generation_id a
     \<and> tgt_healthy_generation_id b = tgt_healthy_generation_id a
     \<and> tgt_lkg_generation_id b = tgt_lkg_generation_id a
     \<and> tgt_lkg_artifact_set_id b = tgt_lkg_artifact_set_id a
     \<and> tgt_expected_artifact_set_id b = tgt_expected_artifact_set_id a"

lemma same_pointers_settle [simp]:
  "same_pointers a (markInFlightRestore now t) = same_pointers a t"
  "same_pointers a (clearTargetInterruption st t) = same_pointers a t"
  "same_pointers a (clear_recovery_slot t) = same_pointers a t"
  "same_pointers a (clearTargetActive t) = same_pointers a t"
  "same_pointers a (clear_failure_slot t) = same_pointers a t"
  "same_pointers a (stamp_target opts s e t) = same_pointers a t"
  by (simp_all add: same_pointers_def markInFlightRestore_def clearTargetInterruption_def clear_recovery_slot_def
      clearTargetActive_def clear_failure_slot_def stamp_target_def Let_def)

lemma deployed_settle [simp]:
  "tgt_deployed_generation_id (markInFlightRestore now t) = tgt_deployed_generation_id t"
  "tgt_deployed_generation_id (clearTargetInterruption st t) = tgt_deployed_generation_id t"
  "tgt_deployed_generation_id (clear_recovery_slot t) = tgt_deployed_generation_id t"
  "tgt_deployed_generation_id (clearTargetActive t) = tgt_deployed_generation_id t"
  "tgt_deployed_generation_id (clear_failure_slot t) = tgt_deployed_generation_id t"
  by (simp_all add: markInFlightRestore_def clearTargetInterruption_def clear_recovery_slot_def
      clearTargetActive_def clear_failure_slot_def Let_def)

lemma mutateTarget_effect:
  assumes run: "mutateTarget i n e stage g mutate outcome opts db = Inr (db', r)"
    and step: "\<And>t app t1 db1 b a. getTarget db i n = Some t \<Longrightarrow> mutate t app db = Inr (t1, db1, b, a) \<Longrightarrow>
       target_key t1 = target_key t \<and> db_targets db1 = db_targets db \<and> P t t1"
  shows "\<exists>t t1. getTarget db i n = Some t \<and> P t t1
     \<and> (\<forall>j m. getTarget db' j m =
          (if (j, m) = (i, n) then Some (stamp_target opts stage e t1) else getTarget db j m))"
  using run
proof (rule mutateTargetE)
  fix app t t1 db1 b a
  assume t: "getTarget db i n = Some t" and m: "mutate t app db = Inr (t1, db1, b, a)"
    and db': "db' = snd (history app e ((history_fields0 stage outcome b a)
           \<lparr>hf_nodeId := Some n, hf_generationId := g,
            hf_invocationObservedJson := mo_invocationObservedJson opts\<rparr>)
           (put_target (stamp_target opts stage e t1) db1))"
  have k: "target_key t1 = (i, n)" and d: "db_targets db1 = db_targets db" and p: "P t t1"
    using step [OF t m] getTarget_ids [OF t] by (auto simp: target_key_def)
  have "getTarget db1 = getTarget db" using d by (rule lookups_by_table)
  then have "getTarget db' j m = (if (j, m) = (i, n) then Some (stamp_target opts stage e t1) else getTarget db j m)" for j m
    using k unfolding db' by (simp add: getTarget_put target_key_def)
  with t p show ?thesis by blast
qed

definition bound_from :: "string \<Rightarrow> event_envelope \<Rightarrow> gitops_target_current_row \<Rightarrow> gitops_target_current_row \<Rightarrow> bool" where
  "bound_from g e t t' \<longleftrightarrow> tgt_target_status t = Ts_active \<and> requireMatchingDeploy t g e = Inr ()
     \<and> tgt_deployed_generation_id t' = Some g \<and> same_pointers t t'"

lemma same_pointers_deployed [simp]: "same_pointers t (t\<lparr>tgt_deployed_generation_id := d\<rparr>)"
  by (simp add: same_pointers_def)

lemma target_key_deployed [simp]: "target_key (t\<lparr>tgt_deployed_generation_id := d\<rparr>) = target_key t"
  by (simp add: target_key_def)

lemma deployBound_effect:
  assumes "deployBound i n g e db = Inr (db', r)"
  shows "\<exists>t t1. getTarget db i n = Some t \<and> bound_from g e t t1
     \<and> (\<forall>j m. getTarget db' j m =
          (if (j, m) = (i, n) then Some (stamp_target no_options ''deploy_bound'' e t1) else getTarget db j m))"
  using assms unfolding deployBound_def
  by (rule mutateTarget_effect)
    (auto simp: bound_from_def Let_def prod.case_eq_if
        dest!: retire_targets(1) split: if_splits)

text \<open>A failed deploy settles whatever holds the target.\<close>

definition guarded_columns :: "gitops_target_current_row \<Rightarrow> gitops_target_current_row \<Rightarrow> bool" where
  "guarded_columns a b \<longleftrightarrow>
     tgt_application_id b = tgt_application_id a \<and> tgt_desired_generation_id b = tgt_desired_generation_id a
     \<and> tgt_candidate_generation_id b = tgt_candidate_generation_id a
     \<and> tgt_expected_artifact_set_id b = tgt_expected_artifact_set_id a
     \<and> tgt_latest_artifact_set_id b = tgt_latest_artifact_set_id a
     \<and> tgt_lkg_generation_id b = tgt_lkg_generation_id a
     \<and> tgt_lkg_artifact_set_id b = tgt_lkg_artifact_set_id a
     \<and> tgt_lkg_unavailable_at b = tgt_lkg_unavailable_at a"

lemma target_ok_guarded: "guarded_columns a b \<Longrightarrow> target_ok db a \<Longrightarrow> target_ok db b"
  by (auto simp: guarded_columns_def target_ok_def assertTargetInvariants_def split: option.splits)

lemma retire_exists:
  assumes "getApplication db i = Some app"
  shows "\<exists>t1 db1. retireNonMovingRecoveryClaim i e t db = Inr (t1, db1)
     \<and> (t1 = t \<or> t1 = clear_recovery_slot t) \<and> db_targets db1 = db_targets db
     \<and> (\<forall>u. target_ok db1 u = target_ok db u)"
  using assms
  by (auto simp: retireNonMovingRecoveryClaim_def clearRecoveryClaim_def withApplication_def requireApp_def
      clearApplicationRecoveryWhenNoTargetFails_def)

lemma fail_deploy_columns:
  fixes c e now
  assumes "t1 = clearTargetActive t \<or> t1 = clear_recovery_slot (clearTargetActive t)"
    and "\<not> targetRestoreInFlight t"
  defines "t2 \<equiv> fail_deploy c e (markInFlightRestore now t1)"
  shows "guarded_columns t t2" and "target_key t2 = target_key t" and "tgt_active_operation_id t2 = None"
    and "tgt_active_operation_stage t2 = None" and "tgt_failure_stage t2 = Some Tf_deploy"
    and "tgt_failure_class t2 = Some c" and "tgt_deployed_generation_id t2 = tgt_deployed_generation_id t"
proof -
  have t1: "guarded_columns t t1" "target_key t1 = target_key t" "tgt_active_operation_id t1 = None"
    "tgt_active_operation_stage t1 = None" "tgt_deployed_generation_id t1 = tgt_deployed_generation_id t"
    "\<not> targetRestoreInFlight t1"
    using assms(1,2)
    by (elim disjE; simp add: guarded_columns_def target_key_def targetRestoreInFlight_def
        clear_recovery_slot_def clearTargetActive_def clear_failure_slot_def Let_def)+
  then have "markInFlightRestore now t1 = t1" by (simp add: markInFlightRestore_def)
  with t1 show "guarded_columns t t2" and "target_key t2 = target_key t" and "tgt_active_operation_id t2 = None"
    and "tgt_active_operation_stage t2 = None" and "tgt_failure_stage t2 = Some Tf_deploy"
    and "tgt_failure_class t2 = Some c" and "tgt_deployed_generation_id t2 = tgt_deployed_generation_id t"
    by (simp_all add: t2_def fail_deploy_def clearTargetInterruption_def guarded_columns_def target_key_def)
qed

lemma deployFailed_settles:
  assumes "getApplication db i = Some app" and t: "getTarget db i n = Some t"
    and "target_ok db t" and "\<not> targetRestoreInFlight t"
  shows "\<exists>db' r t'. deployFailed i n c e db = Inr (db', r) \<and> getTarget db' i n = Some t'
     \<and> tgt_active_operation_id t' = None \<and> tgt_active_operation_stage t' = None
     \<and> tgt_failure_stage t' = Some Tf_deploy \<and> tgt_failure_class t' = Some (deploy_failure_text c)"
proof -
  obtain t1 db1 where retire: "retireNonMovingRecoveryClaim i e (clearTargetActive t) db = Inr (t1, db1)"
    and t1: "t1 = clearTargetActive t \<or> t1 = clear_recovery_slot (clearTargetActive t)"
    and ok: "\<And>u. target_ok db1 u = target_ok db u"
    using retire_exists [OF assms(1), of e "clearTargetActive t"] by blast
  define t2 where "t2 = fail_deploy (deploy_failure_text c) e (markInFlightRestore (ev_at e) t1)"
  note cols = fail_deploy_columns [OF t1 assms(4), of "deploy_failure_text c" e "ev_at e", folded t2_def]
  let ?t' = "stamp_target no_options ''deploy_failed'' e t2"
  have g: "guarded_columns t ?t'" using cols(1) by (simp add: guarded_columns_def stamp_target_def)
  have put: "upsertTarget ?t' db1 = Inr (put_target ?t' db1)"
    using target_ok_guarded [OF g assms(3)] ok by (simp add: upsertTarget_Inr)
  have key: "target_key ?t' = (i, n)"
    using cols(2) getTarget_ids [OF t] by (simp add: target_key_def stamp_target_def)
  obtain db' r where run: "deployFailed i n c e db = Inr (db', r)"
    and "\<exists>f. db' = snd (history app e f (put_target ?t' db1))"
    using assms(1) t retire put
    by (auto simp: deployFailed_def mutateTarget_def requireApp_def Let_def prod.case_eq_if t2_def [symmetric])
  then have "getTarget db' i n = Some ?t'" using key by (auto simp: getTarget_put)
  with run cols show ?thesis by auto
qed

end
