(* ===== verification/Example_Trace.thy ===== *)
theory Example_Trace
  imports Lifecycle
begin

text \<open>
  A concrete run of the state machine, used to instantiate the properties: one Direct application on
  node 1 whose only generation is fetched, staged, applied and deployed.
\<close>

definition ex_app :: gitops_application_row where
  "ex_app =
     \<lparr>app_id = ''app'', app_lifecycle_key = ''key'', app_lifecycle_status = Lc_active,
      app_target_mode = Direct, app_stack_name = Some ''web'',
      app_configured_source_stack_name = None, app_blueprint_id = None,
      app_configured_repo_url = None, app_repo_identity_json = None, app_configured_ref = None,
      app_compose_paths_json = None, app_context_dir = None, app_sync_env = None,
      app_env_path = None, app_materialization_fingerprint = Some ''fp'',
      app_desired_commit_sha = None, app_fetched_commit_sha = None,
      app_fetched_resolved_ref_kind = None, app_candidate_generation_id = None,
      app_accepted_generation_id = None, app_candidate_plan_blocked = 0, app_review_required = 0,
      app_review_block_reason = None, app_artifact_set_id = None,
      app_latest_artifact_set_id = None, app_intent_revision_id = None,
      app_rollout_candidate_id = None, app_rollout_generation_id = None,
      app_source_acceptance_ref = None, app_placement_approval_ref = None,
      app_rollout_authorization_ref = None, app_legacy_combined_approval_ref = None,
      app_preflight_fingerprint = None, app_latest_preflight_evidence_json = None,
      app_latest_operation_id = None, app_active_operation_id = None,
      app_active_operation_stage = None, app_active_operation_at = None,
      app_active_generation_id = None, app_pause_at = None, app_pause_reason = None,
      app_pause_origin = Po_operator, app_source_suspended_reason = None,
      app_source_policy = Sp_review, app_placement_policy = Pp_operator,
      app_rollout_authorization_policy = Ra_manual, app_placement_policy_refusal_reason = None,
      app_placement_policy_refused_at = None, app_poll_interval_secs = None,
      app_next_poll_at = None, app_attempt_seq = 0, app_partial_json = None,
      app_failure_stage = None, app_failure_class = None, app_failure_at = None,
      app_retry_at = None, app_retry_count = 0, app_suspended_at = None, app_recovery_ref = None,
      app_recovery_phase = None, app_interruption_stage = None, app_interruption_at = None,
      app_interruption_operation_id = None, app_interruption_generation_id = None,
      app_evidence_fresh_at = None, app_evidence_limitations_json = None, app_created_at = 0,
      app_updated_at = 0\<rparr>"

definition ex_gen :: gitops_generation_row where
  "ex_gen =
     \<lparr>gen_id = ''g1'', gen_application_id = ''app'', gen_commit_sha = ''c1'',
      gen_repo_url = '''', gen_configured_ref = '''', gen_resolved_ref_kind = None,
      gen_repo_identity_json = Parsed (JObj []), gen_manifest_version = 1,
      gen_candidate_dir = '''', gen_applied_dir = '''',
      gen_expected_invocation_json = Parsed (JObj []), gen_materialization_fingerprint = ''fp'',
      gen_validation_ok = 1, gen_plan_blocked = 0, gen_change_plan_fingerprint = None,
      gen_operation_id = '''', gen_trigger = '''', gen_actor = None,
      gen_previous_generation_id = None, gen_redacted_limitations_json = Parsed (JObj []),
      gen_portable_manifest_json = None, gen_compose_inputs_json = None,
      gen_source_policy_evidence_json = None, gen_security_policy_evidence_json = None,
      gen_support_requirements_json = None, gen_compatibility_requirements_json = None,
      gen_secret_capability_json = None, gen_created_at = 0\<rparr>"

text \<open>A URL parser for plain \<^verbatim>\<open>https\<close> URLs.\<close>

definition plain_url :: url_parser where
  "plain_url s =
     (if take 8 s \<noteq> ''https://'' then None
      else
        (let rest = drop 8 s;
             host = takeWhile (\<lambda>c. c \<noteq> CHR ''/'') rest;
             path = dropWhile (\<lambda>c. c \<noteq> CHR ''/'') rest
         in if host = [] then None
            else Some \<lparr>url_protocol = ''https:'', url_username = [], url_password = [], url_host = lower host,
                       url_hostname = lower host, url_port = [],
                       url_pathname = (if path = [] then ''/'' else path), url_search = [], url_hash = []\<rparr>))"

definition ex_platform :: platform where
  "ex_platform = \<lparr>localeCompare = code_unit_cmp, newURL = plain_url\<rparr>"

definition ex_env :: "string \<Rightarrow> event_envelope" where
  "ex_env opid = \<lparr>ev_operationId = opid, ev_actor = None, ev_trigger = ''manual'', ev_at = 100\<rparr>"

definition ex_args :: applied_args where
  "ex_args = \<lparr>aa_applicationId = ''app'', aa_generationId = ''g1'', aa_artifactSetId = ''s1'',
     aa_sourceAcceptanceId = ''acc1'', aa_authority = By_operator, aa_envelope = ex_env ''op2'',
     aa_activateCreating = False, aa_confirmation = None\<rparr>"

definition ex_staged :: "gitops_event list" where
  "ex_staged =
     [Ev_binding (Ev_activateDirect ex_app 1 (ex_env ''op0'')), Ev_insertGeneration ex_gen,
      Ev_fetchStarted ''app'' (ex_env ''op1''), Ev_fetched ''app'' ''c1'' (ex_env ''op1'') None,
      Ev_candidateReady ''app'' ''g1'' True (ex_env ''op1'')]"

definition ex_applied :: "gitops_event list" where
  "ex_applied = ex_staged @ [Ev_applyStarted ''app'' ''g1'' (ex_env ''op2''), Ev_applied ex_args]"

definition ex_db :: "gitops_event list \<Rightarrow> gitops_db" where
  "ex_db evs = (case run_events ex_platform evs empty_db of Inr db \<Rightarrow> db | Inl _ \<Rightarrow> empty_db)"

end
