(* ===== verification/Rollout_Trace.thy ===== *)
theory Rollout_Trace
  imports Example_Trace
begin

text \<open>
  A concrete rollout, used to instantiate the properties of Blueprint applications: the application of
  \<^verbatim>\<open>Example_Trace\<close> with a configured repository is converted to Blueprint mode, its placement on node 1 is
  approved and the rollout is authorized.
\<close>

definition ex_bp_app :: gitops_application_row where
  "ex_bp_app = ex_app\<lparr>app_configured_repo_url := Some ''https://git.example/org/app''\<rparr>"

definition ex_intent :: gitops_intent_revision_row where
  "ex_intent =
     \<lparr>intent_id = ''rev1'', intent_application_id = ''app'', intent_blueprint_id = 7,
      intent_compose_content_sha256 = ''sha'', intent_blueprint_revision = 1,
      intent_deploy_stack_name = ''web'', intent_selector_json = Parsed (JObj []),
      intent_pinned_node_id = None, intent_cordon_implications_json = Parsed (JObj []),
      intent_rollout_strategy_json = Parsed (JObj []), intent_runtime_drift_policy = None,
      intent_stateful_policy_json = None, intent_health_failure_rollback_policy_json = None,
      intent_operation_id = ''op4'', intent_actor = None, intent_created_at = 100\<rparr>"

definition ex_nodes :: raw_json where
  "ex_nodes = Parsed (JObj [(''nodeIds'', JArr [JNum (NInt 1)])])"

definition ex_candidate :: gitops_rollout_candidate_row where
  "ex_candidate =
     \<lparr>cand_id = ''cand1'', cand_application_id = ''app'', cand_intent_revision_id = ''rev1'',
      cand_compose_content_sha256 = ''sha'', cand_accepted_generation_id = None,
      cand_artifact_set_id = None, cand_required_targets_json = ex_nodes, cand_authoritative = 1,
      cand_provenance = Cp_intent_change, cand_operation_id = ''op4'', cand_created_at = 100\<rparr>"

definition ex_placement_args :: placement_approval_args where
  "ex_placement_args =
     \<lparr>pa_applicationId = ''app'', pa_approvalId = ''place1'', pa_intentRevisionId = ''rev1'',
      pa_blastJson = Parsed (JArr [JObj [(''nodeId'', JNum (NInt 1)), (''outcome'', JStr ''place'')]]),
      pa_requiredNodeIds = [1], pa_fingerprint = None, pa_actor = None, pa_envelope = ex_env ''op5'',
      pa_rolloutGenerationId = ''roll1'', pa_candidateId = ''cand1'', pa_authority = By_operator,
      pa_policyProvenanceJson = None, pa_strategyJson = None, pa_provenance = Some Rg_placement_approval\<rparr>"

definition ex_authorization_args :: rollout_authorization_args where
  "ex_authorization_args =
     \<lparr>ra_applicationId = ''app'', ra_approvalId = ''auth1'', ra_rolloutGenerationId = ''roll2'',
      ra_preflightFingerprint = replicate 64 (CHR ''a''), ra_preflightEvidenceJson = Parsed (JObj []), ra_actor = None,
      ra_envelope = ex_env ''op6'', ra_strategyJson = None, ra_authority = By_operator,
      ra_policyProvenanceJson = None\<rparr>"

definition ex_converted :: "gitops_event list" where
  "ex_converted =
     [Ev_binding (Ev_activateDirect ex_bp_app 1 (ex_env ''op0'')), Ev_insertGeneration ex_gen,
      Ev_fetchStarted ''app'' (ex_env ''op1''), Ev_fetched ''app'' ''c1'' (ex_env ''op1'') None,
      Ev_candidateReady ''app'' ''g1'' True (ex_env ''op1''),
      Ev_applyStarted ''app'' ''g1'' (ex_env ''op2''), Ev_applied ex_args,
      Ev_binding (Ev_convertDirectToBlueprint ''app'' 7 (ex_env ''op3''))]"

definition ex_authorized :: "gitops_event list" where
  "ex_authorized = ex_converted @
     [Ev_intentRevised ''app'' ex_intent (ex_env ''op4''),
      Ev_candidateOpened ''app'' ex_candidate (ex_env ''op4''),
      Ev_placementApproved ex_placement_args, Ev_rolloutAuthorized ex_authorization_args]"

text \<open>A trace that leaves an application behind has run.\<close>

lemma trace_reachable:
  assumes "getApplication (ex_db evs) i \<noteq> None" and "list_all admissible evs"
  shows "reachable ex_platform (ex_db evs)"
proof -
  have "getApplication empty_db i = None" by (simp add: empty_db_def getApplication_def)
  then have "run_events ex_platform evs empty_db = Inr (ex_db evs)"
    using assms(1) by (auto simp: ex_db_def split: sum.splits)
  then show ?thesis unfolding reachable_def using assms(2) by (rule run_events_run)
qed

end
