(* ===== verification/Artifact_Identity.thy ===== *)
theory Artifact_Identity
  imports Artifact_Evidence
begin

text \<open>
  Whether what a node reports running is what was approved (\<^verbatim>\<open>gitops/artifactIdentity.ts\<close>). A
  \<^verbatim>\<open>Set\<close> of digests is the list of its members; only membership, emptiness and iteration with a
  test are used, so order and repetition do not matter.
\<close>

definition SHA256_DIGEST_RE :: "string \<Rightarrow> bool" where
  "SHA256_DIGEST_RE s =
     (length s = 71 \<and> take 7 (lower s) = ''sha256:'' \<and> list_all is_hex_lower (drop 7 (lower s)))"

definition addDigest :: "string option \<Rightarrow> string list \<Rightarrow> string list" where
  "addDigest digest into =
     (case digest of
        None \<Rightarrow> into
      | Some d \<Rightarrow> (if d \<noteq> [] \<and> SHA256_DIGEST_RE d then into @ [lower d] else into))"

definition observedCandidateDigests :: "service_artifact_evidence \<Rightarrow> string list" where
  "observedCandidateDigests service =
     fold (\<lambda>d. addDigest (Some d)) (nullish (svc_localDigests service) [])
       (addDigest (svc_indexDigest service) (addDigest (svc_platformDigest service) []))"

definition has_variants :: "service_artifact_evidence \<Rightarrow> bool" where
  "has_variants expected = (nullish (svc_platformVariants expected) [] \<noteq> [])"

definition approvedPlatformDigest :: "service_artifact_evidence \<Rightarrow> string option \<Rightarrow> string option" where
  "approvedPlatformDigest expected observedPlatform =
     (if has_variants expected then
        (if \<not> truthy_str observedPlatform then None
         else
           (let observed = canonicalPlatformLabel (the observedPlatform)
            in map_option var_digest
                 (find (\<lambda>v. canonicalPlatformLabel (var_platform v) = observed)
                   (nullish (svc_platformVariants expected) []))))
      else svc_platformDigest expected)"

definition expectedChildDigests :: "service_artifact_evidence \<Rightarrow> string list" where
  "expectedChildDigests expected =
     fold (\<lambda>v. addDigest (Some (var_digest v))) (nullish (svc_platformVariants expected) [])
       (addDigest (svc_platformDigest expected) [])"

definition observedIndexProvesChild ::
    "service_artifact_evidence \<Rightarrow> service_artifact_evidence \<Rightarrow> string list \<Rightarrow> string list \<Rightarrow> bool" where
  "observedIndexProvesChild expected observed candidates childDigests =
     (if \<not> truthy_str (svc_platform observed) then False
      else
        (let indexDigest = map_option lower (svc_indexDigest expected)
         in if \<not> truthy_str indexDigest \<or> the indexDigest \<notin> set candidates then False
            else if \<exists>digest \<in> set candidates.
                      digest \<noteq> the indexDigest \<and> digest \<notin> set childDigests then False
            else
              (let observedPlatform = canonicalPlatformLabel (the (svc_platform observed))
               in if has_variants expected
                  then \<exists>v \<in> set (nullish (svc_platformVariants expected) []).
                         canonicalPlatformLabel (var_platform v) = observedPlatform
                  else (case svc_platform expected of
                          None \<Rightarrow> False
                        | Some p \<Rightarrow> canonicalPlatformLabel p = observedPlatform))))"

text \<open>One round of the loop of \<^verbatim>\<open>observationMatchesExpected\<close>: \<open>True\<close> is \<^verbatim>\<open>continue\<close>.\<close>

definition expected_service_matches ::
    "(string \<Rightarrow> service_artifact_evidence option) \<Rightarrow> service_artifact_evidence \<Rightarrow> bool" where
  "expected_service_matches observedByName expected =
     (if svc_source expected \<noteq> Ss_registry then True
      else
        (case observedByName (svc_serviceName expected) of
           None \<Rightarrow> False
         | Some observed \<Rightarrow>
             (let candidates = observedCandidateDigests observed
              in if candidates = [] then False
                 else
                   (let approved = approvedPlatformDigest expected (svc_platform observed)
                    in if truthy_str approved \<and> lower (the approved) \<in> set candidates then True
                       else
                         (let childDigests = expectedChildDigests expected
                          in if \<exists>digest \<in> set candidates. digest \<in> set childDigests then False
                             else observedIndexProvesChild expected observed candidates childDigests)))))"

definition observationMatchesExpected ::
    "service_artifact_evidence list \<Rightarrow> service_artifact_evidence list \<Rightarrow> bool" where
  "observationMatchesExpected expectedServices observedServices =
     (if expectedServices = [] \<or> observedServices = [] then False
      else
        (let observedByName = map_of (rev (map (\<lambda>s. (svc_serviceName s, s)) observedServices))
         in list_all (expected_service_matches observedByName) expectedServices))"

definition comparableObservationMatches ::
    "service_artifact_evidence list option \<Rightarrow> observed_artifact_identity \<Rightarrow> bool" where
  "comparableObservationMatches expectedServices observed =
     (if \<not> obs_comparable observed then False
      else if nullish expectedServices [] = [] \<or> nullish (obs_services observed) [] = [] then False
      else observationMatchesExpected (nullish expectedServices []) (nullish (obs_services observed) []))"

section \<open>What a match proves\<close>

lemma set_addDigest:
  "set (addDigest d into) = set into \<union> {lower x |x. d = Some x \<and> x \<noteq> [] \<and> SHA256_DIGEST_RE x}"
  by (cases d) (auto simp: addDigest_def)

lemma set_fold_addDigest:
  "set (fold (\<lambda>v. addDigest (Some (f v))) xs into) =
     set into \<union> {lower (f v) |v. v \<in> set xs \<and> f v \<noteq> [] \<and> SHA256_DIGEST_RE (f v)}"
  by (induction xs arbitrary: into) (auto simp: set_addDigest)

lemma SHA256_nonempty: "SHA256_DIGEST_RE d \<Longrightarrow> d \<noteq> []"
  by (auto simp: SHA256_DIGEST_RE_def)

lemma expected_child_of_variant:
  assumes "v \<in> set (nullish (svc_platformVariants expected) [])" and "SHA256_DIGEST_RE (var_digest v)"
  shows "lower (var_digest v) \<in> set (expectedChildDigests expected)"
  using assms SHA256_nonempty
  by (auto simp: expectedChildDigests_def set_fold_addDigest)

text \<open>The declarative reading: the observation names the approved child, or it names nothing but the
  frozen index and declares a platform the expectation holds a child for.\<close>

definition declares_known_platform :: "service_artifact_evidence \<Rightarrow> service_artifact_evidence \<Rightarrow> bool" where
  "declares_known_platform expected observed =
     (case svc_platform observed of
        None \<Rightarrow> False
      | Some p \<Rightarrow> p \<noteq> [] \<and>
          (\<exists>q \<in> set (if has_variants expected
                    then map var_platform (nullish (svc_platformVariants expected) [])
                    else (case svc_platform expected of None \<Rightarrow> [] | Some q \<Rightarrow> [q])).
             canonicalPlatformLabel q = canonicalPlatformLabel p))"

definition runs_approved_child :: "service_artifact_evidence \<Rightarrow> service_artifact_evidence \<Rightarrow> bool" where
  "runs_approved_child expected observed =
     (\<exists>d \<in> set (observedCandidateDigests observed).
        map_option lower (approvedPlatformDigest expected (svc_platform observed)) = Some d \<and> d \<noteq> [])"

definition runs_frozen_index :: "service_artifact_evidence \<Rightarrow> service_artifact_evidence \<Rightarrow> bool" where
  "runs_frozen_index expected observed =
     (\<exists>i. map_option lower (svc_indexDigest expected) = Some i
        \<and> set (observedCandidateDigests observed) = {i}
        \<and> i \<notin> set (expectedChildDigests expected)
        \<and> i \<noteq> []
        \<and> declares_known_platform expected observed)"

lemma lower_eq_Nil [simp]: "lower s = [] \<longleftrightarrow> s = []"
  by (simp add: lower_def)

lemma runs_approved_child_iff:
  "runs_approved_child expected observed \<longleftrightarrow>
     truthy_str (approvedPlatformDigest expected (svc_platform observed)) \<and>
     lower (the (approvedPlatformDigest expected (svc_platform observed)))
       \<in> set (observedCandidateDigests observed)"
  by (cases "approvedPlatformDigest expected (svc_platform observed)") (auto simp: runs_approved_child_def)

lemma known_platform_iff:
  "truthy_str (svc_platform observed) \<Longrightarrow>
   declares_known_platform expected observed \<longleftrightarrow>
     (let p = canonicalPlatformLabel (the (svc_platform observed))
      in if has_variants expected
         then \<exists>v \<in> set (nullish (svc_platformVariants expected) []).
                canonicalPlatformLabel (var_platform v) = p
         else (case svc_platform expected of None \<Rightarrow> False | Some q \<Rightarrow> canonicalPlatformLabel q = p))"
  by (cases "svc_platform observed") (auto simp: declares_known_platform_def split: option.splits)

lemma index_proof_iff:
  assumes "\<not> (\<exists>d \<in> set cands. d \<in> set children)"
  shows "observedIndexProvesChild expected observed cands children \<longleftrightarrow>
     (\<exists>i. map_option lower (svc_indexDigest expected) = Some i \<and> set cands = {i}
        \<and> i \<noteq> [] \<and> declares_known_platform expected observed)"
proof (cases "truthy_str (svc_platform observed)")
  case False
  then show ?thesis
    by (cases "svc_platform observed")
      (auto simp: observedIndexProvesChild_def declares_known_platform_def)
next
  case True
  note plat = known_platform_iff [OF True, of expected]
  show ?thesis
  proof (cases "svc_indexDigest expected")
    case None
    then show ?thesis by (simp add: observedIndexProvesChild_def)
  next
    case (Some i)
    have "(lower i \<in> set cands \<and> \<not> (\<exists>d \<in> set cands. d \<noteq> lower i \<and> d \<notin> set children))
        \<longleftrightarrow> set cands = {lower i}"
      using assms by auto
    then show ?thesis using True Some plat by (auto simp: observedIndexProvesChild_def Let_def)
  qed
qed

lemma expected_service_matches_iff:
  "expected_service_matches m expected \<longleftrightarrow>
     svc_source expected \<noteq> Ss_registry \<or>
     (\<exists>observed. m (svc_serviceName expected) = Some observed
        \<and> (runs_approved_child expected observed \<or> runs_frozen_index expected observed))"
proof (cases "svc_source expected = Ss_registry")
  case False
  then show ?thesis by (simp add: expected_service_matches_def)
next
  case reg: True
  show ?thesis
  proof (cases "m (svc_serviceName expected)")
    case None
    with reg show ?thesis by (simp add: expected_service_matches_def)
  next
    case (Some observed)
    let ?c = "observedCandidateDigests observed" and ?k = "expectedChildDigests expected"
    show ?thesis
    proof (cases "runs_approved_child expected observed")
      case True
      then have "?c \<noteq> []" by (auto simp: runs_approved_child_def)
      with True reg Some show ?thesis
        by (simp add: expected_service_matches_def runs_approved_child_iff Let_def)
    next
      case nochild: False
      show ?thesis
      proof (cases "\<exists>d \<in> set ?c. d \<in> set ?k")
        case True
        then obtain d where "d \<in> set ?c" "d \<in> set ?k" by blast
        then have "\<not> runs_frozen_index expected observed"
          unfolding runs_frozen_index_def by (metis singletonD)
        with True nochild reg Some show ?thesis
          by (simp add: expected_service_matches_def runs_approved_child_iff Let_def)
      next
        case False
        have frozen: "observedIndexProvesChild expected observed ?c ?k
            = runs_frozen_index expected observed"
        proof -
          have "set ?c = {i} \<Longrightarrow> i \<notin> set ?k" for i using False by simp
          then show ?thesis
            unfolding index_proof_iff [OF False] runs_frozen_index_def by (intro arg_cong [where f = Ex] ext) blast
        qed
        have "expected_service_matches m expected \<longleftrightarrow>
            ?c \<noteq> [] \<and> observedIndexProvesChild expected observed ?c ?k"
          using False nochild reg Some
          by (auto simp: expected_service_matches_def runs_approved_child_iff Let_def)
        moreover have "runs_frozen_index expected observed \<Longrightarrow> ?c \<noteq> []"
          unfolding runs_frozen_index_def by (metis empty_set insert_not_empty)
        ultimately show ?thesis using frozen nochild reg Some by simp blast
      qed
    qed
  qed
qed

lemma observation_matches_iff:
  "observationMatchesExpected expectedServices observedServices \<longleftrightarrow>
     expectedServices \<noteq> [] \<and> observedServices \<noteq> [] \<and>
     (\<forall>expected \<in> set expectedServices.
        svc_source expected = Ss_registry \<longrightarrow>
        (\<exists>observed. map_of (rev (map (\<lambda>s. (svc_serviceName s, s)) observedServices))
              (svc_serviceName expected) = Some observed
          \<and> (runs_approved_child expected observed \<or> runs_frozen_index expected observed)))"
  by (auto simp: observationMatchesExpected_def list_all_iff expected_service_matches_iff)

lemma comparable_match_kind:
  "comparableObservationMatches es observed \<Longrightarrow> obs_comparable observed"
  by (auto simp: comparableObservationMatches_def split: if_splits)

end
