(* ===== verification/Invocation_Identity.thy ===== *)
theory Invocation_Identity
  imports Artifact_Evidence
begin

text \<open>
  The two compose invocations an invocation drift compares (\<^verbatim>\<open>gitops/invocationIdentity.ts\<close>), with the POSIX
  semantics of the \<^verbatim>\<open>path\<close> functions it calls. A resolved path is its list of segments.
\<close>

section \<open>Paths\<close>

definition path_segments :: "string \<Rightarrow> string list" where
  "path_segments p = filter (\<lambda>s. s \<noteq> [] \<and> s \<noteq> ''.'') (split_on (CHR ''/'') p)"

text \<open>Segments walked from an absolute directory; \<^verbatim>\<open>..\<close> steps up and stays at the root.\<close>

fun walk :: "string list \<Rightarrow> string list \<Rightarrow> string list" where
  "walk dir [] = dir"
| "walk dir (s # ss) = walk (if s = ''..'' then butlast dir else dir @ [s]) ss"

definition is_absolute :: "string \<Rightarrow> bool" where
  "is_absolute p = (case p of [] \<Rightarrow> False | c # _ \<Rightarrow> c = CHR ''/'')"

text \<open>\<^verbatim>\<open>path.resolve(base, p)\<close> for a base that is already resolved.\<close>

definition resolve_from :: "string list \<Rightarrow> string \<Rightarrow> string list" where
  "resolve_from base p = walk (if is_absolute p then [] else base) (path_segments p)"

definition STACK_DIR_MARKER :: string where
  "STACK_DIR_MARKER = ''.''"

definition starts_dotdot :: "string \<Rightarrow> bool" where
  "starts_dotdot s = (take 2 s = ''..'')"

text \<open>The path from \<open>base\<close> to \<open>resolved\<close> begins with \<^verbatim>\<open>..\<close> unless \<open>base\<close> is a prefix; a segment whose own
  name begins with two dots is refused with it.\<close>

definition stackRelative :: "string list \<Rightarrow> string \<Rightarrow> string option" where
  "stackRelative base candidate =
     (let resolved = resolve_from base candidate;
          rest = drop (length base) resolved
      in if resolved = base then Some STACK_DIR_MARKER
         else if take (length base) resolved \<noteq> base then None
         else if starts_dotdot (hd rest) then None
         else Some (join_with ''/'' rest))"

section \<open>Authored side\<close>

record authored_invocation_identity =
  inv_composeFileOrder :: "string list"
  inv_projectName :: "string option"
  inv_projectDirectory :: "string option"
  inv_envFileOrder :: "string list"

datatype (plugins only: code) invocation_not_comparable_reason =
  Nc_authored_invocation_unreadable | Nc_authored_path_outside_stack | Nc_observed_path_outside_stack

definition normalizeProjectName :: "string \<Rightarrow> string" where
  "normalizeProjectName name = lower (js_trim name)"

definition all_strings :: "json list \<Rightarrow> string list option" where
  "all_strings xs = (if list_all (\<lambda>x. as_string x \<noteq> None) xs then Some (map (the \<circ> as_string) xs) else None)"

definition parseAuthoredArgv :: "json \<Rightarrow> string list option" where
  "parseAuthoredArgv decoded = Option.bind (as_array decoded) all_strings"

text \<open>An optional array of strings: absent is \<open>Some None\<close>, a value of another shape is \<open>None\<close>.\<close>

definition optional_strings :: "json option \<Rightarrow> string list option option" where
  "optional_strings v =
     (case v of
        None \<Rightarrow> Some None
      | Some j \<Rightarrow> map_option Some (Option.bind (as_array j) all_strings))"

definition optional_text :: "json option \<Rightarrow> string option option" where
  "optional_text v =
     (case v of
        None \<Rightarrow> Some None
      | Some JNull \<Rightarrow> Some None
      | Some j \<Rightarrow> map_option Some (as_string j))"

definition parseAuthoredIdentity :: "(string \<times> json) list \<Rightarrow> authored_invocation_identity option" where
  "parseAuthoredIdentity obj =
     (if list_all (\<lambda>k. k \<in> set [''composeFileOrder'', ''projectName'', ''projectDirectory'', ''envFileOrder''])
           (keys_of obj)
      then
        (case (optional_strings (prop_of obj ''composeFileOrder''), optional_strings (prop_of obj ''envFileOrder''),
               optional_text (prop_of obj ''projectName''), optional_text (prop_of obj ''projectDirectory'')) of
           (Some files, Some envFiles, Some name, Some dir) \<Rightarrow>
             Some \<lparr>inv_composeFileOrder = nullish files [], inv_projectName = name,
                   inv_projectDirectory = dir, inv_envFileOrder = nullish envFiles []\<rparr>
         | _ \<Rightarrow> None)
      else None)"

type_synonym authored_result = "invocation_not_comparable_reason + authored_invocation_identity"

text \<open>The flag loop: every flag takes the next entry as its value, an unknown flag or a missing value
  ends the comparison.\<close>

fun read_argv ::
    "string list \<Rightarrow> string list \<Rightarrow> authored_invocation_identity \<Rightarrow> authored_result" where
  "read_argv base [] acc = Inr acc"
| "read_argv base [flag] acc = Inl Nc_authored_invocation_unreadable"
| "read_argv base (flag # value # rest) acc =
     (if flag = ''-p''
      then read_argv base rest (acc\<lparr>inv_projectName := Some (normalizeProjectName value)\<rparr>)
      else if flag \<in> {''-f'', ''--env-file'', ''--project-directory''}
      then
        (case stackRelative base value of
           None \<Rightarrow> Inl Nc_authored_path_outside_stack
         | Some relative \<Rightarrow>
             read_argv base rest
               (if flag = ''-f''
                then acc\<lparr>inv_composeFileOrder := inv_composeFileOrder acc @ [relative]\<rparr>
                else if flag = ''--env-file''
                then acc\<lparr>inv_envFileOrder := inv_envFileOrder acc @ [relative]\<rparr>
                else acc\<lparr>inv_projectDirectory := Some relative\<rparr>))
      else Inl Nc_authored_invocation_unreadable)"

definition PRIMARY_COMPOSE_FILENAME :: string where
  "PRIMARY_COMPOSE_FILENAME = ''compose.yaml''"

definition strip_dot_slash :: "string \<Rightarrow> string" where
  "strip_dot_slash p = (if take 2 p = ''./'' then drop 2 p else p)"

definition gitSourceLocalComposeFiles :: "string list \<Rightarrow> string list" where
  "gitSourceLocalComposeFiles composePaths =
     (case composePaths of [] \<Rightarrow> [] | _ # rest \<Rightarrow> PRIMARY_COMPOSE_FILENAME # map strip_dot_slash rest)"

definition parseConfiguredComposePaths :: "raw_json option \<Rightarrow> string list option" where
  "parseConfiguredComposePaths raw =
     (case raw of
        None \<Rightarrow> Some []
      | Some r \<Rightarrow>
          (case decodeGitOpsJson r of
             Inl _ \<Rightarrow> None
           | Inr decoded \<Rightarrow> map_option gitSourceLocalComposeFiles (Option.bind (as_array decoded) all_strings)))"

fun relative_files :: "string list \<Rightarrow> string list \<Rightarrow> invocation_not_comparable_reason + string list" where
  "relative_files base [] = Inr []"
| "relative_files base (f # fs) =
     (case stackRelative base f of
        None \<Rightarrow> Inl Nc_authored_path_outside_stack
      | Some relative \<Rightarrow>
          (case relative_files base fs of Inl e \<Rightarrow> Inl e | Inr rest \<Rightarrow> Inr (relative # rest)))"

text \<open>A selection the argv does not name comes from the configured compose paths.\<close>

definition selected_files ::
    "string list \<Rightarrow> raw_json option \<Rightarrow> bool \<Rightarrow> string list \<Rightarrow> invocation_not_comparable_reason + string list" where
  "selected_files base composePathsJson from_argv files =
     (if from_argv \<and> files = []
      then
        (case parseConfiguredComposePaths composePathsJson of
           None \<Rightarrow> Inl Nc_authored_invocation_unreadable
         | Some configured \<Rightarrow> relative_files base configured)
      else Inr files)"

definition finish_authored ::
    "string list \<Rightarrow> raw_json option \<Rightarrow> string \<Rightarrow> bool \<Rightarrow> authored_invocation_identity \<Rightarrow> authored_result" where
  "finish_authored base composePathsJson stackName from_argv acc =
     (case selected_files base composePathsJson from_argv (inv_composeFileOrder acc) of
        Inl e \<Rightarrow> Inl e
      | Inr files \<Rightarrow>
          (if files = [] then Inl Nc_authored_invocation_unreadable
           else Inr \<lparr>inv_composeFileOrder = files,
                      inv_projectName = Some (nullish (inv_projectName acc) (normalizeProjectName stackName)),
                      inv_projectDirectory = Some (nullish (inv_projectDirectory acc) STACK_DIR_MARKER),
                      inv_envFileOrder = inv_envFileOrder acc\<rparr>))"

definition EMPTY_INVOCATION :: authored_invocation_identity where
  "EMPTY_INVOCATION = \<lparr>inv_composeFileOrder = [], inv_projectName = None, inv_projectDirectory = None,
                        inv_envFileOrder = []\<rparr>"

definition canonicalizeAuthoredInvocation ::
    "raw_json \<Rightarrow> raw_json option \<Rightarrow> string \<Rightarrow> string list \<Rightarrow> authored_result" where
  "canonicalizeAuthoredInvocation expectedInvocationJson composePathsJson stackName stackDir =
     (case decodeGitOpsJson expectedInvocationJson of
        Inl _ \<Rightarrow> Inl Nc_authored_invocation_unreadable
      | Inr decoded \<Rightarrow>
          (case parseAuthoredArgv decoded of
             Some argv \<Rightarrow>
               (case read_argv stackDir argv EMPTY_INVOCATION of
                  Inl e \<Rightarrow> Inl e
                | Inr acc \<Rightarrow> finish_authored stackDir composePathsJson stackName True acc)
           | None \<Rightarrow>
               (case Option.bind (as_record decoded) parseAuthoredIdentity of
                  None \<Rightarrow> Inl Nc_authored_invocation_unreadable
                | Some written \<Rightarrow> finish_authored stackDir composePathsJson stackName False written)))"

section \<open>Observed side and comparison\<close>

definition splitLabelList :: "string option \<Rightarrow> string list option" where
  "splitLabelList value =
     map_option (\<lambda>v. let trimmed = js_trim v
        in if trimmed = [] then []
           else filter (\<lambda>e. e \<noteq> []) (map js_trim (split_on (CHR '','') trimmed))) value"

definition all_relative :: "string list \<Rightarrow> string list \<Rightarrow> string list option" where
  "all_relative stackDir files =
     (let rs = map (stackRelative stackDir) files
      in if list_all (\<lambda>r. r \<noteq> None) rs then Some (map the rs) else None)"

definition canonicalizeObservedInvocation ::
    "(string \<Rightarrow> string option) \<Rightarrow> string list \<Rightarrow> js_number \<Rightarrow> observed_invocation_identity option" where
  "canonicalizeObservedInvocation labels stackDir observedAt =
     (let projectName = labels ''com.docker.compose.project'';
          configFiles = splitLabelList (labels ''com.docker.compose.project.config_files'');
          workingDir = labels ''com.docker.compose.project.working_dir''
      in if \<not> truthy_str projectName \<or> \<not> truthy_str workingDir \<or> configFiles = None then None
         else if configFiles = Some [] then None
         else
           (case (all_relative stackDir (the configFiles), stackRelative stackDir (the workingDir),
                  all_relative stackDir (nullish
                    (splitLabelList (labels ''com.docker.compose.project.environment_file'')) [])) of
              (Some files, Some dir, Some envFiles) \<Rightarrow>
                Some \<lparr>oinv_composeFileOrder = files,
                      oinv_projectName = normalizeProjectName (the projectName),
                      oinv_projectDirectory = dir,
                      oinv_envFileOrder = envFiles,
                      oinv_observedAt = observedAt\<rparr>
            | _ \<Rightarrow> None))"

definition sameOrderedList :: "string list \<Rightarrow> string list \<Rightarrow> bool" where
  "sameOrderedList left right =
     (length left = length right \<and> list_all (\<lambda>i. left ! i = right ! i) [0..<length left])"

datatype (plugins only: code) invocation_comparison =
    Inv_equal
  | Inv_different authored_invocation_identity authored_invocation_identity

definition compareInvocations ::
    "authored_invocation_identity \<Rightarrow> observed_invocation_identity \<Rightarrow> invocation_comparison" where
  "compareInvocations expected observed =
     (if sameOrderedList (inv_composeFileOrder expected) (oinv_composeFileOrder observed)
         \<and> sameOrderedList (inv_envFileOrder expected) (oinv_envFileOrder observed)
         \<and> inv_projectName expected = Some (oinv_projectName observed)
         \<and> inv_projectDirectory expected = Some (oinv_projectDirectory observed)
      then Inv_equal
      else Inv_different expected
        \<lparr>inv_composeFileOrder = oinv_composeFileOrder observed,
         inv_projectName = Some (oinv_projectName observed),
         inv_projectDirectory = Some (oinv_projectDirectory observed),
         inv_envFileOrder = oinv_envFileOrder observed\<rparr>)"

end
