(* ===== verification/Projection_Facets.thy ===== *)
theory Projection_Facets
  imports Artifact_Identity Health_Policy Repo_Identity Recovery_Claim Policy_Composition Invocation_Identity
begin

text \<open>
  The vocabulary of the projection (\<^verbatim>\<open>backend/src/services/gitops/types.ts\<close>): one datatype per facet,
  with the fields a status carries as arguments of its constructor, the projected target, the
  drift item and the actions a client may be offered.
\<close>

section \<open>Source\<close>

datatype (plugins only: code) source_review_block_reason = Br_stateful_withdrawal

record source_identity_fields =
  sif_configuredRepoUrl :: string
  sif_repoIdentity :: repo_identity
  sif_configuredRef :: string
  sif_desiredCommitSha :: "string option"
  sif_fetchedCommitSha :: "string option"
  sif_candidateGenerationId :: "string option"
  sif_acceptedGenerationId :: "string option"

record source_failure =
  sfl_failureStage :: app_failure_stage
  sfl_failureClass :: string
  sfl_failureAt :: int
  sfl_retryAt :: "int option"
  sfl_retryCount :: int

record source_interruption =
  sin_interruptedStage :: app_active_stage
  sin_interruptedAt :: int
  sin_interruptedOperationId :: "string option"
  sin_interruptedGenerationId :: "string option"

text \<open>The statuses that carry the source identity.\<close>

datatype (plugins only: code) source_status =
    Sst_never_reconciled
  | Sst_checking_fetching
  | Sst_application_generation_accepted
  | Sst_candidate_ready
  | Sst_source_conflict_blocker
  | Sst_source_reconcile_required
  | Sst_source_review_pending "source_review_block_reason option"
  | Sst_source_superseded string
  | Sst_applying string string
  | Sst_source_retry_scheduled int int
  | Sst_source_poll_scheduled int
  | Sst_source_suspended int "string option"
  | Sst_source_failed source_failure
  | Sst_source_unknown source_interruption
  | Sst_recovery_required "string option" "string option"
  | Sst_recovery_failed "string option" "string option" string int
  | Sst_not_live lifecycle_status

datatype (plugins only: code) source_facet = Source_not_applicable | Source_facet source_identity_fields source_status

section \<open>Artifact\<close>

record artifact_expected_identity =
  aei_artifactSetId :: string
  aei_evidenceVersion :: int
  aei_qualification :: artifact_qualification
  aei_identity :: "string option"
  aei_services :: "service_artifact_evidence list option"

record artifact_latest_evidence =
  ale_artifactSetId :: string
  ale_evidenceVersion :: int
  ale_qualification :: artifact_qualification
  ale_identity :: "string option"

datatype (plugins only: code) artifact_status =
  Art_unresolved | Art_resolution_pending | Art_exact | Art_qualified | Art_stale
  | Art_unavailable | Art_local_build_unverified | Art_identity_changed

record artifact_facet_fields =
  aff_artifactSetId :: string
  aff_generationId :: string
  aff_evidenceVersion :: int
  aff_qualification :: artifact_qualification
  aff_freshnessAt :: int
  aff_expected :: "artifact_expected_identity option"
  aff_latestEvidence :: artifact_latest_evidence

text \<open>\<open>Artifact_pointer_missing\<close> is \<^verbatim>\<open>artifact_unresolved\<close> with the limitation of that name.\<close>

datatype (plugins only: code) artifact_facet =
    Artifact_not_applicable
  | Artifact_pointer_missing string "artifact_expected_identity option"
  | Artifact_facet artifact_status artifact_facet_fields

text \<open>The read \<^verbatim>\<open>artifact.status !== 'not_applicable' && 'expected' in artifact ? artifact.expected : null\<close>.\<close>

fun artifact_expected :: "artifact_facet \<Rightarrow> artifact_expected_identity option" where
  "artifact_expected Artifact_not_applicable = None"
| "artifact_expected (Artifact_pointer_missing _ e) = e"
| "artifact_expected (Artifact_facet _ f) = aff_expected f"

fun artifact_facet_status :: "artifact_facet \<Rightarrow> artifact_status option" where
  "artifact_facet_status Artifact_not_applicable = None"
| "artifact_facet_status (Artifact_pointer_missing _ _) = Some Art_unresolved"
| "artifact_facet_status (Artifact_facet s _) = Some s"

section \<open>Placement and rollout\<close>

datatype (plugins only: code) approved_rollout_scope =
    Scope_not_applicable
  | Scope_unapproved
  | Scope_unresolved string string
  | Scope_approved string "int list"

datatype (plugins only: code) future_placement =
    Fp_source_acceptance_pending string
  | Fp_authorization_pending future_rollout_authorization_binding
  | Fp_authorization_stale string future_rollout_authorization_binding
  | Fp_preflight_blocked string future_rollout_authorization_binding

datatype (plugins only: code) future_rollout_kind =
  Fk_queued | Fk_canary | Fk_batch | Fk_superseded | Fk_fully_deployed_health_pending
  | Fk_configuration_converged_artifact_qualified | Fk_exactly_converged_healthy

record future_gitops_evidence =
  fut_placement :: "future_placement option"
  fut_rollout :: "(future_rollout_kind \<times> string) option"

datatype (plugins only: code) placement_facet =
    Plc_not_applicable
  | Plc_unbound_direct
  | Plc_unknown_missing_intent
  | Plc_source_acceptance_pending "string option" string
  | Plc_placement_review_pending
  | Plc_rollout_authorization_pending future_rollout_authorization_binding
  | Plc_rollout_authorization_stale string future_rollout_authorization_binding
  | Plc_stateful_confirmation_required
  | Plc_preflight_blocked string future_rollout_authorization_binding
  | Plc_blueprint_bound

datatype (plugins only: code) rollout_partial = Partial_column raw_json | Partial_runtime_artifact_divergence

datatype (plugins only: code) rollout_facet =
    Rlo_not_applicable
  | Rlo_rollout_not_executable string
  | Rlo_rollout_queued string
  | Rlo_canary_in_progress string
  | Rlo_batch_in_progress string
  | Rlo_rollout_paused int "string option"
  | Rlo_partially_rolled_out rollout_partial
  | Rlo_fully_deployed_health_pending string
  | Rlo_configuration_converged_artifact_qualified string
  | Rlo_exactly_converged_healthy string
  | Rlo_rollout_superseded string
  | Rlo_target_stale
  | Rlo_target_unreachable
  | Rlo_rollback_in_progress string "string option"
  | Rlo_rollback_partial_failed string "string option" string int
  | Rlo_recovery_required
  | Rlo_completion_unknown

section \<open>Target\<close>

record runtime_interruption =
  rin_interruptedStage :: target_active_stage
  rin_interruptedAt :: int
  rin_interruptedOperationId :: "string option"
  rin_interruptedGenerationId :: "string option"
  rin_interruptedIntentRevisionId :: "string option"
  rin_interruptedRolloutCandidateId :: "string option"

datatype (plugins only: code) runtime_facet =
    Run_tombstoned | Run_recovery_required | Run_deploying | Run_withdrawing
  | Run_failed_previous_workload_intact | Run_failed_after_mutation | Run_disk_invocation_drift
  | Run_rollout_artifact_drift | Run_runtime_artifact_drift | Run_artifact_verification_pending
  | Run_never_applied | Run_applied_not_deployed | Run_acknowledged_completion_unknown
  | Run_stale_acknowledgement | Run_pending_state_review | Run_evict_blocked | Run_drifted
  | Run_correcting | Run_repair_held | Run_fully_deployed_health_pending | Run_health_checking
  | Run_synced_and_healthy | Run_health_drift | Run_partially_rolled_out | Run_retry_scheduled
  | Run_paused int "string option"
  | Run_recovery_failed "string option" "string option" string int
  | Run_completion_unknown runtime_interruption

datatype (plugins only: code) lkg_facet =
    Lkg_none
  | Lkg_available string "string option"
  | Lkg_unavailable
  | Lkg_qualified string string

datatype (plugins only: code) health_facet =
    Hlt_not_applicable
  | Hlt_unbound
  | Hlt_pending "string option"
  | Hlt_checking string "string option"
  | Hlt_passed string string
  | Hlt_failed string "string option"
  | Hlt_unknown "string option"

datatype (plugins only: code) connectivity = Con_unknown | Con_reachable | Con_unreachable | Con_stale

record gitops_approval_refs =
  ref_sourceAcceptanceRef :: "string option"
  ref_placementApprovalRef :: "string option"
  ref_rolloutAuthorizationRef :: "string option"
  ref_legacyCombinedApprovalRef :: "string option"

datatype (plugins only: code) configured_policy =
    Cfg_git_source bool bool
  | Cfg_blueprint_drift string
  | Cfg_health_rollout health_rollout_policy

record health_gate_facet =
  hgf_policy :: "health_rollout_policy option"
  hgf_configuredPolicy :: health_rollout_policy
  hgf_awaitingRunId :: "string option"
  hgf_attempts :: int
  hgf_stopReason :: "health_stop_reason option"
  hgf_recoveryAvailable :: bool

record gitops_target_projection =
  tp_nodeId :: int
  tp_stackName :: "string option"
  tp_desiredGenerationId :: "string option"
  tp_candidateGenerationId :: "string option"
  tp_appliedGenerationId :: "string option"
  tp_deployedGenerationId :: "string option"
  tp_healthyGenerationId :: "string option"
  tp_lkgGenerationId :: "string option"
  tp_lkgArtifactSetId :: "string option"
  tp_lkgUnavailableAt :: "int option"
  tp_lkgUnavailableReason :: "lkg_unavailable_reason option"
  tp_expectedArtifactSetId :: "string option"
  tp_latestArtifactSetId :: "string option"
  tp_artifact :: artifact_facet
  tp_observedArtifactIdentity :: observed_artifact_identity
  tp_intentRevisionId :: "string option"
  tp_rolloutCandidateId :: "string option"
  tp_rolloutGenerationId :: "string option"
  tp_approvals :: gitops_approval_refs
  tp_connectivity :: connectivity
  tp_legacyAppliedRevision :: "int option"
  tp_runtime :: runtime_facet
  tp_health :: health_facet
  tp_healthFailureSuperseded :: bool
  tp_healthGate :: health_gate_facet
  tp_lkg :: lkg_facet
  tp_tombstoned :: bool

section \<open>Limitations, actions and drift\<close>

datatype (plugins only: code) limitation_evidence =
    Le_none
  | Le_text string
  | Le_raw raw_json
  | Le_node int "string option"
  | Le_recipients "json list"

record gitops_limitation =
  lim_code :: string
  lim_message :: string
  lim_evidence :: limitation_evidence

datatype (plugins only: code) gitops_available_action =
  Act_fetch | Act_apply | Act_dismiss | Act_deploy | Act_approve_legacy | Act_suspend | Act_resume
  | Act_retry | Act_none

datatype (plugins only: code) drift_class =
  Dc_source | Dc_managed_project | Dc_invocation | Dc_placement | Dc_rollout | Dc_runtime | Dc_health

datatype (plugins only: code) gitops_identity_ref =
    Id_none
  | Id_unknown
  | Id_commit string string string
  | Id_generation string
  | Id_artifact_set string artifact_qualification int
  | Id_runtime_artifact string "js_number option" "service_artifact_evidence list option"
  | Id_intent string string
  | Id_invocation authored_invocation_identity
  | Id_observed_invocation authored_invocation_identity js_number
  | Id_health_run string "string option"

record gitops_drift_item =
  dr_class :: drift_class
  dr_expected :: gitops_identity_ref
  dr_observed :: gitops_identity_ref
  dr_freshnessAt :: "js_number option"
  dr_owner :: string
  dr_reason :: string
  dr_configuredPolicy :: "configured_policy option"
  dr_affectedTargets :: "(int option \<times> string option) list"
  dr_action :: gitops_available_action

end
