(* ===== verification/Preflight.thy ===== *)
theory Preflight
  imports Rows Json_Codec
begin

text \<open>
  Redacted preflight evidence for a rollout authorization (\<^verbatim>\<open>gitops/preflight.ts\<close>): the slots, the
  per-target registry readiness, the canonical encoding and its fingerprint. \<open>lc\<close> is
  \<^verbatim>\<open>localeCompare\<close> and \<open>sha256\<close> the hex digest of the encoded text, as a function of the value that
  was encoded.
\<close>

section \<open>Data\<close>

datatype preflight_slot_status = Slot_unknown | Slot_not_required | Slot_ready | Slot_blocked

datatype registry_credential_source_class = Rcs_public | Rcs_node_local | Rcs_hub_ephemeral

datatype registry_target_readiness_class =
  Rr_not_required | Rr_ready | Rr_auth_missing | Rr_auth_invalid | Rr_auth_expired
  | Rr_registry_unreachable | Rr_tls_trust_failed | Rr_capability_unsupported | Rr_unknown

record preflight_registry_target_evidence =
  pt_nodeId :: js_number
  pt_sourceClass :: registry_credential_source_class
  pt_readiness :: registry_target_readiness_class
  pt_hosts :: "string list"
  pt_expired :: bool

record preflight_evidence_body =
  pf_capability :: preflight_slot_status
  pf_secretReadiness :: preflight_slot_status
  pf_registryReadiness :: preflight_slot_status
  pf_connectivity :: preflight_slot_status
  pf_artifactSetId :: "string option"
  pf_targets :: "preflight_registry_target_evidence list"

text \<open>\<^verbatim>\<open>Partial<PreflightEvidenceBody>\<close>: every field may be undefined.\<close>

record preflight_overrides =
  po_capability :: "preflight_slot_status option"
  po_secretReadiness :: "preflight_slot_status option"
  po_registryReadiness :: "preflight_slot_status option"
  po_connectivity :: "preflight_slot_status option"
  po_artifactSetId :: "string option"
  po_targets :: "preflight_registry_target_evidence list option"

definition SLOT_STATUSES :: "(string \<times> preflight_slot_status) list" where
  "SLOT_STATUSES =
     [(''unknown'', Slot_unknown), (''not_required'', Slot_not_required), (''ready'', Slot_ready),
      (''blocked'', Slot_blocked)]"

definition SOURCE_CLASSES :: "(string \<times> registry_credential_source_class) list" where
  "SOURCE_CLASSES =
     [(''public'', Rcs_public), (''node_local'', Rcs_node_local), (''hub_ephemeral'', Rcs_hub_ephemeral)]"

definition READINESS_CLASSES :: "(string \<times> registry_target_readiness_class) list" where
  "READINESS_CLASSES =
     [(''not_required'', Rr_not_required), (''ready'', Rr_ready), (''auth_missing'', Rr_auth_missing),
      (''auth_invalid'', Rr_auth_invalid), (''auth_expired'', Rr_auth_expired),
      (''registry_unreachable'', Rr_registry_unreachable), (''tls_trust_failed'', Rr_tls_trust_failed),
      (''capability_unsupported'', Rr_capability_unsupported), (''unknown'', Rr_unknown)]"

definition BLOCKING_TARGET_READINESS :: "registry_target_readiness_class list" where
  "BLOCKING_TARGET_READINESS =
     [Rr_unknown, Rr_auth_missing, Rr_auth_invalid, Rr_auth_expired, Rr_registry_unreachable,
      Rr_tls_trust_failed, Rr_capability_unsupported]"

text \<open>The text of a member of a closed vocabulary, read off its table.\<close>

definition slot_text :: "preflight_slot_status \<Rightarrow> string" where
  "slot_text s = (case s of Slot_unknown \<Rightarrow> ''unknown'' | Slot_not_required \<Rightarrow> ''not_required''
     | Slot_ready \<Rightarrow> ''ready'' | Slot_blocked \<Rightarrow> ''blocked'')"

definition source_class_text :: "registry_credential_source_class \<Rightarrow> string" where
  "source_class_text s = (case s of Rcs_public \<Rightarrow> ''public'' | Rcs_node_local \<Rightarrow> ''node_local''
     | Rcs_hub_ephemeral \<Rightarrow> ''hub_ephemeral'')"

definition readiness_text :: "registry_target_readiness_class \<Rightarrow> string" where
  "readiness_text r = (case r of Rr_not_required \<Rightarrow> ''not_required'' | Rr_ready \<Rightarrow> ''ready''
     | Rr_auth_missing \<Rightarrow> ''auth_missing'' | Rr_auth_invalid \<Rightarrow> ''auth_invalid''
     | Rr_auth_expired \<Rightarrow> ''auth_expired'' | Rr_registry_unreachable \<Rightarrow> ''registry_unreachable''
     | Rr_tls_trust_failed \<Rightarrow> ''tls_trust_failed''
     | Rr_capability_unsupported \<Rightarrow> ''capability_unsupported'' | Rr_unknown \<Rightarrow> ''unknown'')"

section \<open>Coercions\<close>

definition coerceSlot :: "json option \<Rightarrow> preflight_slot_status \<Rightarrow> preflight_slot_status" where
  "coerceSlot v fallback =
     nullish (Option.bind (Option.bind v as_string) (map_of SLOT_STATUSES)) fallback"

definition as_string_array :: "json \<Rightarrow> string list option" where
  "as_string_array v =
     (case as_array v of
        None \<Rightarrow> None
      | Some xs \<Rightarrow> (if list_all (\<lambda>x. as_string x \<noteq> None) xs then Some (map (\<lambda>x. the (as_string x)) xs)
                    else None))"

definition coerceTarget ::
    "(string \<Rightarrow> string \<Rightarrow> int) \<Rightarrow> json \<Rightarrow> preflight_registry_target_evidence option" where
  "coerceTarget lc value =
     (case as_record value of
        None \<Rightarrow> None
      | Some row \<Rightarrow>
          (case Option.bind (prop_of row ''nodeId'') as_finite of
             None \<Rightarrow> None
           | Some nodeId \<Rightarrow>
               (case Option.bind (Option.bind (prop_of row ''sourceClass'') as_string)
                       (map_of SOURCE_CLASSES) of
                  None \<Rightarrow> None
                | Some sourceClass \<Rightarrow>
                    (case Option.bind (Option.bind (prop_of row ''readiness'') as_string)
                            (map_of READINESS_CLASSES) of
                       None \<Rightarrow> None
                     | Some readiness \<Rightarrow>
                         (case Option.bind (prop_of row ''hosts'') as_string_array of
                            None \<Rightarrow> None
                          | Some hosts \<Rightarrow>
                              Some \<lparr>pt_nodeId = nodeId, pt_sourceClass = sourceClass,
                                pt_readiness = readiness, pt_hosts = js_sort lc hosts,
                                pt_expired = (prop_of row ''expired'' = Some (JBool True))\<rparr>)))))"

text \<open>The comparator \<^verbatim>\<open>a.nodeId - b.nodeId\<close>.\<close>

definition node_cmp :: "preflight_registry_target_evidence \<Rightarrow> preflight_registry_target_evidence \<Rightarrow> int" where
  "node_cmp a b =
     (let x = num_value (pt_nodeId a); y = num_value (pt_nodeId b)
      in if x < y then - 1 else if y < x then 1 else 0)"

definition canonicalizeTargets ::
    "(string \<Rightarrow> string \<Rightarrow> int) \<Rightarrow> preflight_registry_target_evidence list option
      \<Rightarrow> preflight_registry_target_evidence list" where
  "canonicalizeTargets lc targets =
     (case targets of
        None \<Rightarrow> []
      | Some ts \<Rightarrow> js_sort node_cmp (map (\<lambda>t. t\<lparr>pt_hosts := js_sort lc (pt_hosts t)\<rparr>) ts))"

definition aggregateRegistryReadiness ::
    "preflight_registry_target_evidence list \<Rightarrow> preflight_slot_status" where
  "aggregateRegistryReadiness targets =
     (if targets = [] then Slot_unknown
      else if \<exists>t \<in> set targets. pt_readiness t \<in> set BLOCKING_TARGET_READINESS then Slot_blocked
      else if \<forall>t \<in> set targets. pt_readiness t = Rr_not_required then Slot_not_required
      else Slot_ready)"

definition buildPreflightEvidence ::
    "(string \<Rightarrow> string \<Rightarrow> int) \<Rightarrow> preflight_overrides option \<Rightarrow> preflight_evidence_body" where
  "buildPreflightEvidence lc overrides =
     (let targets = canonicalizeTargets lc (Option.bind overrides po_targets);
          derivedRegistry = (if targets \<noteq> [] then Some (aggregateRegistryReadiness targets) else None)
      in \<lparr>pf_capability = nullish (Option.bind overrides po_capability) Slot_unknown,
          pf_secretReadiness = nullish (Option.bind overrides po_secretReadiness) Slot_unknown,
          pf_registryReadiness =
            nullish (nullish_opt (Option.bind overrides po_registryReadiness) derivedRegistry) Slot_unknown,
          pf_connectivity = nullish (Option.bind overrides po_connectivity) Slot_unknown,
          pf_artifactSetId = Option.bind overrides po_artifactSetId,
          pf_targets = targets\<rparr>)"

section \<open>Encoding and fingerprint\<close>

definition preflight_target_json :: "preflight_registry_target_evidence \<Rightarrow> json" where
  "preflight_target_json t =
     JObj [(''expired'', JBool (pt_expired t)), (''hosts'', JArr (map JStr (pt_hosts t))),
           (''nodeId'', JNum (pt_nodeId t)), (''readiness'', JStr (readiness_text (pt_readiness t))),
           (''sourceClass'', JStr (source_class_text (pt_sourceClass t)))]"

definition encodePreflightEvidenceJson ::
    "(string \<Rightarrow> string \<Rightarrow> int) \<Rightarrow> preflight_evidence_body \<Rightarrow> raw_json" where
  "encodePreflightEvidenceJson lc body =
     encodeGitOpsJson (JObj
       [(''artifactSetId'', nullable_json JStr (pf_artifactSetId body)),
        (''capability'', JStr (slot_text (pf_capability body))),
        (''connectivity'', JStr (slot_text (pf_connectivity body))),
        (''registryReadiness'', JStr (slot_text (pf_registryReadiness body))),
        (''secretReadiness'', JStr (slot_text (pf_secretReadiness body))),
        (''targets'', JArr (map preflight_target_json (canonicalizeTargets lc (Some (pf_targets body)))))])"

text \<open>An array passes \<^verbatim>\<open>typeof decoded !== 'object'\<close> and has none of the named properties.\<close>

definition decodePreflightEvidenceJson ::
    "(string \<Rightarrow> string \<Rightarrow> int) \<Rightarrow> raw_json \<Rightarrow> preflight_evidence_body" where
  "decodePreflightEvidenceJson lc raw =
     (case raw of
        Unparsable _ \<Rightarrow> buildPreflightEvidence lc None
      | Parsed decoded \<Rightarrow>
          (case (case decoded of JArr _ \<Rightarrow> Some [] | _ \<Rightarrow> as_record decoded) of
             None \<Rightarrow> buildPreflightEvidence lc None
           | Some obj \<Rightarrow>
               (let targetsRaw = nullish (Option.bind (prop_of obj ''targets'') as_array) []
                in buildPreflightEvidence lc (Some
                     \<lparr>po_capability = Some (coerceSlot (prop_of obj ''capability'') Slot_unknown),
                      po_secretReadiness = Some (coerceSlot (prop_of obj ''secretReadiness'') Slot_unknown),
                      po_registryReadiness = Some (coerceSlot (prop_of obj ''registryReadiness'') Slot_unknown),
                      po_connectivity = Some (coerceSlot (prop_of obj ''connectivity'') Slot_unknown),
                      po_artifactSetId = Option.bind (prop_of obj ''artifactSetId'') as_string,
                      po_targets = Some (List.map_filter (coerceTarget lc) targetsRaw)\<rparr>))))"

definition fingerprintPreflightEvidence ::
    "(string \<Rightarrow> string \<Rightarrow> int) \<Rightarrow> (raw_json \<Rightarrow> string) \<Rightarrow> preflight_evidence_body \<Rightarrow> string res" where
  "fingerprintPreflightEvidence lc sha256 body =
     (let digest = sha256 (encodePreflightEvidenceJson lc body)
      in require_res (isPreflightFingerprint digest)
           (PlainError ''preflight fingerprint must be a 64-char hex digest'') (Inr digest))"

section \<open>Reading\<close>

definition isPreflightBlocked :: "preflight_evidence_body \<Rightarrow> bool" where
  "isPreflightBlocked body =
     (pf_capability body = Slot_blocked \<or> pf_secretReadiness body = Slot_blocked
      \<or> pf_registryReadiness body = Slot_blocked \<or> pf_registryReadiness body = Slot_unknown
      \<or> pf_connectivity body = Slot_blocked)"

definition isRegistryPreflightTransient :: "preflight_evidence_body \<Rightarrow> bool" where
  "isRegistryPreflightTransient body =
     ((\<exists>t \<in> set (pf_targets body). pt_readiness t \<in> {Rr_registry_unreachable, Rr_unknown})
      \<or> pf_registryReadiness body = Slot_unknown)"

definition REGISTRY_PREFLIGHT_UNEVALUATED_REASON :: string where
  "REGISTRY_PREFLIGHT_UNEVALUATED_REASON = ''Registry readiness has not been evaluated yet.''"

definition EXECUTABLE_ARTIFACT_UNRESOLVED_REASON :: string where
  "EXECUTABLE_ARTIFACT_UNRESOLVED_REASON =
     ''Executable artifact identity is not resolved for this generation, so the rollout cannot be authorized.''"

definition executableArtifactRefusalReason :: "artifact_qualification option \<Rightarrow> string option" where
  "executableArtifactRefusalReason q =
     (if q \<noteq> Some Q_unresolved \<and> q \<noteq> Some Q_unavailable then None
      else Some EXECUTABLE_ARTIFACT_UNRESOLVED_REASON)"

definition readiness_priority :: "registry_target_readiness_class list" where
  "readiness_priority =
     [Rr_capability_unsupported, Rr_auth_missing, Rr_auth_invalid, Rr_auth_expired,
      Rr_tls_trust_failed, Rr_registry_unreachable, Rr_unknown]"

definition readiness_reason :: "registry_target_readiness_class \<Rightarrow> string" where
  "readiness_reason cls =
     (case cls of
        Rr_capability_unsupported \<Rightarrow> ''This node cannot accept hub registry credentials.''
      | Rr_auth_missing \<Rightarrow> ''Registry credentials are missing for a required private image.''
      | Rr_auth_invalid \<Rightarrow> ''Registry credentials are invalid for a required private image.''
      | Rr_auth_expired \<Rightarrow> ''Registry credentials have expired for a required private image.''
      | Rr_tls_trust_failed \<Rightarrow> ''Registry TLS or trust failed for a required private image.''
      | Rr_registry_unreachable \<Rightarrow> ''A required private registry is unreachable.''
      | _ \<Rightarrow> ''Private registry readiness could not be proven.'')"

definition registryPreflightBlockReason :: "preflight_evidence_body \<Rightarrow> string" where
  "registryPreflightBlockReason body =
     (case find (\<lambda>cls. \<exists>t \<in> set (pf_targets body). pt_readiness t = cls) readiness_priority of
        Some cls \<Rightarrow> readiness_reason cls
      | None \<Rightarrow>
          (if pf_registryReadiness body = Slot_blocked \<or> pf_registryReadiness body = Slot_unknown
           then ''Private registry readiness could not be proven.''
           else ''One or more preflight slots are blocked.''))"

section \<open>Lemmas\<close>

interpretation node_order: js_comparator node_cmp
  by unfold_locales (auto simp: node_cmp_def Let_def split: if_splits)

lemma vocabulary_texts [simp]:
  "map_of SLOT_STATUSES (slot_text s) = Some s"
  "map_of SOURCE_CLASSES (source_class_text c) = Some c"
  "map_of READINESS_CLASSES (readiness_text r) = Some r"
  subgoal by (cases s) (simp_all add: SLOT_STATUSES_def slot_text_def)
  subgoal by (cases c) (simp_all add: SOURCE_CLASSES_def source_class_text_def)
  subgoal by (cases r) (simp_all add: READINESS_CLASSES_def readiness_text_def)
  done

lemma as_string_array_strs [simp]: "as_string_array (JArr (map JStr hs)) = Some hs"
  by (simp add: as_string_array_def list_all_iff comp_def)

lemma coerceTarget_json:
  "pt_nodeId t \<noteq> NInf \<Longrightarrow>
   coerceTarget lc (preflight_target_json t) = Some (t\<lparr>pt_hosts := js_sort lc (pt_hosts t)\<rparr>)"
  by (simp add: coerceTarget_def preflight_target_json_def prop_of_def)

lemma coerceSlot_text [simp]: "coerceSlot (Some (JStr (slot_text s))) d = s"
  by (simp add: coerceSlot_def)

lemma map_filter_total:
  "(\<And>x. x \<in> set xs \<Longrightarrow> f (g x) = Some (h x)) \<Longrightarrow> List.map_filter f (map g xs) = map h xs"
  by (induction xs) (simp_all add: List.map_filter_simps)

lemma js_sort_map:
  assumes "\<And>a b. cmp (f a) (f b) = cmp a b"
  shows "js_sort cmp (map f xs) = map f (js_sort cmp xs)"
proof (induction xs)
  case (Cons x xs)
  have "js_insert cmp (f y) (map f ys) = map f (js_insert cmp y ys)" for y ys
    by (induction ys) (auto simp: assms)
  with Cons show ?case by simp
qed simp

lemma canonicalizeTargets_hosts:
  assumes "js_comparator lc"
  shows "canonicalizeTargets lc (Some (canonicalizeTargets lc ts)) = canonicalizeTargets lc ts"
proof (cases ts)
  case None
  then show ?thesis by (simp add: canonicalizeTargets_def)
next
  case (Some us)
  let ?h = "\<lambda>t. t\<lparr>pt_hosts := js_sort lc (pt_hosts t)\<rparr>"
  have cmp: "node_cmp (?h a) (?h b) = node_cmp a b" for a b by (simp add: node_cmp_def)
  have hh: "?h \<circ> ?h = ?h" by (rule ext) (simp add: js_comparator.sort_idem [OF assms])
  note srt = js_sort_map [of node_cmp ?h, OF cmp]
  show ?thesis
    using Some by (simp add: canonicalizeTargets_def srt hh node_order.sort_idem)
qed

lemma canonicalizeTargets_NInf:
  "t \<in> set (canonicalizeTargets lc (Some ts)) \<Longrightarrow> \<forall>u \<in> set ts. pt_nodeId u \<noteq> NInf \<Longrightarrow> pt_nodeId t \<noteq> NInf"
  by (auto simp: canonicalizeTargets_def)

lemma decode_encode_preflight:
  assumes lc: "js_comparator lc" and fin: "\<forall>u \<in> set (pf_targets body). pt_nodeId u \<noteq> NInf"
  shows "decodePreflightEvidenceJson lc (encodePreflightEvidenceJson lc body) =
     body\<lparr>pf_targets := canonicalizeTargets lc (Some (pf_targets body))\<rparr>"
proof -
  let ?ts = "canonicalizeTargets lc (Some (pf_targets body))"
  let ?h = "\<lambda>t. t\<lparr>pt_hosts := js_sort lc (pt_hosts t)\<rparr>"
  have "List.map_filter (coerceTarget lc) (map preflight_target_json ?ts) = map ?h ?ts"
    by (rule map_filter_total) (metis coerceTarget_json canonicalizeTargets_NInf fin)
  moreover have "canonicalizeTargets lc (Some (map ?h ?ts)) = ?ts"
  proof -
    have "canonicalizeTargets lc (Some (map ?h ?ts)) = canonicalizeTargets lc (Some ?ts)"
      by (simp add: canonicalizeTargets_def comp_def js_comparator.sort_idem [OF lc])
    then show ?thesis by (simp add: canonicalizeTargets_hosts [OF lc])
  qed
  moreover have "map (\<lambda>t. printed (preflight_target_json t)) ?ts = map preflight_target_json ?ts"
    using canonicalizeTargets_NInf [of _ lc "pf_targets body"] fin
    by (intro map_cong refl) (simp add: preflight_target_json_def comp_def)
  ultimately show ?thesis
    by (cases "pf_artifactSetId body")
      (simp_all add: decodePreflightEvidenceJson_def encodePreflightEvidenceJson_def encodeGitOpsJson_def
        comp_def prop_of_def nullable_json_def buildPreflightEvidence_def Let_def del: map_eq_conv)
qed

lemma aggregate_ready_iff:
  "aggregateRegistryReadiness ts \<in> {Slot_ready, Slot_not_required} \<longleftrightarrow>
     ts \<noteq> [] \<and> (\<forall>t \<in> set ts. pt_readiness t \<in> {Rr_ready, Rr_not_required})"
proof -
  have "r \<notin> set BLOCKING_TARGET_READINESS \<longleftrightarrow> r \<in> {Rr_ready, Rr_not_required}" for r
    by (cases r) (simp_all add: BLOCKING_TARGET_READINESS_def)
  then show ?thesis by (auto simp: aggregateRegistryReadiness_def)
qed

end
