(* ===== verification/Projection_Evidence.thy ===== *)
theory Projection_Evidence
  imports Projection_Facets Preflight
begin

text \<open>
  The part of the projection that reads the application row and the stored artifact evidence
  (\<^verbatim>\<open>backend/src/services/gitops/derive.ts\<close>): the persisted limitations, the source facet, the artifact
  facet and the comparison of an expected set with an observation. A function that pushes onto
  the caller's \<^verbatim>\<open>limitations\<close> array returns the limitations it pushes, in order, beside its
  result; the caller appends them.
\<close>

section \<open>What the projection reads besides the store\<close>

text \<open>The locale order of strings and the digest of the JavaScript platform, the drift mode of a
  Blueprint row, the id of the default node and the resolved compose directory of a node.\<close>

record projection_env =
  env_localeCompare :: "string \<Rightarrow> string \<Rightarrow> int"
  env_sha256 :: "raw_json \<Rightarrow> string"
  env_blueprint_drift_mode :: "int \<Rightarrow> string option"
  env_default_node_id :: int
  env_compose_dir :: "int \<Rightarrow> string list"

section \<open>Limitations\<close>

fun js_error_message :: "js_error \<Rightarrow> string" where
  "js_error_message (GitOpsJsonError m) = m"
| "js_error_message (GitOpsTransitionError m _) = m"
| "js_error_message (PlainError m) = m"
| "js_error_message TypeError = ''TypeError''"

definition limitation :: "string \<Rightarrow> string \<Rightarrow> limitation_evidence \<Rightarrow> gitops_limitation" where
  "limitation code message evidence =
     \<lparr>lim_code = code, lim_message = message, lim_evidence = evidence\<rparr>"

definition text_evidence :: "string option \<Rightarrow> limitation_evidence" where
  "text_evidence x = (case x of None \<Rightarrow> Le_none | Some s \<Rightarrow> Le_text s)"

definition raw_evidence :: "raw_json option \<Rightarrow> limitation_evidence" where
  "raw_evidence x = (case x of None \<Rightarrow> Le_none | Some r \<Rightarrow> Le_raw r)"

definition mergePersistedLimitations :: "raw_json option \<Rightarrow> gitops_limitation list" where
  "mergePersistedLimitations raw =
     (if \<not> truthy_raw raw then []
      else
        (case decodeGitOpsEvidenceLimitations raw of
           Inr items \<Rightarrow>
             map (\<lambda>(code, detail). limitation code
                    ''evidence recorded at write time could not be proven'' (text_evidence detail)) items
         | Inl err \<Rightarrow>
             [limitation ''evidence_limitations_invalid'' (js_error_message err) (raw_evidence raw)]))"

definition decodeObservedSafe ::
    "projection_env \<Rightarrow> raw_json option \<Rightarrow> observed_artifact_identity \<times> gitops_limitation list" where
  "decodeObservedSafe env raw =
     (case decodeObservedArtifactIdentity (env_localeCompare env) raw of
        Inr observed \<Rightarrow> (observed, [])
      | Inl err \<Rightarrow>
          (OA_unknown,
           [limitation (case err of GitOpsJsonError _ \<Rightarrow> ''artifact_observation_invalid''
                        | _ \<Rightarrow> ''artifact_observation_decode_failed'')
              (js_error_message err) (raw_evidence raw)]))"

section \<open>Source facet\<close>

definition normalizeSourceReviewBlockReason :: "string option \<Rightarrow> source_review_block_reason option" where
  "normalizeSourceReviewBlockReason value =
     (if value = Some ''stateful_withdrawal'' then Some Br_stateful_withdrawal else None)"

text \<open>A payload that is not an object either has no string properties or makes the property read
  throw; both end in the same limitation.\<close>

definition stored_repo_identity :: "raw_json option \<Rightarrow> repo_identity \<times> gitops_limitation list" where
  "stored_repo_identity raw =
     (let none = \<lparr>rid_host = [], rid_pathname = []\<rparr>;
          invalid = [limitation ''repo_identity_invalid'' ''repo identity json is invalid'' Le_none]
      in if \<not> truthy_raw raw then (none, [])
         else
           (case raw of
              Some (Parsed (JObj obj)) \<Rightarrow>
                (case (prop_of obj ''host'', prop_of obj ''pathname'') of
                   (Some (JStr host), Some (JStr pathname)) \<Rightarrow>
                     (\<lparr>rid_host = host, rid_pathname = pathname\<rparr>, [])
                 | _ \<Rightarrow> (none, invalid))
            | _ \<Rightarrow> (none, invalid)))"

definition sourceIdentity ::
    "gitops_application_row \<Rightarrow> source_identity_fields \<times> gitops_limitation list" where
  "sourceIdentity app =
     (let (repoIdentity, lims) = stored_repo_identity (app_repo_identity_json app)
      in (\<lparr>sif_configuredRepoUrl = nullish (app_configured_repo_url app) [],
           sif_repoIdentity = repoIdentity,
           sif_configuredRef = nullish (app_configured_ref app) [],
           sif_desiredCommitSha = app_desired_commit_sha app,
           sif_fetchedCommitSha = app_fetched_commit_sha app,
           sif_candidateGenerationId = app_candidate_generation_id app,
           sif_acceptedGenerationId = app_accepted_generation_id app\<rparr>, lims))"

definition failure_stage_text :: "app_failure_stage \<Rightarrow> string" where
  "failure_stage_text s =
     (case s of Af_fetch \<Rightarrow> ''fetch'' | Af_validation \<Rightarrow> ''validation'' | Af_apply \<Rightarrow> ''apply''
      | Af_create \<Rightarrow> ''create'' | Af_recovery \<Rightarrow> ''recovery'')"

text \<open>The arm of a staged candidate, which the caller reaches with a non-empty candidate pointer.\<close>

definition candidate_source_status ::
    "gitops_db \<Rightarrow> gitops_application_row \<Rightarrow> string \<Rightarrow> source_status \<times> gitops_limitation list" where
  "candidate_source_status db app candidateId =
     (let invalid = (Sst_source_reconcile_required,
            [limitation ''candidate_generation_invalid''
               ''candidate generation row is missing or belongs to another application''
               (Le_text candidateId)])
      in case getGeneration db candidateId of
           None \<Rightarrow> invalid
         | Some generation \<Rightarrow>
             if gen_application_id generation \<noteq> app_id app then invalid
             else if Some (gen_materialization_fingerprint generation) \<noteq> app_materialization_fingerprint app
             then (Sst_source_reconcile_required, [])
             else if app_candidate_plan_blocked app = 1 then (Sst_source_conflict_blocker, [])
             else if app_review_required app = 1
             then (Sst_source_review_pending
                     (normalizeSourceReviewBlockReason (app_review_block_reason app)), [])
             else (Sst_candidate_ready, []))"

text \<open>The arm of an accepted generation.\<close>

definition accepted_source_status ::
    "gitops_db \<Rightarrow> gitops_application_row \<Rightarrow> string \<Rightarrow> source_status \<times> gitops_limitation list" where
  "accepted_source_status db app acceptedId =
     (let invalid = (Sst_source_reconcile_required,
            [limitation ''accepted_generation_invalid''
               ''accepted generation row is missing or belongs to another application''
               (Le_text acceptedId)])
      in case getGeneration db acceptedId of
           None \<Rightarrow> invalid
         | Some accepted \<Rightarrow>
             if gen_application_id accepted \<noteq> app_id app then invalid
             else if \<not> truthy_str (app_desired_commit_sha app)
               \<or> Some (gen_materialization_fingerprint accepted) \<noteq> app_materialization_fingerprint app
               \<or> Some (gen_commit_sha accepted) \<noteq> app_desired_commit_sha app
             then (Sst_source_reconcile_required, [])
             else (Sst_application_generation_accepted, []))"

definition live_source_status ::
    "gitops_db \<Rightarrow> gitops_application_row \<Rightarrow> source_status \<times> gitops_limitation list" where
  "live_source_status db app =
     (if app_lifecycle_status app = Lc_detached \<or> app_lifecycle_status app = Lc_deleted
      then (Sst_not_live (app_lifecycle_status app), [])
      else if app_recovery_phase app = Some Rp_restoring \<or> app_recovery_phase app = Some Rp_compensating
      then (Sst_recovery_required (app_recovery_ref app) None, [])
      else if app_recovery_phase app = Some Rp_failed \<or> app_failure_stage app = Some Af_recovery
      then (Sst_recovery_failed (app_recovery_ref app) None
              (nullish (app_failure_class app) ''unknown'') (nullish (app_failure_at app) 0), [])
      else if app_active_operation_stage app = Some Ast_fetch_started then (Sst_checking_fetching, [])
      else if app_active_operation_stage app = Some Ast_apply_started
      then (Sst_applying (nullish (app_active_operation_id app) []) (nullish (app_active_generation_id app) []), [])
      else if app_interruption_stage app = Some Ast_fetch_started
        \<or> app_interruption_stage app = Some Ast_apply_started
      then (Sst_source_unknown
              \<lparr>sin_interruptedStage = the (app_interruption_stage app),
               sin_interruptedAt = nullish (app_interruption_at app) 0,
               sin_interruptedOperationId = app_interruption_operation_id app,
               sin_interruptedGenerationId = app_interruption_generation_id app\<rparr>, [])
      else if truthy_num (app_suspended_at app)
      then (Sst_source_suspended (the (app_suspended_at app)) (app_source_suspended_reason app), [])
      else if app_failure_stage app \<in> {Some Af_fetch, Some Af_validation, Some Af_apply, Some Af_create}
      then (Sst_source_failed
              \<lparr>sfl_failureStage = the (app_failure_stage app),
               sfl_failureClass = nullish (app_failure_class app) (failure_stage_text (the (app_failure_stage app))),
               sfl_failureAt = nullish (app_failure_at app) 0,
               sfl_retryAt = app_retry_at app,
               sfl_retryCount = app_retry_count app\<rparr>, [])
      else if truthy_num (app_retry_at app)
      then (Sst_source_retry_scheduled (the (app_retry_at app)) (app_retry_count app), [])
      else if truthy_str (app_candidate_generation_id app)
      then candidate_source_status db app (the (app_candidate_generation_id app))
      else if truthy_str (app_accepted_generation_id app)
      then accepted_source_status db app (the (app_accepted_generation_id app))
      else if truthy_num (app_next_poll_at app)
      then (Sst_source_poll_scheduled (the (app_next_poll_at app)), [])
      else (Sst_never_reconciled, []))"

definition deriveSource ::
    "gitops_db \<Rightarrow> gitops_application_row \<Rightarrow> source_facet \<times> gitops_limitation list" where
  "deriveSource db app =
     (if app_target_mode app = Inline_blueprint then (Source_not_applicable, [])
      else
        (let (identity, lims) = sourceIdentity app;
             (status, more) = live_source_status db app
         in (Source_facet identity status, lims @ more)))"

section \<open>Artifact facet\<close>

definition toExpected ::
    "projection_env \<Rightarrow> gitops_db \<Rightarrow> string \<Rightarrow> artifact_qualification option
      \<Rightarrow> artifact_expected_identity option \<times> gitops_limitation list" where
  "toExpected env db i latestQualification =
     (case getArtifactSet db i of
        None \<Rightarrow>
          (None, [limitation ''artifact_pointer_missing'' ''expected artifact row is missing'' (Le_text i)])
      | Some row \<Rightarrow>
          (let comparable = (art_qualification row = Q_exact \<or> art_qualification row = Q_qualified);
               isPermanentLocalBuild = (latestQualification = Some Q_local_build_unverified);
               lims = (if \<not> comparable \<and> \<not> isPermanentLocalBuild
                       then [limitation ''artifact_expectation_unresolved''
                               ''the expected artifact set has no provable executable identity''
                               (Le_text (art_id row))] else []);
               expected = (\<lambda>identity services.
                 \<lparr>aei_artifactSetId = art_id row, aei_evidenceVersion = art_evidence_version row,
                  aei_qualification = art_qualification row, aei_identity = identity,
                  aei_services = services\<rparr>)
           in case decodeArtifactEvidenceJson (env_localeCompare env) (art_evidence_json row) of
                Inr decoded \<Rightarrow> (Some (expected (ae_identity decoded) (ae_services decoded)), lims)
              | Inl _ \<Rightarrow>
                  (Some (expected None None),
                   lims @ [limitation ''artifact_evidence_json_invalid''
                             ''expected artifact evidence is invalid'' (Le_text i)])))"

definition artifactStatus ::
    "artifact_qualification \<Rightarrow> artifact_expected_identity option \<Rightarrow> artifact_latest_evidence
      \<Rightarrow> artifact_status" where
  "artifactStatus qualification expected latest =
     (case qualification of
        Q_unresolved \<Rightarrow> (if expected \<noteq> None then Art_resolution_pending else Art_unresolved)
      | Q_stale \<Rightarrow> Art_stale
      | Q_unavailable \<Rightarrow> Art_unavailable
      | Q_local_build_unverified \<Rightarrow> Art_local_build_unverified
      | _ \<Rightarrow>
          if (case expected of
                None \<Rightarrow> False
              | Some e \<Rightarrow> (aei_qualification e = Q_exact \<or> aei_qualification e = Q_qualified)
                  \<and> truthy_str (ale_identity latest) \<and> truthy_str (aei_identity e)
                  \<and> ale_identity latest \<noteq> aei_identity e)
          then Art_identity_changed
          else if qualification = Q_qualified then Art_qualified else Art_exact)"

text \<open>The facet once the latest row is at hand.\<close>

definition latest_artifact_facet ::
    "projection_env \<Rightarrow> string \<Rightarrow> string \<Rightarrow> artifact_expected_identity option \<Rightarrow> gitops_artifact_set_row
      \<Rightarrow> artifact_facet \<times> gitops_limitation list" where
  "latest_artifact_facet env generationId latestId expected row =
     (let latest = (\<lambda>identity. \<lparr>ale_artifactSetId = art_id row, ale_evidenceVersion = art_evidence_version row,
                     ale_qualification = art_qualification row, ale_identity = identity\<rparr>);
          facet = (\<lambda>status evidence. Artifact_facet status
                     \<lparr>aff_artifactSetId = art_id row, aff_generationId = generationId,
                      aff_evidenceVersion = art_evidence_version row,
                      aff_qualification = art_qualification row, aff_freshnessAt = art_created_at row,
                      aff_expected = expected, aff_latestEvidence = evidence\<rparr>)
      in case decodeArtifactEvidenceJson (env_localeCompare env) (art_evidence_json row) of
           Inl _ \<Rightarrow>
             (facet Art_unresolved (latest None),
              [limitation ''artifact_evidence_json_invalid'' ''latest artifact evidence is invalid''
                 (Le_text latestId)])
         | Inr decoded \<Rightarrow>
             (facet (artifactStatus (art_qualification row) expected (latest (ae_identity decoded)))
                (latest (ae_identity decoded)), []))"

definition deriveArtifact ::
    "projection_env \<Rightarrow> gitops_db \<Rightarrow> gitops_application_row \<Rightarrow> string option \<Rightarrow> string option \<Rightarrow> string option
      \<Rightarrow> artifact_facet \<times> gitops_limitation list" where
  "deriveArtifact env db app generationId expectedId latestId =
     (if app_target_mode app = Inline_blueprint \<and> \<not> truthy_str generationId
      then (Artifact_not_applicable, [])
      else if \<not> truthy_str generationId then (Artifact_not_applicable, [])
      else
        (let latestRow = (if truthy_str latestId then getArtifactSet db (the latestId) else None);
             (expected, lims) = (if truthy_str expectedId
                then toExpected env db (the expectedId) (map_option art_qualification latestRow)
                else (None, []))
         in if \<not> truthy_str latestId then (Artifact_pointer_missing (the generationId) expected, lims)
            else
              (case latestRow of
                 None \<Rightarrow>
                   (Artifact_pointer_missing (the generationId) expected,
                    lims @ [limitation ''artifact_pointer_missing'' ''latest artifact row is missing''
                              (Le_text (the latestId))])
               | Some row \<Rightarrow>
                   (let (facet, more) =
                      latest_artifact_facet env (the generationId) (the latestId) expected row
                    in (facet, lims @ more)))))"

definition expectedSetAgreesWithObservation ::
    "projection_env \<Rightarrow> gitops_db \<Rightarrow> string \<Rightarrow> observed_artifact_identity \<Rightarrow> string option \<Rightarrow> bool" where
  "expectedSetAgreesWithObservation env db expectedSetId observed identityFallback =
     (if \<not> obs_comparable observed then False
      else
        (let fallback = (identityFallback \<noteq> None \<and> obs_identity observed = identityFallback)
         in case getArtifactSet db expectedSetId of
              None \<Rightarrow> fallback
            | Some row \<Rightarrow>
                (case decodeArtifactEvidenceJson (env_localeCompare env) (art_evidence_json row) of
                   Inl _ \<Rightarrow> False
                 | Inr decoded \<Rightarrow>
                     (if nullish (ae_services decoded) [] \<noteq> []
                      then comparableObservationMatches (ae_services decoded) observed
                      else fallback))))"

definition targetObservationMatchesExpected ::
    "projection_env \<Rightarrow> gitops_db \<Rightarrow> gitops_target_projection \<Rightarrow> bool" where
  "targetObservationMatchesExpected env db target =
     (case artifact_expected (tp_artifact target) of
        None \<Rightarrow> False
      | Some expected \<Rightarrow>
          (if aei_identity expected = None then False
           else if aei_qualification expected \<noteq> Q_exact \<and> aei_qualification expected \<noteq> Q_qualified then False
           else expectedSetAgreesWithObservation env db (aei_artifactSetId expected)
                  (tp_observedArtifactIdentity target) (aei_identity expected)))"

end
