(* ===== verification/Projection_Targets.thy ===== *)
theory Projection_Targets
  imports Projection_Evidence
begin

text \<open>
  The projection of one target (\<^verbatim>\<open>backend/src/services/gitops/derive.ts\<close>): connectivity, what a Blueprint
  acknowledgement means, the runtime, health, health gate and last known good facets, and
  \<^verbatim>\<open>deriveTarget\<close>, which assembles them. The secret capability of a generation
  (\<^verbatim>\<open>gitops/sops/capability.ts\<close>) is read here because the last known good facet depends on it.
\<close>

section \<open>Connectivity\<close>

definition CONNECTIVITY_VALUES :: "string list" where
  "CONNECTIVITY_VALUES = [''unknown'', ''reachable'', ''unreachable'', ''stale'']"

definition observed_connectivity :: "observed_artifact_identity \<Rightarrow> connectivity" where
  "observed_connectivity observed =
     (case observed of
        OA_exact _ _ _ \<Rightarrow> Con_reachable
      | OA_qualified _ _ _ \<Rightarrow> Con_reachable
      | OA_stale _ _ _ \<Rightarrow> Con_reachable
      | OA_local_build_unverified _ _ _ \<Rightarrow> Con_reachable
      | OA_unknown \<Rightarrow> Con_unknown
      | OA_missing \<Rightarrow> Con_unknown
      | OA_unavailable \<Rightarrow> Con_unknown)"

definition connectivityFromObservation ::
    "gitops_target_current_row \<Rightarrow> observed_artifact_identity \<Rightarrow> connectivity \<times> gitops_limitation list" where
  "connectivityFromObservation target observed =
     (let lims = (if truthy_str (tgt_connectivity target)
                     \<and> the (tgt_connectivity target) \<notin> set CONNECTIVITY_VALUES
                  then [limitation ''connectivity_invalid'' ''stored connectivity is illegal''
                          (text_evidence (tgt_connectivity target))]
                  else []);
          value = (if tgt_target_status target = Ts_tombstoned then Con_unknown
                   else if tgt_connectivity target = Some ''unreachable'' then Con_unreachable
                   else if tgt_connectivity target = Some ''stale'' then Con_stale
                   else observed_connectivity observed)
      in (value, lims))"

definition targetConnectivity ::
    "projection_env \<Rightarrow> gitops_target_current_row \<Rightarrow> connectivity \<times> gitops_limitation list" where
  "targetConnectivity env target =
     (let (observed, lims) = decodeObservedSafe env (tgt_observed_artifact_identity_json target);
          (value, more) = connectivityFromObservation target observed
      in (value, lims @ more))"

section \<open>Policies and names\<close>

definition recoveryInProgress :: "recovery_phase option \<Rightarrow> bool" where
  "recoveryInProgress phase =
     (phase = Some Rp_capturing \<or> phase = Some Rp_restoring \<or> phase = Some Rp_compensating)"

definition targetStackName ::
    "gitops_db \<Rightarrow> gitops_application_row \<Rightarrow> gitops_intent_revision_row option \<Rightarrow> gitops_target_current_row
      \<Rightarrow> string option" where
  "targetStackName db app currentIntent target =
     (if app_target_mode app = Direct then app_stack_name app
      else
        (let targetIntent = (if truthy_str (tgt_intent_revision_id target)
                             then getIntentRevision db (the (tgt_intent_revision_id target)) else None)
         in nullish_opt (map_option intent_deploy_stack_name targetIntent)
              (nullish_opt (app_configured_source_stack_name app)
                 (map_option intent_deploy_stack_name currentIntent))))"

definition blueprintDriftPolicy ::
    "projection_env \<Rightarrow> gitops_application_row \<Rightarrow> gitops_intent_revision_row \<Rightarrow> configured_policy option" where
  "blueprintDriftPolicy env app intent =
     (let live = Option.bind (app_blueprint_id app) (env_blueprint_drift_mode env)
      in case nullish_opt live (intent_runtime_drift_policy intent) of
           None \<Rightarrow> None
         | Some mode \<Rightarrow>
             (if mode \<in> {''observe'', ''suggest'', ''enforce''} then Some (Cfg_blueprint_drift mode) else None))"

definition configuredPolicyForApp :: "gitops_db \<Rightarrow> gitops_application_row \<Rightarrow> health_rollout_policy" where
  "configuredPolicyForApp db app =
     (if \<not> truthy_str (app_intent_revision_id app) then DEFAULT_HEALTH_ROLLOUT_POLICY
      else
        (case getIntentRevision db (the (app_intent_revision_id app)) of
           None \<Rightarrow> DEFAULT_HEALTH_ROLLOUT_POLICY
         | Some intent \<Rightarrow>
             (case decodeIntentHealthPolicy (intent_health_failure_rollback_policy_json intent) of
                Inr policy \<Rightarrow> policy
              | Inl _ \<Rightarrow> DEFAULT_HEALTH_ROLLOUT_POLICY)))"

text \<open>The policy a rollout generation of the application froze, when it can be read.\<close>

definition frozen_health_policy ::
    "gitops_db \<Rightarrow> gitops_application_row \<Rightarrow> string option \<Rightarrow> health_rollout_policy option" where
  "frozen_health_policy db app generationId =
     (if \<not> truthy_str generationId then None
      else
        (case getRolloutGeneration db (the generationId) of
           None \<Rightarrow> None
         | Some generation \<Rightarrow>
             (if rgen_application_id generation \<noteq> app_id app then None
              else
                (case decodeFrozenRolloutStrategy (Some (rgen_rollout_strategy_json generation)) of
                   Inr strategy \<Rightarrow> Some (frs_healthPolicy strategy)
                 | Inl _ \<Rightarrow> None))))"

definition frozenPolicyForTarget ::
    "gitops_db \<Rightarrow> gitops_application_row \<Rightarrow> gitops_target_current_row \<Rightarrow> configured_policy option" where
  "frozenPolicyForTarget db app target =
     map_option Cfg_health_rollout (frozen_health_policy db app (tgt_rollout_generation_id target))"

definition rolloutGenerationGatesHealth :: "gitops_db \<Rightarrow> gitops_application_row \<Rightarrow> bool" where
  "rolloutGenerationGatesHealth db app =
     (case frozen_health_policy db app (app_rollout_generation_id app) of
        None \<Rightarrow> False
      | Some policy \<Rightarrow> gatesAdvancement policy)"

definition blueprintConfirmsOutcome ::
    "projection_env \<Rightarrow> gitops_db \<Rightarrow> gitops_application_row \<Rightarrow> bool \<Rightarrow> bool" where
  "blueprintConfirmsOutcome env db app healthDisabled =
     (if app_blueprint_id app \<noteq> None \<and> truthy_str (app_intent_revision_id app)
        \<and> (case getIntentRevision db (the (app_intent_revision_id app)) of
             None \<Rightarrow> False
           | Some intent \<Rightarrow> blueprintDriftPolicy env app intent \<noteq> None)
      then True
      else if healthDisabled then False
      else gatesAdvancement (configuredPolicyForApp db app) \<or> rolloutGenerationGatesHealth db app)"

section \<open>Blueprint acknowledgement\<close>

definition acknowledgesSameCompose ::
    "gitops_db \<Rightarrow> gitops_application_row \<Rightarrow> gitops_target_current_row \<Rightarrow> bool" where
  "acknowledgesSameCompose db app target =
     (case (app_intent_revision_id app, tgt_intent_revision_id target) of
        (Some wantedId, Some acknowledgedId) \<Rightarrow>
          (if wantedId = acknowledgedId then False
           else
             (case (getIntentRevision db wantedId, getIntentRevision db acknowledgedId) of
                (Some wanted, Some acknowledged) \<Rightarrow>
                  (if intent_compose_content_sha256 wanted \<noteq> intent_compose_content_sha256 acknowledged then False
                   else
                     (case (if truthy_str (app_rollout_candidate_id app)
                            then getRolloutCandidate db (the (app_rollout_candidate_id app)) else None) of
                        None \<Rightarrow> False
                      | Some candidate \<Rightarrow>
                          (if cand_application_id candidate \<noteq> app_id app then False
                           else if Some (cand_intent_revision_id candidate) \<noteq> app_intent_revision_id app then False
                           else
                             (case decodeGitOpsRequiredTargetsJson (cand_required_targets_json candidate) of
                                Inl _ \<Rightarrow> False
                              | Inr nodeIds \<Rightarrow> tgt_node_id target \<in> set nodeIds))))
              | _ \<Rightarrow> False))
      | _ \<Rightarrow> False)"

definition ack_identity_stale :: "gitops_application_row \<Rightarrow> gitops_target_current_row \<Rightarrow> bool" where
  "ack_identity_stale app target =
     ((app_intent_revision_id app \<noteq> None \<and> tgt_intent_revision_id target \<noteq> None
        \<and> tgt_intent_revision_id target \<noteq> app_intent_revision_id app)
      \<or> (app_rollout_candidate_id app \<noteq> None \<and> tgt_rollout_candidate_id target \<noteq> None
        \<and> tgt_rollout_candidate_id target \<noteq> app_rollout_candidate_id app))"

definition blueprintAckStatus ::
    "gitops_db \<Rightarrow> gitops_application_row \<Rightarrow> gitops_target_current_row \<Rightarrow> observed_artifact_identity
      \<Rightarrow> bool \<Rightarrow> bool \<Rightarrow> runtime_facet option" where
  "blueprintAckStatus db app target observed healthDisabled confirmationExpected =
     (if app_target_mode app = Direct then None
      else if tgt_target_status target = Ts_tombstoned then None
      else if \<not> truthy_str (tgt_applied_generation_id target) then None
      else if ack_identity_stale app target \<and> \<not> acknowledgesSameCompose db app target
      then Some Run_stale_acknowledgement
      else if \<not> confirmationExpected then None
      else if \<not> healthDisabled \<and> tgt_healthy_generation_id target \<noteq> None then None
      else if \<not> healthDisabled \<and> tgt_last_health_status target \<noteq> None
        \<and> tgt_last_health_status target \<noteq> Some Hv_unknown then None
      else if \<not> obs_uninformative observed then None
      else Some Run_acknowledged_completion_unknown)"

section \<open>Runtime facet\<close>

definition BLUEPRINT_OBSERVATION_STATUS :: "string option \<Rightarrow> runtime_facet option" where
  "BLUEPRINT_OBSERVATION_STATUS stage =
     map_of [(''blueprint_state_review'', Run_pending_state_review),
             (''blueprint_evict_blocked'', Run_evict_blocked),
             (''blueprint_drifted'', Run_drifted),
             (''blueprint_correcting'', Run_correcting),
             (''blueprint_repair_held'', Run_repair_held),
             (''blueprint_drift_cleared'', Run_fully_deployed_health_pending)] (nullish stage [])"

definition LIVE_OPERATION_STATUS :: "target_active_stage option \<Rightarrow> runtime_facet option" where
  "LIVE_OPERATION_STATUS stage =
     (case stage of
        Some Tst_deploy_started \<Rightarrow> Some Run_deploying
      | Some Tst_blueprint_deploy_started \<Rightarrow> Some Run_deploying
      | Some Tst_blueprint_withdraw_started \<Rightarrow> Some Run_withdrawing
      | _ \<Rightarrow> None)"

definition MUTATION_FAILURE_STAGE :: "target_failure_stage option list" where
  "MUTATION_FAILURE_STAGE = [Some Tf_deploy, Some Tf_blueprint_deploy, Some Tf_blueprint_withdraw]"

definition APPLIED_MUTATION_CLASS :: "string list" where
  "APPLIED_MUTATION_CLASS = [''post_mutation'', ''deploy_failed'']"

text \<open>The facet once every operation, failure, observation and acknowledgement is ruled out: the
  pointers, the artifact comparison and the health verdict.\<close>

definition settled_runtime ::
    "projection_env \<Rightarrow> gitops_db \<Rightarrow> gitops_application_row \<Rightarrow> gitops_target_current_row \<Rightarrow> artifact_facet
      \<Rightarrow> observed_artifact_identity \<Rightarrow> bool \<Rightarrow> runtime_facet" where
  "settled_runtime env db app target artifact observed healthDisabled =
     (let running = runningGenerationForTarget app (Some target);
          settled = (if truthy_num (tgt_retry_at target) then Run_retry_scheduled
                     else if healthDisabled then Run_synced_and_healthy
                     else if tgt_healthy_generation_id target = running then Run_synced_and_healthy
                     else Run_fully_deployed_health_pending)
      in if \<not> truthy_str running then Run_applied_not_deployed
         else if tgt_desired_generation_id target \<noteq> None \<and> running \<noteq> tgt_desired_generation_id target
         then Run_applied_not_deployed
         else
           (case artifact_expected artifact of
              None \<Rightarrow> settled
            | Some expected \<Rightarrow>
                (if aei_qualification expected = Q_exact \<or> aei_qualification expected = Q_qualified
                 then
                   (if \<not> obs_comparable observed then Run_artifact_verification_pending
                    else if truthy_str (aei_identity expected)
                      \<and> \<not> expectedSetAgreesWithObservation env db (aei_artifactSetId expected) observed
                            (aei_identity expected)
                    then (if truthy_str (tgt_rollout_authorization_ref target)
                             \<or> truthy_str (tgt_rollout_generation_id target)
                          then Run_rollout_artifact_drift else Run_runtime_artifact_drift)
                    else settled)
                 else settled)))"

definition deriveRuntime ::
    "projection_env \<Rightarrow> gitops_db \<Rightarrow> gitops_target_current_row \<Rightarrow> artifact_facet \<Rightarrow> observed_artifact_identity
      \<Rightarrow> bool \<Rightarrow> gitops_application_row \<Rightarrow> bool \<Rightarrow> runtime_facet" where
  "deriveRuntime env db target artifact observed healthDisabled app confirmationExpected =
     (if tgt_target_status target = Ts_tombstoned then Run_tombstoned
      else if tgt_recovery_phase target = Some Rp_restoring \<or> tgt_recovery_phase target = Some Rp_compensating
      then Run_recovery_required
      else if tgt_recovery_phase target = Some Rp_failed \<or> tgt_failure_stage target = Some Tf_recovery
      then Run_recovery_failed (tgt_recovery_ref target) (tgt_recovery_generation_id target)
             (nullish (recoveryFailureClaimClass target) ''unknown'')
             (nullish (recoveryFailureClaimAt target) 0)
      else if LIVE_OPERATION_STATUS (tgt_active_operation_stage target) \<noteq> None
      then the (LIVE_OPERATION_STATUS (tgt_active_operation_stage target))
      else if tgt_interruption_stage target = Some Tst_deploy_started
        \<or> tgt_interruption_stage target = Some Tst_blueprint_deploy_started
        \<or> tgt_interruption_stage target = Some Tst_blueprint_withdraw_started
      then Run_completion_unknown
             \<lparr>rin_interruptedStage = the (tgt_interruption_stage target),
              rin_interruptedAt = nullish (tgt_interruption_at target) 0,
              rin_interruptedOperationId = tgt_interruption_operation_id target,
              rin_interruptedGenerationId = tgt_interruption_generation_id target,
              rin_interruptedIntentRevisionId = tgt_interruption_intent_revision_id target,
              rin_interruptedRolloutCandidateId = tgt_interruption_rollout_candidate_id target\<rparr>
      else if truthy_num (tgt_pause_at target)
      then Run_paused (the (tgt_pause_at target)) (tgt_pause_reason target)
      else if truthy_raw (tgt_partial_json target) then Run_partially_rolled_out
      else if tgt_failure_stage target \<in> set MUTATION_FAILURE_STAGE
      then (if nullish (tgt_failure_class target) [] \<in> set APPLIED_MUTATION_CLASS
            then Run_failed_after_mutation else Run_failed_previous_workload_intact)
      else if BLUEPRINT_OBSERVATION_STATUS (tgt_latest_stage target) \<noteq> None
      then the (BLUEPRINT_OBSERVATION_STATUS (tgt_latest_stage target))
      else if truthy_str (tgt_pending_health_run_id target) then Run_health_checking
      else if \<not> truthy_str (tgt_applied_generation_id target) then Run_never_applied
      else
        (case blueprintAckStatus db app target observed healthDisabled confirmationExpected of
           Some ackStatus \<Rightarrow> ackStatus
         | None \<Rightarrow> settled_runtime env db app target artifact observed healthDisabled))"

section \<open>Health\<close>

definition healthFailureSuperseded ::
    "gitops_db \<Rightarrow> gitops_application_row \<Rightarrow> gitops_intent_revision_row option \<Rightarrow> gitops_target_current_row
      \<Rightarrow> bool" where
  "healthFailureSuperseded db app acceptedIntent target =
     (if tgt_target_status target \<noteq> Ts_active then False
      else if tgt_last_health_status target \<noteq> Some Hv_failed then False
      else if recoveryInProgress (tgt_recovery_phase target) then False
      else if tgt_last_health_generation_id target = None then False
      else if LIVE_OPERATION_STATUS (tgt_active_operation_stage target) \<noteq> None
        \<and> tgt_active_generation_id target \<noteq> None
        \<and> tgt_active_generation_id target = tgt_last_health_generation_id target
      then True
      else
        (case targetStackName db app acceptedIntent target of
           None \<Rightarrow> False
         | Some stackName \<Rightarrow>
             (if stackName = [] then False
              else
                (case getLatestStackHealthRun db (tgt_node_id target) stackName of
                   None \<Rightarrow> False
                 | Some run \<Rightarrow> run_status run = Hr_observing
                     \<and> run_deployed_generation_id run = tgt_last_health_generation_id target))))"

definition deriveHealthGate ::
    "gitops_db \<Rightarrow> gitops_application_row \<Rightarrow> gitops_target_current_row \<Rightarrow> health_gate_facet" where
  "deriveHealthGate db app target =
     \<lparr>hgf_policy = (case frozenPolicyForTarget db app target of
                      Some (Cfg_health_rollout healthPolicy) \<Rightarrow> Some healthPolicy
                    | _ \<Rightarrow> None),
      hgf_configuredPolicy = configuredPolicyForApp db app,
      hgf_awaitingRunId = tgt_pending_health_run_id target,
      hgf_attempts = tgt_health_attempts target,
      hgf_stopReason = tgt_health_stop_reason target,
      hgf_recoveryAvailable = (tgt_recovery_generation_id target \<noteq> None)\<rparr>"

definition deriveHealth :: "gitops_target_current_row \<Rightarrow> bool \<Rightarrow> string option \<Rightarrow> health_facet" where
  "deriveHealth target healthDisabled runningGenerationId =
     (if healthDisabled then Hlt_not_applicable
      else if \<not> truthy_str runningGenerationId then Hlt_unbound
      else
        (let expectedGeneration = nullish_opt (tgt_desired_generation_id target) runningGenerationId
         in if tgt_healthy_generation_id target = expectedGeneration
            then Hlt_passed [] (the runningGenerationId)
            else if tgt_last_health_status target = Some Hv_failed
              \<and> tgt_last_health_generation_id target = expectedGeneration
            then Hlt_failed (nullish (tgt_last_health_run_id target) []) (tgt_deployed_generation_id target)
            else Hlt_pending None))"

section \<open>Secret capability\<close>

text \<open>The stored capability is trusted after two checks: \<^verbatim>\<open>inputs\<close> is an array and \<^verbatim>\<open>ready\<close> a
  Boolean. The other properties are read as they are, so a missing one is \<^verbatim>\<open>undefined\<close>.\<close>

record secret_capability =
  sc_inputs :: "json list"
  sc_requiredRecipients :: "json option"

definition parseSecretCapabilityFromJson :: "raw_json option \<Rightarrow> secret_capability option" where
  "parseSecretCapabilityFromJson raw =
     (case raw of
        Some (Parsed (JObj obj)) \<Rightarrow>
          (case (Option.bind (prop_of obj ''inputs'') as_array, Option.bind (prop_of obj ''ready'') as_bool) of
             (Some inputs, Some _) \<Rightarrow>
               Some \<lparr>sc_inputs = inputs, sc_requiredRecipients = prop_of obj ''requiredRecipients''\<rparr>
           | _ \<Rightarrow> None)
      | _ \<Rightarrow> None)"

text \<open>\<^verbatim>\<open>value.length > 0\<close>: reading a property of \<^verbatim>\<open>null\<close> or \<^verbatim>\<open>undefined\<close> throws, a value with no numeric
  length compares false.\<close>

definition length_positive :: "json option \<Rightarrow> bool res" where
  "length_positive v =
     (case v of
        None \<Rightarrow> Inl TypeError
      | Some JNull \<Rightarrow> Inl TypeError
      | Some (JArr xs) \<Rightarrow> Inr (xs \<noteq> [])
      | Some (JStr s) \<Rightarrow> Inr (s \<noteq> [])
      | Some (JObj obj) \<Rightarrow>
          Inr (case prop_of obj ''length'' of
                 Some (JNum n) \<Rightarrow> n = NInf \<or> num_value n > 0
               | Some (JBool b) \<Rightarrow> b
               | _ \<Rightarrow> False)
      | Some _ \<Rightarrow> Inr False)"

text \<open>\<^verbatim>\<open>input.recipientIds ?? []\<close>.\<close>

definition input_recipients :: "(string \<times> json) list \<Rightarrow> json" where
  "input_recipients obj =
     (case prop_of obj ''recipientIds'' of None \<Rightarrow> JArr [] | Some JNull \<Rightarrow> JArr [] | Some v \<Rightarrow> v)"

definition inputIsUndecryptable :: "string list \<Rightarrow> json \<Rightarrow> bool res" where
  "inputIsUndecryptable available input =
     (case input of
        JNull \<Rightarrow> Inl TypeError
      | JObj obj \<Rightarrow>
          (if prop_of obj ''encryption'' \<noteq> Some (JStr ''sops-age'') then Inr False
           else
             bind_res (length_positive (Some (input_recipients obj))) (\<lambda>present.
               if \<not> present then Inr False
               else
                 (case input_recipients obj of
                    JArr recipients \<Rightarrow> Inr (\<not> (\<exists>a \<in> set available. JStr a \<in> set recipients))
                  | _ \<Rightarrow> Inl TypeError)))
      | _ \<Rightarrow> Inr False)"

definition missingRecipientsForInputs :: "json list \<Rightarrow> string list \<Rightarrow> json list res" where
  "missingRecipientsForInputs inputs available =
     bind_res (map_res (\<lambda>input. bind_res (inputIsUndecryptable available input) (\<lambda>blocked.
         Inr (case input of
                JObj obj \<Rightarrow> (if blocked then nullish (as_array (input_recipients obj)) [] else [])
              | _ \<Rightarrow> []))) inputs)
       (\<lambda>found. Inr (dedup (concat found)))"

definition missingRecipientsForCapability :: "secret_capability \<Rightarrow> string list \<Rightarrow> json list res" where
  "missingRecipientsForCapability cap available = missingRecipientsForInputs (sc_inputs cap) available"

text \<open>The recipients of \<^verbatim>\<open>SopsIdentityStore.listPublic\<close>.\<close>

definition listPublic :: "gitops_db \<Rightarrow> string \<Rightarrow> string list" where
  "listPublic db stackName =
     map sid_recipient (filter (\<lambda>i. sid_stack_name i = stackName) (db_sops_identities db))"

section \<open>Last known good\<close>

text \<open>The recipients a generation still needs on this node; none when the application is gone or has
  no stack.\<close>

definition lkg_missing_recipients ::
    "gitops_db \<Rightarrow> gitops_target_current_row \<Rightarrow> gitops_generation_row \<Rightarrow> json list res" where
  "lkg_missing_recipients db target generation =
     (case parseSecretCapabilityFromJson (gen_secret_capability_json generation) of
        None \<Rightarrow> Inr []
      | Some cap \<Rightarrow>
          bind_res (length_positive (sc_requiredRecipients cap)) (\<lambda>required.
            if \<not> required then Inr []
            else
              (let stackName = Option.bind (getApplication db (tgt_application_id target)) app_stack_name
               in if \<not> truthy_str stackName then Inr []
                  else missingRecipientsForCapability cap (listPublic db (the stackName)))))"

definition lkg_artifact_facet ::
    "gitops_db \<Rightarrow> gitops_target_current_row \<Rightarrow> string \<Rightarrow> lkg_facet \<times> gitops_limitation list" where
  "lkg_artifact_facet db target generationId =
     (if \<not> truthy_str (tgt_lkg_artifact_set_id target) then (Lkg_available generationId None, [])
      else
        (let setId = the (tgt_lkg_artifact_set_id target);
             invalid = (Lkg_available generationId (Some setId),
                [limitation ''lkg_artifact_invalid'' ''captured LKG artifact is invalid'' (Le_text setId)])
         in case getArtifactSet db setId of
              None \<Rightarrow> invalid
            | Some artifact \<Rightarrow>
                (if Some (art_generation_id artifact) \<noteq> tgt_lkg_generation_id target then invalid
                 else if art_qualification artifact = Q_qualified
                 then (Lkg_qualified generationId (art_id artifact), [])
                 else (Lkg_available generationId (Some (art_id artifact)), []))))"

definition deriveLkg ::
    "gitops_db \<Rightarrow> gitops_target_current_row \<Rightarrow> (lkg_facet \<times> gitops_limitation list) res" where
  "deriveLkg db target =
     (if \<not> truthy_str (tgt_lkg_generation_id target) \<and> \<not> truthy_num (tgt_lkg_unavailable_at target)
      then Inr (Lkg_none, [])
      else if truthy_num (tgt_lkg_unavailable_at target) then Inr (Lkg_unavailable, [])
      else
        (let generationId = the (tgt_lkg_generation_id target)
         in case getGeneration db generationId of
              None \<Rightarrow>
                Inr (Lkg_unavailable, [limitation ''lkg_generation_missing'' ''LKG generation row is gone''
                       (Le_text generationId)])
            | Some generation \<Rightarrow>
                bind_res (lkg_missing_recipients db target generation) (\<lambda>missing.
                  if missing \<noteq> []
                  then Inr (Lkg_unavailable, [limitation ''lkg_missing_sops_key''
                         ''LKG generation requires age identities that are not available on this node''
                         (Le_recipients missing)])
                  else Inr (lkg_artifact_facet db target generationId))))"

section \<open>The target\<close>

definition withdrawal_residue :: "gitops_target_current_row \<Rightarrow> gitops_limitation list" where
  "withdrawal_residue target =
     (if tgt_target_status target = Ts_tombstoned
         \<and> (tgt_recovery_phase target = Some Rp_failed \<or> tgt_failure_stage target = Some Tf_recovery)
      then [limitation ''withdrawal_residue'' ''target withdrawn while a recovery on it had failed''
              (Le_node (tgt_node_id target) (tgt_recovery_ref target))]
      else [])"

definition deriveTarget ::
    "projection_env \<Rightarrow> gitops_db \<Rightarrow> gitops_application_row \<Rightarrow> gitops_intent_revision_row option
      \<Rightarrow> gitops_target_current_row \<Rightarrow> bool \<Rightarrow> bool
      \<Rightarrow> (gitops_target_projection \<times> gitops_limitation list) res" where
  "deriveTarget env db app acceptedIntent target healthDisabled confirmationExpected =
     (let persisted = mergePersistedLimitations (tgt_evidence_limitations_json target);
          (observed, l1) = decodeObservedSafe env (tgt_observed_artifact_identity_json target);
          (connectivity, l2) = connectivityFromObservation target observed;
          (artifact, l3) = deriveArtifact env db app (tgt_desired_generation_id target)
             (tgt_expected_artifact_set_id target) (tgt_latest_artifact_set_id target);
          runtime = deriveRuntime env db target artifact observed healthDisabled app confirmationExpected;
          residue = withdrawal_residue target;
          runningGenerationId = runningGenerationForTarget app (Some target)
      in bind_res (deriveLkg db target) (\<lambda>(lkg, l4).
           Inr (\<lparr>tp_nodeId = tgt_node_id target,
                 tp_stackName = app_stack_name app,
                 tp_desiredGenerationId = tgt_desired_generation_id target,
                 tp_candidateGenerationId = tgt_candidate_generation_id target,
                 tp_appliedGenerationId = tgt_applied_generation_id target,
                 tp_deployedGenerationId = tgt_deployed_generation_id target,
                 tp_healthyGenerationId = tgt_healthy_generation_id target,
                 tp_lkgGenerationId = tgt_lkg_generation_id target,
                 tp_lkgArtifactSetId = tgt_lkg_artifact_set_id target,
                 tp_lkgUnavailableAt = tgt_lkg_unavailable_at target,
                 tp_lkgUnavailableReason = tgt_lkg_unavailable_reason target,
                 tp_expectedArtifactSetId = tgt_expected_artifact_set_id target,
                 tp_latestArtifactSetId = tgt_latest_artifact_set_id target,
                 tp_artifact = artifact,
                 tp_observedArtifactIdentity = observed,
                 tp_intentRevisionId = tgt_intent_revision_id target,
                 tp_rolloutCandidateId = tgt_rollout_candidate_id target,
                 tp_rolloutGenerationId = tgt_rollout_generation_id target,
                 tp_approvals =
                   \<lparr>ref_sourceAcceptanceRef = tgt_source_acceptance_ref target,
                    ref_placementApprovalRef = tgt_placement_approval_ref target,
                    ref_rolloutAuthorizationRef = tgt_rollout_authorization_ref target,
                    ref_legacyCombinedApprovalRef = tgt_legacy_combined_approval_ref target\<rparr>,
                 tp_connectivity = connectivity,
                 tp_legacyAppliedRevision = tgt_legacy_applied_revision target,
                 tp_runtime = runtime,
                 tp_health = deriveHealth target healthDisabled runningGenerationId,
                 tp_healthFailureSuperseded = healthFailureSuperseded db app acceptedIntent target,
                 tp_healthGate = deriveHealthGate db app target,
                 tp_lkg = lkg,
                 tp_tombstoned = (tgt_target_status target = Ts_tombstoned)\<rparr>,
                persisted @ l1 @ l2 @ l3 @ residue @ l4)))"

end
