(* ===== verification/Projection.thy ===== *)
theory Projection
  imports Projection_Targets
begin

text \<open>
  The application facets of the projection (\<^verbatim>\<open>backend/src/services/gitops/derive.ts\<close>): the approved rollout
  scope, the placement authority chain, the rollout facet, and the actions a client is offered.
\<close>

section \<open>Approved rollout scope\<close>

definition deriveApprovedRolloutScope :: "gitops_db \<Rightarrow> gitops_application_row \<Rightarrow> approved_rollout_scope" where
  "deriveApprovedRolloutScope db app =
     (if app_target_mode app \<noteq> Blueprint then Scope_not_applicable
      else if \<not> truthy_str (app_placement_approval_ref app) then Scope_unapproved
      else
        (let approvalRef = the (app_placement_approval_ref app)
         in case (if truthy_str (app_rollout_candidate_id app)
                  then getRolloutCandidate db (the (app_rollout_candidate_id app)) else None) of
              None \<Rightarrow> Scope_unresolved approvalRef ''no_candidate''
            | Some candidate \<Rightarrow>
                (if cand_application_id candidate \<noteq> app_id app \<or> \<not> truthy_str (app_intent_revision_id app)
                 then Scope_unresolved approvalRef ''no_candidate''
                 else if Some (cand_intent_revision_id candidate) \<noteq> app_intent_revision_id app
                 then Scope_unresolved approvalRef ''no_candidate''
                 else
                   (case decodeGitOpsRequiredTargetsJson (cand_required_targets_json candidate) of
                      Inl _ \<Rightarrow> Scope_unresolved approvalRef ''unreadable_required_targets''
                    | Inr requiredNodeIds \<Rightarrow>
                        (if resolveApprovalRef db approvalRef
                              (Expect_placement_approval (app_id app) (the (app_intent_revision_id app))
                                 requiredNodeIds) = None
                         then Scope_unresolved approvalRef ''approval_does_not_resolve''
                         else Scope_approved approvalRef requiredNodeIds)))))"

section \<open>Placement facet\<close>

fun future_placement_facet :: "gitops_application_row \<Rightarrow> future_placement \<Rightarrow> placement_facet" where
  "future_placement_facet app (Fp_source_acceptance_pending candidate) =
     Plc_source_acceptance_pending (app_source_acceptance_ref app) candidate"
| "future_placement_facet app (Fp_authorization_pending binding) = Plc_rollout_authorization_pending binding"
| "future_placement_facet app (Fp_authorization_stale ref bound) = Plc_rollout_authorization_stale ref bound"
| "future_placement_facet app (Fp_preflight_blocked reason binding) = Plc_preflight_blocked reason binding"

text \<open>The stored evaluation, replaced by an unknown one for each required node when it is about
  another artifact set.\<close>

definition stored_preflight ::
    "projection_env \<Rightarrow> gitops_application_row \<Rightarrow> int list \<Rightarrow> preflight_evidence_body option" where
  "stored_preflight env app requiredNodeIds =
     (if \<not> truthy_raw (app_latest_preflight_evidence_json app) then None
      else
        (let lc = env_localeCompare env;
             stored = decodePreflightEvidenceJson lc (the (app_latest_preflight_evidence_json app))
         in if pf_artifactSetId stored \<noteq> app_artifact_set_id app
            then Some (buildPreflightEvidence lc (Some
                   \<lparr>po_capability = None, po_secretReadiness = None, po_registryReadiness = None,
                    po_connectivity = None, po_artifactSetId = app_artifact_set_id app,
                    po_targets = Some (map (\<lambda>nodeId.
                      \<lparr>pt_nodeId = NInt nodeId, pt_sourceClass = Rcs_hub_ephemeral, pt_readiness = Rr_unknown,
                       pt_hosts = [], pt_expired = False\<rparr>) requiredNodeIds)\<rparr>))
            else Some stored))"

definition unevaluated_preflight :: "projection_env \<Rightarrow> gitops_application_row \<Rightarrow> preflight_evidence_body" where
  "unevaluated_preflight env app =
     buildPreflightEvidence (env_localeCompare env) (Some
       \<lparr>po_capability = None, po_secretReadiness = None, po_registryReadiness = None,
        po_connectivity = None, po_artifactSetId = app_artifact_set_id app, po_targets = Some []\<rparr>)"

text \<open>The rollout authorization chain of a Git-managed application, from the ingredients on.\<close>

definition authorization_chain ::
    "projection_env \<Rightarrow> gitops_db \<Rightarrow> gitops_application_row \<Rightarrow> future_rollout_authorization_binding
      \<Rightarrow> placement_facet res" where
  "authorization_chain env db app ingredients =
     (let stored = stored_preflight env app (bnd_requiredNodeIds ingredients)
      in bind_res (fingerprintPreflightEvidence (env_localeCompare env) (env_sha256 env)
             (nullish stored (unevaluated_preflight env app))) (\<lambda>fingerprint.
         let binding = ingredients\<lparr>bnd_preflightFingerprint := fingerprint\<rparr>;
             artifactRefusal = executableArtifactRefusalReason
               (map_option art_qualification (getArtifactSet db (bnd_artifactSetId ingredients)));
             authRef = app_rollout_authorization_ref app;
             live = (if truthy_str authRef then currentAuthorizationBinding db app else None);
             liveResolved = (case live of
                None \<Rightarrow> False
              | Some l \<Rightarrow> truthy_str authRef
                  \<and> resolveApprovalRef db (the authRef) (Expect_rollout_authorization (app_id app) l) \<noteq> None)
         in Inr
           (case artifactRefusal of
              Some reason \<Rightarrow> Plc_preflight_blocked reason binding
            | None \<Rightarrow>
                (if (case stored of None \<Rightarrow> False | Some s \<Rightarrow> isPreflightBlocked s)
                 then Plc_preflight_blocked (registryPreflightBlockReason (the stored)) binding
                 else if liveResolved \<and> stored = None then Plc_blueprint_bound
                 else if liveResolved \<and> stored \<noteq> None \<and> bnd_preflightFingerprint (the live) \<noteq> fingerprint
                 then Plc_rollout_authorization_stale (the authRef) (the live)
                 else if liveResolved \<and> stored \<noteq> None \<and> bnd_preflightFingerprint (the live) = fingerprint
                 then Plc_blueprint_bound
                 else if truthy_str authRef \<and> \<not> liveResolved
                 then Plc_rollout_authorization_stale (the authRef) (nullish live binding)
                 else if stored \<noteq> None \<and> \<not> isPreflightBlocked (the stored) \<and> \<not> liveResolved
                 then Plc_rollout_authorization_pending binding
                 else Plc_preflight_blocked REGISTRY_PREFLIGHT_UNEVALUATED_REASON binding))))"

definition placement_candidate_generation :: "gitops_db \<Rightarrow> gitops_application_row \<Rightarrow> string option" where
  "placement_candidate_generation db app =
     nullish_opt (app_candidate_generation_id app)
       (if truthy_str (app_rollout_candidate_id app)
        then Option.bind (getRolloutCandidate db (the (app_rollout_candidate_id app)))
               cand_accepted_generation_id
        else None)"

text \<open>A candidate row that is missing leaves the generation \<^verbatim>\<open>undefined\<close> rather than \<^verbatim>\<open>null\<close>, which the
  outstanding test of the inline arm distinguishes and the final \<^verbatim>\<open>!= null\<close> does not.\<close>

definition source_acceptance_outstanding :: "gitops_db \<Rightarrow> gitops_application_row \<Rightarrow> bool" where
  "source_acceptance_outstanding db app =
     (if app_target_mode app = Blueprint
      then app_candidate_generation_id app \<noteq> None
        \<and> app_candidate_generation_id app \<noteq> app_accepted_generation_id app
      else placement_candidate_generation db app \<noteq> None \<and> \<not> truthy_str (app_source_acceptance_ref app))"

definition derivePlacementAuthority ::
    "projection_env \<Rightarrow> gitops_db \<Rightarrow> gitops_application_row \<Rightarrow> future_gitops_evidence option
      \<Rightarrow> placement_facet res" where
  "derivePlacementAuthority env db app futureEvidence =
     (case Option.bind futureEvidence fut_placement of
        Some ev \<Rightarrow> Inr (future_placement_facet app ev)
      | None \<Rightarrow>
          (if app_target_mode app = Direct then Inr Plc_unbound_direct
           else if \<not> truthy_str (app_intent_revision_id app) then Inr Plc_unknown_missing_intent
           else if truthy_str (app_legacy_combined_approval_ref app)
             \<and> \<not> truthy_str (app_placement_approval_ref app)
           then Inr Plc_placement_review_pending
           else if source_acceptance_outstanding db app \<and> placement_candidate_generation db app \<noteq> None
           then Inr (Plc_source_acceptance_pending (app_source_acceptance_ref app)
                       (the (placement_candidate_generation db app)))
           else if app_target_mode app = Blueprint \<and> truthy_str (app_rollout_candidate_id app)
             \<and> \<not> truthy_str (app_placement_approval_ref app)
           then Inr Plc_placement_review_pending
           else if app_target_mode app \<noteq> Blueprint then Inr Plc_blueprint_bound
           else
             (case authorizationIngredients db app of
                None \<Rightarrow> Inr Plc_blueprint_bound
              | Some ingredients \<Rightarrow> authorization_chain env db app ingredients)))"

definition derivePlacement ::
    "projection_env \<Rightarrow> gitops_db \<Rightarrow> gitops_application_row \<Rightarrow> future_gitops_evidence option
      \<Rightarrow> gitops_target_projection list \<Rightarrow> placement_facet res" where
  "derivePlacement env db app futureEvidence targets =
     bind_res (derivePlacementAuthority env db app futureEvidence) (\<lambda>authority.
       Inr (if authority = Plc_blueprint_bound
               \<and> (\<exists>t \<in> set targets. tp_runtime t = Run_pending_state_review)
            then Plc_stateful_confirmation_required else authority))"

section \<open>Rollout facet\<close>

fun future_rollout_facet :: "future_rollout_kind \<times> string \<Rightarrow> rollout_facet" where
  "future_rollout_facet (Fk_queued, i) = Rlo_rollout_queued i"
| "future_rollout_facet (Fk_canary, i) = Rlo_canary_in_progress i"
| "future_rollout_facet (Fk_batch, i) = Rlo_batch_in_progress i"
| "future_rollout_facet (Fk_superseded, i) = Rlo_rollout_superseded i"
| "future_rollout_facet (Fk_fully_deployed_health_pending, i) = Rlo_fully_deployed_health_pending i"
| "future_rollout_facet (Fk_configuration_converged_artifact_qualified, i) =
     Rlo_configuration_converged_artifact_qualified i"
| "future_rollout_facet (Fk_exactly_converged_healthy, i) = Rlo_exactly_converged_healthy i"

text \<open>The map of targets by node keeps the last entry of a node; a withdrawn target does not count.\<close>

definition live_target :: "gitops_target_projection list \<Rightarrow> int \<Rightarrow> gitops_target_projection option" where
  "live_target targets nodeId =
     (case map_of (rev (map (\<lambda>t. (tp_nodeId t, t)) targets)) nodeId of
        None \<Rightarrow> None
      | Some t \<Rightarrow> (if tp_tombstoned t then None else Some t))"

definition every_live ::
    "gitops_target_projection list \<Rightarrow> int list \<Rightarrow> (gitops_target_projection \<Rightarrow> bool) \<Rightarrow> bool" where
  "every_live targets nodeIds P =
     list_all (\<lambda>n. case live_target targets n of None \<Rightarrow> False | Some t \<Rightarrow> P t) nodeIds"

definition authorized_rollout ::
    "projection_env \<Rightarrow> gitops_db \<Rightarrow> gitops_application_row \<Rightarrow> gitops_target_projection list \<Rightarrow> artifact_facet
      \<Rightarrow> bool \<Rightarrow> future_rollout_authorization_binding \<Rightarrow> rollout_facet" where
  "authorized_rollout env db app targets artifact healthDisabled binding =
     (let rolloutGenerationId = the (app_rollout_generation_id app);
          required = bnd_requiredNodeIds binding
      in if \<not> every_live targets required (\<lambda>t.
              tp_appliedGenerationId t = Some (bnd_acceptedGenerationId binding)
              \<and> tp_intentRevisionId t = Some (bnd_intentRevisionId binding)
              \<and> ref_rolloutAuthorizationRef (tp_approvals t) = app_rollout_authorization_ref app)
         then Rlo_rollout_queued rolloutGenerationId
         else if \<not> every_live targets required (\<lambda>t.
              healthDisabled \<or> tp_healthyGenerationId t = Some (bnd_acceptedGenerationId binding))
         then Rlo_fully_deployed_health_pending rolloutGenerationId
         else if artifact_facet_status artifact \<noteq> Some Art_exact
         then Rlo_configuration_converged_artifact_qualified rolloutGenerationId
         else if \<not> every_live targets required (targetObservationMatchesExpected env db)
         then Rlo_partially_rolled_out
                (case app_partial_json app of Some r \<Rightarrow> Partial_column r
                 | None \<Rightarrow> Partial_runtime_artifact_divergence)
         else Rlo_exactly_converged_healthy rolloutGenerationId)"

definition recovery_failed_target :: "gitops_target_projection list \<Rightarrow> gitops_target_projection option" where
  "recovery_failed_target targets =
     find (\<lambda>t. case tp_runtime t of Run_recovery_failed _ _ _ _ \<Rightarrow> True | _ \<Rightarrow> False) targets"

definition rollback_failed_facet ::
    "gitops_application_row \<Rightarrow> gitops_target_projection \<Rightarrow> rollout_facet" where
  "rollback_failed_facet app failed =
     (case tp_runtime failed of
        Run_recovery_failed ref generationId failureClass failureAt \<Rightarrow>
          Rlo_rollback_partial_failed (nullish (nullish_opt ref (app_recovery_ref app)) [])
            generationId failureClass failureAt
      | _ \<Rightarrow> Rlo_not_applicable)"

definition deriveRollout ::
    "projection_env \<Rightarrow> gitops_db \<Rightarrow> gitops_application_row \<Rightarrow> gitops_target_projection list \<Rightarrow> artifact_facet
      \<Rightarrow> bool \<Rightarrow> future_gitops_evidence option \<Rightarrow> rollout_facet" where
  "deriveRollout env db app targets artifact healthDisabled futureEvidence =
     (case Option.bind futureEvidence fut_rollout of
        Some ev \<Rightarrow> future_rollout_facet ev
      | None \<Rightarrow>
          (let currentTargets = filter (\<lambda>t. \<not> tp_tombstoned t) targets;
               generation = (if truthy_str (app_rollout_generation_id app)
                             then getRolloutGeneration db (the (app_rollout_generation_id app)) else None);
               binding = (if truthy_str (app_rollout_authorization_ref app)
                             \<and> truthy_str (app_rollout_generation_id app)
                          then currentAuthorizationBinding db app else None)
           in if app_recovery_phase app = Some Rp_restoring \<or> app_recovery_phase app = Some Rp_compensating
              then Rlo_rollback_in_progress (nullish (app_recovery_ref app) []) None
              else if recovery_failed_target currentTargets \<noteq> None
              then rollback_failed_facet app (the (recovery_failed_target currentTargets))
              else if \<exists>t \<in> set currentTargets. tp_connectivity t = Con_unreachable then Rlo_target_unreachable
              else if \<exists>t \<in> set currentTargets. tp_connectivity t = Con_stale then Rlo_target_stale
              else if truthy_num (app_pause_at app)
              then Rlo_rollout_paused (the (app_pause_at app)) (app_pause_reason app)
              else if truthy_raw (app_partial_json app)
              then Rlo_partially_rolled_out (Partial_column (the (app_partial_json app)))
              else if app_target_mode app = Direct then Rlo_not_applicable
              else if (case generation of None \<Rightarrow> False | Some g \<Rightarrow> truthy_num (rgen_superseded_at g))
              then Rlo_rollout_superseded (the (app_rollout_generation_id app))
              else
                (case binding of
                   Some b \<Rightarrow> authorized_rollout env db app targets artifact healthDisabled b
                 | None \<Rightarrow>
                     (if truthy_str (app_rollout_candidate_id app)
                      then Rlo_rollout_not_executable (the (app_rollout_candidate_id app))
                      else Rlo_not_applicable))))"

section \<open>Actions\<close>

definition appDeployWithheld :: "gitops_application_row \<Rightarrow> bool" where
  "appDeployWithheld app =
     (app_active_operation_stage app = Some Ast_fetch_started
      \<or> app_active_operation_stage app = Some Ast_apply_started
      \<or> app_recovery_phase app = Some Rp_restoring
      \<or> app_recovery_phase app = Some Rp_compensating
      \<or> app_recovery_phase app = Some Rp_failed
      \<or> app_failure_stage app = Some Af_recovery)"

definition targetDeployLegal :: "gitops_application_row \<Rightarrow> gitops_target_projection \<Rightarrow> bool" where
  "targetDeployLegal app target =
     (if appDeployWithheld app \<or> tp_tombstoned target then False
      else if app_target_mode app \<noteq> Direct
      then (case tp_runtime target of
              Run_completion_unknown i \<Rightarrow>
                (rin_interruptedStage i = Tst_blueprint_deploy_started
                   \<or> rin_interruptedStage i = Tst_blueprint_withdraw_started)
                \<and> rin_interruptedIntentRevisionId i = app_intent_revision_id app
                \<and> rin_interruptedRolloutCandidateId i = app_rollout_candidate_id app
            | _ \<Rightarrow> False)
      else
        (case tp_runtime target of
           Run_applied_not_deployed \<Rightarrow> True
         | Run_completion_unknown i \<Rightarrow>
             rin_interruptedStage i = Tst_deploy_started
             \<and> rin_interruptedGenerationId i \<noteq> None
             \<and> rin_interruptedGenerationId i = tp_appliedGenerationId target
         | _ \<Rightarrow> False))"

definition healthFailedDeployRetryLegal ::
    "projection_env \<Rightarrow> gitops_db \<Rightarrow> gitops_application_row \<Rightarrow> gitops_target_current_row list \<Rightarrow> bool \<Rightarrow> bool" where
  "healthFailedDeployRetryLegal env db app rawTargets healthDisabled =
     (if healthDisabled then False
      else if \<not> truthy_str (app_accepted_generation_id app) \<or> \<not> truthy_str (app_stack_name app) then False
      else if app_active_operation_stage app \<noteq> None \<or> app_interruption_stage app \<noteq> None then False
      else if app_recovery_phase app \<noteq> None \<and> app_recovery_phase app \<noteq> Some Rp_complete then False
      else if getGeneration db (the (app_accepted_generation_id app)) = None then False
      else
        (case find (\<lambda>row. tgt_node_id row = env_default_node_id env) rawTargets of
           None \<Rightarrow> False
         | Some target \<Rightarrow>
             (if tgt_target_status target \<noteq> Ts_active then False
              else if tgt_applied_generation_id target \<noteq> app_accepted_generation_id app
                \<or> tgt_failure_stage target \<noteq> None then False
              else
                (case getLatestStackHealthRun db (tgt_node_id target) (the (app_stack_name app)) of
                   None \<Rightarrow> False
                 | Some run \<Rightarrow> run_status run = Hr_failed
                     \<and> run_deployed_generation_id run = app_accepted_generation_id app))))"

definition fetch_offered :: "source_status \<Rightarrow> bool" where
  "fetch_offered status =
     (case status of
        Sst_never_reconciled \<Rightarrow> True
      | Sst_source_reconcile_required \<Rightarrow> True
      | Sst_source_retry_scheduled _ _ \<Rightarrow> True
      | Sst_source_unknown i \<Rightarrow> sin_interruptedStage i = Ast_fetch_started
      | Sst_source_failed f \<Rightarrow> sfl_failureStage f = Af_fetch \<or> sfl_failureStage f = Af_validation
      | _ \<Rightarrow> False)"

text \<open>An interrupted apply may be finished while its generation is still a startable candidate.\<close>

definition interrupted_apply_offered ::
    "gitops_db \<Rightarrow> gitops_application_row \<Rightarrow> source_interruption \<Rightarrow> bool" where
  "interrupted_apply_offered db app i =
     (sin_interruptedStage i = Ast_apply_started
      \<and> sin_interruptedGenerationId i \<noteq> None
      \<and> sin_interruptedGenerationId i = app_candidate_generation_id app
      \<and> \<not> truthy_num (app_suspended_at app)
      \<and> app_candidate_plan_blocked app \<noteq> 1
      \<and> (case getGeneration db (the (app_candidate_generation_id app)) of
           None \<Rightarrow> False
         | Some candidate \<Rightarrow>
             gen_application_id candidate = app_id app
             \<and> Some (gen_materialization_fingerprint candidate) = app_materialization_fingerprint app))"

definition apply_offered :: "gitops_db \<Rightarrow> gitops_application_row \<Rightarrow> source_status \<Rightarrow> bool" where
  "apply_offered db app status =
     (case status of
        Sst_candidate_ready \<Rightarrow> True
      | Sst_source_unknown i \<Rightarrow> interrupted_apply_offered db app i
      | _ \<Rightarrow> False)"

definition retry_offered :: "source_status \<Rightarrow> bool" where
  "retry_offered status =
     (case status of
        Sst_source_failed _ \<Rightarrow> True
      | Sst_source_retry_scheduled _ _ \<Rightarrow> True
      | _ \<Rightarrow> False)"

fun source_facet_status :: "source_facet \<Rightarrow> source_status option" where
  "source_facet_status Source_not_applicable = None"
| "source_facet_status (Source_facet _ s) = Some s"

definition source_settled :: "source_status option \<Rightarrow> bool" where
  "source_settled status =
     (case status of
        Some (Sst_applying _ _) \<Rightarrow> False
      | Some Sst_checking_fetching \<Rightarrow> False
      | Some (Sst_recovery_required _ _) \<Rightarrow> False
      | Some (Sst_recovery_failed _ _ _ _) \<Rightarrow> False
      | _ \<Rightarrow> True)"

definition on_status :: "source_status option \<Rightarrow> (source_status \<Rightarrow> bool) \<Rightarrow> bool" where
  "on_status status P = (case status of None \<Rightarrow> False | Some s \<Rightarrow> P s)"

definition deriveActions ::
    "projection_env \<Rightarrow> gitops_db \<Rightarrow> gitops_application_row \<Rightarrow> source_facet \<Rightarrow> placement_facet
      \<Rightarrow> gitops_target_projection list \<Rightarrow> gitops_target_current_row list \<Rightarrow> bool
      \<Rightarrow> gitops_available_action list" where
  "deriveActions env db app source placement targets rawTargets healthDisabled =
     (let status = source_facet_status source
      in if \<not> source_settled status then [Act_none]
         else
           (let actions =
              (if app_target_mode app = Direct \<and> on_status status fetch_offered then [Act_fetch] else [])
              @ (if on_status status (apply_offered db app) then [Act_apply] else [])
              @ (if truthy_str (app_candidate_generation_id app) \<and> app_active_operation_stage app = None
                 then [Act_dismiss] else [])
              @ (if \<exists>t \<in> set targets. targetDeployLegal app t then [Act_deploy] else [])
              @ (if placement = Plc_placement_review_pending \<and> app_target_mode app = Inline_blueprint
                 then [Act_approve_legacy] else [])
              @ (if app_target_mode app \<noteq> Direct then []
                 else if truthy_num (app_suspended_at app) then [Act_resume]
                 else Act_suspend
                   # (if on_status status retry_offered
                         \<or> healthFailedDeployRetryLegal env db app rawTargets healthDisabled
                      then [Act_retry] else []))
            in if actions = [] then [Act_none] else actions))"

end
