(* ===== verification/Projection_Drift.thy ===== *)
theory Projection_Drift
  imports Projection
begin

text \<open>
  Drift (\<^verbatim>\<open>collectDrift\<close> and its six collectors in \<^verbatim>\<open>backend/src/services/gitops/derive.ts\<close>), one per class of
  divergence. A collector returns its items and the limitations it pushes.
\<close>

section \<open>Identity references\<close>

definition commitRef ::
    "gitops_application_row \<Rightarrow> string option \<Rightarrow> (string \<times> string) option \<Rightarrow> gitops_identity_ref" where
  "commitRef app sha identity =
     (if \<not> truthy_str sha then Id_none
      else Id_commit (the sha)
        (nullish (nullish_opt (map_option fst identity) (app_configured_repo_url app)) [])
        (nullish (nullish_opt (map_option snd identity) (app_configured_ref app)) []))"

definition intentRef :: "gitops_intent_revision_row \<Rightarrow> gitops_identity_ref" where
  "intentRef intent = Id_intent (intent_id intent) (intent_compose_content_sha256 intent)"

definition optional_intentRef :: "gitops_intent_revision_row option \<Rightarrow> gitops_identity_ref" where
  "optional_intentRef intent = (case intent of None \<Rightarrow> Id_unknown | Some i \<Rightarrow> intentRef i)"

definition configuredGitSourcePolicy :: "gitops_db \<Rightarrow> gitops_application_row \<Rightarrow> configured_policy option" where
  "configuredGitSourcePolicy db app =
     (let stackName = nullish_opt (app_stack_name app) (app_configured_source_stack_name app)
      in if \<not> truthy_str stackName then None
         else map_option (\<lambda>s. Cfg_git_source (src_auto_apply_on_webhook s) (src_auto_deploy_on_apply s))
                (getStackGitSource db (the stackName)))"

section \<open>Runtime and rollout\<close>

definition runtimeDriftClass :: "gitops_target_projection \<Rightarrow> drift_class option" where
  "runtimeDriftClass target =
     (if tp_runtime target \<notin> {Run_runtime_artifact_drift, Run_rollout_artifact_drift, Run_drifted} then None
      else if truthy_str (tp_rolloutGenerationId target)
        \<or> truthy_str (ref_rolloutAuthorizationRef (tp_approvals target))
      then Some Dc_rollout else Some Dc_runtime)"

definition reasonForRuntimeDrift :: "runtime_facet \<Rightarrow> drift_class \<Rightarrow> string" where
  "reasonForRuntimeDrift status driftClass =
     (if status = Run_drifted
      then ''the last artifact identity observed for this target differs from the expected artifact set''
      else if driftClass = Dc_rollout
      then ''a required rollout target reports an artifact identity other than the approved rollout set''
      else ''the running workload reports an artifact identity other than the expected artifact set'')"

definition generation_drift ::
    "gitops_application_row \<Rightarrow> gitops_target_projection \<Rightarrow> gitops_target_current_row option
      \<Rightarrow> gitops_drift_item list" where
  "generation_drift app target raw =
     (case (tp_desiredGenerationId target, runningGenerationForTarget app raw) of
        (Some desired, Some running) \<Rightarrow>
          (if \<not> tp_tombstoned target \<and> desired \<noteq> running
           then [\<lparr>dr_class = Dc_runtime, dr_expected = Id_generation desired,
                   dr_observed = Id_generation running, dr_freshnessAt = None,
                   dr_owner = ''ComposeService'',
                   dr_reason = ''the target is running a different generation than the one it was asked to run'',
                   dr_configuredPolicy = None,
                   dr_affectedTargets = [(Some (tp_nodeId target), app_stack_name app)],
                   dr_action = (if targetDeployLegal app target then Act_deploy else Act_none)\<rparr>]
           else [])
      | _ \<Rightarrow> [])"

definition artifact_drift ::
    "projection_env \<Rightarrow> gitops_db \<Rightarrow> gitops_application_row \<Rightarrow> gitops_target_projection \<Rightarrow> gitops_drift_item list" where
  "artifact_drift env db app target =
     (case (runtimeDriftClass target, artifact_expected (tp_artifact target)) of
        (Some driftClass, Some expected) \<Rightarrow>
          (let observed = tp_observedArtifactIdentity target
           in if aei_identity expected = None then []
              else if aei_qualification expected \<noteq> Q_exact \<and> aei_qualification expected \<noteq> Q_qualified then []
              else if \<not> obs_comparable observed then []
              else if expectedSetAgreesWithObservation env db (aei_artifactSetId expected) observed
                        (aei_identity expected) then []
              else [\<lparr>dr_class = driftClass,
                      dr_expected = Id_artifact_set (aei_artifactSetId expected) (aei_qualification expected)
                        (aei_evidenceVersion expected),
                      dr_observed = Id_runtime_artifact (nullish (obs_identity observed) []) (obs_at observed)
                        (obs_services observed),
                      dr_freshnessAt = obs_at observed,
                      dr_owner = ''observed_artifact_identity'',
                      dr_reason = reasonForRuntimeDrift (tp_runtime target) driftClass,
                      dr_configuredPolicy = None,
                      dr_affectedTargets = [(Some (tp_nodeId target), app_stack_name app)],
                      dr_action = Act_none\<rparr>])
      | _ \<Rightarrow> [])"

text \<open>The maps by node keep the last row of a node.\<close>

definition rawByNodeId :: "gitops_target_current_row list \<Rightarrow> int \<Rightarrow> gitops_target_current_row option" where
  "rawByNodeId targets = map_of (rev (map (\<lambda>t. (tgt_node_id t, t)) targets))"

definition projectionByNodeId :: "gitops_target_projection list \<Rightarrow> int \<Rightarrow> gitops_target_projection option" where
  "projectionByNodeId targets = map_of (rev (map (\<lambda>t. (tp_nodeId t, t)) targets))"

definition collectRuntimeDrift ::
    "projection_env \<Rightarrow> gitops_db \<Rightarrow> gitops_application_row \<Rightarrow> gitops_target_projection list
      \<Rightarrow> (int \<Rightarrow> gitops_target_current_row option) \<Rightarrow> gitops_drift_item list" where
  "collectRuntimeDrift env db app targets raw =
     concat (map (\<lambda>t. generation_drift app t (raw (tp_nodeId t)) @ artifact_drift env db app t) targets)"

section \<open>Source\<close>

definition collectSourceDrift ::
    "gitops_db \<Rightarrow> gitops_application_row \<Rightarrow> source_facet \<Rightarrow> gitops_available_action list \<Rightarrow> gitops_drift_item list" where
  "collectSourceDrift db app source availableActions =
     (if app_target_mode app = Inline_blueprint then []
      else
        (let item = (\<lambda>expected observed freshness reason.
               \<lparr>dr_class = Dc_source, dr_expected = expected, dr_observed = observed,
                dr_freshnessAt = freshness, dr_owner = ''GitSourceService'', dr_reason = reason,
                dr_configuredPolicy = configuredGitSourcePolicy db app,
                dr_affectedTargets =
                  [(None, nullish_opt (app_stack_name app) (app_configured_source_stack_name app))],
                dr_action = (if Act_fetch \<in> set availableActions then Act_fetch else Act_none)\<rparr>)
         in case source_facet_status source of
              Some Sst_source_reconcile_required \<Rightarrow>
                (if truthy_str (app_desired_commit_sha app) \<and> truthy_str (app_accepted_generation_id app)
                 then
                   (case getGeneration db (the (app_accepted_generation_id app)) of
                      None \<Rightarrow> []
                    | Some accepted \<Rightarrow>
                        (if gen_application_id accepted = app_id app
                            \<and> Some (gen_commit_sha accepted) \<noteq> app_desired_commit_sha app
                         then [item (commitRef app (app_desired_commit_sha app) None)
                                (commitRef app (Some (gen_commit_sha accepted))
                                   (Some (gen_repo_url accepted, gen_configured_ref accepted)))
                                None
                                ''the accepted generation was built from a commit other than the one the configured ref names'']
                         else []))
                 else [])
            | Some (Sst_source_failed f) \<Rightarrow>
                (if sfl_failureStage f = Af_fetch \<or> sfl_failureStage f = Af_validation
                 then [item (commitRef app (app_desired_commit_sha app) None)
                        (if truthy_str (app_fetched_commit_sha app)
                         then commitRef app (app_fetched_commit_sha app) None else Id_unknown)
                        (Some (NInt (sfl_failureAt f)))
                        ''the last fetch or validation failed, so the configured ref content is not established'']
                 else [])
            | _ \<Rightarrow> []))"

section \<open>Placement\<close>

definition placement_item ::
    "gitops_intent_revision_row \<Rightarrow> configured_policy option \<Rightarrow> gitops_identity_ref \<Rightarrow> int \<Rightarrow> string
      \<Rightarrow> int option \<times> string option \<Rightarrow> gitops_drift_item" where
  "placement_item intent policy observed freshness reason affected =
     \<lparr>dr_class = Dc_placement, dr_expected = intentRef intent, dr_observed = observed,
      dr_freshnessAt = Some (NInt freshness), dr_owner = ''BlueprintReconciler'', dr_reason = reason,
      dr_configuredPolicy = policy, dr_affectedTargets = [affected], dr_action = Act_none\<rparr>"

text \<open>A target row no operation, interruption or recovery is moving.\<close>

definition target_at_rest :: "gitops_target_current_row \<Rightarrow> bool" where
  "target_at_rest target =
     (tgt_active_operation_stage target = None \<and> tgt_interruption_stage target = None
      \<and> \<not> recoveryInProgress (tgt_recovery_phase target))"

definition app_at_rest :: "gitops_application_row \<Rightarrow> bool" where
  "app_at_rest app =
     (app_active_operation_stage app = None \<and> app_interruption_stage app = None
      \<and> \<not> recoveryInProgress (app_recovery_phase app))"

definition optional_intent :: "gitops_db \<Rightarrow> string option \<Rightarrow> gitops_intent_revision_row option" where
  "optional_intent db i = (if truthy_str i then getIntentRevision db (the i) else None)"

definition stale_approval_drift ::
    "gitops_db \<Rightarrow> gitops_application_row \<Rightarrow> gitops_intent_revision_row \<Rightarrow> configured_policy option \<Rightarrow> int list
      \<Rightarrow> gitops_drift_item list" where
  "stale_approval_drift db app intent policy requiredNodeIds =
     (if \<not> truthy_str (app_placement_approval_ref app) then []
      else
        (case getApproval db (the (app_placement_approval_ref app)) of
           None \<Rightarrow> []
         | Some approval \<Rightarrow>
             (if resolveApprovalRef db (the (app_placement_approval_ref app))
                   (Expect_placement_approval (app_id app) (intent_id intent) requiredNodeIds) \<noteq> None
              then []
              else [placement_item intent policy (optional_intentRef (optional_intent db (apv_intent_revision_id approval)))
                     (apv_created_at approval)
                     ''the recorded placement approval no longer binds the current intent and target set''
                     (None, Some (intent_deploy_stack_name intent))])))"

definition extra_target_drift ::
    "gitops_db \<Rightarrow> gitops_application_row \<Rightarrow> gitops_intent_revision_row \<Rightarrow> configured_policy option \<Rightarrow> int list
      \<Rightarrow> gitops_target_current_row list \<Rightarrow> gitops_drift_item list" where
  "extra_target_drift db app intent policy requiredNodeIds rawTargets =
     map (\<lambda>target. placement_item intent policy
            (optional_intentRef (optional_intent db (tgt_intent_revision_id target)))
            (tgt_updated_at target)
            ''the node holds placement authority outside the current required target set''
            (Some (tgt_node_id target), targetStackName db app (Some intent) target))
       (filter (\<lambda>target. tgt_target_status target = Ts_active \<and> tgt_applied_generation_id target \<noteq> None
           \<and> tgt_node_id target \<notin> set requiredNodeIds \<and> target_at_rest target) rawTargets)"

definition rollout_converged :: "rollout_facet \<Rightarrow> bool" where
  "rollout_converged rollout =
     (case rollout of
        Rlo_exactly_converged_healthy _ \<Rightarrow> True
      | Rlo_configuration_converged_artifact_qualified _ \<Rightarrow> True
      | _ \<Rightarrow> False)"

definition collectPlacementDrift ::
    "projection_env \<Rightarrow> gitops_db \<Rightarrow> gitops_application_row \<Rightarrow> gitops_target_current_row list \<Rightarrow> placement_facet
      \<Rightarrow> rollout_facet \<Rightarrow> gitops_drift_item list \<times> gitops_limitation list" where
  "collectPlacementDrift env db app rawTargets placement rollout =
     (if app_target_mode app \<noteq> Blueprint \<or> placement \<noteq> Plc_blueprint_bound \<or> \<not> app_at_rest app then ([], [])
      else
        (case optional_intent db (app_intent_revision_id app) of
           None \<Rightarrow> ([], [])
         | Some intent \<Rightarrow>
             (if intent_application_id intent \<noteq> app_id app then ([], [])
              else
                (let policy = blueprintDriftPolicy env app intent
                 in case (if truthy_str (app_rollout_candidate_id app)
                          then getRolloutCandidate db (the (app_rollout_candidate_id app)) else None) of
                      None \<Rightarrow> ([], [])
                    | Some candidate \<Rightarrow>
                        (if cand_application_id candidate \<noteq> app_id app
                           \<or> Some (cand_intent_revision_id candidate) \<noteq> app_intent_revision_id app
                         then ([], [])
                         else
                           (case decodeGitOpsRequiredTargetsJson (cand_required_targets_json candidate) of
                              Inl _ \<Rightarrow>
                                ([], [limitation ''placement_required_targets_invalid''
                                        ''rollout candidate required targets json is invalid''
                                        (Le_raw (cand_required_targets_json candidate))])
                            | Inr requiredNodeIds \<Rightarrow>
                                (stale_approval_drift db app intent policy requiredNodeIds
                                 @ (if rollout_converged rollout
                                    then extra_target_drift db app intent policy requiredNodeIds rawTargets
                                    else []), [])))))))"

section \<open>Managed project\<close>

definition manifest_unusable :: "stack_git_source \<Rightarrow> bool" where
  "manifest_unusable source =
     (src_manifest_state source \<in> {Some ''absent'', Some ''migration_required'', Some ''unsupported''})"

definition managed_project_item ::
    "gitops_application_row \<Rightarrow> string \<Rightarrow> stack_git_source \<Rightarrow> gitops_generation_row \<Rightarrow> gitops_drift_item list" where
  "managed_project_item app stackName source generation =
     (let versionMismatch = (src_manifest_version source \<noteq> None
            \<and> src_manifest_version source \<noteq> Some (gen_manifest_version generation));
          generationMismatch = (src_manifest_generation source \<noteq> None
            \<and> src_manifest_generation source \<noteq> Some (gen_applied_dir generation));
          commitMismatch = (src_last_applied_commit_sha source \<noteq> None
            \<and> src_last_applied_commit_sha source \<noteq> Some (gen_commit_sha generation))
      in if \<not> manifest_unusable source \<and> \<not> versionMismatch \<and> \<not> generationMismatch \<and> \<not> commitMismatch then []
         else [\<lparr>dr_class = Dc_managed_project, dr_expected = Id_generation (gen_id generation),
                 dr_observed = (if commitMismatch
                    then commitRef app (src_last_applied_commit_sha source) None else Id_unknown),
                 dr_freshnessAt = Some (NInt (src_updated_at source)),
                 dr_owner = ''GitProjectManifestService'',
                 dr_reason =
                   (if manifest_unusable source
                    then ''the applied managed project has no usable manifest (state ''
                           @ nullish (src_manifest_state source) ''null'' @ '')''
                    else if commitMismatch
                    then ''the applied managed project belongs to a commit other than the accepted generation''
                    else ''the applied managed project does not match the manifest of the accepted generation''),
                 dr_configuredPolicy = None,
                 dr_affectedTargets = [(None, Some stackName)],
                 dr_action = Act_none\<rparr>])"

definition collectManagedProjectDrift ::
    "gitops_db \<Rightarrow> gitops_application_row \<Rightarrow> gitops_target_current_row list \<Rightarrow> gitops_drift_item list" where
  "collectManagedProjectDrift db app rawTargets =
     (let stackName = nullish_opt (app_stack_name app) (app_configured_source_stack_name app)
      in if app_target_mode app = Blueprint then []
         else if \<not> truthy_str (app_accepted_generation_id app) then []
         else if \<not> app_at_rest app then []
         else if \<not> truthy_str stackName then []
         else
           (case (getStackGitSource db (the stackName), getGeneration db (the (app_accepted_generation_id app))) of
              (Some source, Some generation) \<Rightarrow>
                (if gen_application_id generation \<noteq> app_id app then []
                 else if gen_manifest_version generation \<le> 0 then []
                 else if \<not> list_all (\<lambda>t. tgt_applied_generation_id t = Some (gen_id generation) \<and> target_at_rest t)
                        (filter (\<lambda>t. tgt_target_status t \<noteq> Ts_tombstoned) rawTargets) then []
                 else managed_project_item app (the stackName) source generation)
            | _ \<Rightarrow> []))"

section \<open>Health\<close>

definition health_drift_item ::
    "gitops_db \<Rightarrow> gitops_application_row \<Rightarrow> gitops_intent_revision_row option \<Rightarrow> gitops_target_current_row
      \<Rightarrow> gitops_drift_item list" where
  "health_drift_item db app intent target =
     (let running = runningGenerationForTarget app (Some target);
          stackName = targetStackName db app intent target
      in if tgt_target_status target \<noteq> Ts_active \<or> \<not> truthy_str running \<or> \<not> target_at_rest target
            \<or> \<not> truthy_str stackName then []
         else
           (case getLatestStackHealthRun db (tgt_node_id target) (the stackName) of
              None \<Rightarrow> []
            | Some run \<Rightarrow>
                (if run_status run \<noteq> Hr_failed \<or> run_deployed_generation_id run \<noteq> running then []
                 else [\<lparr>dr_class = Dc_health, dr_expected = Id_generation (the running),
                         dr_observed = Id_health_run (run_id run) (run_deployed_generation_id run),
                         dr_freshnessAt = Some (NInt (nullish (run_ended_at run) (run_started_at run))),
                         dr_owner = ''HealthGateService'',
                         dr_reason = ''the stack-scoped health run for the running generation failed'',
                         dr_configuredPolicy = frozenPolicyForTarget db app target,
                         dr_affectedTargets = [(Some (tgt_node_id target), stackName)],
                         dr_action = Act_none\<rparr>])))"

definition collectHealthDrift ::
    "gitops_db \<Rightarrow> gitops_application_row \<Rightarrow> gitops_target_current_row list \<Rightarrow> bool \<Rightarrow> gitops_drift_item list" where
  "collectHealthDrift db app rawTargets healthDisabled =
     (if healthDisabled then []
      else if \<not> app_at_rest app then []
      else concat (map (health_drift_item db app (optional_intent db (app_intent_revision_id app))) rawTargets))"

section \<open>Invocation\<close>

datatype (plugins only: code) observed_invocation_read = Oir_missing | Oir_invalid | Oir_ok observed_invocation_identity

definition decodeObservedInvocationSafe ::
    "raw_json option \<Rightarrow> observed_invocation_read \<times> gitops_limitation list" where
  "decodeObservedInvocationSafe raw =
     (case raw of
        None \<Rightarrow> (Oir_missing, [])
      | Some _ \<Rightarrow>
          (case decodeObservedInvocation raw of
             Inr (Some observation) \<Rightarrow> (Oir_ok observation, [])
           | Inr None \<Rightarrow> (Oir_missing, [])
           | Inl err \<Rightarrow>
               (Oir_invalid, [limitation ''invocation_observed_invalid'' (js_error_message err) (raw_evidence raw)])))"

definition targetStackDirectory :: "projection_env \<Rightarrow> int \<Rightarrow> string \<Rightarrow> string list" where
  "targetStackDirectory env nodeId stackName = walk (env_compose_dir env nodeId) (path_segments stackName)"

definition not_comparable_text :: "invocation_not_comparable_reason \<Rightarrow> string" where
  "not_comparable_text r =
     (case r of
        Nc_authored_invocation_unreadable \<Rightarrow> ''authored_invocation_unreadable''
      | Nc_authored_path_outside_stack \<Rightarrow> ''authored_path_outside_stack''
      | Nc_observed_path_outside_stack \<Rightarrow> ''observed_path_outside_stack'')"

definition invocation_drift_item ::
    "projection_env \<Rightarrow> gitops_db \<Rightarrow> gitops_application_row \<Rightarrow> gitops_generation_row \<Rightarrow> string
      \<Rightarrow> (int \<Rightarrow> gitops_target_projection option) \<Rightarrow> gitops_target_current_row
      \<Rightarrow> gitops_drift_item list \<times> gitops_limitation list" where
  "invocation_drift_item env db app generation stackName projections target =
     (if tgt_target_status target \<noteq> Ts_active
         \<or> tgt_applied_generation_id target \<noteq> Some (gen_id generation) \<or> \<not> target_at_rest target then ([], [])
      else
        (case decodeObservedInvocationSafe (tgt_observed_invocation_json target) of
           (Oir_invalid, lims) \<Rightarrow> ([], lims)
         | (Oir_missing, lims) \<Rightarrow>
             ([], lims @ [limitation ''invocation_observation_missing''
                            ''no compose invocation has been observed for this target''
                            (Le_node (tgt_node_id target) (Some stackName))])
         | (Oir_ok observed, lims) \<Rightarrow>
             (case canonicalizeAuthoredInvocation (gen_expected_invocation_json generation)
                     (app_compose_paths_json app) stackName
                     (targetStackDirectory env (tgt_node_id target) stackName) of
                Inl reason \<Rightarrow>
                  ([], lims @ [limitation ''invocation_expected_invalid''
                        (''the accepted generation'' @ [CHR 0x27] @ ''s compose invocation cannot be compared ('' @ not_comparable_text reason @ '')'')
                        (Le_node (tgt_node_id target) (Some (gen_id generation)))])
              | Inr authored \<Rightarrow>
                  (case compareInvocations authored observed of
                     Inv_equal \<Rightarrow> ([], lims)
                   | Inv_different expected seen \<Rightarrow>
                       ([\<lparr>dr_class = Dc_invocation, dr_expected = Id_invocation expected,
                           dr_observed = Id_observed_invocation seen (oinv_observedAt observed),
                           dr_freshnessAt = Some (oinv_observedAt observed),
                           dr_owner = ''ComposeService'',
                           dr_reason = ''the compose invocation on this node is not the one this generation was applied with'',
                           dr_configuredPolicy = configuredGitSourcePolicy db app,
                           dr_affectedTargets = [(Some (tgt_node_id target), Some stackName)],
                           dr_action = (case projections (tgt_node_id target) of
                              None \<Rightarrow> Act_none
                            | Some p \<Rightarrow> (if targetDeployLegal app p then Act_deploy else Act_none))\<rparr>], lims)))))"

definition collectInvocationDrift ::
    "projection_env \<Rightarrow> gitops_db \<Rightarrow> gitops_application_row \<Rightarrow> gitops_target_current_row list
      \<Rightarrow> (int \<Rightarrow> gitops_target_projection option) \<Rightarrow> gitops_drift_item list \<times> gitops_limitation list" where
  "collectInvocationDrift env db app rawTargets projections =
     (if app_target_mode app \<noteq> Direct \<or> \<not> truthy_str (app_accepted_generation_id app) \<or> \<not> app_at_rest app
         \<or> \<not> truthy_str (app_stack_name app) then ([], [])
      else
        (case getGeneration db (the (app_accepted_generation_id app)) of
           None \<Rightarrow> ([], [])
         | Some generation \<Rightarrow>
             (if gen_application_id generation \<noteq> app_id app then ([], [])
              else
                (let parts = map (invocation_drift_item env db app generation (the (app_stack_name app)) projections) rawTargets
                 in (concat (map fst parts), concat (map snd parts))))))"

section \<open>All classes\<close>

definition collectDrift ::
    "projection_env \<Rightarrow> gitops_db \<Rightarrow> gitops_application_row \<Rightarrow> gitops_target_current_row list
      \<Rightarrow> gitops_target_projection list \<Rightarrow> gitops_available_action list \<Rightarrow> bool \<Rightarrow> source_facet \<Rightarrow> placement_facet
      \<Rightarrow> rollout_facet \<Rightarrow> gitops_drift_item list \<times> gitops_limitation list" where
  "collectDrift env db app rawTargets targets availableActions healthDisabled source placement rollout =
     (let (placementItems, l1) = collectPlacementDrift env db app rawTargets placement rollout;
          (invocationItems, l2) = collectInvocationDrift env db app rawTargets (projectionByNodeId targets)
      in (collectRuntimeDrift env db app targets (rawByNodeId rawTargets)
          @ collectSourceDrift db app source availableActions
          @ placementItems
          @ collectManagedProjectDrift db app rawTargets
          @ collectHealthDrift db app rawTargets healthDisabled
          @ invocationItems, l1 @ l2))"

end
