(* ===== verification/Revision.thy ===== *)
theory Revision
  imports Projection_Drift
begin

text \<open>
  The whole projection of an application (\<^verbatim>\<open>deriveGitOpsRevision\<close> in \<^verbatim>\<open>backend/src/services/gitops/derive.ts\<close>), with the
  authority policy reads it carries (\<^verbatim>\<open>gitops/authorityPolicyProjection.ts\<close>) and the attention reasons the
  portfolio computes from it (\<^verbatim>\<open>gitops/attention.ts\<close>).
\<close>

section \<open>Authority policies\<close>

datatype (plugins only: code) authority_policy_decision =
  Apd_policy_authorized | Apd_operator_authorized | Apd_awaiting_operator | Apd_policy_declined
  | Apd_not_applicable

record authority_policy_read =
  apr_domain :: policy_domain
  apr_configured :: string
  apr_effectiveFrozen :: "string option"
  apr_decision :: authority_policy_decision
  apr_reason :: "placement_policy_reason option"
  apr_decidedBy :: "approval_authority option"
  apr_decidedAt :: "int option"

definition frozenSnapshotFor :: "gitops_db \<Rightarrow> gitops_application_row \<Rightarrow> policy_snapshot option" where
  "frozenSnapshotFor db app =
     (if \<not> truthy_str (app_rollout_generation_id app) then None
      else
        (case getRolloutGeneration db (the (app_rollout_generation_id app)) of
           None \<Rightarrow> None
         | Some generation \<Rightarrow>
             (if rgen_application_id generation \<noteq> app_id app then None
              else if rgen_policy_snapshot_json generation = None then None
              else
                (case decodePolicySnapshot (rgen_policy_snapshot_json generation) of
                   Inr snapshot \<Rightarrow> Some snapshot
                 | Inl _ \<Rightarrow> None))))"

definition frozenValue :: "policy_snapshot option \<Rightarrow> policy_domain \<Rightarrow> string option" where
  "frozenValue snapshot domain =
     map_option (\<lambda>s. case domain of
        Dom_source \<Rightarrow> source_policy_text (snap_source s)
      | Dom_placement \<Rightarrow> placement_policy_text (snap_placement s)
      | Dom_rollout_authorization \<Rightarrow> rollout_policy_text (snap_rolloutAuthorization s)) snapshot"

definition configured_value :: "gitops_application_row \<Rightarrow> policy_domain \<Rightarrow> string" where
  "configured_value app domain =
     (case domain of
        Dom_source \<Rightarrow> source_policy_text (app_source_policy app)
      | Dom_placement \<Rightarrow> placement_policy_text (app_placement_policy app)
      | Dom_rollout_authorization \<Rightarrow> rollout_policy_text (app_rollout_authorization_policy app))"

text \<open>The approval row a domain acts through, when its kind is the domain's own.\<close>

definition domain_approval ::
    "gitops_db \<Rightarrow> string option \<Rightarrow> approval_kind \<Rightarrow> gitops_approval_row option" where
  "domain_approval db ref kind =
     (case (if truthy_str ref then getApproval db (the ref) else None) of
        None \<Rightarrow> None
      | Some approval \<Rightarrow> (if apv_kind approval = kind then Some approval else None))"

definition readFor ::
    "gitops_db \<Rightarrow> gitops_application_row \<Rightarrow> policy_domain \<Rightarrow> placement_facet \<Rightarrow> authority_policy_read" where
  "readFor db app domain placement =
     (let read = (\<lambda>decision reason decidedBy decidedAt.
            \<lparr>apr_domain = domain, apr_configured = configured_value app domain,
             apr_effectiveFrozen = frozenValue (frozenSnapshotFor db app) domain,
             apr_decision = decision, apr_reason = reason, apr_decidedBy = decidedBy,
             apr_decidedAt = decidedAt\<rparr>);
          decided = (\<lambda>approval.
            if apv_authority approval = Au_configured_policy
            then read Apd_policy_authorized None (Some Au_configured_policy) (Some (apv_created_at approval))
            else read Apd_operator_authorized None (Some Au_operator) (Some (apv_created_at approval)));
          approval = (case domain of
             Dom_placement \<Rightarrow> domain_approval db (app_placement_approval_ref app) Ak_placement_approval
           | Dom_rollout_authorization \<Rightarrow> domain_approval db (app_rollout_authorization_ref app) Ak_rollout_authorization
           | Dom_source \<Rightarrow> domain_approval db (app_source_acceptance_ref app) Ak_source_acceptance);
          reviewOpen = (placement = Plc_placement_review_pending \<or> placement = Plc_stateful_confirmation_required)
      in case approval of
           Some a \<Rightarrow> decided a
         | None \<Rightarrow>
             (if domain = Dom_placement \<and> reviewOpen
              then
                (case app_placement_policy_refusal_reason app of
                   Some reason \<Rightarrow> read Apd_policy_declined (Some reason) None (app_placement_policy_refused_at app)
                 | None \<Rightarrow> read Apd_awaiting_operator None None None)
              else read Apd_awaiting_operator None None None))"

definition authorityPolicyReads ::
    "gitops_db \<Rightarrow> gitops_application_row \<Rightarrow> placement_facet \<Rightarrow> authority_policy_read list" where
  "authorityPolicyReads db app placement =
     map (\<lambda>domain. readFor db app domain placement) [Dom_source, Dom_placement, Dom_rollout_authorization]"

section \<open>The projection\<close>

record gitops_revision =
  rev_targetMode :: target_mode
  rev_applicationId :: string
  rev_lifecycleStatus :: lifecycle_status
  rev_stackName :: "string option"
  rev_configuredSourceStackName :: "string option"
  rev_blueprintId :: "int option"
  rev_rolloutGenerationId :: "string option"
  rev_approvals :: gitops_approval_refs
  rev_approvedRolloutScope :: approved_rollout_scope
  rev_source :: source_facet
  rev_artifact :: artifact_facet
  rev_placement :: placement_facet
  rev_rollout :: rollout_facet
  rev_targets :: "gitops_target_projection list"
  rev_drift :: "gitops_drift_item list"
  rev_limitations :: "gitops_limitation list"
  rev_availableActions :: "gitops_available_action list"
  rev_authorityPolicies :: "authority_policy_read list"

text \<open>\<^verbatim>\<open>NOT_APPLICABLE_REVISION\<close> is \<open>None\<close>.\<close>

definition deriveGitOpsRevision ::
    "projection_env \<Rightarrow> gitops_db \<Rightarrow> gitops_application_row option \<Rightarrow> gitops_target_current_row list \<Rightarrow> bool
      \<Rightarrow> future_gitops_evidence option \<Rightarrow> gitops_revision option res" where
  "deriveGitOpsRevision env db application factTargets healthDisabled futureEvidence =
     (case application of
        None \<Rightarrow> Inr None
      | Some app \<Rightarrow>
          (let persisted = mergePersistedLimitations (app_evidence_limitations_json app);
               (source, l1) = deriveSource db app;
               (artifact, l2) = deriveArtifact env db app (app_accepted_generation_id app)
                  (app_artifact_set_id app) (app_latest_artifact_set_id app);
               confirmationExpected = blueprintConfirmsOutcome env db app healthDisabled;
               acceptedIntent = optional_intent db (app_intent_revision_id app)
           in bind_res (map_res (\<lambda>target. deriveTarget env db app acceptedIntent target healthDisabled
                  confirmationExpected) (js_sort (num_cmp tgt_node_id) factTargets)) (\<lambda>derived.
              let targets = map fst derived
              in bind_res (derivePlacement env db app futureEvidence targets) (\<lambda>placement.
                 let rollout = deriveRollout env db app targets artifact healthDisabled futureEvidence;
                     availableActions = deriveActions env db app source placement targets factTargets healthDisabled;
                     (drift, l3) = collectDrift env db app factTargets targets availableActions healthDisabled
                        source placement rollout
                 in Inr (Some
                   \<lparr>rev_targetMode = app_target_mode app, rev_applicationId = app_id app,
                    rev_lifecycleStatus = app_lifecycle_status app, rev_stackName = app_stack_name app,
                    rev_configuredSourceStackName =
                      nullish_opt (app_configured_source_stack_name app) (app_stack_name app),
                    rev_blueprintId = app_blueprint_id app,
                    rev_rolloutGenerationId = app_rollout_generation_id app,
                    rev_approvals =
                      \<lparr>ref_sourceAcceptanceRef = app_source_acceptance_ref app,
                       ref_placementApprovalRef = app_placement_approval_ref app,
                       ref_rolloutAuthorizationRef = app_rollout_authorization_ref app,
                       ref_legacyCombinedApprovalRef = app_legacy_combined_approval_ref app\<rparr>,
                    rev_approvedRolloutScope = deriveApprovedRolloutScope db app,
                    rev_source = source, rev_artifact = artifact, rev_placement = placement,
                    rev_rollout = rollout, rev_targets = targets, rev_drift = drift,
                    rev_limitations = persisted @ l1 @ l2 @ concat (map snd derived) @ l3,
                    rev_availableActions = availableActions,
                    rev_authorityPolicies = authorityPolicyReads db app placement\<rparr>)))))"

section \<open>Projecting one application\<close>

text \<open>The not-applicable answer that carries why an expected application was absent, kept apart from the
  answer for a stack nothing was ever asked about. The evidence is the identifier the answer names.\<close>

datatype (plugins only: code) application_projection =
    Unreachable_application gitops_limitation
  | Projected_application "gitops_revision option"

definition missingApplicationRevision :: "string \<Rightarrow> application_projection" where
  "missingApplicationRevision applicationId =
     Unreachable_application (limitation ''application_row_missing''
       ''The application this projection was resolved from is no longer present.'' (Le_text applicationId))"

definition projectApplication ::
    "projection_env \<Rightarrow> gitops_db \<Rightarrow> string \<Rightarrow> bool \<Rightarrow> application_projection res" where
  "projectApplication env db applicationId healthDisabled =
     (case getApplication db applicationId of
        None \<Rightarrow> Inr (missingApplicationRevision applicationId)
      | Some application \<Rightarrow>
          bind_res (deriveGitOpsRevision env db (Some application) (listTargets db applicationId) healthDisabled None)
            (\<lambda>p. Inr (Projected_application p)))"

section \<open>Attention\<close>

datatype (plugins only: code) gitops_attention_reason =
  Atn_source_failed | Atn_source_unknown_outcome | Atn_source_review_pending
  | Atn_source_conflict_blocker | Atn_source_reconcile_required | Atn_source_retry_scheduled
  | Atn_source_suspended | Atn_deploy_failed | Atn_placement_review_pending
  | Atn_stateful_confirmation_required | Atn_stateful_withdrawal_blocked
  | Atn_rollout_authorization_pending | Atn_rollout_authorization_stale | Atn_preflight_blocked
  | Atn_rollout_paused | Atn_rollout_partial | Atn_rollout_completion_unknown
  | Atn_rollout_stale_acknowledgement | Atn_rollback_failed | Atn_target_stale
  | Atn_target_unreachable | Atn_recovery_required | Atn_recovery_failed | Atn_health_failed
  | Atn_artifact_unqualified | Atn_artifact_stale | Atn_artifact_identity_changed | Atn_drift
  | Atn_repair_held

text \<open>The reasons of failure tone; every other reason is pending.\<close>

definition ATTENTION_TONE_failure :: "gitops_attention_reason list" where
  "ATTENTION_TONE_failure =
     [Atn_source_failed, Atn_source_unknown_outcome, Atn_deploy_failed, Atn_rollout_partial,
      Atn_rollout_completion_unknown, Atn_rollback_failed, Atn_target_unreachable,
      Atn_recovery_failed, Atn_health_failed]"

definition currentDrift :: "gitops_revision \<Rightarrow> gitops_drift_item list" where
  "currentDrift projection =
     (let currentNodeIds = map tp_nodeId (filter (\<lambda>t. \<not> tp_tombstoned t) (rev_targets projection))
      in filter (\<lambda>item. dr_affectedTargets item = []
            \<or> (\<exists>(nodeId, _) \<in> set (dr_affectedTargets item).
                 case nodeId of None \<Rightarrow> True | Some n \<Rightarrow> n \<in> set currentNodeIds))
           (rev_drift projection))"

definition source_attention :: "source_facet \<Rightarrow> gitops_attention_reason list" where
  "source_attention source =
     (case source_facet_status source of
        Some (Sst_source_failed _) \<Rightarrow> [Atn_source_failed]
      | Some (Sst_source_unknown _) \<Rightarrow> [Atn_source_unknown_outcome]
      | Some (Sst_source_review_pending block) \<Rightarrow>
          [if block = Some Br_stateful_withdrawal then Atn_stateful_withdrawal_blocked
           else Atn_source_review_pending]
      | Some Sst_source_conflict_blocker \<Rightarrow> [Atn_source_conflict_blocker]
      | Some Sst_source_reconcile_required \<Rightarrow> [Atn_source_reconcile_required]
      | Some (Sst_source_retry_scheduled _ _) \<Rightarrow> [Atn_source_retry_scheduled]
      | Some (Sst_source_suspended _ _) \<Rightarrow> [Atn_source_suspended]
      | Some (Sst_recovery_required _ _) \<Rightarrow> [Atn_recovery_required]
      | Some (Sst_recovery_failed _ _ _ _) \<Rightarrow> [Atn_recovery_failed]
      | _ \<Rightarrow> [])"

definition placement_attention :: "placement_facet \<Rightarrow> gitops_attention_reason list" where
  "placement_attention placement =
     (case placement of
        Plc_placement_review_pending \<Rightarrow> [Atn_placement_review_pending]
      | Plc_stateful_confirmation_required \<Rightarrow> [Atn_stateful_confirmation_required]
      | Plc_rollout_authorization_pending _ \<Rightarrow> [Atn_rollout_authorization_pending]
      | Plc_rollout_authorization_stale _ _ \<Rightarrow> [Atn_rollout_authorization_stale]
      | Plc_preflight_blocked _ _ \<Rightarrow> [Atn_preflight_blocked]
      | _ \<Rightarrow> [])"

definition rollout_attention :: "rollout_facet \<Rightarrow> gitops_attention_reason list" where
  "rollout_attention rollout =
     (case rollout of
        Rlo_rollout_paused _ _ \<Rightarrow> [Atn_rollout_paused]
      | Rlo_partially_rolled_out _ \<Rightarrow> [Atn_rollout_partial]
      | Rlo_completion_unknown \<Rightarrow> [Atn_rollout_completion_unknown]
      | Rlo_rollback_partial_failed _ _ _ _ \<Rightarrow> [Atn_rollback_failed]
      | Rlo_recovery_required \<Rightarrow> [Atn_recovery_required]
      | _ \<Rightarrow> [])"

definition artifact_attention :: "artifact_facet \<Rightarrow> gitops_attention_reason list" where
  "artifact_attention artifact =
     (case artifact_facet_status artifact of
        Some Art_unresolved \<Rightarrow> [Atn_artifact_unqualified]
      | Some Art_unavailable \<Rightarrow> [Atn_artifact_unqualified]
      | Some Art_local_build_unverified \<Rightarrow> [Atn_artifact_unqualified]
      | Some Art_stale \<Rightarrow> [Atn_artifact_stale]
      | Some Art_identity_changed \<Rightarrow> [Atn_artifact_identity_changed]
      | _ \<Rightarrow> [])"

definition runtime_attention :: "runtime_facet \<Rightarrow> gitops_attention_reason list" where
  "runtime_attention runtime =
     (case runtime of
        Run_failed_after_mutation \<Rightarrow> [Atn_deploy_failed]
      | Run_failed_previous_workload_intact \<Rightarrow> [Atn_deploy_failed]
      | Run_completion_unknown _ \<Rightarrow> [Atn_rollout_completion_unknown]
      | Run_acknowledged_completion_unknown \<Rightarrow> [Atn_rollout_completion_unknown]
      | Run_stale_acknowledgement \<Rightarrow> [Atn_rollout_stale_acknowledgement]
      | Run_retry_scheduled \<Rightarrow> [Atn_source_retry_scheduled]
      | Run_pending_state_review \<Rightarrow> [Atn_stateful_confirmation_required]
      | Run_recovery_required \<Rightarrow> [Atn_recovery_required]
      | Run_recovery_failed _ _ _ _ \<Rightarrow> [Atn_recovery_failed]
      | Run_repair_held \<Rightarrow> [Atn_repair_held]
      | _ \<Rightarrow> [])"

definition target_attention :: "gitops_target_projection \<Rightarrow> gitops_attention_reason list" where
  "target_attention target =
     (if tp_connectivity target = Con_unreachable then [Atn_target_unreachable] else [])
     @ (if tp_connectivity target = Con_stale then [Atn_target_stale] else [])
     @ runtime_attention (tp_runtime target)
     @ (case tp_health target of
          Hlt_failed _ _ \<Rightarrow> (if tp_healthFailureSuperseded target then [] else [Atn_health_failed])
        | _ \<Rightarrow> [])"

text \<open>A set of codes in the order they were first added.\<close>

definition attentionReasons :: "gitops_revision option \<Rightarrow> gitops_attention_reason list" where
  "attentionReasons projection =
     (case projection of
        None \<Rightarrow> []
      | Some p \<Rightarrow>
          dedup
            (source_attention (rev_source p) @ placement_attention (rev_placement p)
             @ rollout_attention (rev_rollout p) @ artifact_attention (rev_artifact p)
             @ concat (map target_attention (filter (\<lambda>t. \<not> tp_tombstoned t) (rev_targets p)))
             @ (if currentDrift p \<noteq> [] then [Atn_drift] else [])))"

definition hasFailureReason :: "gitops_attention_reason list \<Rightarrow> bool" where
  "hasFailureReason reasons = list_ex (\<lambda>r. r \<in> set ATTENTION_TONE_failure) reasons"

end
