(* ===== verification/Runtime_Repair.thy ===== *)
theory Runtime_Repair
  imports Recovery_Claim
begin

text \<open>
  The identity a runtime drift repair may restore (\<^verbatim>\<open>gitops/runtimeRepairBinding.ts\<close>): the pair a target was
  acknowledged against, or the reason a repair is held.
\<close>

datatype (plugins only: code) runtime_repair_hold_reason =
  Rh_evidence_incomplete | Rh_rollout_superseded | Rh_not_a_required_target | Rh_authority_unreadable
  | Rh_binding_incoherent | Rh_target_evidence_stale | Rh_target_interrupted | Rh_recovery_bound
  | Rh_classification_forbids_repair

datatype (plugins only: code) runtime_repair_binding =
    Repair_binding string string "string option"
  | Repair_hold runtime_repair_hold_reason

definition recoveryOwnsTarget :: "gitops_target_current_row \<Rightarrow> bool" where
  "recoveryOwnsTarget target = targetRecoveryFailureMoved target"

text \<open>The arms about the state of the target, before any question of identity.\<close>

definition target_hold :: "gitops_target_current_row \<Rightarrow> runtime_repair_hold_reason option" where
  "target_hold target =
     (if tgt_connectivity target = Some ''unreachable'' \<or> tgt_connectivity target = Some ''stale''
      then Some Rh_target_evidence_stale
      else if tgt_interruption_stage target \<noteq> None then Some Rh_target_interrupted
      else if tgt_health_stop_reason target = Some Hs_rollback_pending
        \<or> tgt_partial_json target \<noteq> None
        \<or> tgt_lkg_unavailable_at target \<noteq> None
        \<or> recoveryOwnsTarget target
        \<or> tgt_pending_health_run_id target \<noteq> None
      then Some Rh_recovery_bound
      else None)"

text \<open>The rollout a Git-managed target is bound to must be live, require the node and freeze the same pair.\<close>

definition corroborated_binding ::
    "gitops_db \<Rightarrow> gitops_application_row \<Rightarrow> gitops_target_current_row \<Rightarrow> string \<Rightarrow> string \<Rightarrow> string
      \<Rightarrow> runtime_repair_binding" where
  "corroborated_binding db app target acceptedGenerationId artifactSetId rolloutGenerationId =
     (case getRolloutGeneration db rolloutGenerationId of
        None \<Rightarrow> Repair_hold Rh_authority_unreadable
      | Some rollout \<Rightarrow>
          (if rgen_application_id rollout \<noteq> app_id app then Repair_hold Rh_authority_unreadable
           else if rgen_superseded_at rollout \<noteq> None then Repair_hold Rh_rollout_superseded
           else
             (case decodeGitOpsRequiredTargetsJson (rgen_required_targets_json rollout) of
                Inl _ \<Rightarrow> Repair_hold Rh_authority_unreadable
              | Inr requiredNodeIds \<Rightarrow>
                  (if tgt_node_id target \<notin> set requiredNodeIds then Repair_hold Rh_not_a_required_target
                   else if rgen_accepted_generation_id rollout \<noteq> Some acceptedGenerationId
                     \<or> rgen_artifact_set_id rollout \<noteq> Some artifactSetId
                   then Repair_hold Rh_binding_incoherent
                   else Repair_binding acceptedGenerationId artifactSetId (Some (rgen_id rollout))))))"

definition resolveRuntimeRepairBinding ::
    "gitops_db \<Rightarrow> gitops_application_row \<Rightarrow> gitops_target_current_row option \<Rightarrow> runtime_repair_binding" where
  "resolveRuntimeRepairBinding db app target =
     (case target of
        None \<Rightarrow> Repair_hold Rh_evidence_incomplete
      | Some t \<Rightarrow>
          (case target_hold t of
             Some reason \<Rightarrow> Repair_hold reason
           | None \<Rightarrow>
               (if \<not> truthy_str (tgt_desired_generation_id t) \<or> \<not> truthy_str (tgt_expected_artifact_set_id t)
                then Repair_hold Rh_evidence_incomplete
                else
                  (let acceptedGenerationId = the (tgt_desired_generation_id t);
                       artifactSetId = the (tgt_expected_artifact_set_id t)
                   in case getGeneration db acceptedGenerationId of
                        None \<Rightarrow> Repair_hold Rh_authority_unreadable
                      | Some generation \<Rightarrow>
                          (if gen_application_id generation \<noteq> app_id app then Repair_hold Rh_authority_unreadable
                           else if getArtifactSet db artifactSetId = None then Repair_hold Rh_authority_unreadable
                           else if app_target_mode app \<noteq> Blueprint \<or> \<not> truthy_str (tgt_rollout_generation_id t)
                           then Repair_binding acceptedGenerationId artifactSetId None
                           else corroborated_binding db app t acceptedGenerationId artifactSetId
                                  (the (tgt_rollout_generation_id t)))))))"

definition describeRuntimeRepairHold :: "runtime_repair_hold_reason \<Rightarrow> string" where
  "describeRuntimeRepairHold reason =
     (case reason of
        Rh_evidence_incomplete \<Rightarrow> ''no acknowledged generation to restore''
      | Rh_rollout_superseded \<Rightarrow>
          ''the rollout for this target was superseded, so the rollout replacing it owns it''
      | Rh_not_a_required_target \<Rightarrow>
          ''this node is not in the frozen target set of the rollout it is bound to''
      | Rh_authority_unreadable \<Rightarrow>
          ''the generation or artifact set this target acknowledged could not be read''
      | Rh_binding_incoherent \<Rightarrow>
          ''the rollout and the target acknowledgements disagree, so neither can be trusted as current''
      | Rh_target_evidence_stale \<Rightarrow>
          ''this node is unreachable or its connectivity evidence is stale, so Sencho cannot write to it safely''
      | Rh_target_interrupted \<Rightarrow>
          ''an earlier change to this target was interrupted, so what is running is not known''
      | Rh_recovery_bound \<Rightarrow> ''a recovery or rollback owns this target, so an auto-fix would race it''
      | Rh_classification_forbids_repair \<Rightarrow>
          ''this Blueprint is stateful or cannot be classified, so auto-fix is declined to avoid touching data Sencho cannot prove is safe'')"

end
