(* ===== verification/Trace_Evaluation.thy ===== *)
theory Trace_Evaluation
  imports Rollout_Trace Audit_Laws Revision Runtime_Repair
begin

text \<open>
  The evaluation of the concrete runs: every trace the properties are instantiated at is evaluated once,
  together with the facts its states satisfy, and the facts are read off the result.
\<close>

section \<open>Traces\<close>

definition ex_applying :: "gitops_event list" where
  "ex_applying = ex_staged @ [Ev_applyStarted ''app'' ''g1'' (ex_env ''op2'')]"

definition ex_deploying :: "gitops_event list" where
  "ex_deploying = ex_applied @ [Ev_deployStarted ''app'' 1 ''g1'' (ex_env ''op3'')]"

definition ex_paused :: "gitops_event list" where
  "ex_paused = [Ev_binding (Ev_activateDirect ex_app 1 (ex_env ''op0'')),
     Ev_rolloutPaused ''app'' None ''hold'' (ex_env ''op1'') Po_operator]"

definition ex_fetches :: "gitops_event list" where
  "ex_fetches = [Ev_fetchStarted ''app'' (ex_env ''op1''), Ev_suspended ''app'' ''hold'' (ex_env ''op2''),
     Ev_fetchFailed ''app'' (ex_env ''op1'') None, Ev_unsuspended ''app'' (ex_env ''op3'')]"

definition ex_reviewed :: gitops_db where
  "ex_reviewed = empty_db\<lparr>db_applications := [ex_app\<lparr>app_candidate_generation_id := Some ''g1''\<rparr>],
     db_generations := [ex_gen]\<rparr>"

definition ex_late :: "gitops_event list" where
  "ex_late = [Ev_fetchStarted ''app'' (ex_env ''op5''), Ev_suspended ''app'' ''hold'' (ex_env ''op6''),
     Ev_unsuspended ''app'' (ex_env ''op7''), Ev_applyStarted ''app'' ''g1'' (ex_env ''op8'')]"

definition ex_verdict :: health_final_args where
  "ex_verdict = \<lparr>hz_applicationId = ''app'', hz_nodeId = 1, hz_healthRunId = ''run'', hz_healthStatus = Hv_passed,
     hz_deployedGenerationId = Some ''g1'', hz_targetScope = Hsc_stack, hz_rollout = None,
     hz_envelope = ex_env ''op4''\<rparr>"

definition ex_deployed_db :: gitops_db where
  "ex_deployed_db = empty_db\<lparr>db_applications := [ex_app],
     db_targets := [(emptyTargetRow ''app'' 1 0)\<lparr>tgt_deployed_generation_id := Some ''g1''\<rparr>]\<rparr>"

section \<open>Projections\<close>

definition ex_projection_env :: projection_env where
  "ex_projection_env = \<lparr>env_localeCompare = code_unit_cmp, env_sha256 = (\<lambda>_. replicate 64 (CHR ''0'')),
     env_blueprint_drift_mode = (\<lambda>_. None), env_default_node_id = 1, env_compose_dir = (\<lambda>_. [''srv'', ''stacks''])\<rparr>"

definition ex_expected_set :: artifact_expected_identity where
  "ex_expected_set = \<lparr>aei_artifactSetId = ''s9'', aei_evidenceVersion = 1, aei_qualification = Q_exact,
     aei_identity = Some ''id1'', aei_services = None\<rparr>"

definition ex_artifact :: artifact_facet where
  "ex_artifact = Artifact_facet Art_exact
     \<lparr>aff_artifactSetId = ''s9'', aff_generationId = ''g1'', aff_evidenceVersion = 1, aff_qualification = Q_exact,
      aff_freshnessAt = 0, aff_expected = Some ex_expected_set,
      aff_latestEvidence = \<lparr>ale_artifactSetId = ''s9'', ale_evidenceVersion = 1, ale_qualification = Q_exact,
        ale_identity = Some ''id1''\<rparr>\<rparr>"

text \<open>A target on node 1 that acknowledged the authorization of the rollout trace.\<close>

definition ex_converged_target :: gitops_target_projection where
  "ex_converged_target =
     \<lparr>tp_nodeId = 1, tp_stackName = None, tp_desiredGenerationId = Some ''g1'', tp_candidateGenerationId = None,
      tp_appliedGenerationId = Some ''g1'', tp_deployedGenerationId = None, tp_healthyGenerationId = Some ''g1'',
      tp_lkgGenerationId = None, tp_lkgArtifactSetId = None, tp_lkgUnavailableAt = None,
      tp_lkgUnavailableReason = None, tp_expectedArtifactSetId = Some ''s9'', tp_latestArtifactSetId = Some ''s9'',
      tp_artifact = ex_artifact, tp_observedArtifactIdentity = OA_exact ''id1'' (NInt 5) None,
      tp_intentRevisionId = Some ''rev1'', tp_rolloutCandidateId = Some ''cand1'',
      tp_rolloutGenerationId = Some ''roll2'',
      tp_approvals = \<lparr>ref_sourceAcceptanceRef = None, ref_placementApprovalRef = None,
        ref_rolloutAuthorizationRef = Some ''auth1'', ref_legacyCombinedApprovalRef = None\<rparr>,
      tp_connectivity = Con_reachable, tp_legacyAppliedRevision = None, tp_runtime = Run_synced_and_healthy,
      tp_health = Hlt_passed [] ''g1'', tp_healthFailureSuperseded = False,
      tp_healthGate = \<lparr>hgf_policy = None, hgf_configuredPolicy = Hp_observe, hgf_awaitingRunId = None, hgf_attempts = 0,
        hgf_stopReason = None, hgf_recoveryAvailable = False\<rparr>,
      tp_lkg = Lkg_none, tp_tombstoned = False\<rparr>"

text \<open>The rollout trace with its artifact set resolved and no preflight evaluation stored since.\<close>

definition resolved :: "gitops_db \<Rightarrow> gitops_db" where
  "resolved db = db\<lparr>db_artifact_sets := map (\<lambda>a. a\<lparr>art_qualification := Q_exact\<rparr>) (db_artifact_sets db),
     db_applications := map (\<lambda>a. a\<lparr>app_latest_preflight_evidence_json := None\<rparr>) (db_applications db)\<rparr>"

text \<open>A Direct target that runs another artifact than the one expected of it.\<close>

definition ex_drifting_target :: gitops_target_current_row where
  "ex_drifting_target = (emptyTargetRow ''app'' 1 0)\<lparr>tgt_desired_generation_id := Some ''g1'',
     tgt_applied_generation_id := Some ''g1'', tgt_deployed_generation_id := Some ''g1'',
     tgt_expected_artifact_set_id := Some ''s1'',
     tgt_observed_artifact_identity_json := Some (Parsed (JObj
       [(''kind'', JStr ''exact''), (''identity'', JStr ''id2''), (''observedAt'', JNum (NInt 5))]))\<rparr>"

definition ex_drifting :: gitops_db where
  "ex_drifting = empty_db\<lparr>db_applications := [ex_app], db_targets := [ex_drifting_target],
     db_artifact_sets := [\<lparr>art_id = ''s1'', art_generation_id = ''g1'', art_evidence_version = 1,
       art_authoritative = 1, art_qualification = Q_exact,
       art_evidence_json = Parsed (JObj [(''kind'', JStr ''exact''), (''identity'', JStr ''id1'')]),
       art_created_at = 0\<rparr>]\<rparr>"

section \<open>Facts of the states\<close>

definition on_app :: "gitops_db \<Rightarrow> (gitops_application_row \<Rightarrow> bool) \<Rightarrow> bool" where
  "on_app db P = (case getApplication db ''app'' of None \<Rightarrow> False | Some app \<Rightarrow> P app)"

definition after :: "gitops_event list \<Rightarrow> (gitops_db \<Rightarrow> bool) \<Rightarrow> gitops_db \<Rightarrow> bool" where
  "after evs P db = (case run_events ex_platform evs db of Inl _ \<Rightarrow> False | Inr db' \<Rightarrow> P db')"

definition restoring :: "gitops_db \<Rightarrow> gitops_db" where
  "restoring db = db\<lparr>db_applications :=
     map (\<lambda>a. a\<lparr>app_recovery_phase := Some Rp_restoring\<rparr>) (db_applications db)\<rparr>"

definition capture_of :: "gitops_db \<Rightarrow> gitops_recovery_capture" where
  "capture_of db = recoveryBindingForTarget db ex_app
     (map_option (\<lambda>t. t\<lparr>tgt_deployed_generation_id := Some ''g1''\<rparr>) (getTarget db ''app'' 1))"

definition deploying_facts :: "gitops_db \<Rightarrow> bool" where
  "deploying_facts db =
     (getApplication db ''app'' \<noteq> None
      \<and> (case getTarget db ''app'' 1 of None \<Rightarrow> False
         | Some t \<Rightarrow> \<not> targetRestoreInFlight t \<and> tgt_active_operation_id t = Some ''op3'')
      \<and> \<not> isl (deployBound ''app'' 1 ''g1'' (ex_env ''op3'') db))"

definition applied_facts :: "gitops_db \<Rightarrow> bool" where
  "applied_facts db =
     (on_app db (\<lambda>app. app_accepted_generation_id app = Some ''g1'' \<and> app_source_acceptance_ref app = Some ''acc1''
        \<and> app_active_operation_stage app = None \<and> app_target_mode app = Direct)
      \<and> getTarget db ''app'' 1 \<noteq> None \<and> getApproval db ''acc1'' \<noteq> None
      \<and> \<not> isl (fetchStarted ''app'' (ex_env ''op9'') db)
      \<and> cap_gitops_source_acceptance_ref (capture_of db) = Some ''acc1''
      \<and> on_app db (\<lambda>app. resolveRuntimeRepairBinding db app (getTarget db ''app'' 1) = Repair_binding ''g1'' ''s1'' None)
      \<and> after [Ev_deployStarted ''app'' 1 ''g1'' (ex_env ''op3'')] deploying_facts db)"

definition restoring_facts :: "gitops_db \<Rightarrow> bool" where
  "restoring_facts db =
     (\<not> isl (sourceSuspended ''app'' ''paused'' (ex_env ''op9'') db)
      \<and> on_app db (\<lambda>a. app_active_operation_stage a = Some Ast_apply_started \<and> app_recovery_phase a = Some Rp_restoring))"

definition applying_facts :: "gitops_db \<Rightarrow> bool" where
  "applying_facts db =
     (on_app db (\<lambda>app. app_active_operation_stage app = Some Ast_apply_started)
      \<and> \<not> isl (sourceSuspended ''app'' ''paused'' (ex_env ''op9'') db)
      \<and> restoring_facts (restoring db)
      \<and> after [Ev_applied ex_args] applied_facts db)"

definition staged_facts :: "gitops_db \<Rightarrow> bool" where
  "staged_facts db =
     (\<not> isl (dismissed ''app'' (ex_env ''op9'') db) \<and> \<not> isl (applyStarted ''app'' ''g1'' (ex_env ''op2'') db)
      \<and> after [Ev_applyStarted ''app'' ''g1'' (ex_env ''op2'')] applying_facts db)"

definition settled_facts :: "gitops_db \<Rightarrow> bool" where
  "settled_facts db =
     on_app db (\<lambda>app. app_target_mode app = Blueprint \<and> authorizationIngredients db app \<noteq> None
        \<and> derivePlacementAuthority ex_projection_env db app None = Inr Plc_blueprint_bound
        \<and> deriveRollout ex_projection_env db app [ex_converged_target] ex_artifact False None
            = Rlo_exactly_converged_healthy ''roll2'')"

definition drift_facts :: "gitops_db \<Rightarrow> bool" where
  "drift_facts db =
     (case deriveGitOpsRevision ex_projection_env db (Some ex_app) [ex_drifting_target] False None of
        Inr (Some p) \<Rightarrow> list_ex (\<lambda>t. tp_nodeId t = 1 \<and> tp_runtime t = Run_runtime_artifact_drift) (rev_targets p)
      | _ \<Rightarrow> False)"

definition authorized_facts :: "gitops_db \<Rightarrow> bool" where
  "authorized_facts db =
     (settled_facts (resolved db) \<and> on_app db (\<lambda>app. app_target_mode app = Blueprint \<and> app_lifecycle_status app = Lc_active
        \<and> app_blueprint_id app = Some 7 \<and> app_rollout_authorization_ref app = Some ''auth1''
        \<and> app_placement_approval_ref app = Some ''place1'' \<and> app_rollout_generation_id app = Some ''roll2''
        \<and> canonicalRepoKeyFromUrl plain_url (nullish (app_configured_repo_url app) []) = Some ''git.example/org/app''))"

definition late_facts :: "gitops_db \<Rightarrow> bool" where
  "late_facts db =
     on_app db (\<lambda>app. app_active_operation_stage app = Some Ast_apply_started
        \<and> app_interruption_stage app = Some Ast_fetch_started
        \<and> app_interruption_operation_id app = Some ''op5'')"

definition verdict_facts :: "gitops_db \<Rightarrow> bool" where
  "verdict_facts db =
     (\<not> isl (healthFinalized ex_verdict db) \<and> getApplication db ''app'' \<noteq> None \<and> getTarget db ''app'' 1 \<noteq> None)"

definition direct_trace_facts :: bool where
  "direct_trace_facts =
     (after ex_staged staged_facts empty_db
      \<and> after ex_paused (\<lambda>db. list_ex announced (db_history db)) empty_db
      \<and> after ex_fetches (\<lambda>_. True) (empty_db\<lparr>db_applications := [ex_app]\<rparr>)
      \<and> after ex_late late_facts ex_reviewed
      \<and> verdict_facts ex_deployed_db)"

definition rollout_trace_facts :: bool where
  "rollout_trace_facts = (after ex_authorized authorized_facts empty_db \<and> drift_facts ex_drifting)"

lemma direct_traces_evaluated: direct_trace_facts
  by code_simp

lemma rollout_traces_evaluated: rollout_trace_facts
  by code_simp

section \<open>Reading the facts\<close>

lemma run_events_append:
  "run_events P (evs @ evs') db = bind_res (run_events P evs db) (run_events P evs')"
  by (induction evs arbitrary: db) (auto simp: bind_res_def split: sum.splits)

lemma after_ex_db: "after evs P empty_db \<longleftrightarrow> run_events ex_platform evs empty_db = Inr (ex_db evs) \<and> P (ex_db evs)"
  by (auto simp: after_def ex_db_def split: sum.splits)

lemma after_append: "after evs (\<lambda>db. after evs' P db) db \<longleftrightarrow> after (evs @ evs') P db"
  by (auto simp: after_def run_events_append bind_res_def split: sum.splits)

text \<open>A fact of a continued run, from the state the run is continued from.\<close>

lemma after_step:
  assumes "run_events ex_platform evs empty_db = Inr (ex_db evs)" and "after evs' P (ex_db evs)"
  shows "run_events ex_platform (evs @ evs') empty_db = Inr (ex_db (evs @ evs'))" and "P (ex_db (evs @ evs'))"
proof -
  have "after (evs @ evs') P empty_db"
    using assms after_append [of evs evs' P empty_db] by (simp add: after_def [of evs])
  then show "run_events ex_platform (evs @ evs') empty_db = Inr (ex_db (evs @ evs'))" "P (ex_db (evs @ evs'))"
    by (simp_all add: after_ex_db)
qed

lemma on_appE:
  assumes "on_app db P"
  obtains app where "getApplication db ''app'' = Some app" and "P app"
  using assms by (auto simp: on_app_def split: option.splits)

lemma ex_staged_run:
  "run_events ex_platform ex_staged empty_db = Inr (ex_db ex_staged)" "staged_facts (ex_db ex_staged)"
  using direct_traces_evaluated by (simp_all add: direct_trace_facts_def after_ex_db)

lemma ex_applying_run:
  "run_events ex_platform ex_applying empty_db = Inr (ex_db ex_applying)" "applying_facts (ex_db ex_applying)"
  using after_step [OF ex_staged_run(1)] ex_staged_run(2) unfolding ex_applying_def staged_facts_def by blast+

lemma ex_applied_run:
  "run_events ex_platform ex_applied empty_db = Inr (ex_db ex_applied)" "applied_facts (ex_db ex_applied)"
proof -
  have eq: "ex_applied = ex_applying @ [Ev_applied ex_args]" by (simp add: ex_applied_def ex_applying_def)
  show "run_events ex_platform ex_applied empty_db = Inr (ex_db ex_applied)" "applied_facts (ex_db ex_applied)"
    using after_step [OF ex_applying_run(1)] ex_applying_run(2) unfolding eq applying_facts_def by blast+
qed

lemma ex_deploying_run:
  "run_events ex_platform ex_deploying empty_db = Inr (ex_db ex_deploying)" "deploying_facts (ex_db ex_deploying)"
  using after_step [OF ex_applied_run(1)] ex_applied_run(2) unfolding ex_deploying_def applied_facts_def by blast+

lemma ex_paused_run: "after ex_paused (\<lambda>db. list_ex announced (db_history db)) empty_db"
  using direct_traces_evaluated by (simp add: direct_trace_facts_def)

lemma ex_fetches_run: "\<not> isl (run_events ex_platform ex_fetches (empty_db\<lparr>db_applications := [ex_app]\<rparr>))"
  using direct_traces_evaluated by (auto simp: direct_trace_facts_def after_def split: sum.splits)

lemma ex_late_run: "after ex_late late_facts ex_reviewed"
  using direct_traces_evaluated by (simp add: direct_trace_facts_def)

lemma ex_verdict_runs: "verdict_facts ex_deployed_db"
  using direct_traces_evaluated by (simp add: direct_trace_facts_def)

lemmas ex_admissible = ex_deploying_def ex_applied_def ex_applying_def ex_staged_def ex_app_def
  fresh_application_def admissible_def

lemma ex_traces_reachable:
  "reachable ex_platform (ex_db ex_staged)" "reachable ex_platform (ex_db ex_applying)"
  "reachable ex_platform (ex_db ex_applied)" "reachable ex_platform (ex_db ex_deploying)"
  unfolding reachable_def
  by (rule run_events_run [OF ex_staged_run(1)], simp add: ex_admissible)
    (rule run_events_run [OF ex_applying_run(1)], simp add: ex_admissible,
     rule run_events_run [OF ex_applied_run(1)], simp add: ex_admissible,
     rule run_events_run [OF ex_deploying_run(1)], simp add: ex_admissible)

lemmas ex_staged_reachable = ex_traces_reachable(1)
lemmas ex_applying_reachable = ex_traces_reachable(2)
lemmas ex_reachable = ex_traces_reachable(3)
lemmas ex_deploying_reachable = ex_traces_reachable(4)

definition ex_restoring :: gitops_db where
  "ex_restoring = restoring (ex_db ex_applying)"

lemma ex_steps_accepted:
  "\<not> isl (dismissed ''app'' (ex_env ''op9'') (ex_db ex_staged))"
  "\<not> isl (sourceSuspended ''app'' ''paused'' (ex_env ''op9'') (ex_db ex_applying))"
  "\<not> isl (sourceSuspended ''app'' ''paused'' (ex_env ''op9'') ex_restoring)"
  "\<not> isl (fetchStarted ''app'' (ex_env ''op9'') (ex_db ex_applied))"
  "\<not> isl (deployBound ''app'' 1 ''g1'' (ex_env ''op3'') (ex_db ex_deploying))"
  using ex_staged_run(2) ex_applying_run(2) ex_applied_run(2) ex_deploying_run(2)
  by (simp_all add: staged_facts_def applying_facts_def restoring_facts_def applied_facts_def
      deploying_facts_def ex_restoring_def)

lemma ex_settled_facts: "settled_facts (resolved (ex_db ex_authorized))"
  using rollout_traces_evaluated by (simp add: rollout_trace_facts_def after_ex_db authorized_facts_def)

lemma ex_drift_facts: "drift_facts ex_drifting"
  using rollout_traces_evaluated by (simp add: rollout_trace_facts_def)

lemma ex_authorized_facts: "authorized_facts (ex_db ex_authorized)"
  using rollout_traces_evaluated by (simp add: rollout_trace_facts_def after_ex_db)

lemma ex_authorized_row:
  "(case getApplication (ex_db ex_authorized) ''app'' of
      None \<Rightarrow> False
    | Some app \<Rightarrow> app_target_mode app = Blueprint \<and> app_lifecycle_status app = Lc_active
        \<and> app_blueprint_id app = Some 7 \<and> app_rollout_authorization_ref app = Some ''auth1''
        \<and> app_placement_approval_ref app = Some ''place1'' \<and> app_rollout_generation_id app = Some ''roll2''
        \<and> canonicalRepoKeyFromUrl plain_url (nullish (app_configured_repo_url app) []) = Some ''git.example/org/app'')"
  using ex_authorized_facts by (auto simp: authorized_facts_def on_app_def split: option.splits)

lemma ex_authorized_reachable: "reachable ex_platform (ex_db ex_authorized)"
  by (rule trace_reachable [of _ "''app''"]) (use ex_authorized_row in
      \<open>auto simp: ex_authorized_def ex_converted_def ex_bp_app_def ex_app_def fresh_application_def admissible_def
        split: option.splits\<close>)

end
