(* ===== verification/Lifecycle_Properties.thy ===== *)
theory Lifecycle_Properties
  imports Transition_Effects Trace_Evaluation
begin

text \<open>
  The properties of the state machine: what holds in every reachable database, what a single transition
  changes and leaves alone, and what a concrete run of it looks like.
\<close>

lemma ex_applied_row:
  "(case getApplication (ex_db ex_applied) ''app'' of
      None \<Rightarrow> False
    | Some app \<Rightarrow> app_accepted_generation_id app = Some ''g1'' \<and> app_source_acceptance_ref app = Some ''acc1''
        \<and> app_active_operation_stage app = None \<and> app_target_mode app = Direct)
   \<and> getTarget (ex_db ex_applied) ''app'' 1 \<noteq> None"
  using ex_applied_run(2) by (simp add: applied_facts_def on_app_def)

section \<open>Reachable databases\<close>



text \<open>C2. In every reachable database an apply in flight is bound to the application's current candidate,
  which is a validated generation of its own that no conflict blocks.\<close>

theorem apply_in_flight_is_bound:
  assumes "reachable P db" and "getApplication db i = Some app"
    and "app_active_operation_stage app = Some Ast_apply_started"
  shows "\<exists>g row. app_active_generation_id app = Some g \<and> app_candidate_generation_id app = Some g
     \<and> app_candidate_plan_blocked app \<noteq> 1 \<and> getGeneration db g = Some row
     \<and> gen_application_id row = i \<and> gen_validation_ok row = 1 \<and> gen_plan_blocked row = 0"
  using getApplication_ok [OF reachable_ok [OF assms(1)] assms(2)] getApplication_id [OF assms(2)] assms(3)
  by (auto simp: app_ok_def validated_def)

theorem apply_in_flight_is_bound_witness:
  "\<exists>app g row. getApplication (ex_db ex_applying) ''app'' = Some app
     \<and> app_active_operation_stage app = Some Ast_apply_started
     \<and> app_active_generation_id app = Some g \<and> getGeneration (ex_db ex_applying) g = Some row
     \<and> gen_validation_ok row = 1"
proof -
  obtain app where app: "getApplication (ex_db ex_applying) ''app'' = Some app"
    "app_active_operation_stage app = Some Ast_apply_started"
    using ex_applying_run(2) by (auto simp: applying_facts_def elim: on_appE)
  then show ?thesis using apply_in_flight_is_bound [OF ex_applying_reachable app] by auto
qed

text \<open>Target rows of a reachable database are well formed and keyed: writing any stored row back
  passes every pointer check of the store and changes nothing.\<close>

theorem stored_targets_rewrite_to_themselves:
  assumes "reachable P db" and "t \<in> set (db_targets db)"
  shows "upsertTarget t db = Inr db"
proof -
  have ok: "db_ok db" by (rule reachable_ok [OF assms(1)])
  have "map (\<lambda>r. if target_key r = target_key t then t else r) (db_targets db) = db_targets db"
  proof (rule map_idI)
    fix r assume "r \<in> set (db_targets db)"
    then show "(if target_key r = target_key t then t else r) = r"
      using ok assms(2) by (auto simp: db_ok_def distinct_map dest: inj_onD)
  qed
  then have "put_target t db = db" using assms(2) by (auto simp: put_target_key)
  then show ?thesis using ok assms(2) by (auto simp: upsertTarget_Inr db_ok_def)
qed

theorem stored_targets_rewrite_to_themselves_witness:
  "\<exists>t. getTarget (ex_db ex_applied) ''app'' 1 = Some t \<and> upsertTarget t (ex_db ex_applied) = Inr (ex_db ex_applied)"
proof -
  obtain t where t: "getTarget (ex_db ex_applied) ''app'' 1 = Some t" using ex_applied_row by auto
  then show ?thesis using stored_targets_rewrite_to_themselves [OF ex_reachable] getTarget_ids by blast
qed



section \<open>Single transitions\<close>


lemma not_isl_Inr: "\<not> isl x \<Longrightarrow> \<exists>db r. x = Inr (db, r)"
  by (cases x) auto


text \<open>Starting a fetch consumes both cursors: neither due scan of the controller returns the
  application afterwards, at any time and with any limit.\<close>

theorem fetch_consumes_cursors:
  assumes "fetchStarted i e db = Inr (db', r)"
  shows "i \<notin> app_id ` set (listSourcesDueForPoll db' now k)
     \<and> i \<notin> app_id ` set (listApplicationsDueForRetry db' now k)"
proof -
  have "app_retry_at a = None \<and> app_next_poll_at a = None"
    if "a \<in> set (db_applications db')" "app_id a = i" for a
    using assms unfolding fetchStarted_def
    by (rule mutateApp_rows [where Q = "\<lambda>a. app_retry_at a = None \<and> app_next_poll_at a = None"])
      (use that in \<open>auto simp: clearInterruption_def keep_identity_def stamp_app_def dest: getApplication_id\<close>)
  then show ?thesis
    by (auto simp: listSourcesDueForPoll_def listApplicationsDueForRetry_def SOURCES_DUE_FOR_POLL_SQL_def
        APPLICATIONS_DUE_FOR_RETRY_SQL_def dest!: in_set_takeD split: option.splits)
qed

theorem fetch_consumes_cursors_witness:
  "\<exists>db' r. fetchStarted ''app'' (ex_env ''op9'') (ex_db ex_applied) = Inr (db', r)
     \<and> ''app'' \<notin> app_id ` set (listSourcesDueForPoll db' 500 10)"
  using not_isl_Inr [OF ex_steps_accepted(4)] fetch_consumes_cursors by blast

text \<open>C25. A suspended source is left alone: once a suspension has committed, starting a fetch, starting an
  apply, accepting a source and scheduling a retry or a poll are all refused.\<close>

theorem suspended_source_refuses_work:
  assumes "sourceSuspended i reason e db = Inr (db', r)" and "ev_at e \<noteq> 0" and "aa_applicationId args = i"
  shows "fetchStarted i e2 db' = Inl (terr ''source is suspended'')
     \<and> applyStarted i g e2 db' = Inl (terr ''source is suspended'')
     \<and> sourceAccepted lc args db' = Inl (terr ''source is suspended'')
     \<and> sourceRetryScheduled i retryAt n e2 db' = Inl (terr ''source is suspended'')
     \<and> sourcePollScheduled i pollAt e2 db' = Inl (terr ''source is suspended'')"
proof -
  obtain app where "getApplication db' i = Some app" "truthy_num (app_suspended_at app)"
    using suspended_row [OF assms(1)] assms(2) by auto
  then show ?thesis
    using assms(3)
    by (simp add: fetchStarted_def applyStarted_def sourceAccepted_def sourceRetryScheduled_def
        sourcePollScheduled_def mutateApp_def)
qed

theorem suspended_source_refuses_work_witness:
  "\<exists>db' r. sourceSuspended ''app'' ''paused'' (ex_env ''op9'') (ex_db ex_applying) = Inr (db', r)
     \<and> fetchStarted ''app'' (ex_env ''op10'') db' = Inl (terr ''source is suspended'')
     \<and> sourceAccepted code_unit_cmp ex_args db' = Inl (terr ''source is suspended'')"
proof -
  have "ev_at (ex_env ''op9'') \<noteq> 0" "aa_applicationId ex_args = ''app''"
    by (simp_all add: ex_env_def ex_args_def)
  then show ?thesis using not_isl_Inr [OF ex_steps_accepted(2)] suspended_source_refuses_work by blast
qed

text \<open>C34. Suspending a source while an operation and a restore are both open interrupts the operation but
  leaves the application's recovery phase at the in-flight value, although interrupting the same
  application on its own reports that recovery as failed.\<close>

theorem suspension_keeps_stale_recovery_phase:
  assumes "getApplication db i = Some app" and "app_active_operation_stage app \<noteq> None"
    and "app_recovery_phase app = Some Rp_restoring"
    and "sourceSuspended i reason e db = Inr (db', r)"
  shows "(\<exists>app'. getApplication db' i = Some app' \<and> app_recovery_phase app' = Some Rp_restoring
        \<and> app_failure_stage app' = app_failure_stage app)
     \<and> (\<exists>db2 r2 app2. interruptActiveOperations i e db = Inr (db2, r2)
        \<and> getApplication db2 i = Some app2 \<and> app_recovery_phase app2 = Some Rp_failed
        \<and> app_failure_stage app2 = Some Af_recovery)"
proof -
  obtain db2 r2 where int: "interruptActiveOperations i e db = Inr (db2, r2)"
    using suspension_interrupts [OF assms(4,1,2)] by blast
  have "getApplication db2 i = Some (keep_identity app (interrupt_app e app))"
    by (rule interrupted_columns [OF int assms(1,2)])
  moreover have "app_recovery_phase (keep_identity app (interrupt_app e app)) = Some Rp_failed"
    "app_failure_stage (keep_identity app (interrupt_app e app)) = Some Af_recovery"
    using assms(3) by (simp_all add: keep_identity_def interrupt_app_def clearActive_def Let_def)
  ultimately show ?thesis using suspended_columns [OF assms(4,1)] assms(3) int by auto
qed

theorem suspension_keeps_stale_recovery_phase_witness:
  "\<exists>db' r app'. sourceSuspended ''app'' ''paused'' (ex_env ''op9'') ex_restoring = Inr (db', r)
     \<and> getApplication db' ''app'' = Some app' \<and> app_recovery_phase app' = Some Rp_restoring"
proof -
  obtain db' r where run: "sourceSuspended ''app'' ''paused'' (ex_env ''op9'') ex_restoring = Inr (db', r)"
    using ex_steps_accepted(3) not_isl_Inr by blast
  obtain a where "getApplication ex_restoring ''app'' = Some a"
    "app_active_operation_stage a \<noteq> None" "app_recovery_phase a = Some Rp_restoring"
    using ex_applying_run(2) by (auto simp: applying_facts_def restoring_facts_def ex_restoring_def elim: on_appE)
  then show ?thesis using suspension_keeps_stale_recovery_phase [OF _ _ _ run] run by blast
qed





text \<open>C33. A deploy failure is accepted under any operation id: in every reachable database it settles the
  target even when a different operation holds it, and clears that operation's marker.\<close>

theorem deployFailed_settles_foreign_operation:
  assumes "reachable P db" and "getApplication db i = Some app" and "getTarget db i n = Some t"
    and "\<not> targetRestoreInFlight t" and "tgt_active_operation_id t \<noteq> Some (ev_operationId e)"
  shows "\<exists>db' r t'. deployFailed i n c e db = Inr (db', r) \<and> getTarget db' i n = Some t'
     \<and> tgt_active_operation_id t' = None \<and> tgt_active_operation_stage t' = None
     \<and> tgt_failure_stage t' = Some Tf_deploy \<and> tgt_failure_class t' = Some (deploy_failure_text c)"
proof -
  have "target_ok db t"
    using reachable_ok [OF assms(1)] getTarget_ids [OF assms(3)] by (simp add: db_ok_def)
  then show ?thesis using deployFailed_settles assms(2,3,4) by blast
qed

theorem deployFailed_settles_foreign_operation_witness:
  "\<exists>db' r t'. deployFailed ''app'' 1 Post_mutation (ex_env ''other'') (ex_db ex_deploying) = Inr (db', r)
     \<and> getTarget db' ''app'' 1 = Some t' \<and> tgt_active_operation_id t' = None"
proof -
  obtain app t where "getApplication (ex_db ex_deploying) ''app'' = Some app"
    "getTarget (ex_db ex_deploying) ''app'' 1 = Some t" "\<not> targetRestoreInFlight t"
    "tgt_active_operation_id t \<noteq> Some (ev_operationId (ex_env ''other''))"
    using ex_deploying_run(2) by (auto simp: deploying_facts_def ex_env_def split: option.splits)
  then show ?thesis
    using deployFailed_settles_foreign_operation [OF ex_deploying_reachable, of "''app''" app 1 t "ex_env ''other''" Post_mutation]
    by blast
qed

end
