(* ===== verification/Evidence_Properties.thy ===== *)
theory Evidence_Properties
  imports Artifact_Identity Health_Policy Preflight Policy_Composition Source_Confirmation Recovery_Claim
    Platform_Names Store_Laws Trace_Evaluation
begin

text \<open>
  The properties of the evidence components: what an approval that resolves proves, when an observed
  artifact matches an approved one, what the decision about an unhealthy target may be, and that the
  stored columns decode to what was encoded.
\<close>

section \<open>Approvals\<close>

lemma pointwise_equal:
  "length xs = length ys \<and> list_all (\<lambda>i. xs ! i = ys ! i) [0..<length xs] \<longleftrightarrow> xs = ys"
proof
  assume "length xs = length ys \<and> list_all (\<lambda>i. xs ! i = ys ! i) [0..<length xs]"
  then show "xs = ys" by (intro nth_equalityI) (simp_all add: list_all_iff)
qed (simp add: list_all_iff)

lemma authorizationBindingsEqual_iff: "authorizationBindingsEqual l r \<longleftrightarrow> l = r"
proof
  assume eq: "authorizationBindingsEqual l r"
  then have "bnd_requiredNodeIds l = bnd_requiredNodeIds r"
    unfolding authorizationBindingsEqual_def using pointwise_equal by blast
  with eq show "l = r" by (simp add: authorizationBindingsEqual_def)
qed (simp add: authorizationBindingsEqual_def list_all_iff)

lemma decomposed_approval_Some:
  "decomposed_approval db i a k = Some row \<longleftrightarrow>
     getApproval db i = Some row \<and> apv_application_id row = a \<and> apv_kind row = k
     \<and> apv_authoritative row = 1 \<and> apv_authority row \<in> {Au_operator, Au_configured_policy}"
  by (auto simp: decomposed_approval_def split: option.splits)

lemma resolve_placement_Some:
  "resolve_placement_approval db i a n nodes = Some row \<Longrightarrow>
     decomposed_approval db i a Ak_placement_approval = Some row
     \<and> apv_intent_revision_id row = Some n
     \<and> (\<exists>raw effect. apv_blast_json row = Some raw
          \<and> decodeGitOpsApprovedTargetEffectJson raw = Inr effect
          \<and> placementEffectCompatible effect nodes)"
  by (cases "apv_blast_json row")
    (auto simp: resolve_placement_approval_def split: option.splits sum.splits if_splits)

lemma decoded_effects_items:
  "decodeGitOpsApprovedTargetEffectJson raw = Inr es \<Longrightarrow> \<exists>items. decode_effects items [] None = Inr es"
  by (auto simp: decodeGitOpsApprovedTargetEffectJson_def decodeGitOpsJson_Inr split: option.splits)

text \<open>C23. A rollout authorization resolves only under exactly the binding it was frozen with, and only
  while both approvals it rests on resolve too: the source acceptance for the bound generation and the
  placement approval for the bound intent and nodes.\<close>

theorem resolved_authorization_is_exact:
  assumes "resolveApprovalRef db i (Expect_rollout_authorization a b) = Some row"
  shows "reconstructAuthorizationBinding row = Some b
     \<and> apv_authoritative row = 1 \<and> apv_authority row \<noteq> Au_legacy_combined
     \<and> (\<exists>s. resolveApprovalRef db (bnd_sourceAcceptanceRef b)
            (Expect_source_acceptance a (bnd_acceptedGenerationId b)) = Some s)
     \<and> (\<exists>p. resolveApprovalRef db (bnd_placementApprovalRef b)
            (Expect_placement_approval a (bnd_intentRevisionId b) (bnd_requiredNodeIds b)) = Some p)"
  using assms
  by (auto simp: resolveApprovalRef_def authorizationBindingsEqual_iff decomposed_approval_Some
      split: option.splits if_splits)

text \<open>A placement approval that resolves for a set of required nodes places only required nodes and
  removes none of them, and names each node once.\<close>

theorem resolved_placement_fits_required_nodes:
  assumes "resolveApprovalRef db i (Expect_placement_approval a n nodes) = Some row"
  shows "\<exists>raw effect. apv_blast_json row = Some raw
     \<and> decodeGitOpsApprovedTargetEffectJson raw = Inr effect
     \<and> distinct (map fst effect)
     \<and> {m. (m, Eff_place) \<in> set effect} \<subseteq> set nodes
     \<and> {m. (m, Eff_remove) \<in> set effect} \<inter> set nodes = {}"
proof -
  obtain raw effect where raw: "apv_blast_json row = Some raw"
    and dec: "decodeGitOpsApprovedTargetEffectJson raw = Inr effect"
    and compat: "placementEffectCompatible effect nodes"
    using assms resolve_placement_Some [of db i a n nodes row] by (auto simp: resolveApprovalRef_def)
  obtain items where "decode_effects items [] None = Inr effect"
    using decoded_effects_items [OF dec] by blast
  then have "sorted_wrt (<) (map fst effect)" by (simp add: decode_effects_increasing)
  then have "distinct (map fst effect)" using strict_sorted_iff by blast
  then show ?thesis
    using raw dec compat by (auto simp: placementEffectCompatible_def list_all_iff)
qed

text \<open>The approvals of the example: one source acceptance, one placement approval that places nodes 1 and
  2 and removes node 3, and the authorization that binds them.\<close>

definition ex_approval :: "string \<Rightarrow> approval_kind \<Rightarrow> gitops_approval_row" where
  "ex_approval i k =
     \<lparr>apv_id = i, apv_kind = k, apv_authority = Au_operator, apv_authoritative = 1,
      apv_application_id = ''app'', apv_generation_id = None, apv_intent_revision_id = None,
      apv_artifact_set_id = None, apv_rollout_candidate_id = None, apv_rollout_generation_id = None,
      apv_source_acceptance_ref = None, apv_placement_approval_ref = None,
      apv_required_targets_json = None, apv_preflight_fingerprint = None, apv_fingerprint = None,
      apv_blast_json = None, apv_policy_provenance_json = None, apv_source_confirmation_json = None,
      apv_actor = None, apv_created_at = 0\<rparr>"

definition ex_binding :: future_rollout_authorization_binding where
  "ex_binding =
     \<lparr>bnd_rolloutCandidateId = ''cand'', bnd_acceptedGenerationId = ''g1'', bnd_artifactSetId = ''s1'',
      bnd_intentRevisionId = ''int'', bnd_requiredNodeIds = [1, 2], bnd_sourceAcceptanceRef = ''acc'',
      bnd_placementApprovalRef = ''plc'', bnd_preflightFingerprint = replicate 64 (CHR ''0'')\<rparr>"

definition ex_approvals_db :: gitops_db where
  "ex_approvals_db = empty_db\<lparr>db_generations := [ex_gen], db_approvals :=
     [(ex_approval ''acc'' Ak_source_acceptance)\<lparr>apv_generation_id := Some ''g1''\<rparr>,
      (ex_approval ''plc'' Ak_placement_approval)\<lparr>apv_intent_revision_id := Some ''int'',
        apv_blast_json := Some (encodeGitOpsJson (JArr
          (map effect_json [(1, Eff_place), (2, Eff_place), (3, Eff_remove)])))\<rparr>,
      (ex_approval ''auth'' Ak_rollout_authorization)\<lparr>apv_rollout_candidate_id := Some ''cand'',
        apv_generation_id := Some ''g1'', apv_artifact_set_id := Some ''s1'',
        apv_intent_revision_id := Some ''int'', apv_source_acceptance_ref := Some ''acc'',
        apv_placement_approval_ref := Some ''plc'',
        apv_required_targets_json := Some (Parsed (JObj
          [(''nodeIds'', JArr [JNum (NInt 1), JNum (NInt 2)])])),
        apv_preflight_fingerprint := Some (replicate 64 (CHR ''0''))\<rparr>]\<rparr>"

lemma ex_approvals_resolve:
  "resolveApprovalRef ex_approvals_db ''auth'' (Expect_rollout_authorization ''app'' ex_binding) \<noteq> None"
  "resolveApprovalRef ex_approvals_db ''plc'' (Expect_placement_approval ''app'' ''int'' [1, 2]) \<noteq> None"
  by code_simp+

theorem resolved_authorization_is_exact_witness:
  "\<exists>row s. resolveApprovalRef ex_approvals_db ''auth''
       (Expect_rollout_authorization ''app'' ex_binding) = Some row
     \<and> reconstructAuthorizationBinding row = Some ex_binding
     \<and> resolveApprovalRef ex_approvals_db (bnd_sourceAcceptanceRef ex_binding)
         (Expect_source_acceptance ''app'' (bnd_acceptedGenerationId ex_binding)) = Some s"
proof -
  obtain row where "resolveApprovalRef ex_approvals_db ''auth''
      (Expect_rollout_authorization ''app'' ex_binding) = Some row"
    using ex_approvals_resolve(1) by blast
  then show ?thesis using resolved_authorization_is_exact by blast
qed

theorem resolved_placement_fits_required_nodes_witness:
  "\<exists>row raw effect. resolveApprovalRef ex_approvals_db ''plc''
       (Expect_placement_approval ''app'' ''int'' [1, 2]) = Some row
     \<and> apv_blast_json row = Some raw \<and> decodeGitOpsApprovedTargetEffectJson raw = Inr effect
     \<and> {m. (m, Eff_place) \<in> set effect} \<subseteq> {1, 2}"
proof -
  obtain row where "resolveApprovalRef ex_approvals_db ''plc''
      (Expect_placement_approval ''app'' ''int'' [1, 2]) = Some row"
    using ex_approvals_resolve(2) by blast
  then show ?thesis using resolved_placement_fits_required_nodes by fastforce
qed

text \<open>A recovery capture names only what belongs to the generation the target runs: its artifact set
  is that generation's, and its acceptance is an authoritative source acceptance of the same application
  and generation.\<close>

theorem recovery_capture_names_running_generation:
  assumes "recoveryBindingForTarget db app t = c"
  shows "(\<forall>i. cap_gitops_artifact_set_id c = Some i \<longrightarrow>
        (\<exists>a. getArtifactSet db i = Some a \<and> Some (art_generation_id a) = runningGenerationForTarget app t))
     \<and> (\<forall>i. cap_gitops_source_acceptance_ref c = Some i \<longrightarrow>
        (\<exists>row. getApproval db i = Some row \<and> apv_kind row = Ak_source_acceptance
          \<and> apv_application_id row = app_id app \<and> apv_generation_id row = runningGenerationForTarget app t))
     \<and> cap_gitops_generation_id c \<in> {None, runningGenerationForTarget app t}"
proof -
  have "cap_gitops_generation_id c \<in> {None, runningGenerationForTarget app t}"
    using assms by (auto simp: recoveryBindingForTarget_def EMPTY_GITOPS_RECOVERY_CAPTURE_def Let_def
        split: if_splits)
  then show ?thesis using assms capture_artifact [of db app t] capture_acceptance [of db app t] by blast
qed

theorem recovery_capture_names_running_generation_witness:
  "\<exists>row. getApproval (ex_db ex_applied) ''acc1'' = Some row \<and> apv_kind row = Ak_source_acceptance"
proof -
  have "cap_gitops_source_acceptance_ref (capture_of (ex_db ex_applied)) = Some ''acc1''"
    using ex_applied_run(2) by (simp add: applied_facts_def)
  then show ?thesis
    using recovery_capture_names_running_generation [OF capture_of_def [of "ex_db ex_applied", symmetric]] by blast
qed

section \<open>Running what was approved\<close>

text \<open>C24. What an observation has to show to count as the approved artifact: there is something to
  compare on both sides, and every registry service runs either the approved child of the platform it
  reports, or nothing but the frozen multi-platform index on a platform the approval covers.\<close>

theorem observation_matches_approved_artifact:
  "observationMatchesExpected expectedServices observedServices \<longleftrightarrow>
     expectedServices \<noteq> [] \<and> observedServices \<noteq> [] \<and>
     (\<forall>expected \<in> set expectedServices.
        svc_source expected = Ss_registry \<longrightarrow>
        (\<exists>observed. map_of (rev (map (\<lambda>s. (svc_serviceName s, s)) observedServices))
              (svc_serviceName expected) = Some observed
          \<and> (runs_approved_child expected observed \<or> runs_frozen_index expected observed)))"
  by (rule observation_matches_iff)

definition ex_digest :: "char \<Rightarrow> string" where
  "ex_digest c = ''sha256:'' @ replicate 64 c"

definition ex_service :: service_artifact_evidence where
  "ex_service =
     \<lparr>svc_serviceName = ''web'', svc_authoredRef = Some ''nginx'', svc_source = Ss_registry,
      svc_platform = Some ''linux/x86_64'', svc_indexDigest = Some (ex_digest (CHR ''a'')),
      svc_platformDigest = None,
      svc_platformVariants = Some [\<lparr>var_platform = ''linux/amd64'', var_digest = ex_digest (CHR ''b'')\<rparr>],
      svc_localDigests = None, svc_buildContextFingerprint = None, svc_producedImageId = None,
      svc_failureClass = None, svc_resolvedAt = None\<rparr>"

definition ex_other_image :: service_artifact_evidence where
  "ex_other_image = ex_service\<lparr>svc_indexDigest := None, svc_localDigests := Some [ex_digest (CHR ''c'')]\<rparr>"

lemma ex_observations:
  "observationMatchesExpected [ex_service] [ex_service]
   \<and> \<not> observationMatchesExpected [ex_service] [ex_other_image]"
  by code_simp

theorem observation_matches_approved_artifact_witness:
  "observationMatchesExpected [ex_service] [ex_service]
   \<and> (runs_approved_child ex_service ex_service \<or> runs_frozen_index ex_service ex_service)
   \<and> \<not> runs_approved_child ex_service ex_other_image"
  using ex_observations
    observation_matches_approved_artifact [of "[ex_service]" "[ex_service]"]
    observation_matches_approved_artifact [of "[ex_service]" "[ex_other_image]"]
  by (simp add: ex_service_def ex_other_image_def)

text \<open>The platform label a match is decided on is canonical: translating a label twice changes
  nothing, so two labels that agree once translated agree for good.\<close>

theorem canonical_platform_label_is_stable:
  "canonicalPlatformLabel (canonicalPlatformLabel l) = canonicalPlatformLabel l"
  by (rule canonicalPlatformLabel_fixpoint)

section \<open>Health\<close>

text \<open>What a health policy may do on its own: it retries, stops or rolls back only after a failed
  verdict, never on an unknown one; it rolls back only when a recovery is available; it advances only on a
  passed verdict; and over a target's whole life it retries at most once.\<close>

theorem health_policy_acts_on_failures_only:
  "(fst (decideHealthRolloutAction p v n r) \<in> {Ha_retry, Ha_stop, Ha_rollback} \<longrightarrow>
      v = Hv_failed \<and> (fst (decideHealthRolloutAction p v n r) = Ha_rollback \<longrightarrow> r))
   \<and> (fst (decideHealthRolloutAction p v n r) = Ha_advance \<longrightarrow> v = Hv_passed)
   \<and> count_list (health_run p 0 vs) Ha_retry \<le> 1"
  using retry_count [of 0 p vs] by (auto simp: decision_action)

theorem health_policy_acts_on_failures_only_witness:
  "fst (decideHealthRolloutAction Hp_rollback Hv_failed 0 True) = Ha_rollback
   \<and> count_list (health_run Hp_retry_once 0 [(Hv_failed, True), (Hv_failed, True)]) Ha_retry = 1"
proof -
  have "0 < count_list (health_run Hp_retry_once 0 [(Hv_failed, True), (Hv_failed, True)]) Ha_retry"
    by (simp add: decideHealthRolloutAction_def gatesAdvancement_def)
  moreover have "count_list (health_run Hp_retry_once 0 [(Hv_failed, True), (Hv_failed, True)]) Ha_retry \<le> 1"
    using health_policy_acts_on_failures_only by blast
  ultimately show ?thesis by (simp add: decision_action)
qed

section \<open>Preflight\<close>

text \<open>Registry readiness never claims more than it has: the aggregate is ready or not required only
  when there is at least one target and each is itself ready or not required; with no target it is
  unknown, which counts as blocked.\<close>

theorem aggregate_readiness_is_conjunctive:
  "(aggregateRegistryReadiness ts \<in> {Slot_ready, Slot_not_required} \<longleftrightarrow>
     ts \<noteq> [] \<and> set (map pt_readiness ts) \<subseteq> {Rr_ready, Rr_not_required})
   \<and> isPreflightBlocked (buildPreflightEvidence lc None)"
proof -
  have "isPreflightBlocked (buildPreflightEvidence lc None)"
    by (simp add: isPreflightBlocked_def buildPreflightEvidence_def canonicalizeTargets_def
        nullish_def nullish_opt_def)
  then show ?thesis using aggregate_ready_iff [of ts] by auto
qed

text \<open>C29. Preflight evidence survives storage: decoding an encoded body gives the body with its targets
  in canonical order, so its fingerprint is the same before and after a round trip through the column.\<close>

theorem preflight_evidence_roundtrip:
  assumes "js_comparator lc" and "\<forall>u \<in> set (pf_targets body). pt_nodeId u \<noteq> NInf"
  shows "decodePreflightEvidenceJson lc (encodePreflightEvidenceJson lc body) =
       body\<lparr>pf_targets := canonicalizeTargets lc (Some (pf_targets body))\<rparr>
     \<and> fingerprintPreflightEvidence lc sha256
         (decodePreflightEvidenceJson lc (encodePreflightEvidenceJson lc body))
       = fingerprintPreflightEvidence lc sha256 body"
proof -
  have "decodePreflightEvidenceJson lc (encodePreflightEvidenceJson lc body) =
      body\<lparr>pf_targets := canonicalizeTargets lc (Some (pf_targets body))\<rparr>"
    using assms by (rule decode_encode_preflight)
  then show ?thesis
    by (simp add: fingerprintPreflightEvidence_def encodePreflightEvidenceJson_def
        canonicalizeTargets_hosts [OF assms(1)])
qed

definition ex_preflight :: preflight_evidence_body where
  "ex_preflight =
     \<lparr>pf_capability = Slot_ready, pf_secretReadiness = Slot_ready, pf_registryReadiness = Slot_ready,
      pf_connectivity = Slot_ready, pf_artifactSetId = Some ''s1'',
      pf_targets = map (\<lambda>n. \<lparr>pt_nodeId = NInt n, pt_sourceClass = Rcs_public, pt_readiness = Rr_ready,
        pt_hosts = [''ghcr.io'', ''docker.io''], pt_expired = False\<rparr>) [2, 1]\<rparr>"

theorem preflight_evidence_roundtrip_witness:
  "decodePreflightEvidenceJson code_unit_cmp (encodePreflightEvidenceJson code_unit_cmp ex_preflight) =
     ex_preflight\<lparr>pf_targets := canonicalizeTargets code_unit_cmp (Some (pf_targets ex_preflight))\<rparr>"
  using preflight_evidence_roundtrip [OF cu.js_comparator_axioms, of ex_preflight]
  by (simp add: ex_preflight_def)

section \<open>Stored columns\<close>

text \<open>The required-targets column is a one-to-one record of a strictly increasing list of nodes: a
  list is encodable exactly when it is strictly increasing, and the decoder accepts exactly what the
  encoder writes, as the same list.\<close>

theorem required_targets_column_is_exact:
  "(encodeGitOpsRequiredTargetsJson ids = Inr raw \<longleftrightarrow> decodeGitOpsRequiredTargetsJson raw = Inr ids)
   \<and> ((\<exists>out. encodeGitOpsRequiredTargetsJson ids = Inr out) \<longleftrightarrow> sorted_wrt (<) ids)
   \<and> (\<exists>out. encodeGitOpsRequiredTargetsJson (canonicalizeNodeIds ids) = Inr out)"
  by (auto simp: encodeRequired_Inr decodeRequired_Inr canonicalizeNodeIds_strict)

text \<open>The approved-effect column decodes to what was encoded, and whatever it decodes to names
  positive nodes in strictly increasing order.\<close>

theorem target_effects_column:
  "(encodeGitOpsApprovedTargetEffectJson es = Inr raw \<longrightarrow> decodeGitOpsApprovedTargetEffectJson raw = Inr es)
   \<and> (decodeGitOpsApprovedTargetEffectJson raw = Inr es \<longrightarrow>
        sorted_wrt (<) (map fst es) \<and> (\<forall>e \<in> set es. 0 < fst e))"
proof (intro conjI impI)
  assume "encodeGitOpsApprovedTargetEffectJson es = Inr raw"
  then show "decodeGitOpsApprovedTargetEffectJson raw = Inr es" by (rule target_effects.decode_of_encode)
next
  assume "decodeGitOpsApprovedTargetEffectJson raw = Inr es"
  then have "\<exists>items. decode_effects items [] None = Inr es" by (rule decoded_effects_items)
  then show "sorted_wrt (<) (map fst es)" and "\<forall>e \<in> set es. 0 < fst e"
    using decode_effects_increasing by blast+
qed

theorem target_effects_column_witness:
  "\<exists>raw. encodeGitOpsApprovedTargetEffectJson [(1, Eff_place), (4, Eff_remove)] = Inr raw
     \<and> decodeGitOpsApprovedTargetEffectJson raw = Inr [(1, Eff_place), (4, Eff_remove)]"
proof -
  have "\<not> isl (encodeGitOpsApprovedTargetEffectJson [(1, Eff_place), (4, Eff_remove)])" by code_simp
  then obtain raw where "encodeGitOpsApprovedTargetEffectJson [(1, Eff_place), (4, Eff_remove)] = Inr raw"
    by (metis isl_def sum.exhaust_sel)
  then show ?thesis using target_effects_column by blast
qed

text \<open>The policy columns decode to what was encoded: a frozen rollout strategy and an intent's health
  policy always do, a policy snapshot exactly when it carries the current contract version, and two
  snapshots with the same text are the same snapshot.\<close>

theorem policy_columns_roundtrip:
  "decodeFrozenRolloutStrategy (Some (encodeFrozenRolloutStrategy s)) = Inr s
   \<and> decodeIntentHealthPolicy (Some (encodeIntentHealthPolicy p)) = Inr p
   \<and> (decodePolicySnapshot (Some (encodePolicySnapshot a)) = Inr a \<longleftrightarrow>
        snap_version a = POLICY_CONTRACT_VERSION)
   \<and> (encodePolicySnapshot a = encodePolicySnapshot b \<longleftrightarrow> a = b)"
  using encode_snapshot_injective
  by (auto simp: strategy_roundtrip intent_policy_roundtrip decode_encode_snapshot)

text \<open>A confirmation an operator gave is read back as given, and it stands exactly while the placement
  it names is the approved one and it is not the case that it forbade a rollout and authorization has since
  become automatic.\<close>

theorem source_confirmation_stands:
  "decodeSourceConfirmation (Some (encodeSourceConfirmation c)) =
     (if conf_placementApprovalRef c = Some [] then Conf_unreadable else Conf_present c)
   \<and> (sourceConfirmationDrift app c = None \<longleftrightarrow>
        app_placement_approval_ref app = conf_placementApprovalRef c
        \<and> \<not> (app_rollout_authorization_policy app = Ra_automatic \<and> conf_rolloutMayStart c = False))"
  by (simp add: decode_encode_confirmation no_drift_iff)

text \<open>An observed invocation that was written is read back unchanged.\<close>

theorem observed_invocation_roundtrip:
  assumes "encodeObservedInvocation v = Inr raw"
  shows "decodeObservedInvocation (Some raw) = Inr (Some v)"
  using assms by (rule decode_of_encodeObservedInvocation)

definition ex_invocation :: observed_invocation_identity where
  "ex_invocation = \<lparr>oinv_composeFileOrder = [''compose.yaml''], oinv_projectName = ''web'',
     oinv_projectDirectory = ''/srv/web'', oinv_envFileOrder = [], oinv_observedAt = NInt 5\<rparr>"

lemma ex_invocation_encodes: "\<not> isl (encodeObservedInvocation ex_invocation)"
  by code_simp

theorem observed_invocation_roundtrip_witness:
  "\<exists>raw. encodeObservedInvocation ex_invocation = Inr raw
     \<and> decodeObservedInvocation (Some raw) = Inr (Some ex_invocation)"
proof -
  obtain raw where "encodeObservedInvocation ex_invocation = Inr raw"
    using ex_invocation_encodes by (metis isl_def sum.exhaust_sel)
  then show ?thesis using observed_invocation_roundtrip by blast
qed

end
