(* ===== verification/Backoff.thy ===== *)
theory Backoff
  imports Prelude
begin

text \<open>
  How a failed reconcile attempt is classified and retried (\<^verbatim>\<open>gitops/backoff.ts\<close>), and how submissions to
  the source controller are keyed (\<^verbatim>\<open>gitops/triggers.ts\<close>). Delays are exact rationals: the rounding of the
  double arithmetic is not modelled. \<open>random\<close> is the draw of \<^verbatim>\<open>Math.random()\<close>, in the half-open unit
  interval.
\<close>

section \<open>Failures\<close>

datatype git_source_error_code =
    REPO_NOT_FOUND | AUTH_FAILED | REF_NOT_FOUND | REF_DELETED | UNSUPPORTED_REF | SSH_HOST_KEY_FAILED
  | FILE_NOT_FOUND | RATE_LIMITED | NETWORK_TIMEOUT | GIT_ERROR | STALE_PLAN
  | PLAN_FINGERPRINT_REQUIRED | PLAN_BLOCKED | LEGACY_PENDING | PLAN_UNAVAILABLE | OPERATION_IN_FLIGHT
  | SOURCE_CLAIMED_BY_BLUEPRINT | SOPS_DECRYPT_FAILED

datatype transport_failure_reason =
    Invalid_url | Unsafe_target | Target_unresolved | Ssh_auth_required | Invalid_ref | Git_missing
  | Git_old | Ref_not_found | Unsupported_ref | Tip_changed | Size | Timeout | Redirect_scope | Exit

datatype failure_evidence =
    Fe_git_source_error git_source_error_code "transport_failure_reason option"
  | Fe_policy_unavailable
  | Fe_persistence_unavailable
  | Fe_target_binding_invalid
  | Fe_target_unavailable
  | Fe_target_mutation_failed
  | Fe_blueprint_unavailable
  | Fe_interrupted

datatype failure_disposition =
    Fd_supersession
  | Fd_transient nat
  | Fd_permanent
  | Fd_operator_action_required
  | Fd_degraded
  | Fd_target_permanent
  | Fd_target_transient
  | Fd_target_mutation_failed
  | Fd_blocked
  | Fd_reconcile

definition DEFAULT_TRANSIENT_CEILING :: nat where
  "DEFAULT_TRANSIENT_CEILING = 8"

definition LOW_TRANSIENT_CEILING :: nat where
  "LOW_TRANSIENT_CEILING = 3"

definition TRANSIENT_DEFAULT :: failure_disposition where
  "TRANSIENT_DEFAULT = Fd_transient DEFAULT_TRANSIENT_CEILING"

definition TRANSIENT_LOW :: failure_disposition where
  "TRANSIENT_LOW = Fd_transient LOW_TRANSIENT_CEILING"

text \<open>The table has no row for \<open>Exit\<close>: the caller reads the code's row instead.\<close>

fun REASON_DISPOSITION :: "transport_failure_reason \<Rightarrow> failure_disposition option" where
  "REASON_DISPOSITION Tip_changed = Some Fd_supersession"
| "REASON_DISPOSITION Timeout = Some TRANSIENT_DEFAULT"
| "REASON_DISPOSITION Target_unresolved = Some TRANSIENT_DEFAULT"
| "REASON_DISPOSITION Exit = None"
| "REASON_DISPOSITION _ = Some Fd_permanent"

definition CODE_DISPOSITION :: "(git_source_error_code \<times> failure_disposition) list" where
  "CODE_DISPOSITION =
     [(REPO_NOT_FOUND, Fd_permanent),
      (AUTH_FAILED, Fd_permanent),
      (REF_NOT_FOUND, Fd_permanent),
      (REF_DELETED, Fd_permanent),
      (UNSUPPORTED_REF, Fd_permanent),
      (SSH_HOST_KEY_FAILED, Fd_permanent),
      (FILE_NOT_FOUND, Fd_operator_action_required),
      (RATE_LIMITED, TRANSIENT_DEFAULT),
      (NETWORK_TIMEOUT, TRANSIENT_DEFAULT),
      (GIT_ERROR, TRANSIENT_LOW),
      (STALE_PLAN, Fd_operator_action_required),
      (PLAN_FINGERPRINT_REQUIRED, Fd_operator_action_required),
      (PLAN_BLOCKED, Fd_operator_action_required),
      (LEGACY_PENDING, Fd_operator_action_required),
      (PLAN_UNAVAILABLE, Fd_operator_action_required),
      (OPERATION_IN_FLIGHT, Fd_reconcile),
      (SOURCE_CLAIMED_BY_BLUEPRINT, Fd_operator_action_required),
      (SOPS_DECRYPT_FAILED, Fd_operator_action_required)]"

fun error_code_text :: "git_source_error_code \<Rightarrow> string" where
  "error_code_text REPO_NOT_FOUND = ''REPO_NOT_FOUND''"
| "error_code_text AUTH_FAILED = ''AUTH_FAILED''"
| "error_code_text REF_NOT_FOUND = ''REF_NOT_FOUND''"
| "error_code_text REF_DELETED = ''REF_DELETED''"
| "error_code_text UNSUPPORTED_REF = ''UNSUPPORTED_REF''"
| "error_code_text SSH_HOST_KEY_FAILED = ''SSH_HOST_KEY_FAILED''"
| "error_code_text FILE_NOT_FOUND = ''FILE_NOT_FOUND''"
| "error_code_text RATE_LIMITED = ''RATE_LIMITED''"
| "error_code_text NETWORK_TIMEOUT = ''NETWORK_TIMEOUT''"
| "error_code_text GIT_ERROR = ''GIT_ERROR''"
| "error_code_text STALE_PLAN = ''STALE_PLAN''"
| "error_code_text PLAN_FINGERPRINT_REQUIRED = ''PLAN_FINGERPRINT_REQUIRED''"
| "error_code_text PLAN_BLOCKED = ''PLAN_BLOCKED''"
| "error_code_text LEGACY_PENDING = ''LEGACY_PENDING''"
| "error_code_text PLAN_UNAVAILABLE = ''PLAN_UNAVAILABLE''"
| "error_code_text OPERATION_IN_FLIGHT = ''OPERATION_IN_FLIGHT''"
| "error_code_text SOURCE_CLAIMED_BY_BLUEPRINT = ''SOURCE_CLAIMED_BY_BLUEPRINT''"
| "error_code_text SOPS_DECRYPT_FAILED = ''SOPS_DECRYPT_FAILED''"

text \<open>\<open>None\<close> is the \<^verbatim>\<open>undefined\<close> of a missing row; \<open>classifyFailure_total\<close> shows it is never read.\<close>

definition classifyFailure :: "failure_evidence \<Rightarrow> failure_disposition option" where
  "classifyFailure evidence =
     (case evidence of
        Fe_git_source_error code reason \<Rightarrow>
          (case reason of
             Some r \<Rightarrow> (if r \<noteq> Exit then REASON_DISPOSITION r else map_of CODE_DISPOSITION code)
           | None \<Rightarrow> map_of CODE_DISPOSITION code)
      | Fe_policy_unavailable \<Rightarrow> Some Fd_degraded
      | Fe_persistence_unavailable \<Rightarrow> Some TRANSIENT_DEFAULT
      | Fe_target_binding_invalid \<Rightarrow> Some Fd_target_permanent
      | Fe_target_unavailable \<Rightarrow> Some Fd_target_transient
      | Fe_target_mutation_failed \<Rightarrow> Some Fd_target_mutation_failed
      | Fe_blueprint_unavailable \<Rightarrow> Some Fd_blocked
      | Fe_interrupted \<Rightarrow> Some Fd_reconcile)"

definition isGitSourceErrorCode :: "string \<Rightarrow> bool" where
  "isGitSourceErrorCode code = (code \<in> set (map (error_code_text \<circ> fst) CODE_DISPOSITION))"

lemma code_disposition_total: "\<exists>d. map_of CODE_DISPOSITION code = Some d"
  by (cases code) (simp_all add: CODE_DISPOSITION_def)

lemma classifyFailure_total: "\<exists>d. classifyFailure evidence = Some d"
proof (cases evidence)
  case (Fe_git_source_error code reason)
  then show ?thesis
    using code_disposition_total [of code]
    by (cases reason; cases "the reason") (simp_all add: classifyFailure_def)
qed (simp_all add: classifyFailure_def)

lemma error_code_text_inj: "error_code_text a = error_code_text b \<Longrightarrow> a = b"
  by (cases a; cases b) simp_all

lemma isGitSourceErrorCode_iff: "isGitSourceErrorCode s \<longleftrightarrow> (\<exists>code. s = error_code_text code)"
proof
  assume "\<exists>code. s = error_code_text code"
  then obtain code where s: "s = error_code_text code" by blast
  have "code \<in> set (map fst CODE_DISPOSITION)" by (cases code) (simp_all add: CODE_DISPOSITION_def)
  then show "isGitSourceErrorCode s" using s by (force simp: isGitSourceErrorCode_def)
qed (auto simp: isGitSourceErrorCode_def)

section \<open>Delays\<close>

definition BASE_DELAY_MS :: rat where
  "BASE_DELAY_MS = 60000"

definition MAX_DELAY_MS :: rat where
  "MAX_DELAY_MS = 3600000"

definition JITTER_RATIO :: rat where
  "JITTER_RATIO = 1 / 10"

definition nextRetryAt :: "rat \<Rightarrow> rat \<Rightarrow> nat \<Rightarrow> rat option \<Rightarrow> rat" where
  "nextRetryAt random now retryCount providerFloorMs =
     (let capped = min (BASE_DELAY_MS * 2 ^ retryCount) MAX_DELAY_MS;
          jittered = capped + capped * JITTER_RATIO * (random * 2 - 1);
          delay = (case providerFloorMs of Some f \<Rightarrow> max jittered f | None \<Rightarrow> jittered)
      in now + delay)"

definition MIN_POLL_INTERVAL_SECS :: int where
  "MIN_POLL_INTERVAL_SECS = 60"

definition effectivePollIntervalSecs :: "int option \<Rightarrow> int \<Rightarrow> int" where
  "effectivePollIntervalSecs perSourceSecs globalIntervalMins =
     (case perSourceSecs of
        Some s \<Rightarrow> (if s > 0 then max s MIN_POLL_INTERVAL_SECS else 0)
      | None \<Rightarrow>
          (let g = globalIntervalMins * 60 in if g > 0 then max g MIN_POLL_INTERVAL_SECS else 0))"

text \<open>The capped delay doubles with every retry until it reaches the hour.\<close>

definition capped_delay :: "nat \<Rightarrow> rat" where
  "capped_delay n = min (BASE_DELAY_MS * 2 ^ n) MAX_DELAY_MS"

lemma capped_delay_bounds: "60000 \<le> capped_delay n \<and> capped_delay n \<le> 3600000"
proof -
  have "(1 :: rat) \<le> 2 ^ n" by simp
  then show ?thesis by (simp add: capped_delay_def BASE_DELAY_MS_def MAX_DELAY_MS_def)
qed

lemma capped_delay_step: "capped_delay (Suc n) = min (2 * capped_delay n) 3600000"
  by (simp add: capped_delay_def BASE_DELAY_MS_def MAX_DELAY_MS_def min_def)

lemma capped_delay_saturates: "6 \<le> n \<Longrightarrow> capped_delay n = 3600000"
proof -
  assume "6 \<le> n"
  then have "(2 :: rat) ^ 6 \<le> 2 ^ n" by (intro power_increasing) auto
  then show ?thesis by (simp add: capped_delay_def BASE_DELAY_MS_def MAX_DELAY_MS_def)
qed

lemma jitter_bounds:
  fixes c u :: rat
  assumes "0 \<le> u" and "u < 1" and "0 < c"
  shows "9 / 10 * c \<le> c + c * (1 / 10) * (u * 2 - 1)" and "c + c * (1 / 10) * (u * 2 - 1) < 11 / 10 * c"
proof -
  have "c + c * (1 / 10) * (u * 2 - 1) = 9 / 10 * c + c * u / 5" by (simp add: field_simps)
  moreover have "0 \<le> c * u" and "c * u < c" using assms by simp_all
  ultimately show "9 / 10 * c \<le> c + c * (1 / 10) * (u * 2 - 1)"
    and "c + c * (1 / 10) * (u * 2 - 1) < 11 / 10 * c" by simp_all
qed

section \<open>Submissions\<close>

datatype reconcile_trigger =
    Tr_manual | Tr_api | Tr_webhook | Tr_poll | Tr_retry | Tr_config_change | Tr_startup | Tr_resume
  | Tr_provider_event | Tr_schedule | Tr_binding_change

fun trigger_text :: "reconcile_trigger \<Rightarrow> string" where
  "trigger_text Tr_manual = ''manual''"
| "trigger_text Tr_api = ''api''"
| "trigger_text Tr_webhook = ''webhook''"
| "trigger_text Tr_poll = ''poll''"
| "trigger_text Tr_retry = ''retry''"
| "trigger_text Tr_config_change = ''config_change''"
| "trigger_text Tr_startup = ''startup''"
| "trigger_text Tr_resume = ''resume''"
| "trigger_text Tr_provider_event = ''provider_event''"
| "trigger_text Tr_schedule = ''schedule''"
| "trigger_text Tr_binding_change = ''binding_change''"

datatype reconcile_intent = Ri_fetch | Ri_apply string string bool

record reconcile_request =
  rq_intent :: reconcile_intent
  rq_applicationId :: string
  rq_stackName :: string
  rq_trigger :: reconcile_trigger
  rq_actor :: string
  rq_deliveryId :: "string option"

definition bool_text :: "bool \<Rightarrow> string" where
  "bool_text b = (if b then ''true'' else ''false'')"

definition coalesceKey :: "reconcile_request \<Rightarrow> string" where
  "coalesceKey request =
     (case rq_intent request of
        Ri_fetch \<Rightarrow> rq_applicationId request @ '':'' @ rq_stackName request @ '':fetch''
      | Ri_apply commitSha planFingerprint deploy \<Rightarrow>
          rq_applicationId request @ '':'' @ rq_stackName request @ '':apply:'' @ commitSha @ '':''
            @ planFingerprint @ '':'' @ bool_text deploy)"

definition intent_text :: "reconcile_intent \<Rightarrow> string" where
  "intent_text i = (case i of Ri_fetch \<Rightarrow> ''fetch'' | Ri_apply _ _ _ \<Rightarrow> ''apply'')"

definition deliveryKey :: "reconcile_trigger \<Rightarrow> reconcile_intent \<Rightarrow> string \<Rightarrow> string" where
  "deliveryKey trigger intent deliveryId = trigger_text trigger @ '':'' @ intent_text intent @ '':'' @ deliveryId"

definition isPolicyDrivenWebhookTrigger :: "reconcile_trigger \<Rightarrow> bool" where
  "isPolicyDrivenWebhookTrigger trigger = (trigger = Tr_webhook \<or> trigger = Tr_provider_event)"

datatype webhook_authority = Wa_configured_policy | Wa_operator

definition acceptanceAuthorityForWebhook :: "string \<Rightarrow> reconcile_trigger \<Rightarrow> webhook_authority" where
  "acceptanceAuthorityForWebhook actor trigger =
     (if isPolicyDrivenWebhookTrigger trigger \<and> (actor = ''system:webhook'' \<or> actor = ''system:provider_event'')
      then Wa_configured_policy else Wa_operator)"

definition AUTOMATED_RECONCILE_TRIGGERS :: "reconcile_trigger list" where
  "AUTOMATED_RECONCILE_TRIGGERS =
     [Tr_webhook, Tr_poll, Tr_schedule, Tr_provider_event, Tr_config_change, Tr_startup, Tr_binding_change]"

definition isAutomatedReconcileTrigger :: "reconcile_trigger option \<Rightarrow> bool" where
  "isAutomatedReconcileTrigger trigger =
     (case trigger of None \<Rightarrow> False | Some t \<Rightarrow> t \<in> set AUTOMATED_RECONCILE_TRIGGERS)"

text \<open>What two submissions must share to be one evaluation.\<close>

definition same_work :: "reconcile_request \<Rightarrow> reconcile_request \<Rightarrow> bool" where
  "same_work r s \<longleftrightarrow> rq_applicationId r = rq_applicationId s \<and> rq_stackName r = rq_stackName s
     \<and> rq_intent r = rq_intent s"

definition colon_free :: "reconcile_request \<Rightarrow> bool" where
  "colon_free r \<longleftrightarrow> CHR '':'' \<notin> set (rq_applicationId r) \<and> CHR '':'' \<notin> set (rq_stackName r)
     \<and> (case rq_intent r of Ri_fetch \<Rightarrow> True | Ri_apply commitSha _ _ \<Rightarrow> CHR '':'' \<notin> set commitSha)"

lemma separated_eq:
  "c \<notin> set a \<Longrightarrow> c \<notin> set b \<Longrightarrow> a @ c # x = b @ c # y \<longleftrightarrow> a = b \<and> x = y"
  by (induction a arbitrary: b) (case_tac b; auto)+

lemma bool_text_suffix: "x @ bool_text d = y @ bool_text e \<longleftrightarrow> x = y \<and> d = e"
proof -
  have "x @ ''true'' \<noteq> y @ ''false''" for x y
  proof
    assume "x @ ''true'' = y @ ''false''"
    then have "rev (x @ ''true'') = rev (y @ ''false'')" by (rule arg_cong)
    then show False by simp
  qed
  then show ?thesis by (auto simp: bool_text_def dest: sym)
qed

lemma coalesceKey_parts:
  "coalesceKey r = rq_applicationId r @ CHR '':'' # rq_stackName r @ CHR '':'' #
     (case rq_intent r of Ri_fetch \<Rightarrow> ''fetch''
      | Ri_apply sha fp d \<Rightarrow> ''apply'' @ CHR '':'' # sha @ CHR '':'' # (fp @ '':'') @ bool_text d)"
  by (simp add: coalesceKey_def split: reconcile_intent.split)

lemma intent_key_inj:
  assumes "\<And>sha fp d. i = Ri_apply sha fp d \<Longrightarrow> CHR '':'' \<notin> set sha"
    and "\<And>sha fp d. j = Ri_apply sha fp d \<Longrightarrow> CHR '':'' \<notin> set sha"
  shows "(case i of Ri_fetch \<Rightarrow> ''fetch''
      | Ri_apply sha fp d \<Rightarrow> ''apply'' @ CHR '':'' # sha @ CHR '':'' # (fp @ '':'') @ bool_text d)
    = (case j of Ri_fetch \<Rightarrow> ''fetch''
      | Ri_apply sha fp d \<Rightarrow> ''apply'' @ CHR '':'' # sha @ CHR '':'' # (fp @ '':'') @ bool_text d) \<longleftrightarrow> i = j"
proof (cases i; cases j)
  fix sha fp d sha' fp' d'
  assume "i = Ri_apply sha fp d" "j = Ri_apply sha' fp' d'"
  then show ?thesis
    using assms separated_eq [of "CHR '':''" sha sha'] bool_text_suffix [of "fp @ '':''" d "fp' @ '':''" d']
    by auto
qed simp_all

lemma coalesceKey_inj:
  assumes "colon_free r" and "colon_free s"
  shows "coalesceKey r = coalesceKey s \<longleftrightarrow> same_work r s"
proof -
  note free = assms [unfolded colon_free_def]
  show ?thesis
    unfolding coalesceKey_parts same_work_def
    by (subst separated_eq, use free in simp, use free in simp)
      (subst separated_eq, use free in simp, use free in simp,
       subst intent_key_inj, insert free, auto)
qed

end
