(* ===== verification/Placement_Policy.thy ===== *)
theory Placement_Policy
  imports Rows Prelude
begin

text \<open>
  Bounded automatic placement (\<^verbatim>\<open>gitops/placementPolicy.ts\<close>): the difference between the approved and the
  requested node set, and whether it may be approved without an operator. The node lists come from a JSON
  column at runtime, so they are JSON values, or absent.
\<close>

record placement_effect =
  pe_additions :: "js_number list"
  pe_removals :: "js_number list"

datatype placement_decision =
    Pd_no_action placement_effect
  | Pd_auto_approve placement_policy_reason placement_effect
  | Pd_operator_review placement_policy_reason placement_effect

datatype workload_statelessness = Ws_stateless | Ws_stateful | Ws_unknown

datatype affected_node_state = Ns_reachable | Ns_unreachable | Ns_unknown

record bounded_auto_input =
  bi_policy :: placement_policy
  bi_approvedNodeIds :: "json option"
  bi_candidateNodeIds :: "json option"
  bi_hasPriorApproval :: bool
  bi_statelessness :: "workload_statelessness option"
  bi_pinDriven :: bool
  bi_cordonOverride :: bool
  bi_cordonDrivenRemoval :: bool
  bi_affectedNodeState :: affected_node_state
  bi_conflictingOperation :: bool
  bi_evidenceReadable :: bool
  bi_evidenceWellFormed :: bool

definition setDifference :: "js_number list \<Rightarrow> js_number list \<Rightarrow> js_number list" where
  "setDifference from to = filter (\<lambda>i. i \<notin> set to) from"

definition nodeIdList :: "json option \<Rightarrow> js_number list" where
  "nodeIdList v =
     (case Option.bind v as_array of None \<Rightarrow> [] | Some xs \<Rightarrow> List.map_filter as_finite xs)"

text \<open>The comparator \<^verbatim>\<open>(a, b) => a - b\<close>; every listed id is finite.\<close>

definition node_id_cmp :: "js_number \<Rightarrow> js_number \<Rightarrow> int" where
  "node_id_cmp a b = (if num_value a < num_value b then - 1 else if num_value b < num_value a then 1 else 0)"

definition placement_change :: "bounded_auto_input \<Rightarrow> placement_effect" where
  "placement_change input =
     (let approved = nodeIdList (bi_approvedNodeIds input); candidate = nodeIdList (bi_candidateNodeIds input)
      in \<lparr>pe_additions = js_sort node_id_cmp (setDifference candidate approved),
          pe_removals = js_sort node_id_cmp (setDifference approved candidate)\<rparr>)"

definition decideBoundedAutoPlacement :: "bounded_auto_input \<Rightarrow> placement_decision" where
  "decideBoundedAutoPlacement input =
     (let candidate = nodeIdList (bi_candidateNodeIds input);
          effect = placement_change input;
          additions = pe_additions effect;
          removals = pe_removals effect;
          review = (\<lambda>reason. Pd_operator_review reason effect)
      in if bi_policy input \<noteq> Pp_bounded_auto then review Pr_policy_is_operator
         else if bi_conflictingOperation input then review Pr_conflicting_operation
         else if \<not> bi_evidenceReadable input then review Pr_missing_evidence
         else if \<not> bi_evidenceWellFormed input then review Pr_malformed_evidence
         else if additions = [] \<and> removals = [] then Pd_no_action effect
         else if \<not> bi_hasPriorApproval input \<and> length candidate > 1 then review Pr_first_multi_node_placement
         else if additions \<noteq> [] \<and> removals \<noteq> [] then review Pr_mixed_add_and_remove
         else if length additions > 1 then review Pr_multiple_additions
         else if length removals > 1 then review Pr_multiple_removals
         else if bi_statelessness input = Some Ws_stateful \<or> bi_statelessness input = None
         then review Pr_stateful_workload
         else if bi_statelessness input = Some Ws_unknown then review Pr_unknown_workload
         else if bi_cordonOverride input then review Pr_cordon_override
         else if bi_cordonDrivenRemoval input then review Pr_cordon_driven_removal
         else if bi_pinDriven input then review Pr_pin_driven_placement
         else if bi_affectedNodeState input = Ns_unreachable then review Pr_stale_node
         else if bi_affectedNodeState input = Ns_unknown then review Pr_unknown_connectivity
         else if candidate = [] then review Pr_destructive_effect
         else if length additions = 1 then Pd_auto_approve Pr_stateless_addition effect
         else Pd_auto_approve Pr_stateless_removal effect)"

section \<open>What may be approved without an operator\<close>

text \<open>The signals that all have to be clear.\<close>

definition placement_signals_clear :: "bounded_auto_input \<Rightarrow> bool" where
  "placement_signals_clear input \<longleftrightarrow>
     bi_policy input = Pp_bounded_auto \<and> bi_conflictingOperation input = False
     \<and> bi_evidenceReadable input \<and> bi_evidenceWellFormed input
     \<and> bi_statelessness input = Some Ws_stateless \<and> bi_cordonOverride input = False
     \<and> bi_cordonDrivenRemoval input = False \<and> bi_pinDriven input = False
     \<and> bi_affectedNodeState input = Ns_reachable"

definition single_node_change :: "bounded_auto_input \<Rightarrow> bool" where
  "single_node_change input \<longleftrightarrow>
     length (pe_additions (placement_change input)) + length (pe_removals (placement_change input)) = 1
     \<and> nodeIdList (bi_candidateNodeIds input) \<noteq> []
     \<and> (bi_hasPriorApproval input \<or> length (nodeIdList (bi_candidateNodeIds input)) = 1)"

lemma auto_approve_iff:
  "(\<exists>reason effect. decideBoundedAutoPlacement input = Pd_auto_approve reason effect)
     \<longleftrightarrow> placement_signals_clear input \<and> single_node_change input"
proof -
  let ?a = "pe_additions (placement_change input)" and ?r = "pe_removals (placement_change input)"
    and ?c = "nodeIdList (bi_candidateNodeIds input)"
  have one: "length ?a + length ?r = 1 \<longleftrightarrow>
      \<not> (?a = [] \<and> ?r = []) \<and> \<not> (?a \<noteq> [] \<and> ?r \<noteq> []) \<and> \<not> length ?a > 1 \<and> \<not> length ?r > 1"
    by (cases ?a; cases ?r) auto
  have two: "?c \<noteq> [] \<and> (bi_hasPriorApproval input \<or> length ?c = 1) \<longleftrightarrow>
      ?c \<noteq> [] \<and> \<not> (\<not> bi_hasPriorApproval input \<and> length ?c > 1)"
    by (cases ?c) auto
  have "bi_affectedNodeState input = Ns_reachable \<longleftrightarrow>
      bi_affectedNodeState input \<noteq> Ns_unreachable \<and> bi_affectedNodeState input \<noteq> Ns_unknown"
    by (cases "bi_affectedNodeState input") auto
  moreover have "bi_statelessness input = Some Ws_stateless \<longleftrightarrow>
      \<not> (bi_statelessness input = Some Ws_stateful \<or> bi_statelessness input = None)
      \<and> bi_statelessness input \<noteq> Some Ws_unknown"
    by (cases "bi_statelessness input"; cases "the (bi_statelessness input)") auto
  ultimately show ?thesis
    unfolding decideBoundedAutoPlacement_def placement_signals_clear_def single_node_change_def one two Let_def
    by (simp split: if_split)
qed

lemma decision_effect:
  "decideBoundedAutoPlacement input = Pd_auto_approve reason effect \<Longrightarrow> effect = placement_change input"
  by (auto simp: decideBoundedAutoPlacement_def Let_def split: if_splits)

lemma node_id_cmp_comparator: "js_comparator node_id_cmp"
  by unfold_locales (auto simp: node_id_cmp_def split: if_splits)

interpretation node_ids: js_comparator node_id_cmp
  by (rule node_id_cmp_comparator)

lemma placement_change_sets:
  "set (pe_additions (placement_change input)) =
     set (nodeIdList (bi_candidateNodeIds input)) - set (nodeIdList (bi_approvedNodeIds input))"
  "set (pe_removals (placement_change input)) =
     set (nodeIdList (bi_approvedNodeIds input)) - set (nodeIdList (bi_candidateNodeIds input))"
  by (auto simp: placement_change_def setDifference_def Let_def)

end
