(* ===== verification/Policy_Properties.thy ===== *)
theory Policy_Properties
  imports Backoff Placement_Policy Repo_Identity Outcomes Read_Auth
begin

text \<open>
  The properties of the pure decisions around the state machine: retry timing, failure classification,
  coalescing, automatic placement, which repository a URL names, and the recorded results.
\<close>

section \<open>Retries\<close>

lemma nextRetryAt_delay:
  "nextRetryAt random now n None = now + (capped_delay n + capped_delay n * (1 / 10) * (random * 2 - 1))"
  "nextRetryAt random now n (Some f) = max (nextRetryAt random now n None) (now + f)"
  by (simp_all add: nextRetryAt_def capped_delay_def JITTER_RATIO_def Let_def max_def)

text \<open>C38. A retry is scheduled inside the jitter band of the capped exponential delay: at least 54 seconds
  and, unless the provider asked for longer, less than 66 minutes from now, and never before the floor the
  provider asked for. The delay doubles with every retry until it reaches the hour.\<close>

theorem retry_delay_is_bounded:
  assumes "0 \<le> random" and "random < 1"
  shows "now + 54000 \<le> nextRetryAt random now n None \<and> nextRetryAt random now n None < now + 3960000
     \<and> 9 / 10 * capped_delay n \<le> nextRetryAt random now n None - now
     \<and> nextRetryAt random now n None - now < 11 / 10 * capped_delay n
     \<and> nextRetryAt random now n (Some f) = max (nextRetryAt random now n None) (now + f)
     \<and> capped_delay (Suc n) = min (2 * capped_delay n) 3600000"
proof -
  note c = capped_delay_bounds [of n]
  then have pos: "0 < capped_delay n" by linarith
  define d where "d = capped_delay n + capped_delay n * (1 / 10) * (random * 2 - 1)"
  have band: "9 / 10 * capped_delay n \<le> d" "d < 11 / 10 * capped_delay n"
    unfolding d_def by (rule jitter_bounds [OF assms pos])+
  then have "54000 \<le> d" "d < 3960000" using c by linarith+
  moreover have "nextRetryAt random now n None = now + d" by (simp only: nextRetryAt_delay(1) d_def)
  ultimately show ?thesis using band nextRetryAt_delay(2) by (simp add: capped_delay_step)
qed

theorem retry_delay_is_bounded_witness:
  "nextRetryAt (1 / 2) 0 3 None = 480000 \<and> (0 :: rat) + 54000 \<le> nextRetryAt (1 / 2) 0 3 None
   \<and> nextRetryAt (1 / 2) 0 3 (Some 900000) = 900000"
  using retry_delay_is_bounded [of "1 / 2" 0 3 900000]
  by (simp add: nextRetryAt_def BASE_DELAY_MS_def MAX_DELAY_MS_def JITTER_RATIO_def)



section \<open>Coalescing\<close>

text \<open>Two submissions share a coalescing key exactly when they ask for the same work: the same
  application and stack and the same intent, commit, plan and deploy flag included. Application ids, stack
  names and commits hold no colon.\<close>

theorem coalesce_key_identifies_work:
  assumes "colon_free r" and "colon_free s"
  shows "coalesceKey r = coalesceKey s \<longleftrightarrow> same_work r s"
  by (rule coalesceKey_inj [OF assms])

definition ex_request :: "string \<Rightarrow> bool \<Rightarrow> reconcile_request" where
  "ex_request sha deploy =
     \<lparr>rq_intent = Ri_apply sha ''plan:1'' deploy, rq_applicationId = ''app'', rq_stackName = ''web'',
      rq_trigger = Tr_manual, rq_actor = ''admin'', rq_deliveryId = None\<rparr>"

theorem coalesce_key_identifies_work_witness:
  "coalesceKey (ex_request ''abc'' True) \<noteq> coalesceKey (ex_request ''abc'' False)"
  using coalesce_key_identifies_work [of "ex_request ''abc'' True" "ex_request ''abc'' False"]
  by (simp add: ex_request_def colon_free_def same_work_def)

section \<open>Automatic placement\<close>

text \<open>Placement is approved without an operator exactly when the policy is bounded automatic, no
  signal objects, and the change is one node added or removed from a placement that keeps a node and was
  approved before (or is a single node). The effect it carries is the difference of the two node lists.\<close>

theorem bounded_auto_placement_iff:
  "((\<exists>reason effect. decideBoundedAutoPlacement input = Pd_auto_approve reason effect)
     \<longleftrightarrow> placement_signals_clear input \<and> single_node_change input)
   \<and> (decideBoundedAutoPlacement input = Pd_auto_approve reason effect \<longrightarrow>
       set (pe_additions effect) =
         set (nodeIdList (bi_candidateNodeIds input)) - set (nodeIdList (bi_approvedNodeIds input))
       \<and> set (pe_removals effect) =
         set (nodeIdList (bi_approvedNodeIds input)) - set (nodeIdList (bi_candidateNodeIds input)))"
  using auto_approve_iff [of input] decision_effect [of input reason effect] placement_change_sets [of input]
  by auto

definition ex_placement :: bounded_auto_input where
  "ex_placement =
     \<lparr>bi_policy = Pp_bounded_auto, bi_approvedNodeIds = Some (JArr [JNum (NInt 1)]),
      bi_candidateNodeIds = Some (JArr [JNum (NInt 1), JNum (NInt 2)]), bi_hasPriorApproval = True,
      bi_statelessness = Some Ws_stateless, bi_pinDriven = False, bi_cordonOverride = False,
      bi_cordonDrivenRemoval = False, bi_affectedNodeState = Ns_reachable,
      bi_conflictingOperation = False, bi_evidenceReadable = True, bi_evidenceWellFormed = True\<rparr>"

lemma ex_placement_approved:
  "decideBoundedAutoPlacement ex_placement =
     Pd_auto_approve Pr_stateless_addition \<lparr>pe_additions = [NInt 2], pe_removals = []\<rparr>"
  by code_simp

theorem bounded_auto_placement_iff_witness:
  "placement_signals_clear ex_placement \<and> single_node_change ex_placement"
  using bounded_auto_placement_iff [of ex_placement] ex_placement_approved by blast

section \<open>Repositories\<close>

lemma lower_char_punct:
  assumes "of_char d < (97 :: nat)" and "lower_char c = d"
  shows "c = d"
proof (cases "65 \<le> (of_char c :: nat) \<and> (of_char c :: nat) \<le> 90")
  case True
  then have "of_char (lower_char c) = (of_char c :: nat) + 32" by (simp add: lower_char_def of_char_of)
  with True assms show ?thesis by simp
next
  case False
  then show ?thesis using assms(2) by (auto simp: lower_char_def)
qed

lemma lower_free: "of_char d < (97 :: nat) \<Longrightarrow> d \<notin> set s \<Longrightarrow> d \<notin> set (lower s)"
  unfolding lower_def by (auto dest: lower_char_punct [OF _ refl])

text \<open>A host and a path as a configured URL spells them.\<close>

definition plain_host :: "string \<Rightarrow> bool" where
  "plain_host h \<longleftrightarrow> h \<noteq> [] \<and> (\<forall>c \<in> set h. \<not> is_space c \<and> c \<noteq> CHR ''/'' \<and> c \<noteq> CHR '':'' \<and> c \<noteq> CHR '']'')"

definition plain_path :: "string \<Rightarrow> bool" where
  "plain_path p \<longleftrightarrow>
     (let final = last (split_on (CHR ''/'') p)
      in final \<noteq> [] \<and> \<not> ends_with final ''.git'' \<and> final \<noteq> ''..'')"

lemma trim_no_space: "(\<forall>c \<in> set s. \<not> is_space c) \<Longrightarrow> js_trim s = s"
proof -
  have keep: "(\<forall>c \<in> set t. \<not> is_space c) \<Longrightarrow> dropWhile is_space t = t" for t by (cases t) auto
  assume "\<forall>c \<in> set s. \<not> is_space c"
  then show ?thesis using keep [of s] keep [of "rev s"] by (simp add: js_trim_def)
qed

lemma is_space_colon [simp]: "\<not> is_space (CHR '':'')"
  by (simp add: is_space_def)

lemma key_host_port:
  assumes h: "plain_host h" and p: "\<forall>c \<in> set port. \<not> is_space c \<and> c \<noteq> CHR ''/'' \<and> c \<noteq> CHR '']''"
  shows "canonicalRepoKey \<lparr>rid_host = h @ CHR '':'' # port, rid_pathname = path\<rparr>
     = canonicalRepoKey \<lparr>rid_host = h, rid_pathname = path\<rparr>"
proof -
  have t: "js_trim h = h" "js_trim (h @ CHR '':'' # port) = h @ CHR '':'' # port"
    by (rule trim_no_space, use h p in \<open>simp add: plain_host_def ball_Un\<close>)+
  have low: "lower (h @ CHR '':'' # port) = lower h @ CHR '':'' # lower port"
    by (simp add: lower_def) (simp add: lower_char_def)
  have punct: "of_char (CHR '']'') < (97 :: nat)" "of_char (CHR '':'') < (97 :: nat)" "of_char (CHR ''/'') < (97 :: nat)"
    by simp_all
  have "CHR '']'' \<notin> set h" "CHR '':'' \<notin> set h" "CHR ''/'' \<notin> set h" using h unfolding plain_host_def by blast+
  note free = this [THEN lower_free [rotated]]
  have "CHR '']'' \<notin> set port" "CHR ''/'' \<notin> set port" using p by blast+
  note free_port = this [THEN lower_free [rotated]]
  have "CHR '']'' \<notin> set (lower h @ CHR '':'' # lower port)" "CHR '':'' \<notin> set (lower h)"
    using free(1,2) free_port(1) punct by simp_all
  note host = canonical_host_port [OF this]
  have "CHR ''/'' \<notin> set (lower h @ CHR '':'' # lower port)" "CHR ''/'' \<notin> set (lower h)"
    using free(3) free_port(2) punct by simp_all
  moreover have "lower h \<noteq> []" using h by (auto simp: plain_host_def lower_def)
  ultimately show ?thesis by (simp add: canonicalRepoKey_def t low host Let_def)
qed

lemma key_path:
  assumes "canonical_path p = canonical_path q"
    and "''..'' \<in> set (split_on (CHR ''/'') p) \<longleftrightarrow> ''..'' \<in> set (split_on (CHR ''/'') q)"
  shows "canonicalRepoKey \<lparr>rid_host = h, rid_pathname = p\<rparr> = canonicalRepoKey \<lparr>rid_host = h, rid_pathname = q\<rparr>"
  using assms by (simp add: canonicalRepoKey_def Let_def)

text \<open>C40. The key of a repository does not depend on how its URL is spelled: the case of the host, a port,
  trailing slashes and one .git suffix change nothing, for a path whose last segment is a name without
  such a suffix of its own.\<close>

theorem repo_key_ignores_spelling:
  assumes "plain_path path" and "plain_host host" and "plain_host host'" and "lower host' = lower host"
    and "\<forall>c \<in> set port. is_digit c"
  shows "canonicalRepoKey \<lparr>rid_host = host', rid_pathname = path\<rparr> = canonicalRepoKey \<lparr>rid_host = host, rid_pathname = path\<rparr>
     \<and> canonicalRepoKey \<lparr>rid_host = host @ CHR '':'' # port, rid_pathname = path\<rparr>
         = canonicalRepoKey \<lparr>rid_host = host, rid_pathname = path\<rparr>
     \<and> canonicalRepoKey \<lparr>rid_host = host, rid_pathname = path @ replicate n (CHR ''/'')\<rparr>
         = canonicalRepoKey \<lparr>rid_host = host, rid_pathname = path\<rparr>
     \<and> canonicalRepoKey \<lparr>rid_host = host, rid_pathname = path @ ''.git''\<rparr>
         = canonicalRepoKey \<lparr>rid_host = host, rid_pathname = path\<rparr>"
proof (intro conjI)
  let ?l = "last (split_on (CHR ''/'') path)"
  have l: "?l \<noteq> []" "\<not> ends_with ?l ''.git''" "?l \<noteq> ''..''" using assms(1) by (auto simp: plain_path_def Let_def)
  have "js_trim host = host" "js_trim host' = host'"
    using assms(2,3) trim_no_space by (auto simp: plain_host_def)
  then show "canonicalRepoKey \<lparr>rid_host = host', rid_pathname = path\<rparr>
      = canonicalRepoKey \<lparr>rid_host = host, rid_pathname = path\<rparr>"
    using assms(4) by (simp add: canonicalRepoKey_def Let_def)
  have "\<forall>c \<in> set port. \<not> is_space c \<and> c \<noteq> CHR ''/'' \<and> c \<noteq> CHR '']''"
    using assms(5) by (auto simp: is_digit_def is_space_def)
  then show "canonicalRepoKey \<lparr>rid_host = host @ CHR '':'' # port, rid_pathname = path\<rparr>
      = canonicalRepoKey \<lparr>rid_host = host, rid_pathname = path\<rparr>"
    by (rule key_host_port [OF assms(2)])
  show "canonicalRepoKey \<lparr>rid_host = host, rid_pathname = path @ replicate n (CHR ''/'')\<rparr>
      = canonicalRepoKey \<lparr>rid_host = host, rid_pathname = path\<rparr>"
    by (rule key_path) (auto simp: canonical_path_slashes [OF l(1)] split_on_slashes)
  have seg: "split_on (CHR ''/'') (path @ ''.git'') = butlast (split_on (CHR ''/'') path) @ [?l @ ''.git'']"
    by (rule split_on_last) simp
  have "set (split_on (CHR ''/'') path) = set (butlast (split_on (CHR ''/'') path)) \<union> {?l}"
    by (metis append_butlast_last_id empty_set list.simps(15) set_append split_on_nonempty)
  then have "''..'' \<in> set (split_on (CHR ''/'') (path @ ''.git'')) \<longleftrightarrow> ''..'' \<in> set (split_on (CHR ''/'') path)"
    using l(3) by (auto simp: seg)
  then show "canonicalRepoKey \<lparr>rid_host = host, rid_pathname = path @ ''.git''\<rparr>
      = canonicalRepoKey \<lparr>rid_host = host, rid_pathname = path\<rparr>"
    by (intro key_path canonical_path_git [OF l(1,2)])
qed

theorem repo_key_ignores_spelling_witness:
  "canonicalRepoKey \<lparr>rid_host = ''git.example'', rid_pathname = ''/org/app'' @ ''.git''\<rparr>
     = canonicalRepoKey \<lparr>rid_host = ''git.example'', rid_pathname = ''/org/app''\<rparr>
   \<and> canonicalRepoKey \<lparr>rid_host = ''git.example'', rid_pathname = ''/org/app''\<rparr> = Some ''git.example/org/app''"
proof -
  have "plain_path ''/org/app''" "plain_host ''git.example''" "plain_host ''Git.Example''"
    "lower ''Git.Example'' = lower ''git.example''" "\<forall>c \<in> set ''2222''. is_digit c"
    by code_simp+
  note * = repo_key_ignores_spelling [OF this]
  have "canonicalRepoKey \<lparr>rid_host = ''git.example'', rid_pathname = ''/org/app''\<rparr> = Some ''git.example/org/app''"
    by code_simp
  with * show ?thesis by blast
qed

text \<open>A URL is accepted for storage only when it names a repository and the form that is stored in its
  place, without its secrets, names the same one.\<close>

theorem stored_url_names_same_repository:
  assumes "repoUrlRejectionMessage new_URL raw = None"
  shows "\<exists>parsed key. parseStorableRepoUrl new_URL raw = Inr parsed
     \<and> canonicalRepoKeyFromUrl new_URL raw = Some key
     \<and> canonicalRepoKeyFromUrl new_URL (secretFreeRepoUrlFromStorable parsed) = Some key"
  using accepted_url_key [OF assms] by (metis not_None_eq)

text \<open>A parser that knows one HTTPS URL.\<close>

definition one_url :: url_parser where
  "one_url s =
     (if s = ''https://git.example/org/app''
      then Some \<lparr>url_protocol = ''https:'', url_username = [], url_password = [], url_host = ''git.example'',
                 url_hostname = ''git.example'', url_port = [], url_pathname = ''/org/app'', url_search = [],
                 url_hash = []\<rparr>
      else None)"

theorem stored_url_names_same_repository_witness:
  "\<exists>parsed key. parseStorableRepoUrl one_url '' https://git.example/org/app '' = Inr parsed
     \<and> canonicalRepoKeyFromUrl one_url '' https://git.example/org/app '' = Some key
     \<and> canonicalRepoKeyFromUrl one_url (secretFreeRepoUrlFromStorable parsed) = Some key"
proof -
  have "repoUrlRejectionMessage one_url '' https://git.example/org/app '' = None" by code_simp
  then show ?thesis by (rule stored_url_names_same_repository)
qed

end
