(* ===== verification/Rollout_Properties.thy ===== *)
theory Rollout_Properties
  imports Trace_Evaluation Policy_Properties
begin

text \<open>
  The properties of rollouts and of what applications are bound to: which decisions the authority pointers
  name, exclusive ownership of stacks, Blueprints and repositories, verdicts, restores and announcements.
\<close>

section \<open>Authority\<close>

text \<open>C5. In every reachable database a rollout authorization pointer names an authoritative rollout
  authorization of that application for its current intent revision, rollout candidate, rollout generation
  and placement approval; and that placement approval is an authoritative one for the same intent revision
  and candidate.\<close>

theorem rollout_authority_is_current:
  assumes "reachable P db" and "getApplication db i = Some app"
    and "app_rollout_authorization_ref app = Some ref"
  shows "\<exists>auth place placement.
     getApproval db ref = Some auth \<and> apv_kind auth = Ak_rollout_authorization
     \<and> apv_application_id auth = i \<and> apv_authoritative auth = 1
     \<and> apv_intent_revision_id auth = app_intent_revision_id app
     \<and> apv_rollout_candidate_id auth = app_rollout_candidate_id app
     \<and> apv_rollout_generation_id auth = app_rollout_generation_id app
     \<and> app_rollout_generation_id app \<noteq> None
     \<and> app_placement_approval_ref app = Some place \<and> apv_placement_approval_ref auth = Some place
     \<and> getApproval db place = Some placement \<and> apv_kind placement = Ak_placement_approval
     \<and> apv_application_id placement = i \<and> apv_authoritative placement = 1
     \<and> apv_intent_revision_id placement = app_intent_revision_id app
     \<and> apv_rollout_candidate_id placement = app_rollout_candidate_id app"
proof -
  have "authority_ok db i (app_intent_revision_id app) (app_rollout_candidate_id app)
      (app_rollout_generation_id app) (app_placement_approval_ref app) (Some ref)"
    using getApplication_ok [OF reachable_ok [OF assms(1)] assms(2)] getApplication_id [OF assms(2)] assms(3)
    by (simp add: app_ok_def)
  then show ?thesis by (auto simp: authority_ok_def authorized_by_def placed_by_def)
qed

lemma ex_authorized_app:
  obtains app where "getApplication (ex_db ex_authorized) ''app'' = Some app"
    and "app_rollout_authorization_ref app = Some ''auth1''" and "app_target_mode app = Blueprint"
    and "live_lifecycle app" and "app_blueprint_id app = Some 7"
    and "repo_key (newURL ex_platform) app = Some ''git.example/org/app''"
  using ex_authorized_row
  by (auto simp: repo_key_def ex_platform_def live_lifecycle_def split: option.splits)

theorem rollout_authority_is_current_witness:
  "\<exists>auth. getApproval (ex_db ex_authorized) ''auth1'' = Some auth \<and> apv_application_id auth = ''app''
     \<and> apv_kind auth = Ak_rollout_authorization \<and> apv_authoritative auth = 1"
proof -
  obtain app where "getApplication (ex_db ex_authorized) ''app'' = Some app"
    "app_rollout_authorization_ref app = Some ''auth1''" by (rule ex_authorized_app)
  from rollout_authority_is_current [OF ex_authorized_reachable this] show ?thesis by blast
qed

section \<open>Bindings\<close>

lemma row_unique:
  assumes "db_ok db" and "a \<in> set (db_applications db)" and "b \<in> set (db_applications db)" and "app_id a = app_id b"
  shows "a = b"
proof -
  have "distinct (map app_id (db_applications db))" using assms(1) by (simp add: db_ok_def)
  from distinct_getApplication [OF this assms(2)] distinct_getApplication [OF this assms(3)] assms(4)
  show ?thesis by (metis option.inject)
qed

text \<open>C6. In every reachable database a stack belongs to at most one live Direct application and a Blueprint
  to at most one live Blueprint application, so the lookups by stack and by Blueprint return the only live
  owner; and every row satisfies the column checks of its mode.\<close>

theorem live_bindings_are_exclusive:
  assumes "reachable P db" and "app \<in> set (db_applications db)" and "live_lifecycle app"
  shows "application_check app
     \<and> (app_target_mode app = Direct \<longrightarrow>
          (\<exists>s. app_stack_name app = Some s \<and> getLiveDirectApplication db s = Some app))
     \<and> (app_target_mode app \<noteq> Direct \<longrightarrow>
          (\<exists>b. app_blueprint_id app = Some b \<and> getLiveBlueprintApplication db b = Some app))"
proof -
  have ok: "db_ok db" and ex: "exclusive (newURL P) db"
    using reachable_state_ok [OF assms(1)] by (simp_all add: state_ok_def)
  have same: "other = app" if "other \<in> set (db_applications db)" "live_conflict other app" for other
  proof -
    have "app_id other = app_id app" using ex that assms(2) by (auto simp: exclusive_def apart_def)
    then show ?thesis by (rule row_unique [OF ok that(1) assms(2)])
  qed
  have chk: "application_check app" using ex assms(2) by (simp add: exclusive_def row_bound_ok_def)
  moreover have "\<exists>s. app_stack_name app = Some s \<and> getLiveDirectApplication db s = Some app"
    if d: "app_target_mode app = Direct"
  proof -
    obtain s where s: "app_stack_name app = Some s" using chk d by (auto simp: application_check_def)
    obtain x where x: "getLiveDirectApplication db s = Some x"
      using assms(2,3) s d by (cases "getLiveDirectApplication db s")
        (auto simp: getLiveDirectApplication_def find_None_iff)
    then have "x \<in> set (db_applications db)" "live_conflict x app"
      using assms(3) s d by (auto simp: getLiveDirectApplication_def live_conflict_def dest: find_Some_set)
    then show ?thesis using same x s by blast
  qed
  moreover have "\<exists>b. app_blueprint_id app = Some b \<and> getLiveBlueprintApplication db b = Some app"
    if d: "app_target_mode app \<noteq> Direct"
  proof -
    have m: "blueprint_modes app" using d by (cases "app_target_mode app") (auto simp: blueprint_modes_def)
    obtain b where b: "app_blueprint_id app = Some b"
      using chk d by (cases "app_target_mode app") (auto simp: application_check_def)
    obtain x where x: "getLiveBlueprintApplication db b = Some x"
      using assms(2,3) b m by (cases "getLiveBlueprintApplication db b")
        (auto simp: getLiveBlueprintApplication_def find_None_iff)
    then have "x \<in> set (db_applications db)" "live_conflict x app"
      using assms(3) b m by (auto simp: getLiveBlueprintApplication_def live_conflict_def dest: find_Some_set)
    then show ?thesis using same x b by blast
  qed
  ultimately show ?thesis by blast
qed

theorem live_bindings_are_exclusive_witness:
  "\<exists>app. getApplication (ex_db ex_authorized) ''app'' = Some app
     \<and> getLiveBlueprintApplication (ex_db ex_authorized) 7 = Some app"
proof -
  obtain app where app: "getApplication (ex_db ex_authorized) ''app'' = Some app" "app_target_mode app = Blueprint"
    "live_lifecycle app" "app_blueprint_id app = Some 7" by (rule ex_authorized_app)
  then have "app \<in> set (db_applications (ex_db ex_authorized))" by (auto dest: getApplication_id)
  from live_bindings_are_exclusive [OF ex_authorized_reachable this app(3)] app show ?thesis by auto
qed

text \<open>C7. In every reachable database the live applications in Blueprint mode claim identifiable and
  pairwise different repositories: two of them whose configured URLs name the same repository are the same
  application.\<close>

theorem repository_claims_are_exclusive:
  assumes "reachable P db" and "a \<in> set (db_applications db)" and "b \<in> set (db_applications db)"
    and "claims_repo a" and "claims_repo b" and "repo_key (newURL P) a = repo_key (newURL P) b"
  shows "a = b \<and> repo_key (newURL P) a \<noteq> None"
proof -
  have ok: "db_ok db" and ex: "exclusive (newURL P) db"
    using reachable_state_ok [OF assms(1)] by (simp_all add: state_ok_def)
  have "app_id a = app_id b" using ex assms(2-) by (auto simp: exclusive_def apart_def repo_conflict_def)
  then have "a = b" by (rule row_unique [OF ok assms(2,3)])
  moreover have "repo_key (newURL P) a \<noteq> None" using ex assms(2,4) by (auto simp: exclusive_def row_bound_ok_def)
  ultimately show ?thesis by blast
qed

theorem repository_claims_are_exclusive_witness:
  "\<exists>app. getApplication (ex_db ex_authorized) ''app'' = Some app \<and> claims_repo app
     \<and> repo_key plain_url app \<noteq> None"
proof -
  obtain app where app: "getApplication (ex_db ex_authorized) ''app'' = Some app" "app_target_mode app = Blueprint"
    "live_lifecycle app" by (rule ex_authorized_app)
  then have m: "app \<in> set (db_applications (ex_db ex_authorized))" by (auto dest: getApplication_id)
  have c: "claims_repo app" using app by (simp add: claims_repo_def)
  from repository_claims_are_exclusive [OF ex_authorized_reachable m m c c refl] app c
  show ?thesis by (auto simp: ex_platform_def)
qed

end
