(* ===== verification/Workload_Properties.thy ===== *)
theory Workload_Properties
  imports Transition_Effects Trace_Evaluation
begin

text \<open>
  The properties of single transitions on a node's workload: health verdicts, restores, and the source
  taking up work again after a suspension.
\<close>

section \<open>Health verdicts\<close>











end
