(* ===== verification/Source_Controller.thy ===== *)
theory Source_Controller
  imports Deploy_Transitions Backoff Outcomes
begin

text \<open>
  The driver of unattended reconciliation (\<^verbatim>\<open>gitops/SourceController.ts\<close>): its timer, the slots that keep one
  evaluation per application, parked wakes, and what a finished fetch does to the retry and poll cursors. The
  reconcile submission and automatic acceptance run between a claim and its release; here they are the
  database at release and the result handed to the settlement.
\<close>

section \<open>Eligibility\<close>

definition SUCCESS_SHAPED_OUTCOMES :: "reconcile_outcome list" where
  "SUCCESS_SHAPED_OUTCOMES =
     [Ro_no_source_change, Ro_candidate_already_fetched, Ro_pending_review, Ro_superseded]"

definition recoveryWaitHolds :: "gitops_application_row \<Rightarrow> bool" where
  "recoveryWaitHolds app =
     (app_recovery_phase app = Some Rp_restoring \<or> app_recovery_phase app = Some Rp_compensating
      \<or> app_recovery_phase app = Some Rp_failed \<or> app_failure_stage app = Some Af_recovery)"

datatype operator_fetch_refusal =
    Of_not_git_managed | Of_no_source_identity | Of_suspended | Of_applying | Of_fetch_in_flight
  | Of_recovery | Of_confirmation_stale confirmation_drift

definition operatorFetchBlock ::
    "gitops_application_row option \<Rightarrow> bool \<Rightarrow> operator_fetch_refusal + gitops_application_row \<times> string" where
  "operatorFetchBlock row inFlight =
     (case row of
        None \<Rightarrow> Inl Of_not_git_managed
      | Some app \<Rightarrow>
          (if app_target_mode app \<noteq> Blueprint
              \<or> (app_lifecycle_status app \<noteq> Lc_active \<and> app_lifecycle_status app \<noteq> Lc_creating)
           then Inl Of_not_git_managed
           else
             (let stackName = nullish_opt (app_configured_source_stack_name app) (app_stack_name app)
              in if \<not> truthy_str stackName then Inl Of_no_source_identity
                 else if truthy_num (app_suspended_at app) then Inl Of_suspended
                 else if app_active_operation_stage app = Some Ast_apply_started then Inl Of_applying
                 else if app_interruption_stage app = Some Ast_apply_started
                   \<and> app_interruption_generation_id app \<noteq> None
                   \<and> app_interruption_generation_id app = app_candidate_generation_id app
                 then Inl Of_applying
                 else if inFlight \<or> app_active_operation_stage app = Some Ast_fetch_started
                 then Inl Of_fetch_in_flight
                 else if recoveryWaitHolds app then Inl Of_recovery
                 else Inr (app, the stackName))))"

section \<open>Timer and slots\<close>

text \<open>A timer is the schedule generation its callback was armed with.\<close>

record source_controller =
  sc_timer :: "nat option"
  sc_polling :: bool
  sc_scheduleGeneration :: nat
  sc_inFlight :: "string list"
  sc_pendingWakes :: "(string \<times> string) list"

definition new_controller :: source_controller where
  "new_controller =
     \<lparr>sc_timer = None, sc_polling = False, sc_scheduleGeneration = 0, sc_inFlight = [], sc_pendingWakes = []\<rparr>"

definition armNext :: "source_controller \<Rightarrow> source_controller" where
  "armNext c = c\<lparr>sc_timer := Some (sc_scheduleGeneration c)\<rparr>"

definition cancelPending :: "source_controller \<Rightarrow> source_controller" where
  "cancelPending c = c\<lparr>sc_scheduleGeneration := sc_scheduleGeneration c + 1, sc_timer := None\<rparr>"

definition start_polling :: "source_controller \<Rightarrow> source_controller" where
  "start_polling c = (if sc_polling c then c else armNext (c\<lparr>sc_polling := True\<rparr>))"

definition stop_polling :: "source_controller \<Rightarrow> source_controller" where
  "stop_polling c = (cancelPending c)\<lparr>sc_polling := False\<rparr>"

definition restartPolling :: "source_controller \<Rightarrow> source_controller" where
  "restartPolling c = (if sc_polling (cancelPending c) then armNext (cancelPending c) else cancelPending c)"

definition claim_slot :: "string \<Rightarrow> source_controller \<Rightarrow> source_controller" where
  "claim_slot i c = (if i \<in> set (sc_inFlight c) then c else c\<lparr>sc_inFlight := sc_inFlight c @ [i]\<rparr>)"

text \<open>The evaluations a call starts: the row and the trigger an out-of-band caller names.\<close>

type_synonym evaluation = "gitops_application_row \<times> reconcile_trigger option"

text \<open>The default limit of the two due scans.\<close>

definition DUE_LIMIT :: nat where
  "DUE_LIMIT = 200"

fun claim_due :: "gitops_application_row list \<Rightarrow> source_controller \<Rightarrow> source_controller \<times> evaluation list" where
  "claim_due [] c = (c, [])"
| "claim_due (app # due) c =
     (if app_id app \<in> set (sc_inFlight c) then claim_due due c
      else (let (c1, started) = claim_due due (claim_slot (app_id app) c) in (c1, (app, None) # started)))"

text \<open>The rows due for a poll, then those due for a retry; a row due for both is there once.\<close>

definition due_rows :: "gitops_db \<Rightarrow> int \<Rightarrow> gitops_application_row list" where
  "due_rows db now =
     (let polls = listSourcesDueForPoll db now DUE_LIMIT
      in polls @ filter (\<lambda>r. app_id r \<notin> set (map app_id polls)) (listApplicationsDueForRetry db now DUE_LIMIT))"

definition scan :: "gitops_db \<Rightarrow> int \<Rightarrow> source_controller \<Rightarrow> source_controller \<times> evaluation list" where
  "scan db now c = claim_due (due_rows db now) c"

definition tick :: "nat \<Rightarrow> gitops_db \<Rightarrow> int \<Rightarrow> source_controller \<Rightarrow> source_controller \<times> evaluation list" where
  "tick gen db now c =
     (if \<not> sc_polling c \<or> gen \<noteq> sc_scheduleGeneration c then (c, [])
      else
        (let (c1, started) = scan db now (c\<lparr>sc_timer := None\<rparr>)
         in (if sc_polling c1 \<and> gen = sc_scheduleGeneration c1 then armNext c1 else c1, started)))"

definition set_wake :: "string \<Rightarrow> string \<Rightarrow> source_controller \<Rightarrow> source_controller" where
  "set_wake i s c =
     c\<lparr>sc_pendingWakes := (i, s) # filter (\<lambda>w. fst w \<noteq> i) (sc_pendingWakes c)\<rparr>"

definition evaluateNow :: "string \<Rightarrow> gitops_db \<Rightarrow> source_controller \<Rightarrow> source_controller \<times> evaluation option" where
  "evaluateNow stackName db c =
     (case getLiveSourceApplication db stackName of
        None \<Rightarrow> (c, None)
      | Some app \<Rightarrow>
          (if app_source_policy app = Sp_manual \<or> truthy_num (app_suspended_at app) then (c, None)
           else if app_id app \<in> set (sc_inFlight c) then (set_wake (app_id app) stackName c, None)
           else (claim_slot (app_id app) c, Some (app, Some Tr_resume))))"

definition releaseAndDrainWake ::
    "string \<Rightarrow> gitops_db \<Rightarrow> source_controller \<Rightarrow> source_controller \<times> evaluation option" where
  "releaseAndDrainWake applicationId db c =
     (let c1 = c\<lparr>sc_inFlight := filter (\<lambda>i. i \<noteq> applicationId) (sc_inFlight c)\<rparr>
      in case map_of (sc_pendingWakes c1) applicationId of
           None \<Rightarrow> (c1, None)
         | Some wakeStackName \<Rightarrow>
             evaluateNow wakeStackName db
               (c1\<lparr>sc_pendingWakes := filter (\<lambda>w. fst w \<noteq> applicationId) (sc_pendingWakes c1)\<rparr>))"

text \<open>The part of an operator pull before the reconcile submission.\<close>

definition requestFetch ::
    "string \<Rightarrow> source_confirmation option \<Rightarrow> gitops_db \<Rightarrow> source_controller
      \<Rightarrow> operator_fetch_refusal + source_controller \<times> gitops_application_row \<times> string" where
  "requestFetch applicationId confirmation db c =
     (case operatorFetchBlock (getApplication db applicationId) (applicationId \<in> set (sc_inFlight c)) of
        Inl refusal \<Rightarrow> Inl refusal
      | Inr (app, stackName) \<Rightarrow>
          (case Option.bind confirmation (sourceConfirmationDrift app) of
             Some drift \<Rightarrow> Inl (Of_confirmation_stale drift)
           | None \<Rightarrow> Inr (claim_slot (app_id app) c, app, stackName)))"

text \<open>The submission an evaluation makes; none without a stack identity or for a manual source.\<close>

definition evaluation_request :: "int \<Rightarrow> evaluation \<Rightarrow> reconcile_request option" where
  "evaluation_request now ev =
     (let app = fst ev; stackName = nullish_opt (app_stack_name app) (app_configured_source_stack_name app)
      in if \<not> truthy_str stackName then None
         else if app_source_policy app = Sp_manual then None
         else
           (let isRetry = (case app_retry_at app of None \<Rightarrow> False | Some t \<Rightarrow> t \<le> now)
            in Some \<lparr>rq_intent = Ri_fetch, rq_applicationId = app_id app, rq_stackName = the stackName,
                     rq_trigger = nullish (snd ev) (if isRetry then Tr_retry else Tr_poll),
                     rq_actor = ''system:source-controller'', rq_deliveryId = None\<rparr>))"

section \<open>Cursors\<close>

text \<open>A refused cursor write is logged and skipped.\<close>

definition or_skip :: "(gitops_db \<times> transition_result) res \<Rightarrow> gitops_db \<Rightarrow> gitops_db" where
  "or_skip m db = (case m of Inr (db1, _) \<Rightarrow> db1 | Inl _ \<Rightarrow> db)"

text \<open>\<open>cl_random\<close> is \<^verbatim>\<open>Math.random()\<close>. The retry instant may fall inside a millisecond; the clock it is compared
  with ticks whole ones, so it is kept rounded up.\<close>

record controller_clock =
  cl_now :: int
  cl_random :: rat
  cl_operationId :: string

definition controller_envelope :: "string \<Rightarrow> controller_clock \<Rightarrow> event_envelope" where
  "controller_envelope trigger clk =
     \<lparr>ev_operationId = cl_operationId clk, ev_actor = Some ''system:source-controller'', ev_trigger = trigger,
      ev_at = cl_now clk\<rparr>"

definition code_of :: "string \<Rightarrow> git_source_error_code option" where
  "code_of s = find (\<lambda>c. error_code_text c = s) (map fst CODE_DISPOSITION)"

definition maybeScheduleRetry :: "controller_clock \<Rightarrow> gitops_application_row \<Rightarrow> gitops_db \<Rightarrow> gitops_db" where
  "maybeScheduleRetry clk app db =
     (if app_source_policy app = Sp_manual then db
      else if \<not> truthy_str (app_failure_class app) \<or> app_failure_stage app \<noteq> Some Af_fetch then db
      else if \<not> isGitSourceErrorCode (the (app_failure_class app)) then db
      else
        (case Option.bind (code_of (the (app_failure_class app)))
                (\<lambda>code. classifyFailure (Fe_git_source_error code None)) of
           Some (Fd_transient retryCeiling) \<Rightarrow>
             (if app_retry_count app \<ge> int retryCeiling then db
              else or_skip (sourceRetryScheduled (app_id app)
                     \<lceil>nextRetryAt (cl_random clk) (of_int (cl_now clk)) (nat (app_retry_count app)) None\<rceil>
                     (app_retry_count app + 1) (controller_envelope ''retry'' clk) db) db)
         | _ \<Rightarrow> db))"

definition maybeScheduleNextPoll ::
    "int \<Rightarrow> controller_clock \<Rightarrow> gitops_application_row \<Rightarrow> gitops_db \<Rightarrow> gitops_db" where
  "maybeScheduleNextPoll globalMins clk app db =
     (if app_source_policy app = Sp_manual then db
      else
        (let secs = effectivePollIntervalSecs (app_poll_interval_secs app) globalMins
         in if secs \<le> 0 then db
            else or_skip (sourcePollScheduled (app_id app) (cl_now clk + secs * 1000)
                   (controller_envelope ''poll'' clk) db) db))"

text \<open>What a finished fetch does to the cursors, and whether automatic acceptance is consulted.\<close>

definition settleAfterReconcile ::
    "int \<Rightarrow> controller_clock \<Rightarrow> gitops_application_row \<Rightarrow> reconcile_result \<Rightarrow> gitops_db \<Rightarrow> gitops_db \<times> bool" where
  "settleAfterReconcile globalMins clk fresh result db =
     (if rr_outcome result = Ro_failed_previous_intact \<or> rr_outcome result = Ro_retry_scheduled
      then (maybeScheduleRetry clk fresh db, False)
      else if rr_outcome result \<in> set SUCCESS_SHAPED_OUTCOMES
      then (maybeScheduleNextPoll globalMins clk fresh db, True)
      else if rr_outcome result = Ro_recovery_required \<and> recoveryWaitHolds fresh
      then (maybeScheduleNextPoll globalMins clk fresh db, False)
      else (db, False))"

definition listActiveSourceApplications :: "gitops_db \<Rightarrow> gitops_application_row list" where
  "listActiveSourceApplications db =
     js_sort (\<lambda>a b. code_unit_cmp
         (nullish (nullish_opt (app_stack_name a) (app_configured_source_stack_name a)) [])
         (nullish (nullish_opt (app_stack_name b) (app_configured_source_stack_name b)) []))
       (filter (\<lambda>r. app_lifecycle_status r = Lc_active \<and> SOURCE_APPLICATION_MODE_SQL r) (db_applications db))"

text \<open>The operation ids a rescheduling pass mints, one per application it reaches.\<close>

fun reschedule_each ::
    "int \<Rightarrow> string \<Rightarrow> int \<Rightarrow> string list \<Rightarrow> gitops_application_row list \<Rightarrow> gitops_db \<Rightarrow> gitops_db" where
  "reschedule_each globalMins actor now ids [] db = db"
| "reschedule_each globalMins actor now ids (app # apps) db =
     (let secs = effectivePollIntervalSecs (app_poll_interval_secs app) globalMins
      in if app_source_policy app = Sp_manual \<or> app_retry_at app \<noteq> None \<or> secs \<le> 0
         then reschedule_each globalMins actor now ids apps db
         else reschedule_each globalMins actor now (tl ids) apps
           (or_skip (sourcePollScheduled (app_id app) (now + secs * 1000)
              \<lparr>ev_operationId = (case ids of [] \<Rightarrow> [] | i # _ \<Rightarrow> i), ev_actor = Some actor,
               ev_trigger = ''config_change'', ev_at = now\<rparr> db) db))"

definition rescheduleAll :: "int \<Rightarrow> string \<Rightarrow> int \<Rightarrow> string list \<Rightarrow> gitops_db \<Rightarrow> gitops_db" where
  "rescheduleAll globalMins actor now ids db =
     reschedule_each globalMins actor now ids (listActiveSourceApplications db) db"

end
