(* ===== verification/Controller_Properties.thy ===== *)
theory Controller_Properties
  imports Source_Controller Transition_Effects Trace_Evaluation
begin

text \<open>
  The source controller as a state machine over its slots, and the retry loop it drives: one evaluation per
  application, no lost wake, one timer, and a bounded number of retries.
\<close>

section \<open>The machine\<close>





text \<open>What claiming a slot does to the slots, and that it touches nothing else.\<close>

definition slots_grow :: "source_controller \<Rightarrow> source_controller \<Rightarrow> string list \<Rightarrow> bool" where
  "slots_grow c c' ids \<longleftrightarrow> sc_inFlight c' = sc_inFlight c @ ids \<and> distinct ids \<and> set ids \<inter> set (sc_inFlight c) = {}
     \<and> sc_pendingWakes c' = sc_pendingWakes c \<and> sc_timer c' = sc_timer c \<and> sc_polling c' = sc_polling c
     \<and> sc_scheduleGeneration c' = sc_scheduleGeneration c"

lemma slots_grow_refl [simp]: "slots_grow c c []"
  by (simp add: slots_grow_def)














text \<open>C30. A parked wake is not lost: when the evaluation that owns the slot releases it, the wake is consumed
  and, if the source it names is still live, unsuspended and not manual, a resume evaluation of that source
  starts at once in the freed slot.\<close>

theorem parked_wake_is_honoured:
  assumes "map_of (sc_pendingWakes c) i = Some s" and "getLiveSourceApplication db s = Some app"
    and "app_id app = i" and "app_source_policy app \<noteq> Sp_manual" and "\<not> truthy_num (app_suspended_at app)"
  shows "\<exists>c'. releaseAndDrainWake i db c = (c', Some (app, Some Tr_resume)) \<and> i \<in> set (sc_inFlight c')
     \<and> map_of (sc_pendingWakes c') i = None"
proof -
  have "map_of (filter (\<lambda>w. fst w \<noteq> i) ws) i = None" for ws :: "(string \<times> string) list"
    by (auto simp: map_of_eq_None_iff)
  then show ?thesis using assms
    by (auto simp: releaseAndDrainWake_def evaluateNow_def claim_slot_def Let_def)
qed

definition ex_parked :: source_controller where
  "ex_parked = new_controller\<lparr>sc_inFlight := [''app''], sc_pendingWakes := [(''app'', ''web'')]\<rparr>"

definition ex_one_db :: gitops_db where
  "ex_one_db = empty_db\<lparr>db_applications := [ex_app]\<rparr>"

lemma ex_one_lookups:
  "getLiveSourceApplication ex_one_db ''web'' = Some ex_app" "getApplication ex_one_db ''app'' = Some ex_app"
  by (simp_all add: ex_one_db_def ex_app_def getLiveSourceApplication_def getLiveDirectApplication_def
      getApplication_def live_lifecycle_def nullish_opt_def)

theorem parked_wake_is_honoured_witness:
  "\<exists>c'. releaseAndDrainWake ''app'' ex_one_db ex_parked = (c', Some (ex_app, Some Tr_resume))
     \<and> ''app'' \<in> set (sc_inFlight c') \<and> map_of (sc_pendingWakes c') ''app'' = None"
  by (rule parked_wake_is_honoured [of _ _ "''web''"])
    (simp_all add: ex_parked_def ex_one_lookups, simp_all add: ex_app_def)

section \<open>Retries end\<close>

text \<open>One failing round: a fetch starts, fails with a code, and the controller settles it on the row it
  re-reads.\<close>

definition failing_fetch ::
    "string \<Rightarrow> git_source_error_code \<Rightarrow> event_envelope \<Rightarrow> controller_clock \<Rightarrow> gitops_db \<Rightarrow> gitops_db res" where
  "failing_fetch i code e clk db =
     bind_res (fetchStarted i e db) (\<lambda>(db1, _).
     bind_res (fetchFailed i e (Some (error_code_text code)) db1) (\<lambda>(db2, _).
       Inr (case getApplication db2 i of None \<Rightarrow> db2 | Some fresh \<Rightarrow> maybeScheduleRetry clk fresh db2)))"

fun failing_fetches ::
    "string \<Rightarrow> git_source_error_code \<Rightarrow> (nat \<Rightarrow> event_envelope) \<Rightarrow> (nat \<Rightarrow> controller_clock) \<Rightarrow> nat \<Rightarrow> gitops_db
      \<Rightarrow> gitops_db res" where
  "failing_fetches i code e clk 0 db = Inr db"
| "failing_fetches i code e clk (Suc n) db =
     bind_res (failing_fetches i code e clk n db) (failing_fetch i code (e n) (clk n))"

lemma mutateApp_succeeds:
  assumes app: "getApplication db i = Some app" and m: "mutate app db = Inr (app1, db, ids)"
    and same: "same_identity app app1"
  shows "\<exists>db' r. mutateApp i e stage outcome mutate x db = Inr (db', r) \<and> getApplication db' i = Some (stamp_app e app1)"
proof -
  obtain db' r where run: "mutateApp i e stage outcome mutate x db = Inr (db', r)"
    using app m by (simp add: mutateApp_def Let_def prod.case_eq_if)
  moreover have "same_identity app (stamp_app e app1)" using same by (simp add: same_identity_def stamp_app_def)
  ultimately have "getApplication db' i = Some (stamp_app e app1)"
    by (elim mutateAppE) (use app m same getApplication_id [OF app] in
        \<open>auto simp: getApplication_write keep_identity_same same_identity_def [of app app1]\<close>)
  with run show ?thesis by blast
qed

lemma code_of_text: "code_of (error_code_text code) = Some code"
  by (cases code) (simp_all add: code_of_def CODE_DISPOSITION_def)

lemma error_code_text_nonempty [simp]: "error_code_text code \<noteq> []"
  by (cases code) simp_all

text \<open>The columns of a source that a round reads, and what it makes of them.\<close>

definition retrying :: "gitops_application_row \<Rightarrow> nat \<Rightarrow> bool" where
  "retrying app n \<longleftrightarrow> \<not> truthy_num (app_suspended_at app) \<and> app_active_operation_stage app = None
     \<and> app_source_policy app \<noteq> Sp_manual \<and> app_retry_count app = int n"

lemma fetch_round:
  assumes app: "getApplication db i = Some app" and r: "retrying app n"
  shows "\<exists>db1 r1 db2 r2 app2. fetchStarted i e db = Inr (db1, r1)
     \<and> fetchFailed i e (Some c) db1 = Inr (db2, r2) \<and> getApplication db2 i = Some app2 \<and> app_id app2 = i
     \<and> retrying app2 n \<and> app_retry_at app2 = None \<and> app_failure_class app2 = Some c
     \<and> app_failure_stage app2 = Some Af_fetch"
proof -
  let ?a = "clearInterruption (Some Ast_fetch_started) (app\<lparr>app_active_operation_id := Some (ev_operationId e),
      app_active_operation_stage := Some Ast_fetch_started, app_active_operation_at := Some (ev_at e),
      app_active_generation_id := None, app_retry_at := None, app_next_poll_at := None\<rparr>)"
  have i: "app_id app = i" using getApplication_id [OF app] by simp
  obtain db1 r1 where s: "fetchStarted i e db = Inr (db1, r1)" and g1: "getApplication db1 i = Some (stamp_app e ?a)"
  proof -
    have "\<exists>db1 r1. fetchStarted i e db = Inr (db1, r1) \<and> getApplication db1 i = Some (stamp_app e ?a)"
      unfolding fetchStarted_def by (rule mutateApp_succeeds [OF app, where ids = "[]"])
        (use r in \<open>simp_all add: retrying_def same_identity_def clearInterruption_def\<close>)
    with that show ?thesis by blast
  qed
  let ?b = "clearInterruption (Some Ast_fetch_started) ((clearActive (stamp_app e ?a))\<lparr>app_failure_stage := Some Af_fetch,
      app_failure_class := Some c, app_failure_at := Some (ev_at e)\<rparr>)"
  have "requireMatchingFetch (stamp_app e ?a) e = Inr ()"
    by (simp add: requireMatchingFetch_def stamp_app_def clearInterruption_def)
  then have "\<exists>db2 r2. fetchFailed i e (Some c) db1 = Inr (db2, r2) \<and> getApplication db2 i = Some (stamp_app e ?b)"
    unfolding fetchFailed_def by (intro mutateApp_succeeds [OF g1, where ids = "[]"])
      (simp_all add: same_identity_def clearInterruption_def clearActive_def nullish_def)
  then obtain db2 r2 where f: "fetchFailed i e (Some c) db1 = Inr (db2, r2)"
    and g2: "getApplication db2 i = Some (stamp_app e ?b)" by blast
  have "app_id (stamp_app e ?b) = i \<and> retrying (stamp_app e ?b) n \<and> app_retry_at (stamp_app e ?b) = None
     \<and> app_failure_class (stamp_app e ?b) = Some c \<and> app_failure_stage (stamp_app e ?b) = Some Af_fetch"
    using r i by (simp add: retrying_def stamp_app_def clearInterruption_def clearActive_def)
  with s f g2 show ?thesis by blast
qed

lemma retry_round:
  assumes app: "getApplication db i = Some app" and r: "retrying app n"
    and t: "classifyFailure (Fe_git_source_error code None) = Some (Fd_transient k)"
  shows "\<exists>db' app'. failing_fetch i code e clk db = Inr db' \<and> getApplication db' i = Some app'
     \<and> retrying app' (if n < k then Suc n else n) \<and> (app_retry_at app' \<noteq> None \<longleftrightarrow> n < k)"
proof -
  obtain db1 r1 db2 r2 a where s: "fetchStarted i e db = Inr (db1, r1)"
    and f: "fetchFailed i e (Some (error_code_text code)) db1 = Inr (db2, r2)"
    and a: "getApplication db2 i = Some a" "app_id a = i" "retrying a n" "app_retry_at a = None"
      "app_failure_class a = Some (error_code_text code)" "app_failure_stage a = Some Af_fetch"
    using fetch_round [OF app r] by blast
  have run: "failing_fetch i code e clk db = Inr (maybeScheduleRetry clk a db2)"
    by (simp add: failing_fetch_def s f a(1))
  have known: "isGitSourceErrorCode (error_code_text code)" by (auto simp: isGitSourceErrorCode_iff)
  show ?thesis
  proof (cases "n < k")
    case False
    then have "maybeScheduleRetry clk a db2 = db2"
      using a t known by (simp add: maybeScheduleRetry_def retrying_def code_of_text)
    with run a False show ?thesis by auto
  next
    case True
    define wait where "wait = \<lceil>nextRetryAt (cl_random clk) (of_int (cl_now clk)) n None\<rceil>"
    let ?e = "controller_envelope ''retry'' clk" and ?b = "a\<lparr>app_retry_at := Some wait, app_retry_count := int n + 1\<rparr>"
    have "\<exists>db3 r3. sourceRetryScheduled i wait (int n + 1) ?e db2 = Inr (db3, r3)
        \<and> getApplication db3 i = Some (stamp_app ?e ?b)"
      unfolding sourceRetryScheduled_def by (rule mutateApp_succeeds [OF a(1), where ids = "[]"])
        (use a(3) in \<open>simp_all add: retrying_def same_identity_def\<close>)
    then obtain db3 r3 where w: "sourceRetryScheduled i wait (int n + 1) ?e db2 = Inr (db3, r3)"
      and g: "getApplication db3 i = Some (stamp_app ?e ?b)" by blast
    have "maybeScheduleRetry clk a db2 = db3"
      using a t known True w by (simp add: maybeScheduleRetry_def retrying_def code_of_text or_skip_def flip: wait_def)
    moreover have "retrying (stamp_app ?e ?b) (Suc n)" using a(3) by (simp add: retrying_def stamp_app_def)
    ultimately show ?thesis using run g True by (auto simp: stamp_app_def)
  qed
qed

text \<open>C31. The retry loop ends: whatever the clock and the jitter, a source that keeps failing with a
  transient error is given a new retry exactly as many times as the ceiling of that error allows. After any
  number of failures in a row the retry count is the smaller of that number and the ceiling, and once the
  ceiling is exceeded no retry is armed any more.\<close>

theorem retries_end_at_the_ceiling:
  assumes "getApplication db i = Some app" and "retrying app 0"
    and "classifyFailure (Fe_git_source_error code None) = Some (Fd_transient k)"
  shows "\<exists>db' app'. failing_fetches i code e clk (Suc n) db = Inr db' \<and> getApplication db' i = Some app'
     \<and> app_retry_count app' = int (min (Suc n) k) \<and> (app_retry_at app' \<noteq> None \<longleftrightarrow> Suc n \<le> k)"
proof -
  have "\<exists>db' app'. failing_fetches i code e clk m db = Inr db' \<and> getApplication db' i = Some app'
     \<and> retrying app' (min m k)" for m
  proof (induction m)
    case 0
    then show ?case using assms(1,2) by simp
  next
    case (Suc m)
    then obtain d a where "failing_fetches i code e clk m db = Inr d" "getApplication d i = Some a"
      "retrying a (min m k)" by blast
    with retry_round [OF this(2,3) assms(3), of "e m" "clk m"] show ?case
      by (auto simp: min_def split: if_splits)
  qed
  from this [of n] obtain d a where d: "failing_fetches i code e clk n db = Inr d" "getApplication d i = Some a"
    "retrying a (min n k)" by blast
  from retry_round [OF d(2,3) assms(3), of "e n" "clk n"] d(1) show ?thesis
    by (auto simp: retrying_def min_def split: if_splits)
qed

theorem retries_end_at_the_ceiling_witness:
  "\<exists>db' app'. failing_fetches ''app'' GIT_ERROR (\<lambda>_. ex_env ''op'')
       (\<lambda>_. \<lparr>cl_now = 0, cl_random = 1 / 2, cl_operationId = ''r''\<rparr>) 4 ex_one_db = Inr db'
     \<and> getApplication db' ''app'' = Some app' \<and> app_retry_count app' = 3 \<and> app_retry_at app' = None"
proof -
  have "retrying ex_app 0" by (simp add: retrying_def ex_app_def)
  moreover have "classifyFailure (Fe_git_source_error GIT_ERROR None) = Some (Fd_transient 3)" by code_simp
  ultimately show ?thesis
    using retries_end_at_the_ceiling [OF ex_one_lookups(2), of GIT_ERROR 3 "\<lambda>_. ex_env ''op''"
        "\<lambda>_. \<lparr>cl_now = 0, cl_random = 1 / 2, cl_operationId = ''r''\<rparr>" 3]
    by (force simp: numeral_eq_Suc)
qed

end
