(* ===== verification/Source_Refinement.thy ===== *)
theory Source_Refinement
  imports Transition_Effects Trace_Evaluation
begin

text \<open>
  An abstract machine for one source and the proof that the transitions implement it: of the sixty columns of
  an application row it keeps the operation in flight, the interrupted one, the candidate and the suspension.
\<close>

section \<open>The abstract machine\<close>

datatype source_phase =
    Idle
  | Fetching "string option"
  | Applying "string option" "string option"
  | Other_work "string option"

record source_state =
  src_phase :: source_phase
  src_interrupted :: source_phase
  src_recovering :: bool
  src_candidate :: "(string \<times> bool) option"
  src_suspended :: bool

datatype source_command =
    Start_fetch string | Finish_fetch string | Stage_candidate string bool | Hold_candidate string
  | Dismiss_candidate | Reconfigure | Start_apply string string | Fail_apply | Accept_candidate string string
  | Touch | Retune | Suspend | Resume | Interrupt

fun owner :: "source_phase \<Rightarrow> string option" where
  "owner Idle = None" | "owner (Fetching p) = p" | "owner (Applying p g) = p" | "owner (Other_work p) = p"

fun is_apply :: "source_phase \<Rightarrow> bool" where
  "is_apply (Applying p g) = True" | "is_apply _ = False"

fun is_fetch :: "source_phase \<Rightarrow> bool" where
  "is_fetch (Fetching p) = True" | "is_fetch _ = False"

text \<open>A fetch settles under its own operation id; one recorded without an id settles under any.\<close>

fun fetch_of :: "string \<Rightarrow> source_phase \<Rightarrow> bool" where
  "fetch_of p (Fetching q) = (\<not> truthy_str q \<or> q = Some p)" | "fetch_of p _ = False"

definition guarded :: "bool \<Rightarrow> 'a \<Rightarrow> 'a option" where
  "guarded b x = (if b then Some x else None)"

definition forget :: "(source_phase \<Rightarrow> bool) \<Rightarrow> source_phase \<Rightarrow> source_phase" where
  "forget q p = (if q p then Idle else p)"

definition cut :: "source_state \<Rightarrow> source_state" where
  "cut s = s\<lparr>src_interrupted := src_phase s, src_phase := Idle\<rparr>"

fun source_step :: "source_command \<Rightarrow> source_state \<Rightarrow> source_state option" where
  "source_step (Start_fetch p) s =
     guarded (\<not> src_suspended s \<and> (src_phase s = Idle \<or> \<not> is_apply (src_phase s) \<and> owner (src_phase s) = Some p))
       (s\<lparr>src_phase := Fetching (Some p), src_interrupted := forget is_fetch (src_interrupted s)\<rparr>)"
| "source_step (Finish_fetch p) s =
     guarded (fetch_of p (src_phase s) \<or> fetch_of p (src_interrupted s))
       (s\<lparr>src_phase := Idle, src_interrupted := forget is_fetch (src_interrupted s)\<rparr>)"
| "source_step (Stage_candidate g blocked) s =
     guarded (is_apply (src_phase s) \<longrightarrow> map_option fst (src_candidate s) = Some g)
       (s\<lparr>src_candidate := Some (g, blocked)\<rparr>)"
| "source_step (Hold_candidate g) s = guarded (src_candidate s = Some (g, False) \<and> \<not> is_apply (src_phase s)) s"
| "source_step Dismiss_candidate s =
     guarded (src_candidate s \<noteq> None \<and> src_phase s = Idle) (s\<lparr>src_candidate := None\<rparr>)"
| "source_step Reconfigure s = guarded (src_phase s = Idle) (s\<lparr>src_candidate := None\<rparr>)"
| "source_step (Start_apply p g) s =
     guarded (\<not> src_suspended s \<and> src_candidate s = Some (g, False)
         \<and> (src_phase s = Idle \<or> owner (src_phase s) = Some p))
       (s\<lparr>src_phase := Applying (Some p) (Some g), src_interrupted := forget is_apply (src_interrupted s)\<rparr>)"
| "source_step Fail_apply s =
     guarded (is_apply (src_phase s) \<or> is_apply (src_interrupted s))
       (s\<lparr>src_phase := Idle, src_interrupted := forget is_apply (src_interrupted s)\<rparr>)"
| "source_step (Accept_candidate p g) s =
     guarded (src_candidate s = Some (g, False)
         \<and> (\<forall>q h. src_phase s = Applying q h \<longrightarrow> h = Some g \<and> (truthy_str q \<longrightarrow> q = Some p)))
       (s\<lparr>src_phase := Idle, src_interrupted := forget is_apply (src_interrupted s), src_candidate := None\<rparr>)"
| "source_step Touch s = guarded (\<not> src_suspended s \<and> src_phase s = Idle) s"
| "source_step Retune s = guarded (src_phase s = Idle) s"
| "source_step Suspend s = Some ((if src_phase s = Idle then s else cut s)\<lparr>src_suspended := True\<rparr>)"
| "source_step Resume s = guarded (src_suspended s) (s\<lparr>src_suspended := False\<rparr>)"
| "source_step Interrupt s =
     Some (if src_phase s = Idle \<and> \<not> src_recovering s then s else (cut s)\<lparr>src_recovering := False\<rparr>)"

text \<open>A run over several sources: each command names the one it is for.\<close>

fun source_run :: "(string \<times> source_command) list \<Rightarrow> (string \<rightharpoonup> source_state) \<Rightarrow> (string \<rightharpoonup> source_state) option" where
  "source_run [] m = Some m"
| "source_run ((i, c) # cs) m =
     (case Option.bind (m i) (source_step c) of None \<Rightarrow> None | Some s \<Rightarrow> source_run cs (m(i \<mapsto> s)))"

section \<open>The abstraction\<close>

definition phase_of :: "app_active_stage option \<Rightarrow> string option \<Rightarrow> string option \<Rightarrow> source_phase" where
  "phase_of stage p g =
     (case stage of
        None \<Rightarrow> Idle
      | Some Ast_fetch_started \<Rightarrow> Fetching p
      | Some Ast_apply_started \<Rightarrow> Applying p g
      | Some _ \<Rightarrow> Other_work p)"

definition source_of :: "gitops_application_row \<Rightarrow> source_state" where
  "source_of app =
     \<lparr>src_phase = phase_of (app_active_operation_stage app) (app_active_operation_id app) (app_active_generation_id app),
      src_interrupted = phase_of (app_interruption_stage app) (app_interruption_operation_id app)
        (app_interruption_generation_id app),
      src_recovering = (app_recovery_phase app \<in> {Some Rp_capturing, Some Rp_restoring, Some Rp_compensating}),
      src_candidate = map_option (\<lambda>g. (g, app_candidate_plan_blocked app = 1)) (app_candidate_generation_id app),
      src_suspended = truthy_num (app_suspended_at app)\<rparr>"

definition sources_of :: "gitops_db \<Rightarrow> string \<rightharpoonup> source_state" where
  "sources_of db i = map_option source_of (getApplication db i)"

text \<open>The command an event of the source lifecycle issues; a suspension is recognised by its nonzero time.\<close>

fun command_of :: "gitops_event \<Rightarrow> (string \<times> source_command) option" where
  "command_of (Ev_fetchStarted i e) = Some (i, Start_fetch (ev_operationId e))"
| "command_of (Ev_fetched i c e k) = Some (i, Finish_fetch (ev_operationId e))"
| "command_of (Ev_fetchFailed i e c) = Some (i, Finish_fetch (ev_operationId e))"
| "command_of (Ev_fetchedInvalid i c e k) = Some (i, Finish_fetch (ev_operationId e))"
| "command_of (Ev_sourceConflictBlocker i g e) = Some (i, Stage_candidate g True)"
| "command_of (Ev_candidateReady i g w e) = Some (i, Stage_candidate g False)"
| "command_of (Ev_sourceReviewBlocked i g w e) = Some (i, Hold_candidate g)"
| "command_of (Ev_dismissed i e) = Some (i, Dismiss_candidate)"
| "command_of (Ev_configChanged i m e) = Some (i, Reconfigure)"
| "command_of (Ev_applyStarted i g e) = Some (i, Start_apply (ev_operationId e) g)"
| "command_of (Ev_applyFailed i c e) = Some (i, Fail_apply)"
| "command_of (Ev_applied args) =
     Some (aa_applicationId args, Accept_candidate (ev_operationId (aa_envelope args)) (aa_generationId args))"
| "command_of (Ev_sourceAccepted args) =
     Some (aa_applicationId args, Accept_candidate (ev_operationId (aa_envelope args)) (aa_generationId args))"
| "command_of (Ev_retryScheduled i t n e) = Some (i, Touch)"
| "command_of (Ev_pollScheduled i t e) = Some (i, Touch)"
| "command_of (Ev_policyChanged i p e) = Some (i, Retune)"
| "command_of (Ev_suspended i w e) = guarded (ev_at e \<noteq> 0) (i, Suspend)"
| "command_of (Ev_unsuspended i e) = Some (i, Resume)"
| "command_of (Ev_interrupted i e) = Some (i, Interrupt)"
| "command_of _ = None"

section \<open>Rows and frames\<close>

lemma source_of_write [simp]:
  "source_of (keep_identity r a) = source_of a" "source_of (stamp_app e a) = source_of a"
  by (simp_all add: source_of_def keep_identity_def stamp_app_def)

lemma source_of_clear [simp]:
  "source_of (clearAppFailure ss a) = source_of a"
  "source_of (clearActive a) = (source_of a)\<lparr>src_phase := Idle\<rparr>"
  "source_of (clearInterruption (Some Ast_fetch_started) a) =
     (source_of a)\<lparr>src_interrupted := forget is_fetch (src_interrupted (source_of a))\<rparr>"
  "source_of (clearInterruption (Some Ast_apply_started) a) =
     (source_of a)\<lparr>src_interrupted := forget is_apply (src_interrupted (source_of a))\<rparr>"
  by (auto simp: source_of_def clearAppFailure_def clearActive_def clearInterruption_def phase_of_def forget_def
      split: option.split app_active_stage.splits)

lemma phase_of_Idle [simp]: "phase_of stage p g = Idle \<longleftrightarrow> stage = None"
  by (auto simp: phase_of_def split: option.split app_active_stage.split)

lemma is_apply_phase [simp]: "is_apply (phase_of stage p g) \<longleftrightarrow> stage = Some Ast_apply_started"
  by (auto simp: phase_of_def split: option.split app_active_stage.split)

lemma owner_phase [simp]: "owner (phase_of stage p g) = (if stage = None then None else p)"
  by (auto simp: phase_of_def split: option.split app_active_stage.split)

lemma phase_of_simps [simp]:
  "phase_of None p g = Idle" "phase_of (Some Ast_fetch_started) p g = Fetching p"
  "phase_of (Some Ast_apply_started) p g = Applying p g"
  by (simp_all add: phase_of_def)

lemma phase_of_Applying [simp]: "phase_of stage p g = Applying q h \<longleftrightarrow> stage = Some Ast_apply_started \<and> p = q \<and> g = h"
  by (auto simp: phase_of_def split: option.split app_active_stage.split)

lemma fetch_of_phase [simp]:
  "fetch_of q (phase_of stage p g) \<longleftrightarrow> stage = Some Ast_fetch_started \<and> (\<not> truthy_str p \<or> p = Some q)"
  by (auto simp: phase_of_def split: option.split app_active_stage.split)

text \<open>What running a command does: a step of its source, and nothing to any other.\<close>

definition refines :: "string \<Rightarrow> source_command \<Rightarrow> gitops_db \<Rightarrow> gitops_db \<Rightarrow> bool" where
  "refines i c db db' \<longleftrightarrow>
     (\<exists>s. Option.bind (sources_of db i) (source_step c) = Some s \<and> sources_of db' = (sources_of db)(i \<mapsto> s))"

lemma mutateApp_refines_from:
  assumes "mutateApp i e stage outcome mutate x db = Inr (db', r)"
    and mut: "\<And>app app1 db1 ids. getApplication db i = Some app \<Longrightarrow> mutate app db = Inr (app1, db1, ids)
       \<Longrightarrow> app_id app1 = i \<and> source_step c (source_of app) = Some (source_of app1)
         \<and> (\<exists>s. sources_of db1 = (sources_of db)(i \<mapsto> s))"
  shows "refines i c db db'"
  using assms(1)
proof (rule mutateAppE)
  fix app0 app1 db1 ids f
  assume a: "getApplication db i = Some app0" "mutate app0 db = Inr (app1, db1, ids)"
    and db': "db' = snd (history (stamp_app e app1) e f (writeApplication (stamp_app e app1) db1))"
  note m = mut [OF a]
  then have k: "app_id (stamp_app e app1) = i" by (simp add: stamp_app_def)
  obtain s where s: "sources_of db1 = (sources_of db)(i \<mapsto> s)" using m by blast
  then have "getApplication db1 i \<noteq> None" by (auto simp: sources_of_def fun_eq_iff split: if_splits)
  then have "sources_of db' j = (if j = i then Some (source_of app1) else sources_of db1 j)" for j
    unfolding db' sources_of_def history_lookups getApplication_write k by auto
  then have "sources_of db' = (sources_of db)(i \<mapsto> source_of app1)" by (auto simp: s)
  then show ?thesis using m a(1) by (auto simp: refines_def sources_of_def)
qed

lemma mutateApp_refines:
  assumes "mutateApp i e stage outcome mutate x db = Inr (db', r)"
    and mut: "\<And>app app1 db1 ids. mutate app db = Inr (app1, db1, ids)
       \<Longrightarrow> app_id app1 = app_id app \<and> db_applications db1 = db_applications db
         \<and> source_step c (source_of app) = Some (source_of app1)"
  shows "refines i c db db'"
proof (rule mutateApp_refines_from [OF assms(1)])
  fix app app1 db1 ids
  assume a: "getApplication db i = Some app" "mutate app db = Inr (app1, db1, ids)"
  note m = mut [OF a(2)]
  have "getApplication db1 = getApplication db" using m by (intro lookups_by_table(4)) simp
  then have "sources_of db1 = (sources_of db)(i \<mapsto> source_of app)" using a(1) by (auto simp: sources_of_def)
  then show "app_id app1 = i \<and> source_step c (source_of app) = Some (source_of app1)
      \<and> (\<exists>s. sources_of db1 = (sources_of db)(i \<mapsto> s))"
    using m getApplication_id [OF a(1)] by auto
qed

lemma superseded_frame:
  "db_applications (snd (recordRolloutGenerationSuperseded app p n e db)) = db_applications db"
  by (simp add: recordRolloutGenerationSuperseded_def markRolloutGenerationSuperseded_def Let_def prod.case_eq_if
      split: option.split)

lemma release_pause_frame:
  assumes "release_system_pause app e db = (a, d, ids)"
  shows "db_applications d = db_applications db \<and> app_id a = app_id app \<and> source_of a = source_of app"
  using assms [symmetric]
  by (simp add: release_system_pause_def Let_def prod.case_eq_if source_of_def del: bex_simps split: if_splits)

lemma invalidateAuthorization_frame:
  assumes "invalidateAuthorizationOnSourceChange app e db = (app1, db1, ids)"
  shows "db_applications db1 = db_applications db \<and> app_id app1 = app_id app \<and> source_of app1 = source_of app"
  using assms
proof (rule invalidateAuthorization_cases)
  fix a d ids1
  assume r: "release_system_pause app e db = (a, d, ids1)"
    and 1: "app1 = a \<and> app_target_mode app \<noteq> Blueprint
       \<or> app1 = a\<lparr>app_rollout_authorization_ref := None, app_preflight_fingerprint := None\<rparr>
       \<or> app1 = a\<lparr>app_rollout_authorization_ref := None, app_preflight_fingerprint := None,
                 app_rollout_generation_id := None\<rparr>"
    and 2: "db1 = d \<or> (\<exists>b g. db1 = snd (recordRolloutGenerationSuperseded b g None e d))"
  have "app_id app1 = app_id a \<and> source_of app1 = source_of a" using 1 by (auto simp: source_of_def)
  moreover have "db_applications db1 = db_applications d" using 2 by (auto simp: superseded_frame)
  ultimately show ?thesis using release_pause_frame [OF r] by simp
qed

lemma supersedeCandidate_frame: "db_applications (snd (supersedeCandidate app g e db)) = db_applications db"
  by (simp add: supersedeCandidate_def prod.case_eq_if Let_def)

section \<open>The transitions\<close>

lemma requireMatchingFetch_Inr:
  "requireMatchingFetch app e = Inr u \<longleftrightarrow>
     fetch_of (ev_operationId e) (src_phase (source_of app)) \<or> fetch_of (ev_operationId e) (src_interrupted (source_of app))"
  by (auto simp: requireMatchingFetch_def Let_def source_of_def)

lemma fetch_refines:
  "fetchStarted i e db = Inr (db', r) \<Longrightarrow> refines i (Start_fetch (ev_operationId e)) db db'"
  "fetched i c e k db = Inr (db', r) \<Longrightarrow> refines i (Finish_fetch (ev_operationId e)) db db'"
  "fetchFailed i e fc db = Inr (db', r) \<Longrightarrow> refines i (Finish_fetch (ev_operationId e)) db db'"
  "fetchedInvalid i c e k db = Inr (db', r) \<Longrightarrow> refines i (Finish_fetch (ev_operationId e)) db db'"
  unfolding fetchStarted_def fetched_def fetchFailed_def fetchedInvalid_def
  by (erule mutateApp_refines, clarsimp simp: guarded_def requireMatchingFetch_Inr, auto simp: source_of_def clearActive_def split: if_splits)+

lemma candidate_refines:
  "sourceConflictBlocker i g e db = Inr (db', r) \<Longrightarrow> refines i (Stage_candidate g True) db db'"
  "candidateReady i g w e db = Inr (db', r) \<Longrightarrow> refines i (Stage_candidate g False) db db'"
  "sourceReviewBlocked i g reason e db = Inr (db', r) \<Longrightarrow> refines i (Hold_candidate g) db db'"
  "dismissed i e db = Inr (db', r) \<Longrightarrow> refines i Dismiss_candidate db db'"
  "configChangedPendingCleared i m e db = Inr (db', r) \<Longrightarrow> refines i Reconfigure db db'"
  unfolding sourceConflictBlocker_def candidateReady_def sourceReviewBlocked_def dismissed_def
    configChangedPendingCleared_def
  by (erule mutateApp_refines,
      clarsimp simp: guarded_def Let_def prod.case_eq_if dest!: forEach_frame truthy_str_not_None,
      auto simp: source_of_def supersedeCandidate_frame)+

lemma apply_refines:
  "applyStarted i g e db = Inr (db', r) \<Longrightarrow> refines i (Start_apply (ev_operationId e) g) db db'"
  "applyFailed i c e db = Inr (db', r) \<Longrightarrow> refines i Fail_apply db db'"
  unfolding applyStarted_def applyFailed_def
  by (erule mutateApp_refines, clarsimp simp: guarded_def, auto simp: source_of_def clearActive_def split: if_splits)+

lemma schedule_refines:
  "sourceRetryScheduled i t n e db = Inr (db', r) \<Longrightarrow> refines i Touch db db'"
  "sourcePollScheduled i t e db = Inr (db', r) \<Longrightarrow> refines i Touch db db'"
  "sourcePolicyChanged i p e db = Inr (db', r) \<Longrightarrow> refines i Retune db db'"
  "sourceUnsuspended i e db = Inr (db', r) \<Longrightarrow> refines i Resume db db'"
  unfolding sourceRetryScheduled_def sourcePollScheduled_def sourcePolicyChanged_def sourceUnsuspended_def
  by (erule mutateApp_refines, clarsimp simp: guarded_def Let_def, auto simp: source_of_def split: if_splits)+

lemma source_of_accept_row:
  "source_of (accept_row args lim1 app) =
     (source_of app)\<lparr>src_phase := Idle, src_interrupted := forget is_apply (src_interrupted (source_of app)),
                     src_candidate := None\<rparr>"
  unfolding accept_row_def source_of_clear by (simp add: source_of_def)

lemma acceptance_refines:
  assumes req: "requireAcceptableCandidate db app args = Inr ()"
    and inv: "invalidateAuthorizationOnSourceChange app e db = (app1, db1, ids)"
    and acc: "applySourceAcceptanceMutation lc app1 args db1 = Inr (app2, db2)"
    and reb: "rebindRolloutCandidateOnAcceptance app2 (aa_generationId args) db2 = Inr db3"
  shows "app_id app2 = app_id app \<and> db_applications db3 = db_applications db
     \<and> source_step (Accept_candidate (ev_operationId (aa_envelope args)) (aa_generationId args)) (source_of app)
         = Some (source_of app2)"
proof -
  obtain lim1 where ins: "insertAcceptanceRecords lc app1 args db1 = Inr db2" and app2: "app2 = accept_row args lim1 app1"
    using acc by (auto simp: applySourceAcceptanceMutation_def)
  have "db_applications db3 = db_applications db2"
    using reb by (auto simp: rebindRolloutCandidateOnAcceptance_def rebindRolloutCandidateSource_def
        split: if_splits option.splits)
  moreover have "db_applications db2 = db_applications db1" by (rule insertAcceptanceRecords_spec(2) [OF ins])
  moreover have "source_step (Accept_candidate (ev_operationId (aa_envelope args)) (aa_generationId args)) (source_of app)
      = Some ((source_of app)\<lparr>src_phase := Idle, src_interrupted := forget is_apply (src_interrupted (source_of app)),
                             src_candidate := None\<rparr>)"
    using req by (auto simp: guarded_def source_of_def requireAcceptableCandidate_def split: if_splits)
  ultimately show ?thesis using invalidateAuthorization_frame [OF inv] by (simp add: app2 source_of_accept_row)
qed

lemma sourceAccepted_refines:
  "sourceAccepted lc args db = Inr (db', r) \<Longrightarrow>
     refines (aa_applicationId args) (Accept_candidate (ev_operationId (aa_envelope args)) (aa_generationId args)) db db'"
  unfolding sourceAccepted_def
proof (erule mutateApp_refines, goal_cases)
  case (1 app app2 db3 ids)
  then show ?case by (auto simp: Let_def simp del: source_step.simps split: prod.splits option.splits
      dest: acceptance_refines)
qed

lemma applied_refines:
  "applied lc args db = Inr (db', r) \<Longrightarrow>
     refines (aa_applicationId args) (Accept_candidate (ev_operationId (aa_envelope args)) (aa_generationId args)) db db'"
  unfolding applied_def
proof (erule mutateApp_refines, goal_cases)
  case (1 app app2 db4 ids)
  then show ?case by (auto simp: Let_def acceptanceTargets_def simp del: source_step.simps split: prod.splits
      dest!: upsert_each_frame dest: acceptance_refines)
qed

lemma interrupt_refines:
  assumes "interruptActiveOperations i e db = Inr (db', r)"
  shows "refines i Interrupt db db'"
proof -
  obtain app where app: "getApplication db i = Some app"
    using assms by (auto simp: interruptActiveOperations_def requireApp_def split: option.splits)
  have id: "app_id (interrupt_app e app) = i"
    using getApplication_id [OF app] by (simp add: interrupt_app_def clearActive_def Let_def)
  have quiet: "interrupt_app e app = app" if "app_active_operation_stage app = None"
    "app_recovery_phase app \<noteq> Some Rp_capturing" "app_recovery_phase app \<noteq> Some Rp_restoring"
    "app_recovery_phase app \<noteq> Some Rp_compensating"
    using that by (simp add: interrupt_app_def)
  have "sources_of db' j = ((sources_of db)(i \<mapsto> source_of (interrupt_app e app))) j" for j
    using assms app id quiet
    by (auto simp: interruptActiveOperations_def requireApp_def Let_def prod.case_eq_if getApplication_write
        sources_of_def dest!: interrupt_targets_applications lookups_by_table(4) split: if_splits)
  moreover have "source_step Interrupt (source_of app) = Some (source_of (interrupt_app e app))"
    by (auto simp: source_of_def interrupt_app_def cut_def clearActive_def Let_def)
  ultimately show ?thesis using app by (auto simp: refines_def sources_of_def fun_eq_iff simp del: source_step.simps)
qed

lemma suspended_refines:
  assumes "sourceSuspended i reason e db = Inr (db', r)" and "ev_at e \<noteq> 0"
  shows "refines i Suspend db db'"
  using assms(1) unfolding sourceSuspended_def
proof (rule mutateApp_refines_from, goal_cases)
  case (1 app app1 db1 ids)
  have i: "app_id app = i" using getApplication_id [OF 1(1)] by simp
  show ?case
  proof (cases "app_active_operation_stage app = None")
    case True
    then have "db1 = db" "app1 = app\<lparr>app_suspended_at := Some (ev_at e), app_source_suspended_reason := Some reason\<rparr>"
      using 1(2) by simp_all
    moreover have "sources_of db = (sources_of db)(i \<mapsto> source_of app)" using 1(1) by (auto simp: sources_of_def)
    ultimately show ?thesis using True i assms(2) by (auto simp: source_of_def)
  next
    case False
    then obtain reloaded r1 where int: "interruptActiveOperations i e db = Inr (db1, r1)"
      and re: "getApplication db1 i = Some reloaded"
      and app1: "app1 = (clearActive (app\<lparr>app_interruption_stage := app_interruption_stage reloaded,
               app_interruption_at := app_interruption_at reloaded,
               app_interruption_operation_id := app_interruption_operation_id reloaded,
               app_interruption_generation_id := app_interruption_generation_id reloaded\<rparr>))
           \<lparr>app_suspended_at := Some (ev_at e), app_source_suspended_reason := Some reason\<rparr>"
      using 1(2) by (auto simp: requireApp_def split: option.splits)
    have reloaded: "reloaded = keep_identity app (interrupt_app e app)"
      using interrupted_columns [OF int 1(1) False] re by simp
    have "app_interruption_stage reloaded = app_active_operation_stage app"
      "app_interruption_operation_id reloaded = app_active_operation_id app"
      "app_interruption_generation_id reloaded = app_active_generation_id app"
      unfolding reloaded using False by (auto simp: keep_identity_def interrupt_app_def clearActive_def Let_def)
    then have "source_step Suspend (source_of app) = Some (source_of app1)"
      using False assms(2) by (auto simp: app1 source_of_def clearActive_def cut_def)
    moreover have "\<exists>s. sources_of db1 = (sources_of db)(i \<mapsto> s)"
      using interrupt_refines [OF int] by (auto simp: refines_def)
    ultimately show ?thesis using i by (simp add: app1 clearActive_def)
  qed
qed

lemmas source_refines =
  fetch_refines candidate_refines apply_refines schedule_refines sourceAccepted_refines applied_refines
  interrupt_refines suspended_refines

lemma event_refines:
  "command_of ev = Some (i, c) \<Longrightarrow> run_event P ev db = Inr (db', r) \<Longrightarrow> refines i c db db'"
  by (cases ev rule: gitops_event.exhaust) (auto simp: guarded_def intro: source_refines split: if_splits)

section \<open>Refinement\<close>

text \<open>C4. The transitions of the source lifecycle implement the abstract source machine: whatever sequence of
  fetches, stagings, reviews, dismissals, applies, acceptances, schedule changes, suspensions, resumptions and
  interruptions the database accepts, for any interleaving of applications, the abstract machine accepts the
  commands they issue and ends in the abstraction of the database. In particular no transition the abstract
  machine refuses can succeed.\<close>

theorem source_lifecycle_refines_machine:
  assumes "run_events P evs db = Inr db'" and "those (map command_of evs) = Some cs"
  shows "source_run cs (sources_of db) = Some (sources_of db')"
  using assms
proof (induction evs arbitrary: db cs)
  case (Cons ev evs)
  obtain i c cs' where c: "command_of ev = Some (i, c)" and cs': "those (map command_of evs) = Some cs'"
    and cs: "cs = (i, c) # cs'"
    using Cons.prems(2) by (auto split: option.splits)
  obtain db1 r where r: "run_event P ev db = Inr (db1, r)" and rest: "run_events P evs db1 = Inr db'"
    using Cons.prems(1) by auto
  obtain s where s: "Option.bind (sources_of db i) (source_step c) = Some s"
    and db1: "(sources_of db)(i \<mapsto> s) = sources_of db1"
    using event_refines [OF c r] by (auto simp: refines_def)
  show ?case unfolding cs using Cons.IH [OF rest cs'] by (simp add: s db1 del: fun_upd_apply)
qed simp

theorem source_lifecycle_refines_machine_witness:
  "\<exists>db'. run_events ex_platform ex_fetches (empty_db\<lparr>db_applications := [ex_app]\<rparr>) = Inr db'
     \<and> source_run [(''app'', Start_fetch ''op1''), (''app'', Suspend), (''app'', Finish_fetch ''op1''), (''app'', Resume)]
         (sources_of (empty_db\<lparr>db_applications := [ex_app]\<rparr>)) = Some (sources_of db')"
proof -
  obtain db' where run: "run_events ex_platform ex_fetches (empty_db\<lparr>db_applications := [ex_app]\<rparr>) = Inr db'"
    using ex_fetches_run by (cases "run_events ex_platform ex_fetches (empty_db\<lparr>db_applications := [ex_app]\<rparr>)") auto
  moreover have "those (map command_of ex_fetches) =
      Some [(''app'', Start_fetch ''op1''), (''app'', Suspend), (''app'', Finish_fetch ''op1''), (''app'', Resume)]"
    by (simp add: ex_fetches_def ex_env_def guarded_def)
  ultimately show ?thesis using source_lifecycle_refines_machine by blast
qed

section \<open>Late settlements\<close>

text \<open>C32. Settling an interrupted fetch does not look at what is in flight by then: reported while an apply
  runs, under the interrupted fetch's operation id, it clears the operation marker of that apply, which then
  no longer holds off dismissals, configuration changes or the next fetch.\<close>

theorem late_fetch_drops_running_apply:
  assumes "getApplication db i = Some app" and "app_active_operation_stage app = Some Ast_apply_started"
    and "app_interruption_stage app = Some Ast_fetch_started"
    and "app_interruption_operation_id app = Some (ev_operationId e)"
  shows "\<exists>db' r app'. fetched i c e k db = Inr (db', r) \<and> getApplication db' i = Some app'
     \<and> app_active_operation_stage app' = None \<and> app_active_operation_id app' = None
     \<and> app_candidate_generation_id app' = app_candidate_generation_id app"
proof -
  have req: "requireMatchingFetch app e = Inr ()" using assms(3,4) by (simp add: requireMatchingFetch_def)
  obtain db' r where run: "fetched i c e k db = Inr (db', r)"
    using assms(1) req by (simp add: fetched_def mutateApp_def Let_def prod.case_eq_if)
  have "\<exists>app'. getApplication db' i = Some app' \<and> app_active_operation_stage app' = None
     \<and> app_active_operation_id app' = None \<and> app_candidate_generation_id app' = app_candidate_generation_id app"
    using run unfolding fetched_def
  proof (rule mutateApp_row)
    fix app0 app1 db1 ids
    assume "getApplication db i = Some app0" "getApplication db' i = Some (stamp_app e app1)"
      and "bind_res (requireMatchingFetch app0 e) (\<lambda>_.
         Inr (clearInterruption (Some Ast_fetch_started)
                (clearAppFailure [Af_fetch, Af_validation]
                  ((clearActive app0)\<lparr>app_desired_commit_sha := Some c,
                     app_fetched_commit_sha := Some c,
                     app_fetched_resolved_ref_kind := k, app_retry_count := 0\<rparr>)), db, [])) = Inr (app1, db1, ids)"
    then show ?thesis using assms(1) req
      by (auto simp: stamp_app_def clearInterruption_def clearAppFailure_def clearActive_def split: option.split)
  qed (auto, auto simp: same_identity_def clearActive_def)
  with run show ?thesis by blast
qed

theorem late_fetch_drops_running_apply_witness:
  "\<exists>db db' r app'. run_events ex_platform ex_late ex_reviewed = Inr db
     \<and> fetched ''app'' ''c2'' (ex_env ''op5'') None db = Inr (db', r)
     \<and> getApplication db' ''app'' = Some app' \<and> app_active_operation_stage app' = None"
proof -
  obtain db app where run: "run_events ex_platform ex_late ex_reviewed = Inr db"
    and app: "getApplication db ''app'' = Some app" "app_active_operation_stage app = Some Ast_apply_started"
      "app_interruption_stage app = Some Ast_fetch_started"
      "app_interruption_operation_id app = Some (ev_operationId (ex_env ''op5''))"
    using ex_late_run by (auto simp: after_def late_facts_def on_app_def ex_env_def split: sum.splits option.splits)
  from late_fetch_drops_running_apply [OF app, of "''c2''" None] run show ?thesis by blast
qed

end
