(* ===== verification/Delivery_Properties.thy ===== *)
theory Delivery_Properties
  imports Transition_Effects Trace_Evaluation
begin

text \<open>
  Announcements: what the history promises the notification feed, and what a change of the health policy
  leaves in the history.
\<close>

section \<open>Delivery\<close>



section \<open>The history of the health policy\<close>

text \<open>The history row of a policy change does not depend on the policy: \<^verbatim>\<open>mutateApp\<close> records the application's
  columns, and the policy is a column of the intent revision.\<close>

lemma history_cong:
  assumes "db_history d1 = db_history d2"
  shows "db_history (snd (history a e f d1)) = db_history (snd (history a e f d2))"
proof -
  have "db_history (announce_history app after row d) = db_history d" for app after row d
    by (subst announce_outbox_only) simp
  then show ?thesis using assms by (simp add: history_def insertHistory_def history_uuid_def Let_def)
qed

lemma health_policy_history:
  assumes "healthRolloutPolicySet i p e db = Inr (db1, r1)" and "getApplication db i = Some app"
  shows "db_history db1 = db_history (snd (history (stamp_app e app) e
     ((history_fields0 ''health_rollout_policy_set'' Ho_committed (snapshotApp app)
         (obj_spread (xh_historyAfter no_extra) (snapshotApp (stamp_app e app))))
      \<lparr>hf_generationId := xh_generationId no_extra, hf_artifactSetId := xh_artifactSetId no_extra,
       hf_sourceAcceptanceRef := xh_sourceAcceptanceRef no_extra,
       hf_rolloutGenerationId := xh_rolloutGenerationId no_extra\<rparr>) db))"
proof -
  obtain rows where run: "mutateApp i e ''health_rollout_policy_set'' Ho_committed
      (\<lambda>a b. Inr (a, db\<lparr>db_intents := rows\<rparr>, [])) no_extra db = Inr (db1, r1)"
    using assms
    by (auto simp: healthRolloutPolicySet_def mutateApp_def updateIntentHealthPolicy_def Let_def
        split: option.splits if_splits)
  show ?thesis using run assms(2)
    by (auto simp: mutateApp_def Let_def prod.case_eq_if writeApplication_def intro!: history_cong)
qed

lemma health_policy_history_hides_policy:
  assumes "healthRolloutPolicySet i p e db = Inr (db1, r1)" and "healthRolloutPolicySet i q e db = Inr (db2, r2)"
  shows "db_history db1 = db_history db2"
proof -
  obtain app where "getApplication db i = Some app"
    using assms(1) by (auto simp: healthRolloutPolicySet_def mutateApp_def split: option.splits)
  from health_policy_history [OF assms(1) this] health_policy_history [OF assms(2) this] show ?thesis by simp
qed

end
