(* ===== verification/Projection_Actions.thy ===== *)
theory Projection_Actions
  imports Revision Controller_Properties
begin

text \<open>
  What the projection offers against what the transitions accept: an action a client is shown is one the
  state machine takes, except where the code offers more than it accepts.
\<close>

section \<open>Reading the source facet\<close>

lemma deriveSource_status:
  "source_facet_status (fst (deriveSource db app)) =
     (if app_target_mode app = Inline_blueprint then None else Some (fst (live_source_status db app)))"
  by (simp add: deriveSource_def prod.case_eq_if)




section \<open>What the transitions accept\<close>








section \<open>Offers are honoured\<close>






section \<open>Deploys\<close>

lemma deriveTarget_columns:
  assumes "deriveTarget env db app intent t off conf = Inr (tp, lims)"
  shows "tp_runtime tp = deriveRuntime env db t (tp_artifact tp) (tp_observedArtifactIdentity tp) off app conf"
    and "tp_appliedGenerationId tp = tgt_applied_generation_id t"
    and "tp_desiredGenerationId tp = tgt_desired_generation_id t"
    and "tp_tombstoned tp \<longleftrightarrow> tgt_target_status t = Ts_tombstoned"
    and "tp_nodeId tp = tgt_node_id t"
    and "tp_rolloutGenerationId tp = tgt_rollout_generation_id t"
    and "ref_rolloutAuthorizationRef (tp_approvals tp) = tgt_rollout_authorization_ref t"
  using assms by (auto simp: deriveTarget_def Let_def bind_res_def prod.case_eq_if split: sum.splits)

lemma deploy_legal_target:
  assumes "deriveTarget env db app intent t off conf = Inr (tp, lims)" and "targetDeployLegal app tp"
    and "app_target_mode app = Direct"
  shows "tgt_target_status t = Ts_active \<and> (\<exists>g. tgt_applied_generation_id t = Some g)"
proof -
  have "tgt_target_status t = Ts_active"
    using deriveTarget_columns(4) [OF assms(1)] assms(2)
    by (cases "tgt_target_status t") (auto simp: targetDeployLegal_def)
  moreover have "tgt_applied_generation_id t \<noteq> None"
    if r: "tp_runtime tp = Run_applied_not_deployed"
  proof -
    have "truthy_str (tgt_applied_generation_id t)"
      using deriveTarget_columns(1) [OF assms(1)] r
      by (auto simp: deriveRuntime_def LIVE_OPERATION_STATUS_def BLUEPRINT_OBSERVATION_STATUS_def
          split: if_splits option.splits target_active_stage.splits)
    then show ?thesis by (rule truthy_str_not_None)
  qed
  moreover have "tgt_applied_generation_id t \<noteq> None" if "tp_runtime tp \<noteq> Run_applied_not_deployed"
    using assms(2,3) that deriveTarget_columns(2) [OF assms(1)]
    by (cases "tgt_applied_generation_id t")
      (auto simp: targetDeployLegal_def split: if_splits runtime_facet.splits)
  ultimately show ?thesis by auto
qed

text \<open>C21. A deploy the projection offers for a target of a Direct application is one the state machine takes:
  the target has applied a generation, and unless another operation holds the target, deploying that
  generation starts.\<close>

theorem offered_deploy_is_accepted:
  assumes app: "getApplication db i = Some app" and t: "getTarget db i n = Some t" and ok: "target_ok db t"
    and direct: "app_target_mode app = Direct"
    and derived: "deriveTarget env db app intent t off conf = Inr (tp, lims)" and legal: "targetDeployLegal app tp"
    and free: "tgt_active_operation_stage t = None"
  shows "\<exists>g db' r. tgt_applied_generation_id t = Some g \<and> deployStarted i n g e db = Inr (db', r)"
proof -
  obtain g where g: "tgt_applied_generation_id t = Some g" and active: "tgt_target_status t = Ts_active"
    using deploy_legal_target [OF derived legal direct] by blast
  let ?t = "stamp_target no_options ''deploy_started'' e (clearTargetInterruption (Some Tst_deploy_started)
      (t\<lparr>tgt_active_operation_id := Some (ev_operationId e), tgt_active_operation_stage := Some Tst_deploy_started,
         tgt_active_operation_at := Some (ev_at e), tgt_active_generation_id := Some g\<rparr>))"
  have "guarded_columns t ?t"
    by (simp add: guarded_columns_def stamp_target_def clearTargetInterruption_def)
  then have "upsertTarget ?t db = Inr (put_target ?t db)"
    using target_ok_guarded ok by (simp add: upsertTarget_Inr)
  then have "\<exists>db' r. deployStarted i n g e db = Inr (db', r)"
    using app t active free g
    by (simp add: deployStarted_def mutateTarget_def requireApp_def Let_def prod.case_eq_if)
  with g show ?thesis by blast
qed

definition ex_applied_target :: gitops_target_current_row where
  "ex_applied_target = (emptyTargetRow ''app'' 1 0)\<lparr>tgt_applied_generation_id := Some ''g1''\<rparr>"

definition ex_undeployed :: gitops_db where
  "ex_undeployed = empty_db\<lparr>db_applications := [ex_app], db_targets := [ex_applied_target]\<rparr>"

lemma ex_target_derived:
  "\<exists>tp lims. deriveTarget ex_projection_env ex_undeployed ex_app None ex_applied_target False False = Inr (tp, lims)
     \<and> targetDeployLegal ex_app tp"
  by (simp add: deriveTarget_def deriveLkg_def ex_applied_target_def emptyTargetRow_def Let_def prod.case_eq_if
      targetDeployLegal_def appDeployWithheld_def ex_app_def deriveRuntime_def LIVE_OPERATION_STATUS_def
      BLUEPRINT_OBSERVATION_STATUS_def MUTATION_FAILURE_STAGE_def blueprintAckStatus_def settled_runtime_def
      runningGenerationForTarget_def)

theorem offered_deploy_is_accepted_witness:
  "\<exists>db' r. deployStarted ''app'' 1 ''g1'' (ex_env ''op1'') ex_undeployed = Inr (db', r)"
proof -
  obtain tp lims where d: "deriveTarget ex_projection_env ex_undeployed ex_app None ex_applied_target False False = Inr (tp, lims)"
    and l: "targetDeployLegal ex_app tp" using ex_target_derived by blast
  have rows: "getApplication ex_undeployed ''app'' = Some ex_app" "getTarget ex_undeployed ''app'' 1 = Some ex_applied_target"
    by (simp_all add: ex_undeployed_def getApplication_def getTarget_def ex_app_def ex_applied_target_def emptyTargetRow_def)
  have "target_ok ex_undeployed ex_applied_target" "app_target_mode ex_app = Direct"
    "tgt_active_operation_stage ex_applied_target = None" "tgt_applied_generation_id ex_applied_target = Some ''g1''"
    by (simp_all add: target_ok_def assertTargetInvariants_def assertArtifactPointer_def owned_generation_def
        ex_applied_target_def emptyTargetRow_def ex_app_def)
  with offered_deploy_is_accepted [OF rows _ _ d l, of "ex_env ''op1''"] show ?thesis by auto
qed

section \<open>Where the offer exceeds what is accepted\<close>

lemma suspended_fetch_row:
  assumes app: "getApplication db i = Some app" and "app_active_operation_stage app = Some Ast_fetch_started"
    and run: "sourceSuspended i why e db = Inr (db', r)"
  shows "\<exists>app'. getApplication db' i = Some app' \<and> app_interruption_stage app' = Some Ast_fetch_started
     \<and> app_active_operation_stage app' = None \<and> app_suspended_at app' = Some (ev_at e)
     \<and> app_target_mode app' = app_target_mode app \<and> app_lifecycle_status app' = Lc_active
     \<and> app_recovery_phase app' = app_recovery_phase app \<and> app_failure_stage app' = app_failure_stage app"
proof -
  have "app_lifecycle_status app = Lc_active"
    using run app by (auto simp: sourceSuspended_def mutateApp_def require_res_def split: if_splits)
  obtain reloaded d q where row: "getApplication db' i = Some (keep_identity reloaded (stamp_app e
       ((clearActive (app\<lparr>app_interruption_stage := app_interruption_stage reloaded,
               app_interruption_at := app_interruption_at reloaded,
               app_interruption_operation_id := app_interruption_operation_id reloaded,
               app_interruption_generation_id := app_interruption_generation_id reloaded\<rparr>))
        \<lparr>app_suspended_at := Some (ev_at e), app_source_suspended_reason := Some why\<rparr>)))"
    and int: "interruptActiveOperations i e db = Inr (d, q)" and rel: "getApplication d i = Some reloaded"
    using run app by (rule suspendedE) (simp add: assms(2))
  have "reloaded = keep_identity app (interrupt_app e app)"
    using interrupted_columns [OF int app] assms(2) rel by simp
  then have "app_interruption_stage reloaded = Some Ast_fetch_started" "app_target_mode reloaded = app_target_mode app"
    using assms(2) by (simp_all add: keep_identity_def interrupt_app_def clearActive_def Let_def)
  with row \<open>app_lifecycle_status app = Lc_active\<close> show ?thesis
    by (simp add: keep_identity_def stamp_app_def clearActive_def)
qed

text \<open>C35. Suspending a Direct source in the middle of a fetch leaves it in a state where the projection offers
  fetch again although every fetch is refused until the source is resumed: an interrupted operation outranks
  the suspension in the source facet, and the fetch arm of the action list, unlike its apply arm, does not
  look at the suspension.\<close>

theorem suspended_fetch_is_offered_and_refused:
  assumes "getApplication db i = Some app" and "app_target_mode app = Direct"
    and "app_active_operation_stage app = Some Ast_fetch_started"
    and "app_recovery_phase app = None" and "app_failure_stage app = None"
    and "sourceSuspended i why e db = Inr (db', r)" and "ev_at e \<noteq> 0"
  shows "\<exists>app'. getApplication db' i = Some app'
     \<and> Act_fetch \<in> set (deriveActions env db' app' (fst (deriveSource db' app')) placement targets raw off)
     \<and> fetchStarted i e2 db' = Inl (terr ''source is suspended'')"
proof -
  obtain app' where app': "getApplication db' i = Some app'" "app_interruption_stage app' = Some Ast_fetch_started"
    "app_active_operation_stage app' = None" "app_suspended_at app' = Some (ev_at e)" "app_target_mode app' = Direct"
    "app_lifecycle_status app' = Lc_active" "app_recovery_phase app' = None" "app_failure_stage app' = None"
    using suspended_fetch_row [OF assms(1,3,6)] assms by auto
  have "source_facet_status (fst (deriveSource db' app')) = Some (fst (live_source_status db' app'))"
    using app'(5) by (simp add: deriveSource_status)
  then have "Act_fetch \<in> set (deriveActions env db' app' (fst (deriveSource db' app')) placement targets raw off)"
    using app' by (simp add: deriveActions_def live_source_status_def fetch_offered_def on_status_def source_settled_def)
  moreover have "fetchStarted i e2 db' = Inl (terr ''source is suspended'')"
    using app' assms(7) by (simp add: fetchStarted_def mutateApp_def)
  ultimately show ?thesis using app'(1) by blast
qed

definition ex_fetching_app :: gitops_application_row where
  "ex_fetching_app = ex_app\<lparr>app_active_operation_id := Some ''op1'', app_active_operation_stage := Some Ast_fetch_started\<rparr>"

definition ex_fetching :: gitops_db where
  "ex_fetching = empty_db\<lparr>db_applications := [ex_fetching_app]\<rparr>"

lemma ex_env_at: "ev_at (ex_env opid) \<noteq> 0"
  by (simp add: ex_env_def)

lemma ex_fetching_suspends: "\<exists>db' r. sourceSuspended ''app'' ''hold'' (ex_env ''op2'') ex_fetching = Inr (db', r)"
  by (simp add: sourceSuspended_def mutateApp_def ex_fetching_def ex_fetching_app_def ex_app_def getApplication_def
      interruptActiveOperations_def requireApp_def empty_db_def listTargets_def ex_env_def
      writeApplication_def interrupt_app_def clearActive_def Let_def prod.case_eq_if)

theorem suspended_fetch_is_offered_and_refused_witness:
  "\<exists>db' r app'. sourceSuspended ''app'' ''hold'' (ex_env ''op2'') ex_fetching = Inr (db', r)
     \<and> getApplication db' ''app'' = Some app'
     \<and> Act_fetch \<in> set (deriveActions ex_projection_env db' app' (fst (deriveSource db' app')) Plc_unbound_direct [] [] False)
     \<and> fetchStarted ''app'' (ex_env ''op3'') db' = Inl (terr ''source is suspended'')"
proof -
  obtain db' r where run: "sourceSuspended ''app'' ''hold'' (ex_env ''op2'') ex_fetching = Inr (db', r)"
    using ex_fetching_suspends by blast
  have "getApplication ex_fetching ''app'' = Some ex_fetching_app"
    by (simp add: ex_fetching_def getApplication_def ex_fetching_app_def ex_app_def)
  then have "\<exists>app'. getApplication db' ''app'' = Some app'
     \<and> Act_fetch \<in> set (deriveActions ex_projection_env db' app' (fst (deriveSource db' app')) Plc_unbound_direct [] [] False)
     \<and> fetchStarted ''app'' (ex_env ''op3'') db' = Inl (terr ''source is suspended'')"
    by (rule suspended_fetch_is_offered_and_refused) (use run ex_env_at in \<open>simp_all add: ex_fetching_app_def ex_app_def\<close>)
  with run show ?thesis by blast
qed

end
