(* ===== verification/Projection_Properties.thy ===== *)
theory Projection_Properties
  imports Projection_Actions
begin

text \<open>
  What the facets of the projection prove: what has to hold of the stored rows before a target reads as synced,
  a rollout as converged or a placement as settled, and that a divergence a facet reports is also listed.
\<close>

section \<open>Runtime\<close>


lemma vocabularies_exhausted:
  "status = Ts_tombstoned \<or> status = Ts_active"
  "interruption \<in> {Some Tst_deploy_started, Some Tst_blueprint_deploy_started, Some Tst_blueprint_withdraw_started}
     \<or> interruption = None \<or> interruption = Some Tst_recovery_started"
  "failure \<in> {Some Tf_deploy, Some Tf_blueprint_deploy, Some Tf_blueprint_withdraw, Some Tf_recovery} \<or> failure = None"
  "phase \<in> {Some Rp_restoring, Some Rp_compensating, Some Rp_failed}
     \<or> phase = None \<or> phase = Some Rp_capturing \<or> phase = Some Rp_complete"
  subgoal by (cases status) simp_all
  subgoal by (cases interruption; cases "the interruption") auto
  subgoal by (cases failure; cases "the failure") auto
  subgoal by (cases phase; cases "the phase") auto
  done






section \<open>Rollout and placement\<close>







lemma authorization_chain_bound:
  assumes "authorization_chain env db app ing = Inr Plc_blueprint_bound"
  shows "\<exists>ref live. app_rollout_authorization_ref app = Some ref \<and> ref \<noteq> [] \<and> currentAuthorizationBinding db app = Some live
     \<and> resolveApprovalRef db ref (Expect_rollout_authorization (app_id app) live) \<noteq> None
     \<and> executableArtifactRefusalReason (map_option art_qualification (getArtifactSet db (bnd_artifactSetId ing))) = None
     \<and> (case stored_preflight env app (bnd_requiredNodeIds ing) of
          None \<Rightarrow> True
        | Some s \<Rightarrow> \<not> isPreflightBlocked s
            \<and> fingerprintPreflightEvidence (env_localeCompare env) (env_sha256 env) s = Inr (bnd_preflightFingerprint live))"
  using assms
  by (auto simp: authorization_chain_def Let_def bind_res_def elim!: truthy_strE
      split: sum.splits option.splits if_splits)

text \<open>C11. A Git-managed application whose authorization ingredients are complete reads as settled in its
  placement only under a live rollout authorization: the recorded reference resolves against the binding of
  the current rows, the artifact set is not unresolved or unavailable, and a stored preflight evaluation is
  not blocked and has exactly the fingerprint the authorization was given for.\<close>

theorem settled_placement_is_authorized:
  assumes "derivePlacementAuthority env db app future = Inr Plc_blueprint_bound"
    and "Option.bind future fut_placement = None" and "app_target_mode app = Blueprint"
    and "authorizationIngredients db app = Some ing"
  shows "\<exists>ref live. app_rollout_authorization_ref app = Some ref \<and> currentAuthorizationBinding db app = Some live
     \<and> resolveApprovalRef db ref (Expect_rollout_authorization (app_id app) live) \<noteq> None
     \<and> executableArtifactRefusalReason (map_option art_qualification (getArtifactSet db (bnd_artifactSetId ing))) = None
     \<and> (case stored_preflight env app (bnd_requiredNodeIds ing) of
          None \<Rightarrow> True
        | Some s \<Rightarrow> \<not> isPreflightBlocked s
            \<and> fingerprintPreflightEvidence (env_localeCompare env) (env_sha256 env) s = Inr (bnd_preflightFingerprint live))"
proof -
  have "authorization_chain env db app ing = Inr Plc_blueprint_bound"
    using assms by (auto simp: derivePlacementAuthority_def split: if_splits)
  from authorization_chain_bound [OF this] show ?thesis by blast
qed

theorem settled_placement_is_authorized_witness:
  "\<exists>app ref live. getApplication (resolved (ex_db ex_authorized)) ''app'' = Some app
     \<and> app_rollout_authorization_ref app = Some ref
     \<and> resolveApprovalRef (resolved (ex_db ex_authorized)) ref (Expect_rollout_authorization (app_id app) live) \<noteq> None"
proof -
  obtain app where app: "getApplication (resolved (ex_db ex_authorized)) ''app'' = Some app"
    "app_target_mode app = Blueprint" "authorizationIngredients (resolved (ex_db ex_authorized)) app \<noteq> None"
    "derivePlacementAuthority ex_projection_env (resolved (ex_db ex_authorized)) app None = Inr Plc_blueprint_bound"
    using ex_settled_facts by (auto simp: settled_facts_def elim: on_appE)
  then obtain ing where "authorizationIngredients (resolved (ex_db ex_authorized)) app = Some ing" by blast
  from settled_placement_is_authorized [OF app(4) _ app(2) this] app(1) show ?thesis by auto
qed

section \<open>Facets and drift agree\<close>

lemma artifact_drift_status:
  assumes "deriveRuntime env db t artifact observed off app conf = status"
    and "status \<in> {Run_runtime_artifact_drift, Run_rollout_artifact_drift}"
  shows "tgt_target_status t = Ts_active
     \<and> (status = Run_rollout_artifact_drift \<longleftrightarrow>
          truthy_str (tgt_rollout_authorization_ref t) \<or> truthy_str (tgt_rollout_generation_id t))
     \<and> (\<exists>expected. artifact_expected artifact = Some expected \<and> aei_identity expected \<noteq> None
          \<and> aei_qualification expected \<in> {Q_exact, Q_qualified} \<and> obs_comparable observed
          \<and> \<not> expectedSetAgreesWithObservation env db (aei_artifactSetId expected) observed (aei_identity expected))"
proof -
  have never: "BLUEPRINT_OBSERVATION_STATUS s \<noteq> Some status" "LIVE_OPERATION_STATUS a \<noteq> Some status"
    "blueprintAckStatus db app t observed off conf \<noteq> Some status" for s a
    using assms(2) by (auto simp: BLUEPRINT_OBSERVATION_STATUS_def LIVE_OPERATION_STATUS_def blueprintAckStatus_def
        split: if_splits option.splits target_active_stage.splits)
  have "tgt_target_status t \<noteq> Ts_tombstoned \<and> settled_runtime env db app t artifact observed off = status"
    using assms never(1) [of "tgt_latest_stage t"] never(2) [of "tgt_active_operation_stage t"] never(3)
    by (auto simp: deriveRuntime_def split: if_splits option.splits)
  then show ?thesis using assms(2) vocabularies_exhausted(1) [of "tgt_target_status t"]
    by (auto simp: settled_runtime_def Let_def truthy_str_not_None elim!: truthy_strE split: if_splits option.splits)
qed

lemma artifact_drift_listed:
  assumes d: "deriveTarget env db app intent t off conf = Inr (tp, lims)"
    and s: "tp_runtime tp \<in> {Run_runtime_artifact_drift, Run_rollout_artifact_drift}"
  shows "\<not> tp_tombstoned tp \<and> (\<exists>item. artifact_drift env db app tp = [item]
     \<and> dr_class item = (if tp_runtime tp = Run_rollout_artifact_drift then Dc_rollout else Dc_runtime)
     \<and> dr_affectedTargets item = [(Some (tp_nodeId tp), app_stack_name app)])"
proof -
  note c = deriveTarget_columns [OF d]
  note a = artifact_drift_status [OF c(1) [symmetric] s]
  obtain expected where e: "artifact_expected (tp_artifact tp) = Some expected" "aei_identity expected \<noteq> None"
    "aei_qualification expected \<in> {Q_exact, Q_qualified}" "obs_comparable (tp_observedArtifactIdentity tp)"
    "\<not> expectedSetAgreesWithObservation env db (aei_artifactSetId expected) (tp_observedArtifactIdentity tp)
         (aei_identity expected)"
    using a by blast
  have "runtimeDriftClass tp = Some (if tp_runtime tp = Run_rollout_artifact_drift then Dc_rollout else Dc_runtime)"
    using a s c(6,7) by (auto simp: runtimeDriftClass_def)
  moreover have "\<not> tp_tombstoned tp" using a c(4) by simp
  ultimately show ?thesis using e by (auto simp: artifact_drift_def Let_def)
qed

lemma map_res_member: "map_res f xs = Inr ys \<Longrightarrow> y \<in> set ys \<Longrightarrow> \<exists>x \<in> set xs. f x = Inr y"
  by (induction xs arbitrary: ys) (auto simp: bind_res_def split: sum.splits)

lemma map_res_raises:
  assumes "x \<in> set xs" and raises: "f x = Inl e" and only: "\<And>y e'. f y = Inl e' \<Longrightarrow> e' = e"
  shows "map_res f xs = Inl e"
  using assms(1)
proof (induction xs)
  case (Cons y ys)
  show ?case
  proof (cases "f y")
    case (Inl e1)
    then show ?thesis using only [OF Inl] by simp
  next
    case (Inr z)
    then show ?thesis using Cons raises by auto
  qed
qed simp

lemma revision_parts:
  assumes "deriveGitOpsRevision env db (Some app) raw off future = Inr (Some p)"
  shows "\<exists>derived. map_res (\<lambda>t. deriveTarget env db app (optional_intent db (app_intent_revision_id app)) t off
            (blueprintConfirmsOutcome env db app off)) (js_sort (num_cmp tgt_node_id) raw) = Inr derived
     \<and> rev_targets p = map fst derived
     \<and> set (collectRuntimeDrift env db app (rev_targets p) (rawByNodeId raw)) \<subseteq> set (rev_drift p)"
proof (cases "map_res (\<lambda>t. deriveTarget env db app (optional_intent db (app_intent_revision_id app)) t off
            (blueprintConfirmsOutcome env db app off)) (js_sort (num_cmp tgt_node_id) raw)")
  case (Inl e)
  then show ?thesis using assms by (simp add: deriveGitOpsRevision_def Let_def prod.case_eq_if)
next
  case (Inr derived)
  then show ?thesis
    using assms
    by (cases "derivePlacement env db app future (map fst derived)")
      (clarsimp simp: deriveGitOpsRevision_def Let_def prod.case_eq_if collectDrift_def)+
qed

text \<open>C20. A fault the runtime facet reports is also listed and raised: for every projected target whose runtime
  reads as an artifact drift, the drift list of the same projection names that node under the class the facet
  implies, rollout for a target bound to a rollout and runtime otherwise, and the attention reasons contain
  drift.\<close>

theorem artifact_drift_is_listed_and_raised:
  assumes "deriveGitOpsRevision env db (Some app) raw off future = Inr (Some p)" and "tp \<in> set (rev_targets p)"
    and "tp_runtime tp = Run_runtime_artifact_drift \<or> tp_runtime tp = Run_rollout_artifact_drift"
  shows "(\<exists>item \<in> set (rev_drift p).
       dr_class item = (if tp_runtime tp = Run_rollout_artifact_drift then Dc_rollout else Dc_runtime)
       \<and> dr_affectedTargets item = [(Some (tp_nodeId tp), app_stack_name app)])
     \<and> Atn_drift \<in> set (attentionReasons (Some p))"
proof -
  obtain derived where d: "map_res (\<lambda>t. deriveTarget env db app (optional_intent db (app_intent_revision_id app)) t off
            (blueprintConfirmsOutcome env db app off)) (js_sort (num_cmp tgt_node_id) raw) = Inr derived"
    and t: "rev_targets p = map fst derived"
    and sub: "set (collectRuntimeDrift env db app (rev_targets p) (rawByNodeId raw)) \<subseteq> set (rev_drift p)"
    using revision_parts [OF assms(1)] by blast
  obtain lims where "(tp, lims) \<in> set derived" using assms(2) t by auto
  then obtain row where "deriveTarget env db app (optional_intent db (app_intent_revision_id app)) row off
      (blueprintConfirmsOutcome env db app off) = Inr (tp, lims)"
    using map_res_member [OF d] by blast
  from artifact_drift_listed [OF this] assms(3) obtain item where live: "\<not> tp_tombstoned tp"
    and item: "artifact_drift env db app tp = [item]"
      "dr_class item = (if tp_runtime tp = Run_rollout_artifact_drift then Dc_rollout else Dc_runtime)"
      "dr_affectedTargets item = [(Some (tp_nodeId tp), app_stack_name app)]" by blast
  have m: "item \<in> set (rev_drift p)"
    using sub assms(2) item(1) by (fastforce simp: collectRuntimeDrift_def)
  moreover have "item \<in> set (currentDrift p)"
    using m item(3) live assms(2) by (auto simp: currentDrift_def Let_def)
  then have "Atn_drift \<in> set (attentionReasons (Some p))" by (auto simp: attentionReasons_def)
  ultimately show ?thesis using item by blast
qed

theorem artifact_drift_is_listed_and_raised_witness:
  "\<exists>p item. deriveGitOpsRevision ex_projection_env ex_drifting (Some ex_app) [ex_drifting_target] False None = Inr (Some p)
     \<and> item \<in> set (rev_drift p) \<and> dr_class item = Dc_runtime \<and> dr_affectedTargets item = [(Some 1, Some ''web'')]
     \<and> Atn_drift \<in> set (attentionReasons (Some p))"
proof -
  obtain p tp where run: "deriveGitOpsRevision ex_projection_env ex_drifting (Some ex_app) [ex_drifting_target] False None = Inr (Some p)"
    and tp: "tp \<in> set (rev_targets p)" "tp_nodeId tp = 1" "tp_runtime tp = Run_runtime_artifact_drift"
    using ex_drift_facts by (auto simp: drift_facts_def list_ex_iff split: sum.splits option.splits)
  have "app_stack_name ex_app = Some ''web''" by (simp add: ex_app_def)
  with artifact_drift_is_listed_and_raised [OF run tp(1)] run tp show ?thesis by auto
qed

section \<open>An unreadable capability takes the projection down\<close>

lemma recipients_raise_TypeError:
  "length_positive v = Inl e \<Longrightarrow> e = TypeError"
  "inputIsUndecryptable available input = Inl e \<Longrightarrow> e = TypeError"
  by (auto simp: length_positive_def inputIsUndecryptable_def bind_res_def
      split: option.splits json.splits if_splits sum.splits)

lemma map_res_TypeError:
  assumes "map_res f xs = Inl e" and only: "\<And>x e'. f x = Inl e' \<Longrightarrow> e' = TypeError"
  shows "e = TypeError"
  using assms(1)
proof (induction xs)
  case (Cons x xs)
  then show ?case using only [of x] by (cases "f x"; cases "map_res f xs") simp_all
qed simp

lemma missingRecipients_TypeError:
  assumes "missingRecipientsForInputs inputs available = Inl e"
  shows "e = TypeError"
proof -
  have "map_res (\<lambda>input. bind_res (inputIsUndecryptable available input) (\<lambda>blocked.
         Inr (case input of
                JObj obj \<Rightarrow> (if blocked then nullish (as_array (input_recipients obj)) [] else [])
              | _ \<Rightarrow> []))) inputs = Inl e"
    using assms by (auto simp: missingRecipientsForInputs_def bind_res_def split: sum.splits)
  then show ?thesis
    by (rule map_res_TypeError) (auto simp: bind_res_def dest: recipients_raise_TypeError(2) split: sum.splits)
qed

lemma deriveTarget_TypeError:
  assumes "deriveTarget env db app intent t off conf = Inl e"
  shows "e = TypeError"
proof -
  have "deriveLkg db t = Inl e"
    using assms by (auto simp: deriveTarget_def Let_def bind_res_def prod.case_eq_if split: sum.splits)
  then show ?thesis
    by (auto simp: deriveLkg_def lkg_missing_recipients_def missingRecipientsForCapability_def Let_def bind_res_def
        dest: recipients_raise_TypeError(1) missingRecipients_TypeError split: if_splits option.splits sum.splits)
qed

text \<open>C36. One stored generation can take the whole projection down: a capability whose recipients list is
  absent or null passes the check of the reader, and a target that keeps such a generation as its last known
  good makes the projection of the application raise a type error, whatever the other rows say.\<close>

theorem absent_recipients_break_projection:
  assumes "t \<in> set raw" and "truthy_str (tgt_lkg_generation_id t)" and "\<not> truthy_num (tgt_lkg_unavailable_at t)"
    and "getGeneration db (the (tgt_lkg_generation_id t)) = Some generation"
    and "parseSecretCapabilityFromJson (gen_secret_capability_json generation) = Some cap"
    and "sc_requiredRecipients cap = None \<or> sc_requiredRecipients cap = Some JNull"
  shows "deriveGitOpsRevision env db (Some app) raw off future = Inl TypeError"
proof -
  have "length_positive (sc_requiredRecipients cap) = Inl TypeError"
    using assms(6) by (auto simp: length_positive_def)
  then have "deriveTarget env db app intent t off conf = Inl TypeError" for intent conf
    using assms(2-5) by (simp add: deriveTarget_def deriveLkg_def lkg_missing_recipients_def Let_def prod.case_eq_if)
  then have "map_res (\<lambda>t. deriveTarget env db app intent t off conf) (js_sort (num_cmp tgt_node_id) raw) = Inl TypeError"
    for intent conf
    by (rule map_res_raises [rotated]) (use assms(1) in \<open>auto dest: deriveTarget_TypeError\<close>)
  then show ?thesis by (simp add: deriveGitOpsRevision_def Let_def prod.case_eq_if)
qed

definition ex_legacy_gen :: gitops_generation_row where
  "ex_legacy_gen = ex_gen\<lparr>gen_secret_capability_json :=
     Some (Parsed (JObj [(''inputs'', JArr []), (''ready'', JBool True)]))\<rparr>"

theorem absent_recipients_break_projection_witness:
  "deriveGitOpsRevision ex_projection_env (empty_db\<lparr>db_generations := [ex_legacy_gen]\<rparr>) (Some ex_app)
     [(emptyTargetRow ''app'' 1 0)\<lparr>tgt_lkg_generation_id := Some ''g1''\<rparr>] False None = Inl TypeError"
  by (rule absent_recipients_break_projection [where generation = ex_legacy_gen
        and cap = "\<lparr>sc_inputs = [], sc_requiredRecipients = None\<rparr>"
        and t = "(emptyTargetRow ''app'' 1 0)\<lparr>tgt_lkg_generation_id := Some ''g1''\<rparr>"])
    (simp_all add: emptyTargetRow_def getGeneration_def ex_legacy_gen_def ex_gen_def parseSecretCapabilityFromJson_def
      prop_of_def as_array_def as_bool_def)

end
