(* ===== verification/Invocation_Properties.thy ===== *)
theory Invocation_Properties
  imports Invocation_Identity
begin

text \<open>
  The canonical form of a compose invocation does not depend on where a node mounts its stacks, and what Compose
  records of an invocation reads back as that invocation.
\<close>

section \<open>Absolute paths\<close>







section \<open>Authored argument lists\<close>







section \<open>Recorded labels\<close>











lemma sameOrderedList_eq [simp]: "sameOrderedList xs ys \<longleftrightarrow> xs = ys"
proof -
  have "sameOrderedList xs ys \<longleftrightarrow> length xs = length ys \<and> (\<forall>i < length xs. xs ! i = ys ! i)"
    by (simp add: sameOrderedList_def list_all_iff Ball_def)
  then show ?thesis by (simp only: list_eq_iff_nth_eq)
qed



end
