(* ===== verification/Provider_Webhooks.thy ===== *)
theory Provider_Webhooks
  imports Repo_Identity
begin

text \<open>
  Provider webhooks (\<^verbatim>\<open>gitops/providerWebhooks\<close>): how a delivery is authenticated, read, matched against the
  configured source and turned into at most one pull, with the delivery table of \<^verbatim>\<open>DatabaseService.ts\<close>. HMAC,
  SHA-256, secret decryption, JSON and URL parsing, the clock and fresh identifiers are fields of \<open>webhook_env\<close>; the
  pull itself (\<^verbatim>\<open>handleWebhookPull\<close>) is an argument, and the calls made to it are part of the result.
\<close>

section \<open>Rows and environment\<close>

datatype (plugins only: code) git_provider_kind =
  Gp_github | Gp_gitlab | Gp_gitea | Gp_forgejo | Gp_bitbucket_cloud

datatype (plugins only: code) git_provider_event_scope = Es_configured_ref | Es_configured_ref_and_prs

datatype (plugins only: code) git_provider_delivery_state =
  Ds_received | Ds_authenticated | Ds_rejected_auth | Ds_malformed | Ds_unsupported | Ds_duplicate
  | Ds_ignored_by_policy | Ds_queued | Ds_processing_failed

record git_provider_endpoint_row =
  pep_id :: string
  pep_stack_name :: string
  pep_provider :: git_provider_kind
  pep_encrypted_secret :: string
  pep_encrypted_secret_previous :: "string option"
  pep_previous_secret_expires_at :: "int option"
  pep_enabled :: int
  pep_event_scope :: git_provider_event_scope
  pep_created_at :: int
  pep_updated_at :: int

record git_provider_delivery_row =
  pdl_id :: int
  pdl_endpoint_id :: string
  pdl_delivery_id :: string
  pdl_state :: git_provider_delivery_state
  pdl_event_type :: "string option"
  pdl_event_action :: "json option"
  pdl_ref :: "string option"
  pdl_candidate_sha :: "json option"
  pdl_outcome_class :: "string option"
  pdl_received_at :: int
  pdl_updated_at :: int

text \<open>The columns of a Git source the ingest reads.\<close>

record webhook_source =
  wsrc_repo_url :: string
  wsrc_branch :: string

text \<open>\<open>wh_next_id\<close> is the AUTOINCREMENT counter of the delivery table.\<close>

record webhook_db =
  wh_endpoints :: "git_provider_endpoint_row list"
  wh_deliveries :: "git_provider_delivery_row list"
  wh_next_id :: int
  wh_sources :: "(string \<times> webhook_source) list"

record webhook_env =
  we_hmac :: "string \<Rightarrow> string \<Rightarrow> string"
  we_sha256 :: "string \<Rightarrow> string"
  we_decrypt :: "string \<Rightarrow> string option"
  we_decoy :: string
  we_json :: "string \<Rightarrow> raw_json"
  we_new_URL :: url_parser
  we_String :: "json \<Rightarrow> string"
  we_now :: int
  we_uuid :: string

datatype (plugins only: code) header_value = Hd_one string | Hd_many "string list"

type_synonym headers = "string \<Rightarrow> header_value option"

definition header :: "headers \<Rightarrow> string \<Rightarrow> string option" where
  "header headers name =
     (case headers name of
        None \<Rightarrow> None
      | Some (Hd_one s) \<Rightarrow> Some s
      | Some (Hd_many vs) \<Rightarrow> (case vs of [] \<Rightarrow> None | v # _ \<Rightarrow> Some v))"

section \<open>Delivery identifiers\<close>

definition MAX_PROVIDER_DELIVERY_ID_LENGTH :: nat where
  "MAX_PROVIDER_DELIVERY_ID_LENGTH = 256"

definition DELIVERY_ID_HEADERS :: "string list" where
  "DELIVERY_ID_HEADERS =
     [''x-github-delivery'', ''x-gitea-delivery'', ''x-forgejo-delivery'', ''x-gitlab-event-uuid'', ''webhook-id'',
      ''idempotency-key'', ''x-request-uuid'', ''x-webhook-delivery-id'']"

definition boundDeliveryId :: "webhook_env \<Rightarrow> string \<Rightarrow> string" where
  "boundDeliveryId env raw =
     (let normalized = js_trim raw
      in if normalized = [] then normalized
         else if length normalized \<le> MAX_PROVIDER_DELIVERY_ID_LENGTH then normalized
         else ''sha256:'' @ we_sha256 env normalized)"

fun first_delivery_id :: "webhook_env \<Rightarrow> headers \<Rightarrow> string list \<Rightarrow> string option" where
  "first_delivery_id env headers [] = None"
| "first_delivery_id env headers (name # names) =
     (if truthy_str (header headers name) then Some (boundDeliveryId env (the (header headers name)))
      else first_delivery_id env headers names)"

definition deliveryIdFromHeaders :: "webhook_env \<Rightarrow> headers \<Rightarrow> string option" where
  "deliveryIdFromHeaders env headers = first_delivery_id env headers DELIVERY_ID_HEADERS"

definition scopedProviderDeliveryId :: "webhook_env \<Rightarrow> string \<Rightarrow> string \<Rightarrow> string" where
  "scopedProviderDeliveryId env endpointId deliveryId =
     ''provider:'' @ endpointId @ '':'' @ boundDeliveryId env deliveryId"

section \<open>Signatures\<close>

definition is_hex :: "char \<Rightarrow> bool" where
  "is_hex c = (c \<in> set ''0123456789abcdefABCDEF'')"

text \<open>Two digests of 64 hexadecimal digits are the same bytes exactly when they agree up to the case of the
  digits.\<close>

definition timingSafeEqualHex :: "string \<Rightarrow> string \<Rightarrow> bool" where
  "timingSafeEqualHex expectedHex providedHex =
     (length expectedHex = 64 \<and> list_all is_hex expectedHex
      \<and> length providedHex = 64 \<and> list_all is_hex providedHex
      \<and> lower expectedHex = lower providedHex)"

definition verifySha256PrefixedHmac :: "webhook_env \<Rightarrow> string \<Rightarrow> string \<Rightarrow> string option \<Rightarrow> bool" where
  "verifySha256PrefixedHmac env rawBody secret signatureHeader =
     (if \<not> truthy_str signatureHeader then False
      else
        (case split_on (CHR ''='') (the signatureHeader) of
           [scheme, digest] \<Rightarrow> scheme = ''sha256'' \<and> timingSafeEqualHex (we_hmac env secret rawBody) digest
         | _ \<Rightarrow> False))"

definition verifyRawHexHmac :: "webhook_env \<Rightarrow> string \<Rightarrow> string \<Rightarrow> string option \<Rightarrow> bool" where
  "verifyRawHexHmac env rawBody secret signatureHeader =
     (if \<not> truthy_str signatureHeader then False
      else timingSafeEqualHex (we_hmac env secret rawBody) (js_trim (the signatureHeader)))"

definition verifyConstantTimeSecret :: "string option \<Rightarrow> string \<Rightarrow> bool" where
  "verifyConstantTimeSecret provided expected = (truthy_str provided \<and> the provided = expected)"

definition verifyProviderSignature :: "webhook_env \<Rightarrow> git_provider_kind \<Rightarrow> string \<Rightarrow> string \<Rightarrow> headers \<Rightarrow> bool" where
  "verifyProviderSignature env provider rawBody secret headers =
     (case provider of
        Gp_github \<Rightarrow> verifySha256PrefixedHmac env rawBody secret (header headers ''x-hub-signature-256'')
      | Gp_gitlab \<Rightarrow>
          (let sig256 = header headers ''x-gitlab-hook-signature-256''
           in if truthy_str sig256 then verifySha256PrefixedHmac env rawBody secret sig256
              else verifyConstantTimeSecret (header headers ''x-gitlab-token'') secret)
      | Gp_gitea \<Rightarrow> verifyRawHexHmac env rawBody secret (header headers ''x-gitea-signature'')
      | Gp_forgejo \<Rightarrow>
          (let forgejo = header headers ''x-forgejo-signature''
           in if truthy_str forgejo then verifyRawHexHmac env rawBody secret forgejo
              else verifyRawHexHmac env rawBody secret (header headers ''x-gitea-signature''))
      | Gp_bitbucket_cloud \<Rightarrow> verifySha256PrefixedHmac env rawBody secret (header headers ''x-hub-signature''))"

definition resolveSecrets :: "webhook_env \<Rightarrow> git_provider_endpoint_row option \<Rightarrow> string list" where
  "resolveSecrets env endpoint =
     (case endpoint of
        None \<Rightarrow> [we_decoy env]
      | Some e \<Rightarrow>
          nullish (we_decrypt env (pep_encrypted_secret e)) (we_decoy env)
          # (if truthy_str (pep_encrypted_secret_previous e) \<and> truthy_num (pep_previous_secret_expires_at e)
                \<and> the (pep_previous_secret_expires_at e) > we_now env
             then (case we_decrypt env (the (pep_encrypted_secret_previous e)) of None \<Rightarrow> [] | Some s \<Rightarrow> [s])
             else []))"

definition verifyWithSecrets ::
    "webhook_env \<Rightarrow> git_provider_kind \<Rightarrow> string \<Rightarrow> string list \<Rightarrow> headers \<Rightarrow> bool" where
  "verifyWithSecrets env provider rawBody secrets headers =
     list_ex (\<lambda>secret. verifyProviderSignature env provider rawBody secret headers) secrets"

section \<open>Payloads\<close>

text \<open>A property read through \<^verbatim>\<open>?.\<close>: absent on \<^verbatim>\<open>null\<close> and \<^verbatim>\<open>undefined\<close>, and on a value that is no object.\<close>

definition chain :: "json option \<Rightarrow> string \<Rightarrow> json option" where
  "chain v key = (case v of Some (JObj obj) \<Rightarrow> prop_of obj key | _ \<Rightarrow> None)"

definition chain_first :: "json option \<Rightarrow> json option" where
  "chain_first v =
     (case v of
        Some (JArr (x # _)) \<Rightarrow> Some x
      | Some (JStr (c # _)) \<Rightarrow> Some (JStr [c])
      | Some (JObj obj) \<Rightarrow> prop_of obj ''0''
      | _ \<Rightarrow> None)"

definition present :: "json option \<Rightarrow> json option" where
  "present v = (case v of Some JNull \<Rightarrow> None | _ \<Rightarrow> v)"

definition text_prop :: "(string \<times> json) list \<Rightarrow> string \<Rightarrow> string option" where
  "text_prop body key = Option.bind (prop_of body key) as_string"

definition truthy_json :: "json \<Rightarrow> bool" where
  "truthy_json j =
     (case j of
        JNull \<Rightarrow> False | JBool b \<Rightarrow> b | JNum n \<Rightarrow> n \<noteq> NInt 0 | JStr s \<Rightarrow> s \<noteq> [] | _ \<Rightarrow> True)"

definition js_String :: "webhook_env \<Rightarrow> json \<Rightarrow> string" where
  "js_String env j = (case j of JStr s \<Rightarrow> s | _ \<Rightarrow> we_String env j)"

record parsed_provider_payload =
  ppl_eventType :: string
  ppl_eventAction :: "json option"
  ppl_repoIdentity :: "repo_identity option"
  ppl_ref :: "string option"
  ppl_candidateSha :: "json option"
  ppl_pullRequestId :: "string option"

definition identityFromUrl :: "webhook_env \<Rightarrow> string \<Rightarrow> repo_identity option" where
  "identityFromUrl env url =
     (case parseHttpsRepoUrl (we_new_URL env) url of
        Inr parsed \<Rightarrow> Some (serializeRepoIdentity parsed)
      | Inl _ \<Rightarrow>
          (case parseLegacyRepoUrl (we_new_URL env) url of
             Inl _ \<Rightarrow> None
           | Inr legacy \<Rightarrow> Some (serializeRepoIdentity legacy)))"

definition identity_from_json :: "webhook_env \<Rightarrow> json option \<Rightarrow> repo_identity option" where
  "identity_from_json env url =
     (case url of Some (JStr s) \<Rightarrow> (if s = [] then None else identityFromUrl env s) | _ \<Rightarrow> None)"

definition eventActionFromBody :: "(string \<times> json) list \<Rightarrow> json option" where
  "eventActionFromBody body = map_option JStr (text_prop body ''action'')"

definition repoFromGithub :: "webhook_env \<Rightarrow> (string \<times> json) list \<Rightarrow> repo_identity option" where
  "repoFromGithub env body =
     (let repo = prop_of body ''repository''
      in identity_from_json env (nullish_opt (present (chain repo ''html_url'')) (chain repo ''clone_url'')))"

definition repoFromGitlab :: "webhook_env \<Rightarrow> (string \<times> json) list \<Rightarrow> repo_identity option" where
  "repoFromGitlab env body =
     (let project = prop_of body ''project''
      in identity_from_json env (nullish_opt (present (chain project ''web_url'')) (chain project ''http_url'')))"

definition repoFromGiteaFamily :: "webhook_env \<Rightarrow> (string \<times> json) list \<Rightarrow> repo_identity option" where
  "repoFromGiteaFamily env body =
     (let repo = prop_of body ''repository''
      in identity_from_json env (nullish_opt (present (chain repo ''html_url'')) (chain repo ''clone_url'')))"

definition repoFromBitbucket :: "webhook_env \<Rightarrow> (string \<times> json) list \<Rightarrow> repo_identity option" where
  "repoFromBitbucket env body =
     identity_from_json env (chain (chain (chain (prop_of body ''repository'') ''links'') ''html'') ''href'')"

text \<open>\<^verbatim>\<open>/\s+hook$/\<close> removed, then every run of blanks replaced by an underscore.\<close>

definition strip_hook :: "string \<Rightarrow> string" where
  "strip_hook s =
     (let stem = take (length s - 4) s
      in if ends_with s ''hook'' \<and> stem \<noteq> [] \<and> is_space (last stem)
         then rev (dropWhile is_space (rev stem)) else s)"

fun underscore_blanks :: "string \<Rightarrow> string" where
  "underscore_blanks [] = []"
| "underscore_blanks (c # s) =
     (if is_space c
      then (case s of
              [] \<Rightarrow> ''_''
            | d # _ \<Rightarrow> (if is_space d then underscore_blanks s else CHR ''_'' # underscore_blanks s))
      else c # underscore_blanks s)"

definition id_text :: "webhook_env \<Rightarrow> json option \<Rightarrow> string option" where
  "id_text env v = map_option (js_String env) v"

text \<open>The body of a delivery; a body that is \<^verbatim>\<open>null\<close> raises on its first property read in every arm.\<close>

definition parseProviderPayload ::
    "webhook_env \<Rightarrow> git_provider_kind \<Rightarrow> (string \<times> json) list \<Rightarrow> string option \<Rightarrow> parsed_provider_payload" where
  "parseProviderPayload env provider body eventTypeHeader =
     (case provider of
        Gp_github \<Rightarrow>
          \<lparr>ppl_eventType = lower (nullish eventTypeHeader (if text_prop body ''zen'' \<noteq> None then ''ping'' else [])),
           ppl_eventAction = eventActionFromBody body,
           ppl_repoIdentity = repoFromGithub env body,
           ppl_ref = text_prop body ''ref'',
           ppl_candidateSha = map_option JStr (text_prop body ''after''),
           ppl_pullRequestId = id_text env (chain (prop_of body ''pull_request'') ''number'')\<rparr>
      | Gp_gitlab \<Rightarrow>
          (let headerEvent = map_option (\<lambda>h. underscore_blanks (strip_hook (lower (js_trim h)))) eventTypeHeader;
               attrs = prop_of body ''object_attributes''
           in \<lparr>ppl_eventType = lower (if truthy_str (text_prop body ''object_kind'')
                                     then the (text_prop body ''object_kind'') else nullish headerEvent []),
               ppl_eventAction = present (chain attrs ''action''),
               ppl_repoIdentity = repoFromGitlab env body,
               ppl_ref = text_prop body ''ref'',
               ppl_candidateSha = map_option JStr (text_prop body ''after''),
               ppl_pullRequestId = id_text env (chain attrs ''iid'')\<rparr>)
      | Gp_bitbucket_cloud \<Rightarrow>
          (let change = chain_first (chain (prop_of body ''push'') ''changes'');
               name = chain (chain change ''new'') ''name''
           in \<lparr>ppl_eventType = lower (nullish eventTypeHeader (nullish (text_prop body ''eventKey'') [])),
               ppl_eventAction = None,
               ppl_repoIdentity = repoFromBitbucket env body,
               ppl_ref = (case name of
                            Some j \<Rightarrow> (if truthy_json j then Some (''refs/heads/'' @ js_String env j) else None)
                          | None \<Rightarrow> None),
               ppl_candidateSha = present (chain (chain (chain change ''new'') ''target'') ''hash''),
               ppl_pullRequestId = None\<rparr>)
      | _ \<Rightarrow>
          \<lparr>ppl_eventType = lower (nullish eventTypeHeader []),
           ppl_eventAction = eventActionFromBody body,
           ppl_repoIdentity = repoFromGiteaFamily env body,
           ppl_ref = text_prop body ''ref'',
           ppl_candidateSha = map_option JStr (text_prop body ''after''),
           ppl_pullRequestId = id_text env (chain (prop_of body ''pull_request'') ''number'')\<rparr>)"

section \<open>Matching\<close>

definition strip_ref :: "string \<Rightarrow> string" where
  "strip_ref r =
     (if take 11 r = ''refs/heads/'' then drop 11 r else if take 10 r = ''refs/tags/'' then drop 10 r else r)"

definition refsMatchConfigured :: "string \<Rightarrow> string option \<Rightarrow> bool" where
  "refsMatchConfigured configuredRef eventRef =
     (if \<not> truthy_str eventRef then False
      else strip_ref configuredRef = strip_ref (the eventRef) \<or> the eventRef = configuredRef)"

definition deliveryRepoMatchesConfigured :: "repo_identity \<Rightarrow> repo_identity \<Rightarrow> bool" where
  "deliveryRepoMatchesConfigured delivered configured =
     (let deliveredKey = canonicalRepoKey (delivered\<lparr>rid_pathname := lower (rid_pathname delivered)\<rparr>);
          configuredKey = canonicalRepoKey (configured\<lparr>rid_pathname := lower (rid_pathname configured)\<rparr>)
      in deliveredKey \<noteq> None \<and> configuredKey \<noteq> None \<and> deliveredKey = configuredKey)"

fun has_substring :: "string \<Rightarrow> string \<Rightarrow> bool" where
  "has_substring [] needle = (needle = [])"
| "has_substring (c # s) needle = (take (length needle) (c # s) = needle \<or> has_substring s needle)"

definition isPingEvent :: "string \<Rightarrow> bool" where
  "isPingEvent eventType = (lower eventType \<in> set [''ping'', ''pong'', ''hook''])"

definition isPushLikeEvent :: "git_provider_kind \<Rightarrow> string \<Rightarrow> bool" where
  "isPushLikeEvent provider eventType =
     (let t = lower eventType
      in if provider = Gp_gitlab then t = ''push'' \<or> t = ''tag_push''
         else if provider = Gp_bitbucket_cloud then has_substring t ''repo:push''
         else t = ''push'' \<or> t = ''create'' \<or> t = ''delete'')"

definition isPullRequestLikeEvent :: "git_provider_kind \<Rightarrow> string \<Rightarrow> bool" where
  "isPullRequestLikeEvent provider eventType =
     (let t = lower eventType
      in if provider = Gp_gitlab then t = ''merge_request''
         else if provider = Gp_bitbucket_cloud then has_substring t ''pullrequest''
         else t = ''pull_request'')"

definition ACTIONABLE_PR_ACTIONS :: "string list" where
  "ACTIONABLE_PR_ACTIONS =
     [''open'', ''opened'', ''reopen'', ''reopened'', ''synchronize'', ''synchronized'', ''update'', ''updated'',
      ''close'', ''closed'', ''merge'', ''merged'']"

text \<open>An action that is neither falsy nor text has no \<^verbatim>\<open>toLowerCase\<close>.\<close>

definition isActionablePullRequestAction :: "json option \<Rightarrow> bool res" where
  "isActionablePullRequestAction action =
     (case action of
        None \<Rightarrow> Inr True
      | Some j \<Rightarrow>
          (if \<not> truthy_json j then Inr True
           else (case j of JStr s \<Rightarrow> Inr (lower s \<in> set ACTIONABLE_PR_ACTIONS) | _ \<Rightarrow> Inl TypeError)))"

section \<open>The delivery table\<close>

definition getEndpoint :: "webhook_db \<Rightarrow> string \<Rightarrow> git_provider_endpoint_row option" where
  "getEndpoint db i = find (\<lambda>e. pep_id e = i) (wh_endpoints db)"

definition getDelivery :: "webhook_db \<Rightarrow> string \<Rightarrow> string \<Rightarrow> git_provider_delivery_row option" where
  "getDelivery db endpointId deliveryId =
     find (\<lambda>d. pdl_endpoint_id d = endpointId \<and> pdl_delivery_id d = deliveryId) (wh_deliveries db)"

record delivery_args =
  dla_state :: git_provider_delivery_state
  dla_eventType :: "string option"
  dla_eventAction :: "json option"
  dla_ref :: "string option"
  dla_candidateSha :: "json option"
  dla_outcomeClass :: "string option"

definition delivery_state_args :: "git_provider_delivery_state \<Rightarrow> string option \<Rightarrow> delivery_args" where
  "delivery_state_args state outcomeClass =
     \<lparr>dla_state = state, dla_eventType = None, dla_eventAction = None, dla_ref = None,
      dla_candidateSha = None, dla_outcomeClass = outcomeClass\<rparr>"

text \<open>A value SQLite can bind; any other makes the statement throw.\<close>

definition bindable :: "json option \<Rightarrow> bool" where
  "bindable v =
     (case v of
        Some (JBool _) \<Rightarrow> False
      | Some (JArr _) \<Rightarrow> False
      | Some (JObj _) \<Rightarrow> False
      | _ \<Rightarrow> True)"

definition update_delivery ::
    "int \<Rightarrow> delivery_args \<Rightarrow> git_provider_delivery_row \<Rightarrow> git_provider_delivery_row" where
  "update_delivery now args row =
     row\<lparr>pdl_state := dla_state args,
         pdl_event_type := nullish_opt (dla_eventType args) (pdl_event_type row),
         pdl_event_action := nullish_opt (dla_eventAction args) (pdl_event_action row),
         pdl_ref := nullish_opt (dla_ref args) (pdl_ref row),
         pdl_candidate_sha := nullish_opt (dla_candidateSha args) (pdl_candidate_sha row),
         pdl_outcome_class := nullish_opt (dla_outcomeClass args) (pdl_outcome_class row),
         pdl_updated_at := now\<rparr>"

definition upsertDelivery :: "webhook_env \<Rightarrow> string \<Rightarrow> string \<Rightarrow> delivery_args \<Rightarrow> webhook_db \<Rightarrow> webhook_db res" where
  "upsertDelivery env endpointId deliveryId args db =
     (if \<not> bindable (dla_eventAction args) \<or> \<not> bindable (dla_candidateSha args) then Inl TypeError
      else
        (case getDelivery db endpointId deliveryId of
           Some existing \<Rightarrow>
             Inr (db\<lparr>wh_deliveries := map (\<lambda>row. if pdl_id row = pdl_id existing
                then update_delivery (we_now env) args row else row) (wh_deliveries db)\<rparr>)
         | None \<Rightarrow>
             Inr (db\<lparr>wh_deliveries := wh_deliveries db @
                    [\<lparr>pdl_id = wh_next_id db, pdl_endpoint_id = endpointId, pdl_delivery_id = deliveryId,
                      pdl_state = dla_state args, pdl_event_type = dla_eventType args,
                      pdl_event_action = dla_eventAction args, pdl_ref = dla_ref args,
                      pdl_candidate_sha = dla_candidateSha args, pdl_outcome_class = dla_outcomeClass args,
                      pdl_received_at = we_now env, pdl_updated_at = we_now env\<rparr>],
                    wh_next_id := wh_next_id db + 1\<rparr>)))"

definition DELIVERY_RETENTION :: nat where
  "DELIVERY_RETENTION = 200"

text \<open>The index the scan uses orders rows received at the same time by their row id, the order of the table.\<close>

definition pruneDeliveries :: "string \<Rightarrow> webhook_db \<Rightarrow> webhook_db" where
  "pruneDeliveries endpointId db =
     (let newest = js_sort (num_cmp (\<lambda>d. - pdl_received_at d))
            (filter (\<lambda>d. pdl_endpoint_id d = endpointId) (wh_deliveries db));
          keep = map pdl_id (take DELIVERY_RETENTION newest)
      in db\<lparr>wh_deliveries :=
           filter (\<lambda>d. pdl_endpoint_id d \<noteq> endpointId \<or> pdl_id d \<in> set keep) (wh_deliveries db)\<rparr>)"

section \<open>Ingest\<close>

definition configuredRepoIdentity :: "webhook_env \<Rightarrow> webhook_db \<Rightarrow> string \<Rightarrow> repo_identity option" where
  "configuredRepoIdentity env db stackName =
     (case map_of (wh_sources db) stackName of
        None \<Rightarrow> None
      | Some src \<Rightarrow>
          (case parseStorableRepoUrl (we_new_URL env) (wsrc_repo_url src) of
             Inr parsed \<Rightarrow> Some (serializeRepoIdentityFromStorable parsed)
           | Inl _ \<Rightarrow>
               (case parseLegacyRepoUrl (we_new_URL env) (wsrc_repo_url src) of
                  Inl _ \<Rightarrow> None
                | Inr legacy \<Rightarrow> Some (serializeRepoIdentity legacy))))"

definition eventTypeHeader :: "git_provider_kind \<Rightarrow> headers \<Rightarrow> string option" where
  "eventTypeHeader provider headers =
     (case provider of
        Gp_github \<Rightarrow> header headers ''x-github-event''
      | Gp_gitlab \<Rightarrow> header headers ''x-gitlab-event''
      | Gp_gitea \<Rightarrow> header headers ''x-gitea-event''
      | Gp_forgejo \<Rightarrow> nullish_opt (header headers ''x-forgejo-event'') (header headers ''x-gitea-event'')
      | Gp_bitbucket_cloud \<Rightarrow> header headers ''x-event-key'')"

definition SETTLED_INGEST_STATES :: "git_provider_delivery_state list" where
  "SETTLED_INGEST_STATES = [Ds_queued, Ds_duplicate, Ds_ignored_by_policy, Ds_unsupported]"

record provider_ingest_outcome =
  pio_httpStatus :: int
  pio_state :: git_provider_delivery_state
  pio_message :: "string option"

datatype (plugins only: code) webhook_pull_status = Wp_success | Wp_skipped | Wp_error

definition pull_status_text :: "webhook_pull_status \<Rightarrow> string" where
  "pull_status_text s = (case s of Wp_success \<Rightarrow> ''success'' | Wp_skipped \<Rightarrow> ''skipped'' | Wp_error \<Rightarrow> ''error'')"

type_synonym webhook_pull = "string \<Rightarrow> string \<Rightarrow> webhook_pull_status \<times> string"

text \<open>An ingest returns the new tables, the answer, and the pulls it asked for: stack and scoped delivery. The
  ingest is not one transaction: a raise after the delivery was recorded leaves that row behind, which the error
  value does not show, and deliveries that arrive while a pull runs are taken one after the other.\<close>

type_synonym ingest_result = "webhook_db \<times> provider_ingest_outcome \<times> (string \<times> string) list"

definition outcome :: "int \<Rightarrow> git_provider_delivery_state \<Rightarrow> string option \<Rightarrow> provider_ingest_outcome" where
  "outcome status state message = \<lparr>pio_httpStatus = status, pio_state = state, pio_message = message\<rparr>"

definition outcome_state :: "webhook_pull_status \<Rightarrow> string \<Rightarrow> git_provider_delivery_state" where
  "outcome_state status message =
     (if status = Wp_skipped \<and> has_substring message ''Blueprint'' then Ds_ignored_by_policy
      else if status = Wp_skipped then Ds_duplicate
      else if status = Wp_error then Ds_processing_failed
      else Ds_queued)"

text \<open>A delivery that stops without a pull: its state is recorded, and except for a missing source the
  table is pruned.\<close>

definition settle_without_pull ::
    "webhook_env \<Rightarrow> git_provider_endpoint_row \<Rightarrow> string \<Rightarrow> bool \<Rightarrow> git_provider_delivery_state \<Rightarrow> string \<Rightarrow> string
      \<Rightarrow> webhook_db \<Rightarrow> ingest_result res" where
  "settle_without_pull env endpoint deliveryId prune state class message db =
     bind_res (upsertDelivery env (pep_id endpoint) deliveryId (delivery_state_args state (Some class)) db) (\<lambda>db1.
       Inr (if prune then pruneDeliveries (pep_id endpoint) db1 else db1, outcome 202 state (Some message), []))"

definition pull_delivery ::
    "webhook_pull \<Rightarrow> webhook_env \<Rightarrow> git_provider_endpoint_row \<Rightarrow> string \<Rightarrow> webhook_db \<Rightarrow> ingest_result res" where
  "pull_delivery pull env endpoint deliveryId db =
     (let scopedId = scopedProviderDeliveryId env (pep_id endpoint) deliveryId;
          (status, message) = pull (pep_stack_name endpoint) scopedId;
          outcomeState = outcome_state status message
      in bind_res (upsertDelivery env (pep_id endpoint) deliveryId
             (delivery_state_args outcomeState (Some (pull_status_text status))) db) (\<lambda>db1.
           Inr (pruneDeliveries (pep_id endpoint) db1, outcome 202 outcomeState (Some message),
                [(pep_stack_name endpoint, scopedId)])))"

definition should_queue :: "git_provider_endpoint_row \<Rightarrow> webhook_source \<Rightarrow> parsed_provider_payload \<Rightarrow> bool res" where
  "should_queue endpoint src parsed =
     (if isPushLikeEvent (pep_provider endpoint) (ppl_eventType parsed)
      then Inr (refsMatchConfigured (wsrc_branch src) (ppl_ref parsed))
      else if pep_event_scope endpoint = Es_configured_ref_and_prs
      then isActionablePullRequestAction (ppl_eventAction parsed)
      else Inr False)"

definition route_delivery ::
    "webhook_pull \<Rightarrow> webhook_env \<Rightarrow> git_provider_endpoint_row \<Rightarrow> string \<Rightarrow> parsed_provider_payload \<Rightarrow> webhook_db
      \<Rightarrow> ingest_result res" where
  "route_delivery pull env endpoint deliveryId parsed db =
     (if isPingEvent (ppl_eventType parsed)
      then settle_without_pull env endpoint deliveryId True Ds_ignored_by_policy ''ping'' ''Ping acknowledged.'' db
      else
        (case map_of (wh_sources db) (pep_stack_name endpoint) of
           None \<Rightarrow> settle_without_pull env endpoint deliveryId False Ds_ignored_by_policy ''no_source''
                     ''No Git source configured.'' db
         | Some src \<Rightarrow>
             (if \<not> (case (ppl_repoIdentity parsed, configuredRepoIdentity env db (pep_stack_name endpoint)) of
                       (Some delivered, Some configured) \<Rightarrow> deliveryRepoMatchesConfigured delivered configured
                     | _ \<Rightarrow> False)
              then settle_without_pull env endpoint deliveryId True Ds_ignored_by_policy ''source_mismatch''
                     ''Repository identity does not match the configured source.'' db
              else if \<not> isPushLikeEvent (pep_provider endpoint) (ppl_eventType parsed)
                \<and> \<not> isPullRequestLikeEvent (pep_provider endpoint) (ppl_eventType parsed)
              then settle_without_pull env endpoint deliveryId True Ds_unsupported (ppl_eventType parsed)
                     ''Unsupported event type.'' db
              else bind_res (should_queue endpoint src parsed) (\<lambda>shouldQueue.
                if \<not> shouldQueue
                then settle_without_pull env endpoint deliveryId True Ds_ignored_by_policy ''ref_policy''
                       ''Event ignored by policy.'' db
                else pull_delivery pull env endpoint deliveryId db))))"

text \<open>A JSON body as its properties: a body that is no object has none, \<^verbatim>\<open>null\<close> raises.\<close>

definition body_props :: "json \<Rightarrow> (string \<times> json) list res" where
  "body_props j = (case j of JNull \<Rightarrow> Inl TypeError | JObj obj \<Rightarrow> Inr obj | _ \<Rightarrow> Inr [])"

definition ingestLocal ::
    "webhook_pull \<Rightarrow> webhook_env \<Rightarrow> string \<Rightarrow> string \<Rightarrow> headers \<Rightarrow> webhook_db \<Rightarrow> ingest_result res" where
  "ingestLocal pull env endpointId rawBody headers db =
     (case getEndpoint db endpointId of
        None \<Rightarrow> Inr (db, outcome 404 Ds_rejected_auth None, [])
      | Some endpoint \<Rightarrow>
          (if pep_enabled endpoint \<noteq> 1
              \<or> \<not> verifyWithSecrets env (pep_provider endpoint) rawBody (resolveSecrets env (Some endpoint)) headers
           then Inr (db, outcome 404 Ds_rejected_auth None, [])
           else
             (let deliveryId = boundDeliveryId env (nullish (deliveryIdFromHeaders env headers) (we_uuid env))
              in case we_json env rawBody of
                   Unparsable _ \<Rightarrow>
                     bind_res (upsertDelivery env (pep_id endpoint) deliveryId (delivery_state_args Ds_malformed None) db)
                       (\<lambda>db1. Inr (db1, outcome 400 Ds_malformed (Some ''Malformed JSON payload.''), []))
                 | Parsed j \<Rightarrow>
                     bind_res (body_props j) (\<lambda>body.
                       let parsed = parseProviderPayload env (pep_provider endpoint) body
                             (eventTypeHeader (pep_provider endpoint) headers)
                       in if (case getDelivery db (pep_id endpoint) deliveryId of
                                None \<Rightarrow> False | Some prior \<Rightarrow> pdl_state prior \<in> set SETTLED_INGEST_STATES)
                          then Inr (db, outcome 202 Ds_duplicate (Some ''Duplicate delivery.''), [])
                          else bind_res (upsertDelivery env (pep_id endpoint) deliveryId
                                 \<lparr>dla_state = Ds_authenticated, dla_eventType = Some (ppl_eventType parsed),
                                  dla_eventAction = ppl_eventAction parsed, dla_ref = ppl_ref parsed,
                                  dla_candidateSha = ppl_candidateSha parsed, dla_outcomeClass = None\<rparr> db)
                                 (route_delivery pull env endpoint deliveryId parsed)))))"

section \<open>Endpoints\<close>

definition ROTATION_OVERLAP_MS :: int where
  "ROTATION_OVERLAP_MS = 24 * 60 * 60 * 1000"

text \<open>\<open>encrypted\<close> is the stored form of the secret that was generated.\<close>

definition createEndpoint ::
    "webhook_env \<Rightarrow> string \<Rightarrow> string \<Rightarrow> git_provider_kind \<Rightarrow> git_provider_event_scope option \<Rightarrow> webhook_db \<Rightarrow> webhook_db" where
  "createEndpoint env encrypted stackName provider eventScope db =
     db\<lparr>wh_endpoints := wh_endpoints db @
        [\<lparr>pep_id = we_uuid env, pep_stack_name = stackName, pep_provider = provider,
          pep_encrypted_secret = encrypted, pep_encrypted_secret_previous = None,
          pep_previous_secret_expires_at = None, pep_enabled = 1,
          pep_event_scope = nullish eventScope Es_configured_ref, pep_created_at = we_now env,
          pep_updated_at = we_now env\<rparr>]\<rparr>"

definition rotateEndpoint :: "webhook_env \<Rightarrow> string \<Rightarrow> string \<Rightarrow> webhook_db \<Rightarrow> webhook_db res" where
  "rotateEndpoint env encrypted i db =
     (case getEndpoint db i of
        None \<Rightarrow> Inl (PlainError ''Endpoint not found'')
      | Some endpoint \<Rightarrow>
          Inr (db\<lparr>wh_endpoints := map (\<lambda>e. if pep_id e = i
             then e\<lparr>pep_encrypted_secret := encrypted,
                    pep_encrypted_secret_previous := Some (pep_encrypted_secret endpoint),
                    pep_previous_secret_expires_at := Some (we_now env + ROTATION_OVERLAP_MS),
                    pep_updated_at := we_now env\<rparr>
             else e) (wh_endpoints db)\<rparr>))"

definition deleteEndpoint :: "string \<Rightarrow> webhook_db \<Rightarrow> webhook_db" where
  "deleteEndpoint i db =
     db\<lparr>wh_deliveries := filter (\<lambda>d. pdl_endpoint_id d \<noteq> i) (wh_deliveries db),
        wh_endpoints := filter (\<lambda>e. pep_id e \<noteq> i) (wh_endpoints db)\<rparr>"

definition deleteEndpointsForStack :: "string \<Rightarrow> webhook_db \<Rightarrow> webhook_db \<times> nat" where
  "deleteEndpointsForStack stackName db =
     (let mine = filter (\<lambda>e. pep_stack_name e = stackName) (wh_endpoints db)
      in (db\<lparr>wh_deliveries := filter (\<lambda>d. pdl_endpoint_id d \<notin> set (map pep_id mine)) (wh_deliveries db),
             wh_endpoints := filter (\<lambda>e. pep_stack_name e \<noteq> stackName) (wh_endpoints db)\<rparr>,
          length mine))"

end
