(* ===== verification/Webhook_Properties.thy ===== *)
theory Webhook_Properties
  imports Provider_Webhooks
begin

text \<open>
  What a provider delivery can do: only an authenticated delivery about the configured repository and ref asks for
  a pull, and a delivery that was settled asks for none again.
\<close>

section \<open>What an ingest changes\<close>

lemma getEndpoint_id: "getEndpoint db i = Some e \<Longrightarrow> pep_id e = i"
  by (auto simp: getEndpoint_def find_Some_iff)

lemma settle_without_pull_Inr:
  "settle_without_pull env e d prune state class message db = Inr (db', out, pulls) \<longleftrightarrow>
     (\<exists>db1. upsertDelivery env (pep_id e) d (delivery_state_args state (Some class)) db = Inr db1
       \<and> db' = (if prune then pruneDeliveries (pep_id e) db1 else db1)
       \<and> out = outcome 202 state (Some message) \<and> pulls = [])"
  by (auto simp: settle_without_pull_def bind_res_Inr)

lemma pull_delivery_Inr:
  "pull_delivery pull env e d db = Inr (db', out, pulls) \<longleftrightarrow>
     (\<exists>status message db1. pull (pep_stack_name e) (scopedProviderDeliveryId env (pep_id e) d) = (status, message)
       \<and> upsertDelivery env (pep_id e) d
            (delivery_state_args (outcome_state status message) (Some (pull_status_text status))) db = Inr db1
       \<and> db' = pruneDeliveries (pep_id e) db1
       \<and> out = outcome 202 (outcome_state status message) (Some message)
       \<and> pulls = [(pep_stack_name e, scopedProviderDeliveryId env (pep_id e) d)])"
  by (cases "pull (pep_stack_name e) (scopedProviderDeliveryId env (pep_id e) d)")
    (auto simp: pull_delivery_def bind_res_Inr Let_def)

text \<open>A routed delivery is recorded under the state that is answered, and the table is pruned or not.\<close>

definition recorded :: "webhook_env \<Rightarrow> string \<Rightarrow> string \<Rightarrow> webhook_db \<Rightarrow> webhook_db \<Rightarrow> provider_ingest_outcome \<Rightarrow> bool" where
  "recorded env i d db db' out \<longleftrightarrow>
     (\<exists>args db1. upsertDelivery env i d args db = Inr db1 \<and> dla_state args = pio_state out
       \<and> (db' = db1 \<or> db' = pruneDeliveries i db1))"

lemma state_of_args [simp]: "dla_state (delivery_state_args state class) = state"
  by (simp add: delivery_state_args_def)

lemma state_of_outcome [simp]: "pio_state (outcome status state message) = state"
  by (simp add: outcome_def)

lemma settle_records:
  "settle_without_pull env e d prune state class message db = Inr (db', out, pulls)
     \<Longrightarrow> recorded env (pep_id e) d db db' out"
  unfolding settle_without_pull_Inr recorded_def by (metis state_of_args state_of_outcome)

lemma pull_records:
  "pull_delivery pull env e d db = Inr (db', out, pulls) \<Longrightarrow> recorded env (pep_id e) d db db' out"
  unfolding pull_delivery_Inr recorded_def by (metis state_of_args state_of_outcome)

lemma route_records:
  "route_delivery pull env e d parsed db = Inr (db', out, pulls) \<Longrightarrow> recorded env (pep_id e) d db db' out"
  unfolding route_delivery_def
  by (auto simp: bind_res_Inr dest: settle_records pull_records split: if_splits option.splits)

lemma route_pulls:
  assumes "route_delivery pull env e d parsed db = Inr (db', out, pulls)" and "pulls \<noteq> []"
  shows "\<exists>src delivered configured. map_of (wh_sources db) (pep_stack_name e) = Some src
     \<and> ppl_repoIdentity parsed = Some delivered \<and> configuredRepoIdentity env db (pep_stack_name e) = Some configured
     \<and> deliveryRepoMatchesConfigured delivered configured
     \<and> should_queue e src parsed = Inr True
     \<and> pulls = [(pep_stack_name e, scopedProviderDeliveryId env (pep_id e) d)]"
  using assms
  by (auto simp: route_delivery_def bind_res_Inr settle_without_pull_Inr pull_delivery_Inr
      split: if_splits option.splits)

definition delivery_of :: "webhook_env \<Rightarrow> headers \<Rightarrow> string" where
  "delivery_of env headers = boundDeliveryId env (nullish (deliveryIdFromHeaders env headers) (we_uuid env))"

definition settled_row :: "webhook_db \<Rightarrow> string \<Rightarrow> string \<Rightarrow> bool" where
  "settled_row db i d = (case getDelivery db i d of
     None \<Rightarrow> False | Some prior \<Rightarrow> pdl_state prior \<in> set SETTLED_INGEST_STATES)"

lemma ingest_cases:
  assumes "ingestLocal pull env i raw headers db = Inr (db', out, pulls)"
  obtains (rejected) "db' = db" "out = outcome 404 Ds_rejected_auth None" "pulls = []"
  | (malformed) e where "getEndpoint db i = Some e" "pep_enabled e = 1"
      "verifyWithSecrets env (pep_provider e) raw (resolveSecrets env (Some e)) headers"
      "upsertDelivery env i (delivery_of env headers) (delivery_state_args Ds_malformed None) db = Inr db'"
      "pio_state out = Ds_malformed" "pulls = []"
  | (duplicate) "db' = db" "settled_row db i (delivery_of env headers)" "pulls = []"
  | (routed) e j body parsed args db1 where "getEndpoint db i = Some e" "pep_enabled e = 1"
      "verifyWithSecrets env (pep_provider e) raw (resolveSecrets env (Some e)) headers"
      "we_json env raw = Parsed j" "body_props j = Inr body"
      "parsed = parseProviderPayload env (pep_provider e) body (eventTypeHeader (pep_provider e) headers)"
      "\<not> settled_row db i (delivery_of env headers)"
      "upsertDelivery env i (delivery_of env headers) args db = Inr db1"
      "route_delivery pull env e (delivery_of env headers) parsed db1 = Inr (db', out, pulls)"
proof (cases "getEndpoint db i")
  case None
  then show thesis using assms rejected by (simp add: ingestLocal_def)
next
  case (Some e)
  let ?d = "delivery_of env headers"
  have id: "pep_id e = i" using Some by (rule getEndpoint_id)
  show thesis
  proof (cases "pep_enabled e = 1 \<and> verifyWithSecrets env (pep_provider e) raw (resolveSecrets env (Some e)) headers")
    case False
    then show thesis using assms Some rejected unfolding ingestLocal_def by auto
  next
    case live: True
    show thesis
    proof (cases "we_json env raw")
      case (Unparsable u)
      then show thesis
        using assms Some live id malformed [OF Some] unfolding ingestLocal_def delivery_of_def [symmetric]
        by (auto simp: bind_res_Inr)
    next
      case (Parsed j)
      let ?p = "\<lambda>body. parseProviderPayload env (pep_provider e) body (eventTypeHeader (pep_provider e) headers)"
      obtain body where body: "body_props j = Inr body"
        and rest: "(if settled_row db i ?d then Inr (db, outcome 202 Ds_duplicate (Some ''Duplicate delivery.''), [])
             else bind_res (upsertDelivery env i ?d
                    \<lparr>dla_state = Ds_authenticated, dla_eventType = Some (ppl_eventType (?p body)),
                     dla_eventAction = ppl_eventAction (?p body), dla_ref = ppl_ref (?p body),
                     dla_candidateSha = ppl_candidateSha (?p body), dla_outcomeClass = None\<rparr> db)
                    (route_delivery pull env e ?d (?p body))) = Inr (db', out, pulls)"
        using assms Some live id Parsed unfolding ingestLocal_def delivery_of_def [symmetric] settled_row_def
        by (auto simp: bind_res_Inr Let_def)
      show thesis
      proof (cases "settled_row db i ?d")
        case True
        then show thesis using rest duplicate by simp
      next
        case False
        with rest obtain args db1 where "upsertDelivery env i ?d args db = Inr db1"
          "route_delivery pull env e ?d (?p body) db1 = Inr (db', out, pulls)"
          by (auto simp: bind_res_Inr)
        then show thesis using routed [OF Some _ _ Parsed body refl False] live by blast
      qed
    qed
  qed
qed

lemma upsert_sources: "upsertDelivery env i d args db = Inr db1 \<Longrightarrow> wh_sources db1 = wh_sources db"
  by (auto simp: upsertDelivery_def split: if_splits option.splits)

lemma configured_identity_cong:
  "wh_sources db1 = wh_sources db \<Longrightarrow> configuredRepoIdentity env db1 s = configuredRepoIdentity env db s"
  by (simp add: configuredRepoIdentity_def)

lemma verified_by:
  "verifyWithSecrets env p raw secrets headers \<longleftrightarrow> (\<exists>s \<in> set secrets. verifyProviderSignature env p raw s headers)"
  by (simp add: verifyWithSecrets_def list_ex_iff)

section \<open>What the table remembers\<close>

lemma find_map_kept: "(\<And>x. P (f x) = P x) \<Longrightarrow> find P (map f xs) = map_option f (find P xs)"
  by (induction xs) auto

lemma find_filter_kept: "find P xs = Some x \<Longrightarrow> Q x \<Longrightarrow> find P (filter Q xs) = Some x"
  by (induction xs) (auto split: if_splits)

lemma find_append_None: "find P xs = None \<Longrightarrow> find P (xs @ ys) = find P ys"
  by (induction xs) (auto split: if_splits)

definition endpoint_rows :: "webhook_db \<Rightarrow> string \<Rightarrow> git_provider_delivery_row list" where
  "endpoint_rows db i = filter (\<lambda>d. pdl_endpoint_id d = i) (wh_deliveries db)"

text \<open>The row an upsert leaves, and how it lies among the rows of its endpoint.\<close>

lemma upsert_get:
  assumes "upsertDelivery env i d args db = Inr db1"
  shows "\<exists>row. getDelivery db1 i d = Some row \<and> pdl_state row = dla_state args
     \<and> pdl_received_at row = (case getDelivery db i d of None \<Rightarrow> we_now env | Some r \<Rightarrow> pdl_received_at r)"
proof (cases "getDelivery db i d")
  case None
  then show ?thesis
    using assms by (auto simp: upsertDelivery_def getDelivery_def find_append_None split: if_splits)
next
  case (Some r)
  let ?f = "\<lambda>row. if pdl_id row = pdl_id r then update_delivery (we_now env) args row else row"
  have "db1 = db\<lparr>wh_deliveries := map ?f (wh_deliveries db)\<rparr>"
    using assms Some by (simp add: upsertDelivery_def split: if_splits)
  moreover have "find (\<lambda>x. pdl_endpoint_id x = i \<and> pdl_delivery_id x = d) (map ?f (wh_deliveries db))
      = map_option ?f (getDelivery db i d)"
    unfolding getDelivery_def by (rule find_map_kept) (simp add: update_delivery_def)
  ultimately show ?thesis using Some by (simp add: getDelivery_def update_delivery_def)
qed

lemma upsert_rows:
  assumes "upsertDelivery env i d args db = Inr db1"
  shows "map pdl_received_at (endpoint_rows db1 i) = map pdl_received_at (endpoint_rows db i)
       @ (if getDelivery db i d = None then [we_now env] else [])"
proof (cases "getDelivery db i d")
  case None
  then show ?thesis using assms by (auto simp: upsertDelivery_def endpoint_rows_def split: if_splits)
next
  case (Some r)
  have "map pdl_received_at (filter (\<lambda>x. pdl_endpoint_id x = i)
         (map (\<lambda>row. if pdl_id row = pdl_id r then update_delivery (we_now env) args row else row) xs))
      = map pdl_received_at (filter (\<lambda>x. pdl_endpoint_id x = i) xs)" for xs
    by (induction xs) (simp_all add: update_delivery_def)
  then show ?thesis using assms Some by (auto simp: upsertDelivery_def endpoint_rows_def split: if_splits)
qed

lemma newest_first:
  assumes "x \<in> set xs" and "\<forall>y \<in> set xs. y = x \<or> pdl_received_at y < pdl_received_at x"
  shows "x \<in> set (take DELIVERY_RETENTION (js_sort (num_cmp (\<lambda>d. - pdl_received_at d)) xs))"
proof -
  let ?s = "js_sort (num_cmp (\<lambda>d. - pdl_received_at d)) xs"
  have mem: "set ?s = set xs" by simp
  then obtain y ys where s: "?s = y # ys" using assms(1) by (cases ?s) auto
  have "sorted (map (\<lambda>d. - pdl_received_at d) ?s)" by (rule js_sort_num_sorted)
  then have "pdl_received_at z \<le> pdl_received_at y" if "z \<in> set ?s" for z using that unfolding s by auto
  then have "y = x" using assms mem s by (metis list.set_intros(1) linorder_not_le)
  then show ?thesis by (simp add: s DELIVERY_RETENTION_def)
qed

definition retained :: "webhook_db \<Rightarrow> string \<Rightarrow> git_provider_delivery_row \<Rightarrow> bool" where
  "retained db i row \<longleftrightarrow> length (endpoint_rows db i) \<le> DELIVERY_RETENTION
     \<or> (\<forall>y \<in> set (endpoint_rows db i). y = row \<or> pdl_received_at y < pdl_received_at row)"

lemma prune_keeps:
  assumes "getDelivery db i d = Some row" and "retained db i row"
  shows "getDelivery (pruneDeliveries i db) i d = Some row"
proof -
  have row: "row \<in> set (endpoint_rows db i)"
    using assms(1) by (auto simp: getDelivery_def endpoint_rows_def find_Some_iff)
  have "row \<in> set (take DELIVERY_RETENTION (js_sort (num_cmp (\<lambda>d. - pdl_received_at d)) (endpoint_rows db i)))"
    using assms(2) row newest_first [OF row] unfolding retained_def by auto
  then show ?thesis
    using assms(1) unfolding getDelivery_def pruneDeliveries_def Let_def endpoint_rows_def
    by (auto intro!: find_filter_kept)
qed

lemma only_newest:
  fixes f :: "'a \<Rightarrow> int"
  assumes "map f xs = us @ [t]" and "\<forall>u \<in> set us. u < t" and "x \<in> set xs" and "f x = t"
  shows "\<forall>y \<in> set xs. y = x \<or> f y < f x"
proof -
  obtain ys z where xs: "xs = ys @ [z]" and "map f ys = us" "f z = t"
    using assms(1) by (auto simp: map_eq_append_conv)
  then have "f y < t" if "y \<in> set ys" for y using assms(2) that by auto
  then show ?thesis using assms(3,4) unfolding xs by auto
qed

text \<open>A delivery stays on record when its endpoint has room, or when it is new and every row is older.\<close>

definition has_room :: "webhook_env \<Rightarrow> webhook_db \<Rightarrow> string \<Rightarrow> string \<Rightarrow> bool" where
  "has_room env db i d \<longleftrightarrow> length (endpoint_rows db i) < DELIVERY_RETENTION
     \<or> getDelivery db i d = None \<and> (\<forall>y \<in> set (endpoint_rows db i). pdl_received_at y < we_now env)"

lemma twice_upserted_is_retained:
  assumes one: "upsertDelivery env i d args1 db = Inr db1" and two: "upsertDelivery env i d args2 db1 = Inr db2"
    and room: "has_room env db i d" and row: "getDelivery db2 i d = Some row"
  shows "retained db2 i row"
proof -
  have mid: "getDelivery db1 i d \<noteq> None" using upsert_get [OF one] by auto
  have times: "map pdl_received_at (endpoint_rows db2 i) = map pdl_received_at (endpoint_rows db i)
      @ (if getDelivery db i d = None then [we_now env] else [])"
    using upsert_rows [OF one] upsert_rows [OF two] mid by simp
  from room consider (space) "length (endpoint_rows db i) < DELIVERY_RETENTION"
    | (new) "getDelivery db i d = None" "\<forall>y \<in> set (endpoint_rows db i). pdl_received_at y < we_now env"
    unfolding has_room_def by auto
  then show ?thesis
  proof cases
    case space
    have "length (endpoint_rows db2 i) \<le> Suc (length (endpoint_rows db i))"
      using arg_cong [OF times, of length] by (simp split: if_splits)
    then show ?thesis using space unfolding retained_def by linarith
  next
    case new
    have "row \<in> set (endpoint_rows db2 i)"
      using row by (auto simp: getDelivery_def endpoint_rows_def find_Some_iff)
    moreover have "pdl_received_at row = we_now env"
      using upsert_get [OF one] upsert_get [OF two] new(1) row by auto
    ultimately show ?thesis
      using only_newest [of pdl_received_at "endpoint_rows db2 i"] times new unfolding retained_def by simp
  qed
qed

lemma ingest_settles:
  assumes "ingestLocal pull env i raw headers db = Inr (db', out, pulls)"
    and "pio_state out \<in> set SETTLED_INGEST_STATES" and "has_room env db i (delivery_of env headers)"
  shows "settled_row db' i (delivery_of env headers)"
  using assms(1)
proof (cases rule: ingest_cases)
  case (routed e j body parsed args db1)
  let ?d = "delivery_of env headers"
  have "recorded env i ?d db1 db' out"
    using route_records [OF routed(9)] getEndpoint_id [OF routed(1)] by simp
  then obtain args2 db2 where up: "upsertDelivery env i ?d args2 db1 = Inr db2"
    and state: "dla_state args2 = pio_state out" and db': "db' = db2 \<or> db' = pruneDeliveries i db2"
    unfolding recorded_def by blast
  obtain row where row: "getDelivery db2 i ?d = Some row" "pdl_state row = pio_state out"
    using upsert_get [OF up] state by auto
  have "getDelivery db' i ?d = Some row"
    using db' row(1) prune_keeps [OF row(1) twice_upserted_is_retained [OF routed(8) up assms(3) row(1)]] by auto
  then show ?thesis using row(2) assms(2) by (simp add: settled_row_def)
qed (use assms(2) in \<open>simp_all add: SETTLED_INGEST_STATES_def\<close>)

lemma settled_not_pulled:
  assumes "ingestLocal pull env i raw headers db = Inr (db', out, pulls)"
    and "settled_row db i (delivery_of env headers)"
  shows "pulls = []"
  using assms(1) by (cases rule: ingest_cases) (use assms(2) in simp_all)

section \<open>A signed push\<close>

definition wx_env :: "int \<Rightarrow> webhook_env" where
  "wx_env now =
     \<lparr>we_hmac = \<lambda>_ _. [], we_sha256 = \<lambda>s. s, we_decrypt = Some, we_decoy = ''decoy'',
      we_json = \<lambda>_. Parsed (JObj [(''object_kind'', JStr ''push''), (''ref'', JStr ''refs/heads/main''),
        (''project'', JObj [(''web_url'', JStr ''https://git.example/acme/web'')])]),
      we_new_URL = \<lambda>_. Some \<lparr>url_protocol = ''https:'', url_username = [], url_password = [],
        url_host = ''git.example'', url_hostname = ''git.example'', url_port = [], url_pathname = ''/acme/web'',
        url_search = [], url_hash = []\<rparr>,
      we_String = \<lambda>_. [], we_now = now, we_uuid = ''u''\<rparr>"

definition wx_headers :: headers where
  "wx_headers name =
     (if name = ''x-gitlab-token'' then Some (Hd_one ''s3cret'')
      else if name = ''x-gitlab-event-uuid'' then Some (Hd_one ''d1'') else None)"

definition wx_db :: webhook_db where
  "wx_db =
     \<lparr>wh_endpoints = [\<lparr>pep_id = ''ep'', pep_stack_name = ''web'', pep_provider = Gp_gitlab,
        pep_encrypted_secret = ''s3cret'', pep_encrypted_secret_previous = None,
        pep_previous_secret_expires_at = None, pep_enabled = 1, pep_event_scope = Es_configured_ref,
        pep_created_at = 1, pep_updated_at = 1\<rparr>],
      wh_deliveries = [], wh_next_id = 1,
      wh_sources = [(''web'', \<lparr>wsrc_repo_url = ''https://git.example/acme/web.git'', wsrc_branch = ''main''\<rparr>)]\<rparr>"

definition wx_skip :: webhook_pull where
  "wx_skip _ _ = (Wp_skipped, ''Rate limited (debounced).'')"

definition wx_pull :: webhook_pull where
  "wx_pull _ _ = (Wp_success, ''Pending update ready.'')"

definition wx_redelivery :: "webhook_pull \<Rightarrow> git_provider_delivery_state \<Rightarrow> bool" where
  "wx_redelivery pull state =
     (case ingestLocal pull (wx_env 7) ''ep'' ''body'' wx_headers wx_db of
        Inl _ \<Rightarrow> False
      | Inr (db', out, pulls) \<Rightarrow> pulls \<noteq> [] \<and> pio_state out = state
          \<and> (case ingestLocal wx_pull (wx_env 60000) ''ep'' ''body'' wx_headers db' of
               Inl _ \<Rightarrow> False | Inr _ \<Rightarrow> True))"

lemma wx_redelivered: "wx_redelivery wx_pull Ds_queued" "wx_redelivery wx_skip Ds_duplicate"
  by code_simp+

lemma wx_runs:
  assumes "wx_redelivery pull state"
  obtains db' out pulls db2 out2 pulls2
  where "ingestLocal pull (wx_env 7) ''ep'' ''body'' wx_headers wx_db = Inr (db', out, pulls)"
    and "pulls \<noteq> []" and "pio_state out = state"
    and "ingestLocal wx_pull (wx_env 60000) ''ep'' ''body'' wx_headers db' = Inr (db2, out2, pulls2)"
  using assms unfolding wx_redelivery_def by (auto split: sum.splits)

lemma wx_room: "has_room (wx_env 7) wx_db ''ep'' (delivery_of (wx_env 7) wx_headers)"
  by (simp add: has_room_def endpoint_rows_def wx_db_def DELIVERY_RETENTION_def)

lemma wx_same_delivery: "delivery_of (wx_env 60000) wx_headers = delivery_of (wx_env 7) wx_headers"
  by code_simp

section \<open>Properties\<close>

text \<open>C14. A delivery reaches the repository only when it is authentic and about the configured source. An ingest
  that changes a table or asks for a pull was signed under a live secret of an enabled endpoint; one that asks
  for a pull names the configured repository, and is either a push to the configured ref or comes through an
  endpoint whose scope includes pull requests; and it asks for one pull, of the stack of that endpoint, under an
  identifier scoped to it.\<close>

theorem pull_is_authentic_and_in_scope:
  assumes ingest: "ingestLocal pull env i raw headers db = Inr (db', out, pulls)"
    and effect: "db' \<noteq> db \<or> pulls \<noteq> []"
  shows "\<exists>e secret. getEndpoint db i = Some e \<and> pep_enabled e = 1 \<and> secret \<in> set (resolveSecrets env (Some e))
     \<and> verifyProviderSignature env (pep_provider e) raw secret headers
     \<and> (pulls = [] \<or> (\<exists>j body src delivered configured.
          we_json env raw = Parsed j \<and> body_props j = Inr body
          \<and> map_of (wh_sources db) (pep_stack_name e) = Some src
          \<and> ppl_repoIdentity (parseProviderPayload env (pep_provider e) body (eventTypeHeader (pep_provider e) headers))
              = Some delivered
          \<and> configuredRepoIdentity env db (pep_stack_name e) = Some configured
          \<and> deliveryRepoMatchesConfigured delivered configured
          \<and> (refsMatchConfigured (wsrc_branch src)
               (ppl_ref (parseProviderPayload env (pep_provider e) body (eventTypeHeader (pep_provider e) headers)))
             \<or> pep_event_scope e = Es_configured_ref_and_prs)
          \<and> pulls = [(pep_stack_name e, scopedProviderDeliveryId env i (delivery_of env headers))]))"
  using ingest
proof (cases rule: ingest_cases)
  case (malformed e)
  then show ?thesis unfolding verified_by by blast
next
  case (routed e j body parsed args db1)
  have sources: "wh_sources db1 = wh_sources db" by (rule upsert_sources [OF routed(8)])
  have scope: "refsMatchConfigured (wsrc_branch src) (ppl_ref parsed) \<or> pep_event_scope e = Es_configured_ref_and_prs"
    if "should_queue e src parsed = Inr True" for src
    using that by (simp add: should_queue_def split: if_splits)
  show ?thesis
  proof (cases "pulls = []")
    case True
    then show ?thesis using routed(1-3) unfolding verified_by by blast
  next
    case False
    from route_pulls [OF routed(9) False] show ?thesis
      using routed(1-6) scope getEndpoint_id [OF routed(1)]
      unfolding verified_by sources configured_identity_cong [OF sources] by metis
  qed
qed (use effect in simp_all)

theorem pull_is_authentic_and_in_scope_witness:
  "\<exists>db' out pulls e secret. ingestLocal wx_pull (wx_env 7) ''ep'' ''body'' wx_headers wx_db = Inr (db', out, pulls)
     \<and> pulls \<noteq> [] \<and> getEndpoint wx_db ''ep'' = Some e \<and> secret \<in> set (resolveSecrets (wx_env 7) (Some e))
     \<and> verifyProviderSignature (wx_env 7) (pep_provider e) ''body'' secret wx_headers"
proof -
  obtain db' out pulls where "ingestLocal wx_pull (wx_env 7) ''ep'' ''body'' wx_headers wx_db = Inr (db', out, pulls)"
    "pulls \<noteq> []" by (rule wx_runs [OF wx_redelivered(1)])
  with pull_is_authentic_and_in_scope [OF this(1)] show ?thesis by blast
qed

text \<open>C17. A delivery that was settled is not pulled again: once an ingest answered that a delivery is queued, a
  duplicate, ignored or unsupported, a later delivery to the same endpoint under the same identifier asks for no
  pull, whatever its body and headers, as long as the endpoint has room for its record or the delivery was new
  and later than every row.\<close>

theorem settled_delivery_is_not_pulled_again:
  assumes "ingestLocal pull env i raw headers db = Inr (db', out, pulls)"
    and "pio_state out \<in> set SETTLED_INGEST_STATES" and "has_room env db i (delivery_of env headers)"
    and "delivery_of env2 headers2 = delivery_of env headers"
    and "ingestLocal pull2 env2 i raw2 headers2 db' = Inr (db2, out2, pulls2)"
  shows "pulls2 = []"
  using settled_not_pulled [OF assms(5)] ingest_settles [OF assms(1-3)] assms(4) by simp

theorem settled_delivery_is_not_pulled_again_witness:
  "\<exists>db' out pulls db2 out2 pulls2.
     ingestLocal wx_pull (wx_env 7) ''ep'' ''body'' wx_headers wx_db = Inr (db', out, pulls) \<and> pulls \<noteq> []
     \<and> ingestLocal wx_pull (wx_env 60000) ''ep'' ''body'' wx_headers db' = Inr (db2, out2, pulls2) \<and> pulls2 = []"
proof (rule wx_runs [OF wx_redelivered(1)])
  fix db' out pulls db2 out2 pulls2
  assume "ingestLocal wx_pull (wx_env 7) ''ep'' ''body'' wx_headers wx_db = Inr (db', out, pulls)" "pulls \<noteq> []"
    and "pio_state out = Ds_queued"
    and "ingestLocal wx_pull (wx_env 60000) ''ep'' ''body'' wx_headers db' = Inr (db2, out2, pulls2)"
  moreover from this have "pulls2 = []"
    using settled_delivery_is_not_pulled_again [OF _ _ wx_room wx_same_delivery]
    by (simp add: SETTLED_INGEST_STATES_def)
  ultimately show ?thesis by blast
qed



end
