(* ===== verification/Publication.thy ===== *)
theory Publication
  imports Outbox_Laws
begin

text \<open>
  Announcing transitions after they commit (\<^verbatim>\<open>gitops/publish.ts\<close>, the counters of
  \<^verbatim>\<open>GitOpsMetricsService.ts\<close>): the buffer of inserted audit rows, the macrotask that drains it, and the events handed
  to the sink. A query that fails while a row is looked up, and console output, are not modelled; a sink that
  throws has been handed its event.
\<close>

section \<open>The buffer\<close>

record pending_row =
  pnd_id :: string
  pnd_stage :: string
  pnd_outcome :: history_outcome
  pnd_after :: "(string \<times> json) list"
  pnd_applicationId :: string
  pnd_targetMode :: target_mode
  pnd_stackName :: "string option"
  pnd_blueprintId :: "int option"
  pnd_nodeId :: "int option"
  pnd_at :: int

record gitops_invalidate_event =
  gie_action :: string
  gie_applicationId :: string
  gie_targetMode :: target_mode
  gie_stackName :: "string option"
  gie_blueprintId :: "int option"
  gie_nodeId :: "int option"
  gie_ts :: int

record gitops_metric_entry =
  met_stage :: string
  met_outcome :: history_outcome
  met_count :: nat

text \<open>\<open>pub_events\<close> are the events the installed sink has been handed, in order; \<open>pub_sink\<close> tells whether one is
  installed.\<close>

record publication =
  pub_sink :: bool
  pub_pending :: "pending_row list"
  pub_scheduled :: bool
  pub_warnedUnannounced :: bool
  pub_buckets :: "gitops_metric_entry list"
  pub_events :: "gitops_invalidate_event list"

definition EMPTY_PUBLICATION :: publication where
  "EMPTY_PUBLICATION =
     \<lparr>pub_sink = False, pub_pending = [], pub_scheduled = False, pub_warnedUnannounced = False,
      pub_buckets = [], pub_events = []\<rparr>"

definition setGitOpsEventSink :: "bool \<Rightarrow> publication \<Rightarrow> publication" where
  "setGitOpsEventSink installed p = p\<lparr>pub_sink := installed\<rparr>"

definition enqueueHistoryPublication :: "pending_row \<Rightarrow> publication \<Rightarrow> publication" where
  "enqueueHistoryPublication row p = p\<lparr>pub_pending := pub_pending p @ [row], pub_scheduled := True\<rparr>"

text \<open>What \<^verbatim>\<open>insertHistory\<close> queues for a row it inserted; a replay queues nothing.\<close>

definition publication_of :: "gitops_application_row \<Rightarrow> (string \<times> json) list \<Rightarrow> gitops_history_row \<Rightarrow> pending_row" where
  "publication_of app after row =
     \<lparr>pnd_id = his_id row, pnd_stage = his_stage row, pnd_outcome = his_outcome row, pnd_after = after,
      pnd_applicationId = app_id app, pnd_targetMode = app_target_mode app, pnd_stackName = app_stack_name app,
      pnd_blueprintId = app_blueprint_id app, pnd_nodeId = his_node_id row, pnd_at = his_created_at row\<rparr>"

definition insert_and_publish ::
    "gitops_application_row \<Rightarrow> (string \<times> json) list \<Rightarrow> gitops_history_row \<Rightarrow> publication \<times> gitops_db
      \<Rightarrow> publication \<times> gitops_db" where
  "insert_and_publish app after row s =
     (case s of (p, db) \<Rightarrow>
       (case insertHistory app after row db of
          (None, db') \<Rightarrow> (p, db')
        | (Some _, db') \<Rightarrow> (enqueueHistoryPublication (publication_of app after row) p, db')))"

section \<open>The drain\<close>

definition metrics_record :: "string \<Rightarrow> history_outcome \<Rightarrow> gitops_metric_entry list \<Rightarrow> gitops_metric_entry list" where
  "metrics_record stage outcome buckets =
     (if \<exists>b \<in> set buckets. met_stage b = stage \<and> met_outcome b = outcome
      then map (\<lambda>b. if met_stage b = stage \<and> met_outcome b = outcome then b\<lparr>met_count := met_count b + 1\<rparr> else b)
             buckets
      else buckets @ [\<lparr>met_stage = stage, met_outcome = outcome, met_count = 1\<rparr>])"

definition survived :: "gitops_db \<Rightarrow> pending_row \<Rightarrow> bool" where
  "survived db row = (\<exists>r \<in> set (db_history db). his_id r = pnd_id row)"

definition invalidate_event :: "pending_row \<Rightarrow> gitops_invalidate_event" where
  "invalidate_event row =
     \<lparr>gie_action = pnd_stage row, gie_applicationId = pnd_applicationId row, gie_targetMode = pnd_targetMode row,
      gie_stackName = pnd_stackName row, gie_blueprintId = pnd_blueprintId row, gie_nodeId = pnd_nodeId row,
      gie_ts = pnd_at row\<rparr>"

definition announce :: "pending_row \<Rightarrow> publication \<Rightarrow> publication" where
  "announce row p = p\<lparr>pub_events := pub_events p @ [invalidate_event row]\<rparr>"

definition warnUnannounced :: "publication \<Rightarrow> publication" where
  "warnUnannounced p = p\<lparr>pub_warnedUnannounced := True\<rparr>"

definition drain_row ::
    "js_number \<Rightarrow> js_number \<Rightarrow> pending_row \<Rightarrow> publication \<times> gitops_db \<Rightarrow> publication \<times> gitops_db" where
  "drain_row default_node now row s =
     (case s of (p, db) \<Rightarrow>
       (if \<not> survived db row then (p, db)
        else
          (let p1 = p\<lparr>pub_buckets := metrics_record (pnd_stage row) (pnd_outcome row) (pub_buckets p)\<rparr>;
               db1 = (if gitOpsOutboxPlan (pnd_stage row) (pnd_targetMode row) (pnd_after row) \<noteq> None
                      then drainGitOpsOutboxRow default_node now (pnd_id row) db else db)
           in (if \<not> pub_sink p1 then warnUnannounced p1 else announce row p1, db1))))"

definition drain :: "js_number \<Rightarrow> js_number \<Rightarrow> publication \<times> gitops_db \<Rightarrow> publication \<times> gitops_db" where
  "drain default_node now s =
     (case s of (p, db) \<Rightarrow>
       fold (drain_row default_node now) (pub_pending p) (p\<lparr>pub_scheduled := False, pub_pending := []\<rparr>, db))"

section \<open>Runs of the process\<close>

text \<open>What the process does between two macrotasks: a transaction commits with the audit rows it inserted, or rolls
  back after it queued them, or the buffer is drained.\<close>

datatype process_event = Commits "pending_row list" | Rolls_back "pending_row list" | Drains

definition enqueue_all :: "pending_row list \<Rightarrow> publication \<Rightarrow> publication" where
  "enqueue_all rows = fold enqueueHistoryPublication rows"

inductive process_run ::
    "js_number \<Rightarrow> publication \<times> gitops_db \<Rightarrow> process_event list \<Rightarrow> publication \<times> gitops_db \<Rightarrow> bool" for dn s0 where
  start: "process_run dn s0 [] s0"
| commits: "process_run dn s0 evs (p, db) \<Longrightarrow>
     map his_id (db_history db') = map his_id (db_history db) @ map pnd_id rows \<Longrightarrow>
     process_run dn s0 (evs @ [Commits rows]) (enqueue_all rows p, db')"
| rolls_back: "process_run dn s0 evs (p, db) \<Longrightarrow>
     process_run dn s0 (evs @ [Rolls_back rows]) (enqueue_all rows p, db)"
| drains: "process_run dn s0 evs (p, db) \<Longrightarrow> pub_scheduled p \<Longrightarrow>
     process_run dn s0 (evs @ [Drains]) (drain dn now (p, db))"

fun queued_by :: "process_event \<Rightarrow> pending_row list" where
  "queued_by (Commits rows) = rows"
| "queued_by (Rolls_back rows) = rows"
| "queued_by Drains = []"

fun committed_by :: "process_event \<Rightarrow> pending_row list" where
  "committed_by (Commits rows) = rows"
| "committed_by _ = []"

section \<open>Laws\<close>

lemma drain_row_history [simp]: "db_history (snd (drain_row dn now row s)) = db_history (snd s)"
  by (simp add: drain_row_def Let_def split: prod.splits)

lemma drain_row_effect:
  assumes "pub_sink (fst s)"
  shows "pub_sink (fst (drain_row dn now row s)) \<and> pub_pending (fst (drain_row dn now row s)) = pub_pending (fst s)
     \<and> pub_scheduled (fst (drain_row dn now row s)) = pub_scheduled (fst s)
     \<and> pub_events (fst (drain_row dn now row s))
         = pub_events (fst s) @ (if survived (snd s) row then [invalidate_event row] else [])"
  using assms by (auto simp: drain_row_def announce_def Let_def split: prod.splits)

lemma survived_cong: "db_history db = db_history db' \<Longrightarrow> survived db row = survived db' row"
  by (simp add: survived_def)

lemma drain_rows_effect:
  assumes "pub_sink (fst s)"
  shows "pub_sink (fst (fold (drain_row dn now) rows s)) \<and> pub_pending (fst (fold (drain_row dn now) rows s)) = pub_pending (fst s)
     \<and> pub_scheduled (fst (fold (drain_row dn now) rows s)) = pub_scheduled (fst s)
     \<and> pub_events (fst (fold (drain_row dn now) rows s))
         = pub_events (fst s) @ map invalidate_event (filter (survived (snd s)) rows)
     \<and> db_history (snd (fold (drain_row dn now) rows s)) = db_history (snd s)"
  using assms
proof (induction rows arbitrary: s)
  case (Cons row rows)
  have same: "survived (snd (drain_row dn now row s)) = survived (snd s)"
    by (rule ext) (simp add: survived_def)
  show ?case
    using Cons.IH [of "drain_row dn now row s"] drain_row_effect [OF Cons.prems, of dn now row] by (simp add: same)
qed simp

lemma drain_effect:
  assumes "pub_sink p"
  shows "pub_sink (fst (drain dn now (p, db)))" and "pub_pending (fst (drain dn now (p, db))) = []"
    and "\<not> pub_scheduled (fst (drain dn now (p, db)))"
    and "pub_events (fst (drain dn now (p, db)))
           = pub_events p @ map invalidate_event (filter (survived db) (pub_pending p))"
    and "db_history (snd (drain dn now (p, db))) = db_history db"
  using drain_rows_effect [of "(p\<lparr>pub_scheduled := False, pub_pending := []\<rparr>, db)" dn now "pub_pending p"] assms
  by (simp_all add: drain_def)

lemma enqueue_all_effect:
  "pub_sink (enqueue_all rows p) = pub_sink p" "pub_pending (enqueue_all rows p) = pub_pending p @ rows"
  "pub_events (enqueue_all rows p) = pub_events p"
  "pub_scheduled (enqueue_all rows p) = (rows \<noteq> [] \<or> pub_scheduled p)"
  unfolding enqueue_all_def by (induction rows arbitrary: p) (simp_all add: enqueueHistoryPublication_def)

lemma survived_ids: "survived db row \<longleftrightarrow> pnd_id row \<in> set (map his_id (db_history db))"
  by (force simp: survived_def)

definition queued_ids :: "process_event list \<Rightarrow> string list" where
  "queued_ids evs = map pnd_id (concat (map queued_by evs))"

definition history_ids :: "gitops_db \<Rightarrow> string set" where
  "history_ids db = set (map his_id (db_history db))"

text \<open>Identifiers are fresh: no two queued rows share one, and none is in the table at the start.\<close>

definition fresh_ids :: "gitops_db \<Rightarrow> process_event list \<Rightarrow> bool" where
  "fresh_ids db evs \<longleftrightarrow> distinct (queued_ids evs) \<and> set (queued_ids evs) \<inter> history_ids db = {}"

lemma queued_ids_snoc: "queued_ids (evs @ [ev]) = queued_ids evs @ map pnd_id (queued_by ev)"
  by (simp add: queued_ids_def)

lemma fresh_ids_snoc:
  "fresh_ids db (evs @ [ev]) \<Longrightarrow> fresh_ids db evs
     \<and> set (map pnd_id (queued_by ev)) \<inter> (set (queued_ids evs) \<union> history_ids db) = {}"
  by (auto simp: fresh_ids_def queued_ids_snoc)

text \<open>What holds between two macrotasks: the events handed out and those still to come are exactly the committed rows,
  in order.\<close>

definition publication_ok ::
    "publication \<times> gitops_db \<Rightarrow> process_event list \<Rightarrow> publication \<times> gitops_db \<Rightarrow> bool" where
  "publication_ok s0 evs s \<longleftrightarrow>
     pub_sink (fst s) \<and> (pub_scheduled (fst s) \<longleftrightarrow> pub_pending (fst s) \<noteq> [])
     \<and> set (map pnd_id (pub_pending (fst s))) \<subseteq> set (queued_ids evs)
     \<and> history_ids (snd s) \<subseteq> history_ids (snd s0) \<union> set (queued_ids evs)
     \<and> pub_events (fst s) @ map invalidate_event (filter (survived (snd s)) (pub_pending (fst s)))
         = pub_events (fst s0) @ map invalidate_event (concat (map committed_by evs))"

lemma filter_survived_cong:
  "(\<And>row. row \<in> set rows \<Longrightarrow> survived db' row = survived db row) \<Longrightarrow> filter (survived db') rows = filter (survived db) rows"
  by (rule filter_cong) simp_all

lemma process_run_ok:
  assumes "process_run dn s0 evs s" and "fresh_ids (snd s0) evs"
    and "pub_sink (fst s0)" and "pub_pending (fst s0) = []" and "\<not> pub_scheduled (fst s0)"
  shows "publication_ok s0 evs s"
  using assms(1,2)
proof (induction rule: process_run.induct)
  case start
  then show ?case using assms(3-5) by (simp add: publication_ok_def)
next
  case (commits evs p db db' rows)
  from fresh_ids_snoc [OF commits.prems] have fresh: "fresh_ids (snd s0) evs"
    and new: "set (map pnd_id rows) \<inter> (set (queued_ids evs) \<union> history_ids (snd s0)) = {}" by simp_all
  have ok: "publication_ok s0 evs (p, db)" by (rule commits.IH [OF fresh])
  have hist: "history_ids db' = history_ids db \<union> set (map pnd_id rows)"
    unfolding history_ids_def commits.hyps(2) by simp
  have "filter (survived db') (pub_pending p) = filter (survived db) (pub_pending p)"
    using ok new hist unfolding publication_ok_def survived_ids history_ids_def [symmetric]
    by (intro filter_cong) auto
  moreover have "filter (survived db') rows = rows"
    using hist unfolding survived_ids history_ids_def [symmetric] by (simp add: filter_id_conv)
  ultimately show ?case
    using ok hist unfolding publication_ok_def by (auto simp: enqueue_all_effect queued_ids_snoc)
next
  case (rolls_back evs p db rows)
  from fresh_ids_snoc [OF rolls_back.prems] have fresh: "fresh_ids (snd s0) evs"
    and new: "set (map pnd_id rows) \<inter> (set (queued_ids evs) \<union> history_ids (snd s0)) = {}" by simp_all
  have ok: "publication_ok s0 evs (p, db)" by (rule rolls_back.IH [OF fresh])
  have "filter (survived db) rows = []"
    using ok new unfolding publication_ok_def survived_ids history_ids_def [symmetric]
    by (auto simp: filter_empty_conv)
  then show ?case
    using ok unfolding publication_ok_def by (auto simp: enqueue_all_effect queued_ids_snoc)
next
  case (drains evs p db now)
  have "publication_ok s0 evs (p, db)" using drains.IH fresh_ids_snoc [OF drains.prems] by blast
  then show ?case
    unfolding publication_ok_def
    by (simp add: drain_effect history_ids_def queued_ids_snoc)
qed

text \<open>An audit row that is inserted is queued, and a replay, which inserts nothing, is not. A committed insertion is
  therefore a step of the process.\<close>

lemma insert_commits:
  assumes "process_run dn s0 evs (p, db)" and "insertHistory app after row db = (Some i, db')"
  shows "process_run dn s0 (evs @ [Commits [publication_of app after row]])
     (insert_and_publish app after row (p, db))"
proof -
  have "db_history (announce_history app after row db1) = db_history db1" for db1
    by (subst announce_outbox_only) simp
  then have "map his_id (db_history db') = map his_id (db_history db) @ map pnd_id [publication_of app after row]"
    using assms(2) by (auto simp: insertHistory_def publication_of_def split: if_splits)
  from process_run.commits [OF assms(1) this] show ?thesis
    using assms(2) by (simp add: insert_and_publish_def enqueue_all_def)
qed

end
