(* ===== verification/Publication_Properties.thy ===== *)
theory Publication_Properties
  imports Publication Example_Trace
begin

text \<open>
  Clients hear of every committed transition once.
\<close>

text \<open>C16. A committed transition is announced exactly once and in order, and one that rolled back never is. From a
  process with a sink and an empty buffer, after any sequence of commits, rollbacks and drains, a drain is scheduled
  exactly when rows wait, and draining then leaves nothing waiting and has handed the sink the events of precisely
  the committed rows, in the order they were committed, provided the identifiers of the rows are fresh.\<close>

theorem committed_rows_are_announced_once:
  assumes "process_run dn (p0, db0) evs (p, db)" and "fresh_ids db0 evs"
    and "pub_sink p0" and "pub_pending p0 = []" and "\<not> pub_scheduled p0"
  shows "(pub_scheduled p \<longleftrightarrow> pub_pending p \<noteq> [])
     \<and> pub_pending (fst (drain dn now (p, db))) = [] \<and> \<not> pub_scheduled (fst (drain dn now (p, db)))
     \<and> pub_events (fst (drain dn now (p, db)))
         = pub_events p0 @ map invalidate_event (concat (map committed_by evs))"
proof -
  have "publication_ok (p0, db0) evs (p, db)" using process_run_ok [OF assms(1)] assms(2-5) by simp
  then show ?thesis by (simp add: publication_ok_def drain_effect)
qed

text \<open>A process that rolls one transaction back and commits another.\<close>

definition px_publication :: publication where
  "px_publication = setGitOpsEventSink True EMPTY_PUBLICATION"

definition px_db :: gitops_db where
  "px_db = snd (history ex_app (ex_env ''op'') (history_fields0 ''fetched'' Ho_committed [] []) empty_db)"

definition px_row :: "string \<Rightarrow> pending_row" where
  "px_row i =
     \<lparr>pnd_id = i, pnd_stage = ''fetched'', pnd_outcome = Ho_committed, pnd_after = [], pnd_applicationId = ''app'',
      pnd_targetMode = Direct, pnd_stackName = Some ''web'', pnd_blueprintId = None, pnd_nodeId = None, pnd_at = 7\<rparr>"

definition px_events :: "process_event list" where
  "px_events = [Rolls_back [px_row ''lost''], Commits [px_row ''history-0'']]"

definition px_end :: publication where
  "px_end = enqueue_all [px_row ''history-0''] (enqueue_all [px_row ''lost''] px_publication)"

lemma px_history: "map his_id (db_history px_db) = [''history-0'']"
  by code_simp

lemma px_run: "process_run (NInt 1) (px_publication, empty_db) px_events (px_end, px_db)"
proof -
  have "process_run (NInt 1) (px_publication, empty_db) ([] @ [Rolls_back [px_row ''lost'']])
      (enqueue_all [px_row ''lost''] px_publication, empty_db)"
    by (intro process_run.rolls_back process_run.start)
  from process_run.commits [OF this, of px_db "[px_row ''history-0'']"] show ?thesis
    by (simp add: px_events_def px_end_def px_history empty_db_def px_row_def)
qed

theorem committed_rows_are_announced_once_witness:
  "process_run (NInt 1) (px_publication, empty_db) px_events (px_end, px_db)
   \<and> pub_events (fst (drain (NInt 1) (NInt 9) (px_end, px_db))) = [invalidate_event (px_row ''history-0'')]"
proof -
  have "fresh_ids empty_db px_events"
    by (simp add: fresh_ids_def queued_ids_def history_ids_def px_events_def px_row_def empty_db_def)
  from committed_rows_are_announced_once [OF px_run this, of "NInt 9"] px_run show ?thesis
    by (simp add: px_publication_def setGitOpsEventSink_def EMPTY_PUBLICATION_def px_events_def)
qed

end
