(* ===== verification/Repair_Properties.thy ===== *)
theory Repair_Properties
  imports Trace_Evaluation
begin








end
