(* ===== verification/Stack_Lock.thy ===== *)
theory Stack_Lock
  imports Audit_Laws
begin

text \<open>
  The per-stack operation lock (\<^verbatim>\<open>StackOpLockService.ts\<close>): deploys, updates, rollbacks, backups and Git applies of one
  stack on one node exclude each other. The restore fence and the persisted deletion intent it consults are
  arguments, as is the clock.
\<close>

section \<open>The service\<close>

datatype (plugins only: code) stack_op_action =
  Op_deploy | Op_down | Op_restart | Op_stop | Op_start | Op_update | Op_rollback | Op_backup | Op_delete
  | Op_git_apply | Op_image_pull | Op_data_restore

definition stack_op_action_text :: "stack_op_action \<Rightarrow> string" where
  "stack_op_action_text a =
     (case a of
        Op_deploy \<Rightarrow> ''deploy'' | Op_down \<Rightarrow> ''down'' | Op_restart \<Rightarrow> ''restart'' | Op_stop \<Rightarrow> ''stop''
      | Op_start \<Rightarrow> ''start'' | Op_update \<Rightarrow> ''update'' | Op_rollback \<Rightarrow> ''rollback'' | Op_backup \<Rightarrow> ''backup''
      | Op_delete \<Rightarrow> ''delete'' | Op_git_apply \<Rightarrow> ''git_apply'' | Op_image_pull \<Rightarrow> ''image_pull''
      | Op_data_restore \<Rightarrow> ''data_restore'')"

definition stackOpSkipMessage :: "string \<Rightarrow> stack_op_action \<Rightarrow> string" where
  "stackOpSkipMessage stackName existingAction =
     ''Skipped \"'' @ stackName @ ''\": another operation ('' @ stack_op_action_text existingAction
       @ '') is already in progress.''"

record stack_op_lock_context =
  slc_opId :: "string option"
  slc_kind :: "string option"

record stack_op_lock =
  slk_action :: stack_op_action
  slk_startedAt :: int
  slk_user :: string
  slk_context :: "stack_op_lock_context option"

text \<open>The map of locks, without an order to rely on.\<close>

type_synonym lock_table = "(string \<times> stack_op_lock) list"

datatype (plugins only: code) acquire_result = Acquired | Conflict stack_op_lock

definition lock_key :: "int \<Rightarrow> string \<Rightarrow> string" where
  "lock_key nodeId stackName = show_int nodeId @ '':'' @ stackName"

definition tryAcquire ::
    "(string \<Rightarrow> bool) \<Rightarrow> int \<Rightarrow> int \<Rightarrow> string \<Rightarrow> stack_op_action \<Rightarrow> string \<Rightarrow> stack_op_lock_context option \<Rightarrow> lock_table
      \<Rightarrow> acquire_result \<times> lock_table" where
  "tryAcquire fenced now nodeId stackName action user ctx locks =
     (let k = lock_key nodeId stackName
      in case map_of locks k of
           Some existing \<Rightarrow> (Conflict existing, locks)
         | None \<Rightarrow>
             (if action \<noteq> Op_data_restore \<and> fenced stackName
              then (Conflict \<lparr>slk_action = Op_data_restore, slk_startedAt = now, slk_user = ''system:data-restore'',
                      slk_context = Some \<lparr>slc_opId = None, slc_kind = Some ''data_restore''\<rparr>\<rparr>, locks)
              else (Acquired, (k, \<lparr>slk_action = action, slk_startedAt = now, slk_user = user,
                                   slk_context = ctx\<rparr>) # locks)))"

definition release :: "int \<Rightarrow> string \<Rightarrow> lock_table \<Rightarrow> lock_table" where
  "release nodeId stackName locks = filter (\<lambda>(k, _). k \<noteq> lock_key nodeId stackName) locks"

definition getLock :: "int \<Rightarrow> string \<Rightarrow> lock_table \<Rightarrow> stack_op_lock option" where
  "getLock nodeId stackName locks = map_of locks (lock_key nodeId stackName)"

record deletion_intent =
  din_status :: string
  din_node_id :: int
  din_stack_name :: string

definition tryAcquireDeletionContinuation ::
    "(string \<Rightarrow> bool) \<Rightarrow> (string \<Rightarrow> deletion_intent option) \<Rightarrow> int \<Rightarrow> string \<Rightarrow> int \<Rightarrow> string \<Rightarrow> lock_table
      \<Rightarrow> acquire_result \<times> lock_table" where
  "tryAcquireDeletionContinuation fenced intents now intentId nodeId stackName locks =
     (if (case intents intentId of
            None \<Rightarrow> False
          | Some intent \<Rightarrow> din_status intent = ''prepared'' \<and> din_node_id intent = nodeId
              \<and> din_stack_name intent = stackName)
      then tryAcquire fenced now nodeId stackName Op_delete ''system:deletion-continuation'' None locks
      else (Conflict (nullish (map_of locks (lock_key nodeId stackName))
              \<lparr>slk_action = Op_delete, slk_startedAt = now, slk_user = ''system'', slk_context = None\<rparr>), locks))"

section \<open>Interleaved operations\<close>

text \<open>\<^verbatim>\<open>runExclusive\<close> is two atomic parts around an awaited body: it acquires and the body runs, or it is turned away;
  when the body ends, in a value or an error, the lock is released. Any other operation may start or end in between.
  \<open>ls_running\<close> are the bodies under way, each under its own identity.\<close>

record lock_state =
  ls_locks :: lock_table
  ls_running :: "(nat \<times> int \<times> string) list"

inductive lock_step :: "lock_state \<Rightarrow> lock_state \<Rightarrow> bool" where
  begins: "tryAcquire fenced now n s action user ctx (ls_locks st) = (Acquired, locks) \<Longrightarrow>
     job \<notin> fst ` set (ls_running st) \<Longrightarrow>
     lock_step st \<lparr>ls_locks = locks, ls_running = (job, n, s) # ls_running st\<rparr>"
| turned_away: "tryAcquire fenced now n s action user ctx (ls_locks st) = (Conflict existing, locks) \<Longrightarrow>
     lock_step st (st\<lparr>ls_locks := locks\<rparr>)"
| ends: "(job, n, s) \<in> set (ls_running st) \<Longrightarrow>
     lock_step st \<lparr>ls_locks = release n s (ls_locks st),
                   ls_running = filter (\<lambda>r. fst r \<noteq> job) (ls_running st)\<rparr>"

definition no_locks :: lock_state where
  "no_locks = \<lparr>ls_locks = [], ls_running = []\<rparr>"

definition lock_reachable :: "lock_state \<Rightarrow> bool" where
  "lock_reachable st = lock_step\<^sup>*\<^sup>* no_locks st"

section \<open>Keys\<close>

lemma show_nat_digits: "c \<in> set (show_nat n) \<Longrightarrow> 48 \<le> (of_char c :: nat) \<and> (of_char c :: nat) < 58"
proof (induction n rule: show_nat.induct)
  case (1 n)
  have digit: "of_char (char_of (48 + d) :: char) = 48 + d" if "d < 10" for d :: nat
    using that by (simp add: of_char_of)
  show ?case
  proof (cases "n < 10")
    case True
    then show ?thesis using "1.prems" digit [of n] by (simp add: show_nat_small)
  next
    case False
    then show ?thesis using 1 digit [of "n mod 10"] by (auto simp: show_nat_big)
  qed
qed

lemma show_int_inj: "show_int i = show_int j \<Longrightarrow> i = j"
proof -
  assume eq: "show_int i = show_int j"
  have minus: "CHR ''-'' # xs \<noteq> show_nat n" for xs n
  proof
    assume "CHR ''-'' # xs = show_nat n"
    then have "CHR ''-'' \<in> set (show_nat n)" by (metis list.set_intros(1))
    from show_nat_digits [OF this] show False by simp
  qed
  have "(i < 0) = (j < 0)" using eq minus minus [symmetric] by (auto simp: show_int_def split: if_splits)
  then show "i = j" using eq by (auto simp: show_int_def dest!: show_nat_inj split: if_splits)
qed

lemma lock_key_inj: "lock_key n s = lock_key m t \<longleftrightarrow> n = m \<and> s = t"
proof
  assume eq: "lock_key n s = lock_key m t"
  have free: "CHR '':'' \<notin> set (show_int i)" for i
    using show_nat_digits [of "CHR '':''"] by (auto simp: show_int_def)
  have "takeWhile (\<lambda>c. c \<noteq> CHR '':'') (lock_key i u) = show_int i" for i u
    using free [of i] by (simp add: lock_key_def takeWhile_append2 takeWhile_tail)
      (metis (mono_tags, lifting) takeWhile_eq_all_conv)
  then have "show_int n = show_int m" using eq by metis
  then show "n = m \<and> s = t" using eq show_int_inj by (auto simp: lock_key_def)
qed simp

section \<open>Mutual exclusion\<close>

definition lock_ok :: "lock_state \<Rightarrow> bool" where
  "lock_ok st \<longleftrightarrow> distinct (map fst (ls_running st)) \<and> distinct (map snd (ls_running st))
     \<and> (\<forall>n s. map_of (ls_locks st) (lock_key n s) \<noteq> None \<longleftrightarrow> (n, s) \<in> snd ` set (ls_running st))"

lemma map_of_release:
  "map_of (release n s locks) (lock_key m t) = (if n = m \<and> s = t then None else map_of locks (lock_key m t))"
  unfolding release_def by (induction locks) (auto simp: lock_key_inj)

lemma tryAcquire_acquired:
  assumes "tryAcquire fenced now n s action user ctx locks = (Acquired, locks')"
  shows "map_of locks (lock_key n s) = None" and "\<exists>l. locks' = (lock_key n s, l) # locks"
  using assms by (auto simp: tryAcquire_def Let_def split: option.splits if_splits)

lemma tryAcquire_conflict:
  "tryAcquire fenced now n s action user ctx locks = (Conflict e, locks') \<Longrightarrow> locks' = locks"
  by (auto simp: tryAcquire_def Let_def split: option.splits if_splits)

lemma lock_step_ok:
  assumes "lock_step st st'" and "lock_ok st"
  shows "lock_ok st'"
  using assms
proof (induction rule: lock_step.induct)
  case (begins fenced now n s action user ctx st locks job)
  obtain l where locks: "locks = (lock_key n s, l) # ls_locks st"
    using tryAcquire_acquired(2) [OF begins.hyps(1)] by blast
  have held: "map_of (ls_locks st) (lock_key m t) \<noteq> None \<longleftrightarrow> (m, t) \<in> snd ` set (ls_running st)" for m t
    using begins.prems unfolding lock_ok_def by blast
  have idle: "(n, s) \<notin> snd ` set (ls_running st)"
    using held [of n s] tryAcquire_acquired(1) [OF begins.hyps(1)] by blast
  have "map_of locks (lock_key m t) \<noteq> None \<longleftrightarrow> (m, t) \<in> snd ` set ((job, n, s) # ls_running st)" for m t
    using held [of m t] by (cases "n = m \<and> s = t") (auto simp: locks lock_key_inj)
  then show ?case using begins.prems begins.hyps(2) idle unfolding lock_ok_def by simp
next
  case (turned_away fenced now n s action user ctx st existing locks)
  then show ?case using tryAcquire_conflict [OF turned_away.hyps] by (simp add: lock_ok_def)
next
  case (ends job n s st)
  have d: "distinct (map fst (ls_running st))" "distinct (map snd (ls_running st))"
    using ends.prems by (simp_all add: lock_ok_def)
  have other: "(m, t) \<in> snd ` set (filter (\<lambda>r. fst r \<noteq> job) (ls_running st))
      \<longleftrightarrow> (m, t) \<in> snd ` set (ls_running st) \<and> (m, t) \<noteq> (n, s)" for m t
  proof -
    have job: "r = (job, n, s)" if "r \<in> set (ls_running st)" "fst r = job" for r
      using inj_onD [of fst "set (ls_running st)" r "(job, n, s)"] d(1) that ends.hyps by (simp add: distinct_map)
    have place: "r = (job, n, s)" if "r \<in> set (ls_running st)" "snd r = (n, s)" for r
      using inj_onD [of snd "set (ls_running st)" r "(job, n, s)"] d(2) that ends.hyps by (simp add: distinct_map)
    show ?thesis
    proof
      assume "(m, t) \<in> snd ` set (filter (\<lambda>r. fst r \<noteq> job) (ls_running st))"
      then obtain r where r: "r \<in> set (ls_running st)" "fst r \<noteq> job" "snd r = (m, t)" by auto
      then have "(m, t) \<noteq> (n, s)" using place [OF r(1)] by auto
      then show "(m, t) \<in> snd ` set (ls_running st) \<and> (m, t) \<noteq> (n, s)" using r by (metis imageI)
    next
      assume "(m, t) \<in> snd ` set (ls_running st) \<and> (m, t) \<noteq> (n, s)"
      then obtain r where r: "r \<in> set (ls_running st)" "snd r = (m, t)" "(m, t) \<noteq> (n, s)" by auto
      then have "fst r \<noteq> job" using job [OF r(1)] by (metis snd_conv)
      then show "(m, t) \<in> snd ` set (filter (\<lambda>r. fst r \<noteq> job) (ls_running st))" using r by force
    qed
  qed
  show ?case
    unfolding lock_ok_def lock_state.simps
  proof (intro conjI allI)
    show "distinct (map fst (filter (\<lambda>r. fst r \<noteq> job) (ls_running st)))"
      "distinct (map snd (filter (\<lambda>r. fst r \<noteq> job) (ls_running st)))"
      using d by (simp_all add: distinct_map_filter)
    show "map_of (release n s (ls_locks st)) (lock_key m t) \<noteq> None
        \<longleftrightarrow> (m, t) \<in> snd ` set (filter (\<lambda>r. fst r \<noteq> job) (ls_running st))" for m t
      unfolding other map_of_release using ends.prems unfolding lock_ok_def by auto
  qed
qed

lemma lock_reachable_ok: "lock_reachable st \<Longrightarrow> lock_ok st"
  unfolding lock_reachable_def
  by (induction rule: rtranclp_induct) (simp add: no_locks_def lock_ok_def, rule lock_step_ok)

section \<open>Property\<close>

text \<open>C13. Operations on one stack of one node exclude each other, whatever their interleaving: in every reachable
  state the bodies under way are on pairwise different stacks, a stack is locked exactly while a body runs on it, so
  no lock is leaked by an operation that ended or was turned away, and an operation on a stack that is idle and not
  fenced is admitted.\<close>

theorem stack_operations_exclude_each_other:
  assumes "lock_reachable st"
  shows "distinct (map snd (ls_running st))
     \<and> (\<forall>n s. getLock n s (ls_locks st) \<noteq> None \<longleftrightarrow> (\<exists>job. (job, n, s) \<in> set (ls_running st)))
     \<and> (\<forall>n s fenced now action user ctx.
          fst (tryAcquire fenced now n s action user ctx (ls_locks st)) = Acquired
            \<longleftrightarrow> (\<forall>job. (job, n, s) \<notin> set (ls_running st)) \<and> (action = Op_data_restore \<or> \<not> fenced s))"
proof -
  have ok: "lock_ok st" by (rule lock_reachable_ok [OF assms])
  have held: "map_of (ls_locks st) (lock_key n s) \<noteq> None \<longleftrightarrow> (\<exists>job. (job, n, s) \<in> set (ls_running st))" for n s
    using ok unfolding lock_ok_def by (simp add: image_iff Bex_def split_paired_Ex)
  have free: "map_of (ls_locks st) (lock_key n s) = None \<longleftrightarrow> (\<forall>job. (job, n, s) \<notin> set (ls_running st))" for n s
    using held [of n s] by auto
  have admitted: "fst (tryAcquire fenced now n s action user ctx (ls_locks st)) = Acquired
      \<longleftrightarrow> map_of (ls_locks st) (lock_key n s) = None \<and> (action = Op_data_restore \<or> \<not> fenced s)"
    for n s fenced now action user ctx
    by (auto simp: tryAcquire_def Let_def split: option.splits)
  have "distinct (map snd (ls_running st))" using ok by (simp add: lock_ok_def)
  then show ?thesis using held admitted free unfolding getLock_def by simp
qed

theorem stack_operations_exclude_each_other_witness:
  "lock_step no_locks \<lparr>ls_locks = [(lock_key 1 ''web'', \<lparr>slk_action = Op_deploy, slk_startedAt = 5, slk_user = ''ann'',
       slk_context = None\<rparr>)], ls_running = [(0, 1, ''web'')]\<rparr>
   \<and> fst (tryAcquire (\<lambda>_. False) 6 1 ''web'' Op_rollback ''bob'' None [(lock_key 1 ''web'', \<lparr>slk_action = Op_deploy,
        slk_startedAt = 5, slk_user = ''ann'', slk_context = None\<rparr>)]) \<noteq> Acquired
   \<and> fst (tryAcquire (\<lambda>_. False) 6 2 ''web'' Op_rollback ''bob'' None [(lock_key 1 ''web'', \<lparr>slk_action = Op_deploy,
        slk_startedAt = 5, slk_user = ''ann'', slk_context = None\<rparr>)]) = Acquired"
proof -
  let ?l = "[(lock_key 1 ''web'', \<lparr>slk_action = Op_deploy, slk_startedAt = 5, slk_user = ''ann'', slk_context = None\<rparr>)]"
  let ?st = "\<lparr>ls_locks = ?l, ls_running = [(0, 1, ''web'')]\<rparr>"
  have "tryAcquire (\<lambda>_. False) 5 1 ''web'' Op_deploy ''ann'' None (ls_locks no_locks) = (Acquired, ?l)"
    by (simp add: tryAcquire_def no_locks_def)
  from lock_step.begins [OF this, of 0] have step: "lock_step no_locks ?st" by (simp add: no_locks_def)
  then have "lock_reachable ?st" by (simp add: lock_reachable_def r_into_rtranclp)
  from stack_operations_exclude_each_other [OF this] show ?thesis using step by simp
qed

end
