(* ===== verification/Spec2Isabelle.thy ===== *)
theory Spec2Isabelle
  imports Lifecycle_Properties Evidence_Properties Rollout_Properties Workload_Properties
    Controller_Properties Source_Refinement Delivery_Properties Policy_Properties
    Projection_Actions Projection_Properties Invocation_Properties
    Webhook_Properties Publication_Properties Repair_Properties Stack_Lock
begin

text \<open>
  Sencho, the GitOps revision model: a verification library for \<^verbatim>\<open>backend/src/services/gitops\<close>.

  \<^bold>\<open>The program.\<close> Sencho is a control plane for Docker Compose stacks. Its GitOps half keeps, per
  application, what commit was fetched, which generation of the stack was staged, accepted, applied and
  deployed, who approved what, and what each node was last seen running. The state is a set of SQLite
  tables (\<^verbatim>\<open>types.ts\<close>, \<^verbatim>\<open>store.ts\<close>); it changes only through the transitions of \<^verbatim>\<open>transitions.ts\<close>, each
  of which is one database transaction that loads a row, checks its guards, mutates it, writes it back and
  appends an audit row (\<^verbatim>\<open>history.ts\<close>). JSON columns are written and read through the strict codecs of
  \<^verbatim>\<open>json.ts\<close>.

  \<^bold>\<open>The model.\<close> A table is a list of records, a row record has the columns of the row type, an enumeration
  is a datatype. A throw is a value of \<open>js_error\<close> on the left of a sum, so every guard and early return is a
  branch. A transition is a function from the database to an error or a new database: an error leaves no
  database, as a throw inside a transaction rolls back. Identifiers and times are arguments, as the
  envelope carries them. Stored text is \<open>raw_json\<close>: text that parses is the value it parses to, any other
  text is kept as such. \<^verbatim>\<open>localeCompare\<close> and the SHA-256 digest are parameters; a property that depends on
  them says so and has a witness with a concrete function.

  \<^item> \<open>Prelude\<close>: JSON values, results, truthiness and nullish operators of JavaScript, the stable sort with
    its contract as the locale \<open>js_comparator\<close>.
  \<^item> \<open>Rows\<close> (\<^verbatim>\<open>types.ts\<close>): the rows and stored enumerations.
  \<^item> \<open>Platform_Names\<close> (\<^verbatim>\<open>platformNames.ts\<close>), \<open>Json_Codec\<close> and \<open>Artifact_Evidence\<close> (\<^verbatim>\<open>json.ts\<close>),
    \<open>Artifact_Identity\<close> (\<^verbatim>\<open>artifactIdentity.ts\<close>), \<open>Health_Policy\<close> (\<^verbatim>\<open>healthPolicy.ts\<close>),
    \<open>Policy_Composition\<close> (\<^verbatim>\<open>policyComposition.ts\<close>), \<open>Preflight\<close> (\<^verbatim>\<open>preflight.ts\<close>),
    \<open>Source_Confirmation\<close> (\<^verbatim>\<open>sourceConfirmation.ts\<close>), \<open>Recovery_Claim\<close> (\<^verbatim>\<open>recoveryClaim.ts\<close>,
    \<^verbatim>\<open>recoveryCapture.ts\<close>): the evidence components. A stored column is an interpretation of the locale
    \<open>column_codec\<close>.
  \<^item> \<open>Store\<close> (\<^verbatim>\<open>store.ts\<close>): lookups, scans, guarded inserts, the target upsert, the resolver of approval
    references. \<open>Store_Laws\<close>: its laws; the target table is an interpretation of the locale \<open>keyed_rows\<close>.
  \<^item> \<open>Transition_Engine\<close>, \<open>Transitions\<close>, \<open>Deploy_Transitions\<close>, \<open>Binding_Transitions\<close>,
    \<open>Rollout_Transitions\<close>, \<open>Rollout_Authority\<close>, \<open>Blueprint_Transitions\<close>, \<open>Health_Transitions\<close>,
    \<open>Recovery_Transitions\<close> (\<^verbatim>\<open>transitions.ts\<close>): the two transactions \<open>mutateApp\<close> and \<open>mutateTarget\<close>, the
    private helpers, and one definition per transition: the source lifecycle, deploys and evidence, what an
    application is bound to, attempts and policies, placement and rollout authority, Blueprint deployments,
    health verdicts, rollback and recovery.
  \<^item> \<open>Notifications\<close>, \<open>Outbox\<close> (\<^verbatim>\<open>notifications.ts\<close>, \<^verbatim>\<open>attemptPayload.ts\<close>, \<^verbatim>\<open>outbox.ts\<close>): which audit rows are
    announced, their payloads, and the drain into the notification feed. \<open>Audit_Laws\<close>, \<open>Outbox_Laws\<close>: their
    laws.
  \<^item> \<open>Repo_Identity\<close> (\<^verbatim>\<open>repoIdentity.ts\<close>, the SSH parsers of \<^verbatim>\<open>git/sshTrust.ts\<close>), \<open>Placement_Policy\<close>
    (\<^verbatim>\<open>placementPolicy.ts\<close>), \<open>Backoff\<close> (\<^verbatim>\<open>backoff.ts\<close>, \<^verbatim>\<open>triggers.ts\<close>), \<open>Outcomes\<close> (\<^verbatim>\<open>outcomes.ts\<close>), \<open>Read_Auth\<close>
    (\<^verbatim>\<open>readAuth.ts\<close>): decisions over plain values. The platform's URL parser is a parameter.
  \<^item> \<open>Source_Controller\<close> (\<^verbatim>\<open>SourceController.ts\<close>): the polling driver: its timer, evaluation slots, parked wakes,
    operator pulls, and what a finished fetch does to the retry and poll cursors.
  \<^item> \<open>Projection_Facets\<close> (the read types of \<^verbatim>\<open>types.ts\<close>), \<open>Projection_Evidence\<close>, \<open>Projection_Targets\<close>, \<open>Projection\<close>,
    \<open>Projection_Drift\<close>, \<open>Revision\<close> (\<^verbatim>\<open>derive.ts\<close>, \<^verbatim>\<open>authorityPolicyProjection.ts\<close>, \<^verbatim>\<open>attention.ts\<close>): what a client is
    shown of the rows: source, artifact, placement and rollout facets, each target's runtime, health and last
    known good, the drift items, the limitations, the actions on offer and the attention reasons. What the
    projection reads from other services (node registry, compose directories, Blueprint settings) is the record
    \<open>projection_env\<close>. \<open>Invocation_Identity\<close> (\<^verbatim>\<open>invocationIdentity.ts\<close>, \<^verbatim>\<open>utils/gitComposeFiles.ts\<close>): the two
    compose invocations an invocation drift compares.
  \<^item> \<open>Provider_Webhooks\<close> (\<^verbatim>\<open>providerWebhooks/\<close>, the endpoint and delivery tables of \<^verbatim>\<open>DatabaseService.ts\<close>): signature
    checks, payload normalisation, matching against the configured repository, the delivery table and ingest. HMAC,
    decryption, the URL parser and the pull a delivery asks for are arguments.
  \<^item> \<open>Publication\<close> (\<^verbatim>\<open>publish.ts\<close>, \<^verbatim>\<open>GitOpsMetricsService.ts\<close>): the buffer of inserted audit rows, its drain after the
    transaction, the counters. \<open>Runtime_Repair\<close> (\<^verbatim>\<open>runtimeRepairBinding.ts\<close>): the identity a repair restores.
  \<^item> \<open>Stack_Lock\<close> (\<^verbatim>\<open>StackOpLockService.ts\<close>): the per-stack lock, and exclusive operations as interleaved steps.
  \<^item> \<open>Lifecycle\<close>: the transitions as one event type with the step relation \<open>gitops_step\<close> and the reachable
    databases. \<open>Transition_Invariants\<close>, \<open>Acceptance_Invariants\<close>, \<open>Rollout_Invariants\<close>, \<open>Recovery_Invariants\<close> and
    \<open>Binding_Invariants\<close> show that every transition keeps the well-formedness \<open>db_ok\<close> and the exclusive
    bindings \<open>exclusive\<close>, and only appends provenance.
  \<^item> \<open>Lifecycle_Lemmas\<close>, \<open>Transition_Effects\<close>: what single transitions leave behind. \<open>Example_Trace\<close>,
    \<open>Rollout_Trace\<close>: concrete runs; \<open>Trace_Evaluation\<close>: their evaluation.
  \<^item> \<open>Source_Refinement\<close>: an abstract machine for one source, and that the transitions implement it.
  \<^item> \<open>Lifecycle_Properties\<close>, \<open>Evidence_Properties\<close>, \<open>Policy_Properties\<close>, \<open>Rollout_Properties\<close>,
    \<open>Workload_Properties\<close>, \<open>Controller_Properties\<close>, \<open>Delivery_Properties\<close>, \<open>Projection_Actions\<close>,
    \<open>Projection_Properties\<close>, \<open>Invocation_Properties\<close>, \<open>Webhook_Properties\<close>, \<open>Publication_Properties\<close>,
    \<open>Repair_Properties\<close>: the other properties.

  \<^bold>\<open>What is shown.\<close> In every reachable database an accepted generation is authorized by an approval the
  resolver accepts, an apply in flight is bound to a validated unblocked candidate, a rollout authorization is
  the current one, target rows satisfy the store's own checks, live bindings and repository claims are
  exclusive, and provenance is never rewritten. The source transitions refine a machine of five columns.
  Single transitions change what they are meant to and nothing else; start transitions replay; a suspended
  source refuses work; a health verdict moves only health. An authorization resolves only under its exact
  binding; an observation matches exactly when the approved artifact runs; the health decision acts only on
  failures; codecs round-trip; announcements reach the feed. The controller evaluates an application once at
  a time, honours parked wakes, and its retries end. The projection offers an action only when the transition
  accepts it, calls a target synced, a rollout converged or a placement settled only on the evidence those words
  promise, and lists every artifact drift it reports; an invocation reads back as itself on every node. A
  webhook asks for a pull only when its signature and its repository check out, and not again once settled.
  Committed audit rows are announced once and in order; a repair restores only the pair its target acknowledged;
  operations on one stack exclude each other. Six properties record behaviour that disagrees with the intent or the comments of the code: a deploy failure
  settles another operation's deploy, a suspension restores a stale recovery phase, a late fetch settlement
  drops a running apply, a source suspended during a fetch is still offered one, a stored capability
  without recipients breaks the projection, and a webhook delivery whose pull was skipped cannot be redelivered.

  \<^bold>\<open>Termination and bounds.\<close> Every definition is total by structural recursion over the rows or values it
  scans; there is no fuel. The retry loop of the controller is shown to end at its ceiling.

  \<^bold>\<open>Not modelled.\<close> The fleet portfolio built on the projection, the reconcile submission and
  automatic acceptance between a claimed slot and its release, the executors that drive rollouts over the
  network, the pull behind a webhook and the forwarding of a delivery to a remote node, SOPS beyond identities
  and stored capabilities, SQL schema and migration, HTTP routes and the web interface.
\<close>

end
